(* ===== verification/Prelude.thy ===== *)
theory Prelude
  imports Main "HOL-Library.Product_Lexorder" "HOL-Library.Char_ord"
begin

text \<open>
  Shared vocabulary of the development: the names of the model's base types, Go errors as
  values, the small part of SQL the stores use (as list operations), Go's early-returning
  range loop, and the generic lemmas the components share. Every component theory imports
  this one.

  Strings and byte slices of Go are both \<^typ>\<open>string\<close>: a HOL character is exactly one byte.
  A \<^verbatim>\<open>uuid.UUID\<close> is the 128-bit number its sixteen bytes spell (PostgreSQL orders the type
  the same way), and an instant or a \<^verbatim>\<open>time.Duration\<close> is an integer number of nanoseconds.
\<close>

section \<open>Base types\<close>

type_synonym bytes = string
type_synonym uuid = nat
type_synonym time = int

definition second :: time where
  "second = 1000000000"

named_theorems store_defs \<open>defining equations of the store operations\<close>
named_theorems row_simps \<open>what each UPDATE clause does to the columns of a row\<close>
named_theorems frame_simps \<open>tables an operation leaves alone\<close>

section \<open>Go errors\<close>

text \<open>
  The sentinel errors the packages export, an anonymous error with its message, and
  \<^verbatim>\<open>fmt.Errorf("...: %w", err)\<close>. \<open>errors_Is\<close> is \<^verbatim>\<open>errors.Is\<close>: it follows the chain of wraps.
\<close>

datatype go_error =
    ErrInvalidAction
  | ErrInvalidIdempotencyKey
  | ErrInvalidUUID
  | ErrInvalidStateTransition
  | ErrInvalidFailureCode
  | ErrJobNotFound
  | ErrJobConflict
  | ErrJobIdempotencyConflict
  | ErrQueueFull
  | ErrJobAgentNotFound
  | ErrOperatorAuthRequired
  | ErrPermissionDenied
  | ErrUsernameConflict
  | ErrOperatorNotFound
  | ErrAuthenticationFailed
  | ErrSessionNotFound
  | ErrEnrollmentRejected
  | ErrIdentityConflict
  | ErrEnrollmentInternal
  | ErrAgentNotFound
  | ErrAuthRejected
  | ErrProtocolMismatch
  | ErrPermanentFailure
  | ErrUnknownAction
  | ErrNotExist
  | ErrClosed
  | ErrAlreadyEnrolled
  | ErrInvalidPrivateKey
  | ErrInsecurePermissions
  | ErrOther string
  | ErrWrap string go_error

fun errors_Is :: "go_error \<Rightarrow> go_error \<Rightarrow> bool" where
  "errors_Is (ErrWrap m e) target = (ErrWrap m e = target \<or> errors_Is e target)"
| "errors_Is e target = (e = target)"

type_synonym 'a result = "go_error + 'a"

section \<open>Range loops that may return early\<close>

fun for_each :: "('a \<Rightarrow> 's \<Rightarrow> 'e + 's) \<Rightarrow> 'a list \<Rightarrow> 's \<Rightarrow> 'e + 's" where
  "for_each body [] s = Inr s"
| "for_each body (x # xs) s =
     (case body x s of Inl e \<Rightarrow> Inl e | Inr s' \<Rightarrow> for_each body xs s')"

lemma for_each_invariant:
  assumes "for_each body xs s = Inr s'"
    and "\<And>x s t. x \<in> set xs \<Longrightarrow> I s \<Longrightarrow> body x s = Inr t \<Longrightarrow> I t"
    and "I s"
  shows "I s'"
  using assms
proof (induction xs arbitrary: s)
  case (Cons x xs)
  from Cons.prems(1) obtain t where t: "body x s = Inr t" "for_each body xs t = Inr s'"
    by (auto split: sum.splits)
  from Cons.prems(2) [OF _ Cons.prems(3) t(1)] have "I t" by simp
  with Cons.IH [OF t(2)] Cons.prems(2) show ?case by (meson list.set_intros(2))
qed simp

section \<open>Tables as lists of rows\<close>

definition update_where :: "('a \<Rightarrow> bool) \<Rightarrow> ('a \<Rightarrow> 'a) \<Rightarrow> 'a list \<Rightarrow> 'a list" where
  "update_where P f xs = map (\<lambda>x. if P x then f x else x) xs"

definition delete_where :: "('a \<Rightarrow> bool) \<Rightarrow> 'a list \<Rightarrow> 'a list" where
  "delete_where P xs = filter (\<lambda>x. \<not> P x) xs"

definition count_where :: "('a \<Rightarrow> bool) \<Rightarrow> 'a list \<Rightarrow> nat" where
  "count_where P xs = length (filter P xs)"

definition order_by_desc :: "('a \<Rightarrow> 'k::linorder) \<Rightarrow> 'a list \<Rightarrow> 'a list" where
  "order_by_desc k xs = rev (sort_key k xs)"

lemma update_where_Nil [simp]: "update_where P f [] = []"
  by (simp add: update_where_def)

lemma update_where_append [simp]:
  "update_where P f (xs @ ys) = update_where P f xs @ update_where P f ys"
  by (simp add: update_where_def)

lemma update_where_Cons [simp]:
  "update_where P f (x # xs) = (if P x then f x else x) # update_where P f xs"
  by (simp add: update_where_def)

lemma length_update_where [simp]: "length (update_where P f xs) = length xs"
  by (simp add: update_where_def)

lemma update_where_none: "(\<And>x. x \<in> set xs \<Longrightarrow> \<not> P x) \<Longrightarrow> update_where P f xs = xs"
  by (induction xs) auto

lemma map_update_where:
  "(\<And>x. x \<in> set xs \<Longrightarrow> P x \<Longrightarrow> k (f x) = k x) \<Longrightarrow> map k (update_where P f xs) = map k xs"
  by (induction xs) auto

lemma in_set_update_where:
  "y \<in> set (update_where P f xs) \<longleftrightarrow> (\<exists>x\<in>set xs. y = (if P x then f x else x))"
  by (auto simp: update_where_def)

lemma count_where_simps [simp]:
  "count_where P [] = 0"
  "count_where P (x # xs) = (if P x then 1 else 0) + count_where P xs"
  "count_where P (xs @ ys) = count_where P xs + count_where P ys"
  by (simp_all add: count_where_def)

lemma count_where_pos: "0 < count_where P xs \<longleftrightarrow> (\<exists>x\<in>set xs. P x)"
  by (induction xs) auto

lemma count_where_zero: "count_where P xs = 0 \<longleftrightarrow> (\<forall>x\<in>set xs. \<not> P x)"
  by (induction xs) auto

lemma count_where_mono:
  "(\<And>x. x \<in> set xs \<Longrightarrow> P x \<Longrightarrow> Q x) \<Longrightarrow> count_where P xs \<le> count_where Q xs"
  by (induction xs) (auto intro: le_SucI)

text \<open>
  A row named by its key: the table splits around it, and an UPDATE of that key rewrites
  just the one row.
\<close>

lemma distinct_key_split:
  assumes "distinct (map k xs)" and "x \<in> set xs"
  obtains as bs where "xs = as @ x # bs"
    and "\<And>f. update_where (\<lambda>y. k y = k x) f xs = as @ f x # bs"
    and "\<And>y. y \<in> set as \<union> set bs \<Longrightarrow> k y \<noteq> k x"
proof -
  obtain as bs where xs: "xs = as @ x # bs"
    using assms(2) by (meson split_list)
  have other: "k y \<noteq> k x" if "y \<in> set as \<union> set bs" for y
    using assms(1) that by (auto simp: xs rev_image_eqI)
  have upd: "update_where (\<lambda>y. k y = k x) f xs = as @ f x # bs" for f
    using other by (simp add: xs update_where_none)
  show thesis by (rule that [OF xs upd other])
qed

lemma distinct_key_eq:
  "distinct (map k xs) \<Longrightarrow> x \<in> set xs \<Longrightarrow> y \<in> set xs \<Longrightarrow> k x = k y \<Longrightarrow> x = y"
  by (auto simp: distinct_map dest: inj_onD)

lemma find_Some_D: "List.find P xs = Some x \<Longrightarrow> x \<in> set xs \<and> P x"
  by (auto simp: find_Some_iff)

lemma find_None_D: "List.find P xs = None \<Longrightarrow> x \<in> set xs \<Longrightarrow> \<not> P x"
  by (auto simp: find_None_iff)

lemma find_unique_key:
  assumes "distinct (map k xs)" and "x \<in> set xs"
  shows "List.find (\<lambda>y. k y = k x) xs = Some x"
proof (cases "List.find (\<lambda>y. k y = k x) xs")
  case None
  with assms(2) show ?thesis by (auto simp: find_None_iff)
next
  case (Some y)
  then have "y \<in> set xs" "k y = k x" by (auto dest: find_Some_D)
  with assms Some show ?thesis by (auto dest: distinct_key_eq)
qed

lemma set_order_by_desc [simp]: "set (order_by_desc k xs) = set xs"
  by (simp add: order_by_desc_def)

lemma sorted_order_by_desc: "sorted (rev (map k (order_by_desc k xs)))"
  by (simp add: order_by_desc_def rev_map)

lemma distinct_order_by_desc [simp]: "distinct (order_by_desc k xs) = distinct xs"
  by (simp add: order_by_desc_def)

lemma length_order_by_desc [simp]: "length (order_by_desc k xs) = length xs"
  by (simp add: order_by_desc_def)

section \<open>Transitions that accumulate\<close>

lemma rtranclp_invariant:
  assumes "r\<^sup>*\<^sup>* s t" and "I s" and "\<And>s t. I s \<Longrightarrow> r s t \<Longrightarrow> I t"
  shows "I t"
  using assms by (induction rule: rtranclp_induct) auto

lemma rtranclp_two: "r s t \<Longrightarrow> r t u \<Longrightarrow> r\<^sup>*\<^sup>* s u"
  by (meson converse_rtranclp_into_rtranclp r_into_rtranclp)

end
