(* ===== verification/Go_Strings.thy ===== *)
theory Go_Strings
  imports Prelude
begin

text \<open>
  The part of Go's \<^verbatim>\<open>unicode/utf8\<close>, \<^verbatim>\<open>unicode\<close> and \<^verbatim>\<open>strings\<close> packages the program uses on
  text: decoding of runes (an ill-formed byte is the replacement rune of width one), validity
  and length in runes, white space and control characters, and \<^verbatim>\<open>strings.TrimSpace\<close>.
\<close>

section \<open>Decoding\<close>

definition RuneError :: nat where "RuneError = 0xFFFD"

definition byte_in :: "char \<Rightarrow> nat \<Rightarrow> nat \<Rightarrow> bool" where
  "byte_in c lo hi \<longleftrightarrow> lo \<le> of_char c \<and> of_char c \<le> hi"

text \<open>
  The second byte of a sequence has a range that depends on the first: no overlong forms, no
  surrogates, nothing above U+10FFFF.
\<close>

definition second_range :: "nat \<Rightarrow> nat \<times> nat" where
  "second_range b = (if b = 0xE0 then (0xA0, 0xBF) else if b = 0xED then (0x80, 0x9F)
     else if b = 0xF0 then (0x90, 0xBF) else if b = 0xF4 then (0x80, 0x8F) else (0x80, 0xBF))"

definition tail_bits :: "char \<Rightarrow> nat" where
  "tail_bits c = of_char c - 0x80"

definition DecodeRuneInString :: "string \<Rightarrow> nat \<times> nat" where
  "DecodeRuneInString s =
     (case s of
        [] \<Rightarrow> (RuneError, 0)
      | c0 # r0 \<Rightarrow>
        (let b0 = of_char c0; (lo, hi) = second_range b0 in
         if b0 < 0x80 then (b0, 1)
         else if b0 < 0xC2 \<or> b0 > 0xF4 then (RuneError, 1)
         else case r0 of
           [] \<Rightarrow> (RuneError, 1)
         | c1 # r1 \<Rightarrow>
           (if \<not> byte_in c1 lo hi then (RuneError, 1)
            else if b0 < 0xE0 then ((b0 - 0xC0) * 64 + tail_bits c1, 2)
            else case r1 of
              [] \<Rightarrow> (RuneError, 1)
            | c2 # r2 \<Rightarrow>
              (if \<not> byte_in c2 0x80 0xBF then (RuneError, 1)
               else if b0 < 0xF0 then
                 ((b0 - 0xE0) * 4096 + tail_bits c1 * 64 + tail_bits c2, 3)
               else case r2 of
                 [] \<Rightarrow> (RuneError, 1)
               | c3 # _ \<Rightarrow>
                 (if \<not> byte_in c3 0x80 0xBF then (RuneError, 1)
                  else ((b0 - 0xF0) * 262144 + tail_bits c1 * 4096 + tail_bits c2 * 64
                        + tail_bits c3, 4))))))"

text \<open>A range loop over a string visits these runes; each is kept with the bytes it covers.\<close>

function rune_segments :: "string \<Rightarrow> (nat \<times> string) list" where
  "rune_segments [] = []"
| "rune_segments (c # cs) =
     (let (r, w) = DecodeRuneInString (c # cs)
      in (r, c # take (w - 1) cs) # rune_segments (drop (w - 1) cs))"
  by pat_completeness auto
termination
  by (relation "measure length") auto

definition runes :: "string \<Rightarrow> nat list" where
  "runes s = map fst (rune_segments s)"

definition ValidString :: "string \<Rightarrow> bool" where
  "ValidString s = list_all (\<lambda>(r, b). \<not> (r = RuneError \<and> length b = 1)) (rune_segments s)"

definition RuneCountInString :: "string \<Rightarrow> nat" where
  "RuneCountInString s = length (rune_segments s)"

lemma rune_segments_concat: "concat (map snd (rune_segments s)) = s"
  by (induction s rule: rune_segments.induct) (auto simp: Let_def split: prod.splits)

lemma rune_segments_nonempty: "(r, b) \<in> set (rune_segments s) \<Longrightarrow> b \<noteq> []"
  by (induction s rule: rune_segments.induct) (auto simp: Let_def split: prod.splits)

lemma RuneCount_le: "RuneCountInString s \<le> length s"
proof -
  have "length xs \<le> length (concat (map snd xs))" if "\<And>r b. (r, b) \<in> set xs \<Longrightarrow> b \<noteq> []"
    for xs :: "(nat \<times> string) list"
    using that
  proof (induction xs)
    case (Cons x xs)
    obtain r b where x: "x = (r, b)" by (cases x)
    have "b \<noteq> []" using Cons.prems [of r b] by (simp add: x)
    moreover have "length xs \<le> length (concat (map snd xs))"
      by (rule Cons.IH) (use Cons.prems in \<open>metis list.set_intros(2)\<close>)
    ultimately show ?case by (cases b) (auto simp: x)
  qed simp
  from this [of "rune_segments s"] show ?thesis
    by (simp add: rune_segments_nonempty rune_segments_concat RuneCountInString_def)
qed

text \<open>
  A zero byte is never part of a longer sequence, so it always shows up as a rune of its own.
\<close>

lemma multi_byte_tail:
  assumes "DecodeRuneInString (c # cs) = (r, w)" and "1 < w" and "d \<in> set (take (w - 1) cs)"
  shows "0x80 \<le> (of_char d :: nat)"
  using assms
  by (auto simp: DecodeRuneInString_def Let_def byte_in_def second_range_def
      split: if_splits list.splits)

lemma nul_is_a_rune: "CHR 0x00 \<in> set s \<Longrightarrow> 0 \<in> set (runes s)"
proof (induction s rule: rune_segments.induct)
  case (2 c cs)
  obtain r w where rw: "DecodeRuneInString (c # cs) = (r, w)" by fastforce
  have segs: "runes (c # cs) = r # runes (drop (w - 1) cs)"
    by (simp add: runes_def rw)
  consider "c = CHR 0x00" | "CHR 0x00 \<in> set (take (w - 1) cs)" | "CHR 0x00 \<in> set (drop (w - 1) cs)"
    using 2(2) by (metis append_take_drop_id set_ConsD Un_iff set_append)
  then show ?case
  proof cases
    case 1
    then have "r = 0" using rw by (simp add: DecodeRuneInString_def Let_def split: prod.splits)
    then show ?thesis by (simp add: segs)
  next
    case 2
    then have "1 < w" by (cases "w - 1") auto
    from multi_byte_tail [OF rw this 2] show ?thesis by simp
  next
    case 3
    then show ?thesis using "2.IH" [OF rw [symmetric] refl] by (simp add: segs)
  qed
qed simp

text \<open>On ASCII every byte is its own rune.\<close>

definition is_ascii :: "string \<Rightarrow> bool" where
  "is_ascii s \<longleftrightarrow> list_all (\<lambda>c. of_char c < (128 :: nat)) s"

lemma rune_segments_ascii: "is_ascii s \<Longrightarrow> rune_segments s = map (\<lambda>c. (of_char c, [c])) s"
  by (induction s) (auto simp: is_ascii_def DecodeRuneInString_def Let_def split: prod.splits)

lemma ascii_valid: "is_ascii s \<Longrightarrow> ValidString s"
  by (auto simp: ValidString_def rune_segments_ascii list_all_iff is_ascii_def RuneError_def)

lemma ascii_rune_count: "is_ascii s \<Longrightarrow> RuneCountInString s = length s"
  by (simp add: RuneCountInString_def rune_segments_ascii)

section \<open>Character classes and trimming\<close>

definition unicode_IsControl :: "nat \<Rightarrow> bool" where
  "unicode_IsControl r \<longleftrightarrow> r \<le> 0x1F \<or> (0x7F \<le> r \<and> r \<le> 0x9F)"

definition unicode_IsSpace :: "nat \<Rightarrow> bool" where
  "unicode_IsSpace r \<longleftrightarrow> (9 \<le> r \<and> r \<le> 13) \<or> r = 0x20 \<or> r = 0x85 \<or> r = 0xA0 \<or> r = 0x1680
     \<or> (0x2000 \<le> r \<and> r \<le> 0x200A) \<or> r = 0x2028 \<or> r = 0x2029 \<or> r = 0x202F \<or> r = 0x205F
     \<or> r = 0x3000"

definition strip_spaces :: "(nat \<times> string) list \<Rightarrow> (nat \<times> string) list" where
  "strip_spaces xs = dropWhile (\<lambda>(r, _). unicode_IsSpace r) xs"

definition TrimSpace :: "string \<Rightarrow> string" where
  "TrimSpace s =
     concat (map snd (rev (strip_spaces (rev (strip_spaces (rune_segments s))))))"

definition HasPrefix :: "string \<Rightarrow> string \<Rightarrow> bool" where
  "HasPrefix s p \<longleftrightarrow> take (length p) s = p"

lemma HasPrefix_append [simp]: "HasPrefix (p @ s) p"
  by (simp add: HasPrefix_def)

lemma HasPrefixE:
  assumes "HasPrefix s p" obtains t where "s = p @ t"
  using assms by (metis HasPrefix_def append_take_drop_id)

end
