(* ===== verification/Json.thy ===== *)
theory Json
  imports Go_Text
begin

text \<open>
  The part of Go's \<^verbatim>\<open>encoding/json\<close> the program uses: parsing one value off a byte stream,
  unmarshalling into a struct with \<^verbatim>\<open>DisallowUnknownFields\<close>, the end-of-stream check that follows,
  and marshalling of structs of strings, integers and pointers to structs.
  Nesting is bounded by the text, so the parser's fuel is the length of its input; the bodies the
  program decodes are at most 8192 bytes, below the decoder's nesting limit of 10000.
\<close>

section \<open>Lexical structure\<close>

datatype json =
    JNull
  | JBool bool
  | JNumber string
  | JString string
  | JArray "json list"
  | JObject "(string \<times> json) list"

definition json_space :: "char \<Rightarrow> bool" where
  "json_space c \<longleftrightarrow> c \<in> {CHR 0x20, CHR 0x09, CHR 0x0D, CHR 0x0A}"

definition skip_ws :: "string \<Rightarrow> string" where
  "skip_ws s = dropWhile json_space s"

definition expect :: "char \<Rightarrow> string \<Rightarrow> string option" where
  "expect c s = (case skip_ws s of [] \<Rightarrow> None | d # r \<Rightarrow> if d = c then Some r else None)"

definition is_digit :: "char \<Rightarrow> bool" where
  "is_digit c \<longleftrightarrow> digit_value c \<noteq> None"

definition number_char :: "char \<Rightarrow> bool" where
  "number_char c \<longleftrightarrow> is_digit c \<or> c \<in> {CHR ''-'', CHR ''+'', CHR ''.'', CHR ''e'', CHR ''E''}"

definition valid_exponent :: "string \<Rightarrow> bool" where
  "valid_exponent s \<longleftrightarrow> s = [] \<or> (hd s \<in> {CHR ''e'', CHR ''E''} \<and>
     (let d = (if tl s \<noteq> [] \<and> hd (tl s) \<in> {CHR ''+'', CHR ''-''} then tl (tl s) else tl s)
      in d \<noteq> [] \<and> list_all is_digit d))"

definition valid_fraction :: "string \<Rightarrow> bool" where
  "valid_fraction s \<longleftrightarrow>
     (if s \<noteq> [] \<and> hd s = CHR ''.'' then
        takeWhile is_digit (tl s) \<noteq> [] \<and> valid_exponent (dropWhile is_digit (tl s))
      else valid_exponent s)"

definition valid_number :: "string \<Rightarrow> bool" where
  "valid_number s \<longleftrightarrow>
     (let t = (if s \<noteq> [] \<and> hd s = CHR ''-'' then tl s else s); ds = takeWhile is_digit t
      in ds \<noteq> [] \<and> (hd ds = CHR ''0'' \<longrightarrow> tl ds = []) \<and> valid_fraction (dropWhile is_digit t))"

section \<open>String literals\<close>

definition hex_value :: "char \<Rightarrow> nat option" where
  "hex_value c = (let n = of_char c in
     if 48 \<le> n \<and> n \<le> 57 then Some (n - 48)
     else if 97 \<le> n \<and> n \<le> 102 then Some (n - 87)
     else if 65 \<le> n \<and> n \<le> 70 then Some (n - 55) else None)"

definition is_hex :: "char \<Rightarrow> bool" where
  "is_hex c \<longleftrightarrow> hex_value c \<noteq> None"

text \<open>The scanner finds the closing quote, checking escapes and control characters on the way.\<close>

definition simple_escapes :: "char list" where
  "simple_escapes = [CHR ''b'', CHR ''f'', CHR ''n'', CHR ''r'', CHR ''t'', CHR 0x5C, CHR ''/'', CHR 0x22]"

fun scan_string :: "string \<Rightarrow> (string \<times> string) option" where
  "scan_string [] = None"
| "scan_string (c # r) =
     (if c = CHR 0x22 then Some ([], r)
      else if c = CHR 0x5C then
        (case r of
           [] \<Rightarrow> None
         | e # r1 \<Rightarrow>
           (if e \<in> set simple_escapes then
              map_option (\<lambda>(raw, t). (c # e # raw, t)) (scan_string r1)
            else if e = CHR ''u'' then
              (case r1 of
                 h1 # h2 # h3 # h4 # r2 \<Rightarrow>
                   (if is_hex h1 \<and> is_hex h2 \<and> is_hex h3 \<and> is_hex h4 then
                      map_option (\<lambda>(raw, t). (c # e # h1 # h2 # h3 # h4 # raw, t)) (scan_string r2)
                    else None)
               | _ \<Rightarrow> None)
            else None))
      else if of_char c < (0x20 :: nat) then None
      else map_option (\<lambda>(raw, t). (c # raw, t)) (scan_string r))"

text \<open>\<^verbatim>\<open>utf8.AppendRune\<close>: surrogates and out-of-range values become the replacement character.\<close>

definition EncodeRune :: "nat \<Rightarrow> string" where
  "EncodeRune r =
     (let q = (if (0xD800 \<le> r \<and> r \<le> 0xDFFF) \<or> r > 0x10FFFF then RuneError else r) in
      if q < 0x80 then [char_of q]
      else if q < 0x800 then [char_of (0xC0 + q div 64), char_of (0x80 + q mod 64)]
      else if q < 0x10000 then
        [char_of (0xE0 + q div 4096), char_of (0x80 + q div 64 mod 64), char_of (0x80 + q mod 64)]
      else [char_of (0xF0 + q div 262144), char_of (0x80 + q div 4096 mod 64),
            char_of (0x80 + q div 64 mod 64), char_of (0x80 + q mod 64)])"

definition hex_digit :: "nat \<Rightarrow> nat" where
  "hex_digit r = (case hex_value (char_of r) of None \<Rightarrow> 0 | Some v \<Rightarrow> v)"

definition hex4 :: "nat \<Rightarrow> nat \<Rightarrow> nat \<Rightarrow> nat \<Rightarrow> nat" where
  "hex4 a b c d = ((hex_digit a * 16 + hex_digit b) * 16 + hex_digit c) * 16 + hex_digit d"

definition low_surrogate :: "nat \<Rightarrow> bool" where
  "low_surrogate u \<longleftrightarrow> 0xDC00 \<le> u \<and> u \<le> 0xDFFF"

definition high_surrogate :: "nat \<Rightarrow> bool" where
  "high_surrogate u \<longleftrightarrow> 0xD800 \<le> u \<and> u \<le> 0xDBFF"

text \<open>The low half of a surrogate pair, when one follows.\<close>

definition next_low :: "(nat \<times> string) list \<Rightarrow> (nat \<times> (nat \<times> string) list) option" where
  "next_low segs =
     (case segs of
        (bs, _) # (u, _) # (a, _) # (b, _) # (c, _) # (d, _) # rest \<Rightarrow>
          (if bs = 0x5C \<and> u = 0x75 \<and> low_surrogate (hex4 a b c d)
           then Some (hex4 a b c d, rest) else None)
      | _ \<Rightarrow> None)"

lemma next_low_shorter: "next_low segs = Some (v, rest) \<Longrightarrow> length rest < length segs"
  by (auto simp: next_low_def split: list.splits if_splits)

definition escape_byte :: "nat \<Rightarrow> char" where
  "escape_byte e = (if e = 0x62 then CHR 0x08 else if e = 0x66 then CHR 0x0C
     else if e = 0x6E then CHR 0x0A else if e = 0x72 then CHR 0x0D
     else if e = 0x74 then CHR 0x09 else char_of e)"

function unquote :: "(nat \<times> string) list \<Rightarrow> string" where
  "unquote [] = []"
| "unquote ((r, b) # rest) =
     (if r \<noteq> 0x5C then
        (if r = RuneError \<and> length b = 1 then EncodeRune RuneError else b) @ unquote rest
      else case rest of
        [] \<Rightarrow> []
      | (e, _) # rest1 \<Rightarrow>
        (if e \<noteq> 0x75 then escape_byte e # unquote rest1
         else case rest1 of
           (h1, _) # (h2, _) # (h3, _) # (h4, _) # rest2 \<Rightarrow>
             (let u = hex4 h1 h2 h3 h4 in
              if high_surrogate u then
                (case next_low rest2 of
                   Some (v, rest3) \<Rightarrow>
                     EncodeRune (0x10000 + (u - 0xD800) * 0x400 + (v - 0xDC00)) @ unquote rest3
                 | None \<Rightarrow> EncodeRune RuneError @ unquote rest2)
              else EncodeRune u @ unquote rest2)
         | _ \<Rightarrow> []))"
  by pat_completeness auto
termination
  by (relation "measure length") (auto dest: next_low_shorter)

definition parse_string :: "string \<Rightarrow> (string \<times> string) option" where
  "parse_string s = map_option (\<lambda>(raw, t). (unquote (rune_segments raw), t)) (scan_string s)"

section \<open>Values\<close>

primrec parse_elements ::
  "(string \<Rightarrow> (json \<times> string) option) \<Rightarrow> nat \<Rightarrow> string \<Rightarrow> (json list \<times> string) option" where
  "parse_elements pv 0 s = None"
| "parse_elements pv (Suc n) s =
     (case pv s of
        None \<Rightarrow> None
      | Some (v, t) \<Rightarrow>
        (case expect (CHR '']'') t of
           Some u \<Rightarrow> Some ([v], u)
         | None \<Rightarrow>
           (case expect (CHR '','') t of
              None \<Rightarrow> None
            | Some u \<Rightarrow> map_option (\<lambda>(vs, w). (v # vs, w)) (parse_elements pv n u))))"

primrec parse_members ::
  "(string \<Rightarrow> (json \<times> string) option) \<Rightarrow> nat \<Rightarrow> string
     \<Rightarrow> ((string \<times> json) list \<times> string) option" where
  "parse_members pv 0 s = None"
| "parse_members pv (Suc n) s =
     (case Option.bind (expect (CHR 0x22) s) parse_string of
        None \<Rightarrow> None
      | Some (k, t) \<Rightarrow>
        (case Option.bind (expect (CHR '':'') t) pv of
           None \<Rightarrow> None
         | Some (v, u) \<Rightarrow>
           (case expect (CHR ''}'') u of
              Some w \<Rightarrow> Some ([(k, v)], w)
            | None \<Rightarrow>
              (case expect (CHR '','') u of
                 None \<Rightarrow> None
               | Some w \<Rightarrow> map_option (\<lambda>(ms, x). ((k, v) # ms, x)) (parse_members pv n w)))))"

definition parse_scalar :: "string \<Rightarrow> (json \<times> string) option" where
  "parse_scalar s =
     (if HasPrefix s ''null'' then Some (JNull, drop 4 s)
      else if HasPrefix s ''true'' then Some (JBool True, drop 4 s)
      else if HasPrefix s ''false'' then Some (JBool False, drop 5 s)
      else let tok = takeWhile number_char s in
        if valid_number tok then Some (JNumber tok, dropWhile number_char s) else None)"

primrec parse_value :: "nat \<Rightarrow> string \<Rightarrow> (json \<times> string) option" where
  "parse_value 0 s = None"
| "parse_value (Suc n) s =
     (case skip_ws s of
        [] \<Rightarrow> None
      | c # r \<Rightarrow>
        (if c = CHR ''{'' then
           (case expect (CHR ''}'') r of
              Some t \<Rightarrow> Some (JObject [], t)
            | None \<Rightarrow> map_option (\<lambda>(ms, t). (JObject ms, t)) (parse_members (parse_value n) n r))
         else if c = CHR ''['' then
           (case expect (CHR '']'') r of
              Some t \<Rightarrow> Some (JArray [], t)
            | None \<Rightarrow> map_option (\<lambda>(vs, t). (JArray vs, t)) (parse_elements (parse_value n) n r))
         else if c = CHR 0x22 then map_option (\<lambda>(k, t). (JString k, t)) (parse_string r)
         else parse_scalar (c # r)))"

definition ParseJson :: "string \<Rightarrow> (json \<times> string) option" where
  "ParseJson s = parse_value (Suc (length s)) s"

section \<open>Unmarshalling into a struct\<close>

text \<open>
  A struct target is a list of fields, each a JSON name and what storing a value does: \<^const>\<open>None\<close> is a
  type error. A key is looked up exactly first and then by folded name; \<^verbatim>\<open>null\<close> leaves a scalar
  field as it is.
\<close>

type_synonym 'r field = "string \<times> (json \<Rightarrow> 'r \<Rightarrow> 'r option)"

definition fold_rune :: "nat \<Rightarrow> nat" where
  "fold_rune r = (if 0x61 \<le> r \<and> r \<le> 0x7A then r - 0x20 else if r = 0x17F then 0x53
     else if r = 0x212A then 0x4B else r)"

definition fold_name :: "string \<Rightarrow> nat list" where
  "fold_name s = map fold_rune (runes s)"

definition find_field :: "'r field list \<Rightarrow> string \<Rightarrow> (json \<Rightarrow> 'r \<Rightarrow> 'r option) option" where
  "find_field fs k =
     (case map_of fs k of
        Some put \<Rightarrow> Some put
      | None \<Rightarrow> map_option snd (List.find (\<lambda>(name, _). fold_name name = fold_name k) fs))"

fun set_fields :: "'r field list \<Rightarrow> (string \<times> json) list \<Rightarrow> 'r \<Rightarrow> 'r option" where
  "set_fields fs [] r = Some r"
| "set_fields fs ((k, v) # ms) r =
     (case find_field fs k of
        None \<Rightarrow> None
      | Some put \<Rightarrow> (case put v r of None \<Rightarrow> None | Some r' \<Rightarrow> set_fields fs ms r'))"

definition set_struct :: "'r field list \<Rightarrow> json \<Rightarrow> 'r \<Rightarrow> 'r option" where
  "set_struct fs v r =
     (case v of JNull \<Rightarrow> Some r | JObject ms \<Rightarrow> set_fields fs ms r | _ \<Rightarrow> None)"

definition set_string :: "(string \<Rightarrow> 'r \<Rightarrow> 'r) \<Rightarrow> json \<Rightarrow> 'r \<Rightarrow> 'r option" where
  "set_string upd v r =
     (case v of JNull \<Rightarrow> Some r | JString s \<Rightarrow> Some (upd s r) | _ \<Rightarrow> None)"

definition set_int :: "(int \<Rightarrow> 'r \<Rightarrow> 'r) \<Rightarrow> json \<Rightarrow> 'r \<Rightarrow> 'r option" where
  "set_int upd v r =
     (case v of JNull \<Rightarrow> Some r | JNumber t \<Rightarrow> map_option (\<lambda>i. upd i r) (ParseInt t) | _ \<Rightarrow> None)"

definition set_uint :: "(nat \<Rightarrow> 'r \<Rightarrow> 'r) \<Rightarrow> json \<Rightarrow> 'r \<Rightarrow> 'r option" where
  "set_uint upd v r =
     (case v of JNull \<Rightarrow> Some r | JNumber t \<Rightarrow> map_option (\<lambda>n. upd n r) (ParseUint t) | _ \<Rightarrow> None)"

text \<open>A pointer to a struct: \<^verbatim>\<open>null\<close> clears it, an object is decoded into the value it points to.\<close>

definition set_pointer ::
  "'s field list \<Rightarrow> 's \<Rightarrow> ('r \<Rightarrow> 's option) \<Rightarrow> ('s option \<Rightarrow> 'r \<Rightarrow> 'r) \<Rightarrow> json \<Rightarrow> 'r \<Rightarrow> 'r option" where
  "set_pointer fs zero get upd v r =
     (if v = JNull then Some (upd None r)
      else map_option (\<lambda>x. upd (Some x) r)
        (set_struct fs v (case get r of None \<Rightarrow> zero | Some x \<Rightarrow> x)))"

text \<open>
  \<^verbatim>\<open>Decode\<close> into the struct, then the second \<^verbatim>\<open>Decode\<close> that must report \<^verbatim>\<open>io.EOF\<close>. The two failures are
  told apart because some handlers answer them differently.
\<close>

datatype 'r decoded = Malformed | Trailing | Decoded 'r

definition DecodeOne :: "'r field list \<Rightarrow> 'r \<Rightarrow> string \<Rightarrow> 'r decoded" where
  "DecodeOne fs zero body =
     (case ParseJson body of
        None \<Rightarrow> Malformed
      | Some (v, rest) \<Rightarrow>
        (case set_struct fs v zero of
           None \<Rightarrow> Malformed
         | Some r \<Rightarrow> if skip_ws rest = [] then Decoded r else Trailing))"

section \<open>Marshalling\<close>

definition hex_char :: "nat \<Rightarrow> char" where
  "hex_char d = (if d < 10 then char_of (48 + d) else char_of (87 + d))"

definition u_escape :: "nat \<Rightarrow> string" where
  "u_escape r = [CHR 0x5C, CHR ''u'', hex_char (r div 4096 mod 16), hex_char (r div 256 mod 16),
     hex_char (r div 16 mod 16), hex_char (r mod 16)]"

definition quote_rune :: "nat \<times> string \<Rightarrow> string" where
  "quote_rune seg =
     (let (r, b) = seg in
      if r = 0x22 \<or> r = 0x5C then CHR 0x5C # b
      else if r = 0x08 then [CHR 0x5C, CHR ''b''] else if r = 0x0C then [CHR 0x5C, CHR ''f'']
      else if r = 0x0A then [CHR 0x5C, CHR ''n''] else if r = 0x0D then [CHR 0x5C, CHR ''r'']
      else if r = 0x09 then [CHR 0x5C, CHR ''t'']
      else if r < 0x20 \<or> r = 0x3C \<or> r = 0x3E \<or> r = 0x26 then u_escape r
      else if r = RuneError \<and> length b = 1 then u_escape RuneError
      else if r = 0x2028 \<or> r = 0x2029 then u_escape r
      else b)"

definition quote :: "string \<Rightarrow> string" where
  "quote s = [CHR 0x22] @ concat (map quote_rune (rune_segments s)) @ [CHR 0x22]"

definition FormatInt :: "int \<Rightarrow> string" where
  "FormatInt i = (if i < 0 then CHR ''-'' # Itoa (nat (- i)) else Itoa (nat i))"

fun render :: "json \<Rightarrow> string" where
  "render JNull = ''null''"
| "render (JBool b) = (if b then ''true'' else ''false'')"
| "render (JNumber t) = t"
| "render (JString s) = quote s"
| "render (JArray vs) = CHR ''['' # Join (CHR '','') (map render vs) @ '']''"
| "render (JObject ms) =
     CHR ''{'' # Join (CHR '','') (map (\<lambda>(k, v). quote k @ CHR '':'' # render v) ms) @ ''}''"

end
