(* ===== verification/Base64.thy ===== *)
theory Base64
  imports Go_Strings
begin

text \<open>
  Go's \<^verbatim>\<open>encoding/base64\<close> without padding: \<^verbatim>\<open>RawURLEncoding\<close> and \<^verbatim>\<open>RawStdEncoding\<close>, each in the
  default and in the \<^verbatim>\<open>Strict()\<close> variant. Decoding skips carriage returns and line feeds
  anywhere; only the strict variant insists that the unused bits of the last character are zero.
\<close>

section \<open>Alphabets\<close>

definition common_alphabet :: string where
  "common_alphabet = ''ABCDEFGHIJKLMNOPQRSTUVWXYZabcdefghijklmnopqrstuvwxyz0123456789''"

definition alphabet :: "bool \<Rightarrow> string" where
  "alphabet url = common_alphabet @ (if url then ''-_'' else ''+/'')"

definition enc6 :: "bool \<Rightarrow> nat \<Rightarrow> char" where
  "enc6 url n = alphabet url ! n"

fun index_of :: "char \<Rightarrow> char list \<Rightarrow> nat option" where
  "index_of c [] = None"
| "index_of c (x # xs) = (if c = x then Some 0 else map_option Suc (index_of c xs))"

definition dec6 :: "bool \<Rightarrow> char \<Rightarrow> nat option" where
  "dec6 url c = index_of c (alphabet url)"

lemma index_of_Some: "index_of c xs = Some n \<Longrightarrow> n < length xs \<and> xs ! n = c"
  by (induction xs arbitrary: n) (auto split: if_splits)

lemma index_of_nth: "distinct xs \<Longrightarrow> n < length xs \<Longrightarrow> index_of (xs ! n) xs = Some n"
proof (induction xs arbitrary: n)
  case (Cons x xs)
  then show ?case by (cases n) auto
qed simp

lemma common_alphabet_facts:
  "distinct common_alphabet" "length common_alphabet = 62"
  "list_all (\<lambda>c. c \<notin> {CHR ''-'', CHR ''_'', CHR ''+'', CHR ''/'', CHR ''='', CHR ''$'', CHR 0x0A, CHR 0x0D}
     \<and> of_char c < (128 :: nat)) common_alphabet"
  by (simp_all add: common_alphabet_def)

lemma alphabet_facts: "distinct (alphabet url)" "length (alphabet url) = 64"
  using common_alphabet_facts by (auto simp: alphabet_def list_all_iff)

lemma dec6_enc6 [simp]: "n < 64 \<Longrightarrow> dec6 url (enc6 url n) = Some n"
  by (simp add: dec6_def enc6_def index_of_nth alphabet_facts)

lemma dec6_Some:
  assumes "dec6 url c = Some n"
  shows "n < 64" and "enc6 url n = c"
  using index_of_Some [OF assms [unfolded dec6_def]] by (simp_all add: alphabet_facts enc6_def)

lemma alphabet_chars:
  assumes "n < 64"
  shows "enc6 url n \<notin> {CHR ''='', CHR ''$'', CHR 0x0A, CHR 0x0D}" and "of_char (enc6 url n) < (128 :: nat)"
proof -
  have "enc6 url n \<in> set (alphabet url)"
    using assms by (simp add: enc6_def alphabet_facts)
  then consider "enc6 url n \<in> set common_alphabet"
    | "enc6 url n \<in> {CHR ''-'', CHR ''_'', CHR ''+'', CHR ''/''}"
    by (auto simp: alphabet_def split: if_splits)
  then have "enc6 url n \<notin> {CHR ''='', CHR ''$'', CHR 0x0A, CHR 0x0D} \<and> of_char (enc6 url n) < (128 :: nat)"
  proof cases
    case 1
    then show ?thesis using common_alphabet_facts(3) unfolding list_all_iff by blast
  next
    case 2
    then show ?thesis by (elim insertE emptyE) simp_all
  qed
  then show "enc6 url n \<notin> {CHR ''='', CHR ''$'', CHR 0x0A, CHR 0x0D}" "of_char (enc6 url n) < (128 :: nat)"
    by blast+
qed

section \<open>Bytes and sextets\<close>

fun enc_sextets :: "nat list \<Rightarrow> nat list" where
  "enc_sextets [] = []"
| "enc_sextets [a] = [a div 4, a mod 4 * 16]"
| "enc_sextets [a, b] = [a div 4, a mod 4 * 16 + b div 16, b mod 16 * 4]"
| "enc_sextets (a # b # c # rest) =
     [a div 4, a mod 4 * 16 + b div 16, b mod 16 * 4 + c div 64, c mod 64] @ enc_sextets rest"

fun dec_sextets :: "bool \<Rightarrow> nat list \<Rightarrow> nat list option" where
  "dec_sextets strict [] = Some []"
| "dec_sextets strict [p] = None"
| "dec_sextets strict [p, q] =
     (if strict \<and> q mod 16 \<noteq> 0 then None else Some [p * 4 + q div 16])"
| "dec_sextets strict [p, q, r] =
     (if strict \<and> r mod 4 \<noteq> 0 then None else Some [p * 4 + q div 16, q mod 16 * 16 + r div 4])"
| "dec_sextets strict (p # q # r # t # rest) =
     map_option (\<lambda>bs. [p * 4 + q div 16, q mod 16 * 16 + r div 4, r mod 4 * 64 + t] @ bs)
       (dec_sextets strict rest)"

lemma enc_sextets_range: "list_all (\<lambda>a. a < 256) bs \<Longrightarrow> list_all (\<lambda>x. x < 64) (enc_sextets bs)"
  by (induction bs rule: enc_sextets.induct) auto

lemma dec_enc_sextets: "list_all (\<lambda>a. a < 256) bs \<Longrightarrow> dec_sextets strict (enc_sextets bs) = Some bs"
  by (induction bs rule: enc_sextets.induct) auto

lemma dec_sextets_range:
  "dec_sextets strict xs = Some bs \<Longrightarrow> list_all (\<lambda>x. x < 64) xs \<Longrightarrow> list_all (\<lambda>a. a < 256) bs"
  by (induction strict xs arbitrary: bs rule: dec_sextets.induct) (auto split: if_splits)

lemma pack_div_mod:
  fixes x m p :: nat
  assumes "x < m"
  shows "(p * m + x) div m = p" and "(p * m + x) mod m = x"
  using assms by simp_all

lemma quantum_canonical:
  fixes p q r t :: nat
  assumes "q < 64" "r < 64" "t < 64"
  shows "(p * 4 + q div 16) div 4 = p"
    "(p * 4 + q div 16) mod 4 * 16 + (q mod 16 * 16 + r div 4) div 16 = q"
    "(q mod 16 * 16 + r div 4) mod 16 * 4 + (r mod 4 * 64 + t) div 64 = r"
    "(r mod 4 * 64 + t) mod 64 = t"
proof -
  have "q div 16 < 4" "r div 4 < 16" using assms by (simp_all add: less_mult_imp_div_less)
  note pq = pack_div_mod [OF this(1), of p] and qr = pack_div_mod [OF this(2), of "q mod 16"]
    and rt = pack_div_mod [OF assms(3), of "r mod 4"]
  show "(p * 4 + q div 16) div 4 = p" "(r mod 4 * 64 + t) mod 64 = t" by (fact pq(1), fact rt(2))
  show "(p * 4 + q div 16) mod 4 * 16 + (q mod 16 * 16 + r div 4) div 16 = q"
    unfolding pq(2) qr(1) by (rule div_mult_mod_eq)
  show "(q mod 16 * 16 + r div 4) mod 16 * 4 + (r mod 4 * 64 + t) div 64 = r"
    unfolding qr(2) rt(1) by (rule div_mult_mod_eq)
qed

lemma enc_dec_sextets:
  "dec_sextets True xs = Some bs \<Longrightarrow> list_all (\<lambda>x. x < 64) xs \<Longrightarrow> enc_sextets bs = xs"
proof (induction True xs arbitrary: bs rule: dec_sextets.induct)
  case (3 p q)
  then have "q mod 16 = 0" "bs = [p * 4 + q div 16]" by (auto split: if_splits)
  moreover have "q < 64" using 3(2) by simp
  ultimately show ?case using quantum_canonical(1,2) [of q 0 0 p] by simp
next
  case (4 p q r)
  then have "r mod 4 = 0" "bs = [p * 4 + q div 16, q mod 16 * 16 + r div 4]"
    by (auto split: if_splits)
  moreover have "q < 64" "r < 64" using 4(2) by simp_all
  ultimately show ?case using quantum_canonical(1,2) [of q r 0 p] quantum_canonical(3) [of q r 0] by simp
next
  case (5 p q r t rest)
  then obtain cs where cs: "dec_sextets True rest = Some cs"
    "bs = [p * 4 + q div 16, q mod 16 * 16 + r div 4, r mod 4 * 64 + t] @ cs" by auto
  have "q < 64" "r < 64" "t < 64" "list_all (\<lambda>x. x < 64) rest" using 5(3) by simp_all
  then show ?case using quantum_canonical(1,2) [of q r t p] quantum_canonical(3,4) [of q r t] 5(1) [OF cs(1)]
    by (simp only: cs(2)) simp
qed auto

lemma dec_sextets_length:
  "dec_sextets strict xs = Some bs \<Longrightarrow> length bs = 3 * length xs div 4"
proof (induction strict xs arbitrary: bs rule: dec_sextets.induct)
  case (5 strict p q r t rest)
  then show ?case by auto
qed (auto split: if_splits)

lemma enc_sextets_length: "length (enc_sextets bs) = (4 * length bs + 2) div 3"
  by (induction bs rule: enc_sextets.induct) auto

section \<open>Strings\<close>

definition byte_values :: "bytes \<Rightarrow> nat list" where
  "byte_values b = map of_char b"

definition EncodeToString :: "bool \<Rightarrow> bytes \<Rightarrow> string" where
  "EncodeToString url b = map (enc6 url) (enc_sextets (byte_values b))"

definition line_break :: "char \<Rightarrow> bool" where
  "line_break c \<longleftrightarrow> c = CHR 0x0A \<or> c = CHR 0x0D"

definition DecodeString :: "bool \<Rightarrow> bool \<Rightarrow> string \<Rightarrow> bytes option" where
  "DecodeString url strict s =
     (case those (map (dec6 url) (filter (\<lambda>c. \<not> line_break c) s)) of
        None \<Rightarrow> None
      | Some xs \<Rightarrow> map_option (map char_of) (dec_sextets strict xs))"

lemma byte_values_range: "list_all (\<lambda>a. a < 256) (byte_values b)"
  by (simp add: byte_values_def list_all_iff)

lemma map_char_of_values: "map char_of (byte_values b) = b"
  by (simp add: byte_values_def comp_def)

lemma those_Some: "those (map f xs) = Some ys \<longleftrightarrow> map f xs = map Some ys"
  by (induction xs arbitrary: ys) (auto split: option.splits)

lemma those_map_Some: "(\<And>x. x \<in> set xs \<Longrightarrow> f (g x) = Some x) \<Longrightarrow> those (map f (map g xs)) = Some xs"
  by (simp add: those_Some)

lemma encode_clean: "list_all (\<lambda>c. c \<notin> {CHR ''='', CHR ''$'', CHR 0x0A, CHR 0x0D}
    \<and> of_char c < (128 :: nat)) (EncodeToString url b)"
  using enc_sextets_range [OF byte_values_range, of b] alphabet_chars
  by (auto simp: EncodeToString_def list_all_iff)

lemma encode_no_breaks: "filter (\<lambda>c. \<not> line_break c) (EncodeToString url b) = EncodeToString url b"
  using encode_clean [of url b] by (auto simp: filter_id_conv list_all_iff line_break_def)

lemma decode_encode: "DecodeString url strict (EncodeToString url b) = Some b"
proof -
  have "those (map (dec6 url) (EncodeToString url b)) = Some (enc_sextets (byte_values b))"
    unfolding EncodeToString_def using enc_sextets_range [OF byte_values_range, of b]
    by (intro those_map_Some) (simp add: list_all_iff)
  then show ?thesis
    by (simp add: DecodeString_def encode_no_breaks dec_enc_sextets byte_values_range
        map_char_of_values)
qed

lemma encode_length: "length (EncodeToString url b) = (4 * length b + 2) div 3"
  by (simp add: EncodeToString_def enc_sextets_length byte_values_def)

lemma dec6_list:
  "map (dec6 url) cs = map Some xs \<Longrightarrow> list_all (\<lambda>x. x < 64) xs \<and> map (enc6 url) xs = cs"
proof (induction cs arbitrary: xs)
  case (Cons c cs)
  then obtain y ys where "xs = y # ys" "dec6 url c = Some y" "map (dec6 url) cs = map Some ys"
    by (cases xs) auto
  then show ?case using Cons.IH [of ys] dec6_Some [of url c y] by simp
qed simp

lemma decode_strict_canonical:
  assumes "DecodeString url True s = Some b"
  shows "EncodeToString url b = filter (\<lambda>c. \<not> line_break c) s"
proof -
  let ?s = "filter (\<lambda>c. \<not> line_break c) s"
  obtain xs bs where xs: "those (map (dec6 url) ?s) = Some xs" and bs: "dec_sextets True xs = Some bs"
    and b: "b = map char_of bs"
    using assms by (auto simp: DecodeString_def split: option.splits)
  have eq: "map (dec6 url) ?s = map Some xs" using xs by (simp only: those_Some)
  note dec = dec6_list [OF eq]
  then have range: "list_all (\<lambda>x. x < 64) xs" by simp
  have "map (of_char \<circ> char_of) bs = bs"
    using dec_sextets_range [OF bs range] by (intro map_idI) (simp add: list_all_iff)
  then have "byte_values b = bs" by (simp add: b byte_values_def)
  moreover have "map (enc6 url) xs = ?s" using dec by simp
  ultimately show ?thesis
    by (simp add: EncodeToString_def enc_dec_sextets [OF bs range])
qed

end
