(* ===== verification/Json_Round_Trip.thy ===== *)
theory Json_Round_Trip
  imports Json Base64
begin

text \<open>
  Parsing inverts rendering: quoted strings, decimal integers and the objects built from them.
\<close>

section \<open>Runes\<close>

lemma decode_ascii: "of_char c < (0x80 :: nat) \<Longrightarrow> DecodeRuneInString (c # cs) = (of_char c, 1)"
  by (auto simp: DecodeRuneInString_def Let_def split: prod.splits)

lemma segments_ascii_Cons:
  "of_char c < (0x80 :: nat) \<Longrightarrow> rune_segments (c # cs) = (of_char c, [c]) # rune_segments cs"
  by (simp add: decode_ascii)

lemma segments_ascii_append:
  "is_ascii s \<Longrightarrow> rune_segments (s @ t) = map (\<lambda>c. (of_char c, [c])) s @ rune_segments t"
  by (induction s) (simp_all add: is_ascii_def segments_ascii_Cons del: rune_segments.simps(2))

text \<open>A well-formed sequence decodes the same whatever follows it, and re-encodes to itself.\<close>

abbreviation continuation :: "char \<Rightarrow> bool" where
  "continuation c \<equiv> byte_in c 0x80 0xBF"

lemma decode_multiE:
  assumes "DecodeRuneInString (c # cs) = (r, w)" and "\<not> (r = RuneError \<and> w = 1)"
    and "0x80 \<le> (of_char c :: nat)"
  obtains (two) c1 cs' where "cs = c1 # cs'" "w = 2" "0xC2 \<le> (of_char c :: nat)" "of_char c < (0xE0 :: nat)"
      "continuation c1" "r = (of_char c - 0xC0) * 64 + tail_bits c1"
  | (three) c1 c2 cs' lo hi where "cs = c1 # c2 # cs'" "w = 3" "0xE0 \<le> (of_char c :: nat)"
      "of_char c < (0xF0 :: nat)" "second_range (of_char c) = (lo, hi)" "byte_in c1 lo hi" "continuation c2"
      "r = (of_char c - 0xE0) * 4096 + tail_bits c1 * 64 + tail_bits c2"
  | (four) c1 c2 c3 cs' lo hi where "cs = c1 # c2 # c3 # cs'" "w = 4" "0xF0 \<le> (of_char c :: nat)"
      "of_char c \<le> (0xF4 :: nat)" "second_range (of_char c) = (lo, hi)" "byte_in c1 lo hi" "continuation c2"
      "continuation c3"
      "r = (of_char c - 0xF0) * 262144 + tail_bits c1 * 4096 + tail_bits c2 * 64 + tail_bits c3"
proof -
  obtain lo hi where lh: "second_range (of_char c) = (lo, hi)" by fastforce
  have low: "of_char c < (0xE0 :: nat) \<Longrightarrow> lo = 0x80 \<and> hi = 0xBF"
    using lh by (simp add: second_range_def)
  show thesis
    using assms lh low
    by (auto simp: DecodeRuneInString_def Let_def not_less split: if_splits list.splits
        intro: that)
qed

lemma EncodeRune_two:
  assumes "2 \<le> x" "x < 32" "y < 64"
  shows "EncodeRune (x * 64 + y) = [char_of (0xC0 + x), char_of (0x80 + y)]"
  using assms pack_div_mod [OF assms(3), of x] by (simp add: EncodeRune_def Let_def)

lemma EncodeRune_three:
  assumes "x < 16" "y < 64" "z < 64" "x = 0 \<longrightarrow> 32 \<le> y" "x = 13 \<longrightarrow> y < 32"
  shows "EncodeRune (x * 4096 + y * 64 + z)
    = [char_of (0xE0 + x), char_of (0x80 + y), char_of (0x80 + z)]"
proof -
  let ?r = "x * 4096 + y * 64 + z"
  have r: "?r = (x * 64 + y) * 64 + z" by simp
  have d: "?r div 64 = x * 64 + y" "?r mod 64 = z"
    unfolding r using pack_div_mod [OF assms(3), of "x * 64 + y"] by blast+
  have e: "?r div 4096 = x"
    using d(1) pack_div_mod(1) [OF assms(2), of x] div_mult2_eq [of ?r 64 64] by simp
  have "0x800 \<le> ?r" "?r < 0x10000" using assms by (cases "x = 0"; simp)+
  moreover have "\<not> (0xD800 \<le> ?r \<and> ?r \<le> 0xDFFF)"
    using assms by (cases "x = 13"; cases "x < 13"; simp)
  ultimately show ?thesis
    using d e pack_div_mod(2) [OF assms(2), of x] by (auto simp: EncodeRune_def Let_def)
qed

lemma EncodeRune_four:
  assumes "x \<le> 4" "y < 64" "z < 64" "v < 64" "x = 0 \<longrightarrow> 16 \<le> y" "x = 4 \<longrightarrow> y < 16"
  shows "EncodeRune (x * 262144 + y * 4096 + z * 64 + v)
    = [char_of (0xF0 + x), char_of (0x80 + y), char_of (0x80 + z), char_of (0x80 + v)]"
proof -
  let ?r = "x * 262144 + y * 4096 + z * 64 + v"
  have r: "?r = ((x * 64 + y) * 64 + z) * 64 + v" by simp
  have d: "?r div 64 = (x * 64 + y) * 64 + z" "?r mod 64 = v"
    unfolding r using pack_div_mod [OF assms(4), of "(x * 64 + y) * 64 + z"] by blast+
  have e: "?r div 4096 = x * 64 + y"
    using d(1) pack_div_mod(1) [OF assms(3), of "x * 64 + y"] div_mult2_eq [of ?r 64 64] by simp
  have f: "?r div 262144 = x"
    using e pack_div_mod(1) [OF assms(2), of x] div_mult2_eq [of ?r 4096 64] by simp
  have "0x10000 \<le> ?r" "?r \<le> 0x10FFFF" using assms by (cases "x = 0"; cases "x = 4"; simp)+
  then show ?thesis
    using d e f pack_div_mod(2) [OF assms(2), of x] pack_div_mod(2) [OF assms(3), of "x * 64 + y"]
    by (simp add: EncodeRune_def Let_def)
qed

lemma continuation_bits:
  assumes "continuation c"
  shows "tail_bits c < 64" and "char_of (0x80 + tail_bits c) = c"
  using assms by (auto simp: byte_in_def tail_bits_def)

lemma second_rangeD:
  assumes "second_range b = (lo, hi)" and "byte_in c lo hi"
  shows "continuation c" and "b = 0xE0 \<longrightarrow> 32 \<le> tail_bits c" and "b = 0xED \<longrightarrow> tail_bits c < 32"
    and "b = 0xF0 \<longrightarrow> 16 \<le> tail_bits c" and "b = 0xF4 \<longrightarrow> tail_bits c < 16"
  using assms by (auto simp: second_range_def byte_in_def tail_bits_def split: if_splits)

lemma encode_decode:
  assumes "DecodeRuneInString (c # cs) = (r, w)" and "\<not> (r = RuneError \<and> w = 1)"
    and "0x80 \<le> (of_char c :: nat)"
  shows "EncodeRune r = c # take (w - 1) cs"
  using assms
proof (cases rule: decode_multiE)
  case (two c1 cs')
  then show ?thesis
    using EncodeRune_two [of "of_char c - 0xC0" "tail_bits c1"] continuation_bits [of c1] by simp
next
  case (three c1 c2 cs' lo hi)
  note c1 = second_rangeD [OF three(5,6)]
  show ?thesis
    using three c1 continuation_bits [OF c1(1)] continuation_bits [OF three(7)]
      EncodeRune_three [of "of_char c - 0xE0" "tail_bits c1" "tail_bits c2"]
    by (auto simp: three(1,2,8))
next
  case (four c1 c2 c3 cs' lo hi)
  note c1 = second_rangeD [OF four(5,6)]
  show ?thesis
    using four c1 continuation_bits [OF c1(1)] continuation_bits [OF four(7)] continuation_bits [OF four(8)]
      EncodeRune_four [of "of_char c - 0xF0" "tail_bits c1" "tail_bits c2" "tail_bits c3"]
    by (auto simp: four(1,2,9))
qed

lemma decode_multi_value:
  assumes "DecodeRuneInString (c # cs) = (r, w)" and "\<not> (r = RuneError \<and> w = 1)"
    and "0x80 \<le> (of_char c :: nat)"
  shows "0x80 \<le> r"
  using encode_decode [OF assms] assms(3)
  by (rule_tac ccontr) (auto simp: EncodeRune_def Let_def split: if_splits)

lemma decode_prefix:
  assumes "DecodeRuneInString (c # cs) = (r, w)" and "\<not> (r = RuneError \<and> w = 1)"
    and "0x80 \<le> (of_char c :: nat)"
  shows "DecodeRuneInString (c # take (w - 1) cs @ t) = (r, w)" and "length (take (w - 1) cs) = w - 1"
    and "1 < w"
    and "list_all (\<lambda>d. 0x80 \<le> (of_char d :: nat)) (take (w - 1) cs)"
proof -
  have "DecodeRuneInString (c # take (w - 1) cs @ t) = (r, w) \<and> length (take (w - 1) cs) = w - 1 \<and> 1 < w
    \<and> list_all (\<lambda>d. 0x80 \<le> (of_char d :: nat)) (take (w - 1) cs)"
    using assms
  proof (cases rule: decode_multiE)
    case (two c1 cs')
    then show ?thesis by (auto simp: DecodeRuneInString_def Let_def byte_in_def second_range_def)
  next
    case (three c1 c2 cs' lo hi)
    then show ?thesis using second_rangeD(1) [OF three(5,6)]
      by (auto simp: DecodeRuneInString_def Let_def byte_in_def)
  next
    case (four c1 c2 c3 cs' lo hi)
    then show ?thesis using second_rangeD(1) [OF four(5,6)]
      by (auto simp: DecodeRuneInString_def Let_def byte_in_def)
  qed
  then show "DecodeRuneInString (c # take (w - 1) cs @ t) = (r, w)" "length (take (w - 1) cs) = w - 1"
    "1 < w" "list_all (\<lambda>d. 0x80 \<le> (of_char d :: nat)) (take (w - 1) cs)" by blast+
qed

text \<open>
  What a range loop can meet: an ASCII byte, an ill-formed byte, or a longer sequence that stands for
  its own encoding.
\<close>

definition segment_ok :: "nat \<times> string \<Rightarrow> bool" where
  "segment_ok seg \<longleftrightarrow>
     (\<exists>c. seg = (of_char c, [c]) \<and> of_char c < (0x80 :: nat))
     \<or> (fst seg = RuneError \<and> length (snd seg) = 1)
     \<or> (0x80 \<le> fst seg \<and> snd seg = EncodeRune (fst seg)
        \<and> list_all (\<lambda>d. 0x80 \<le> (of_char d :: nat)) (snd seg)
        \<and> (\<forall>t. rune_segments (snd seg @ t) = seg # rune_segments t))"

lemma segment_okE:
  assumes "segment_ok seg"
  obtains (ascii) c where "seg = (of_char c, [c])" "of_char c < (0x80 :: nat)"
  | (bad) b where "seg = (RuneError, b)" "length b = 1"
  | (multi) r where "seg = (r, EncodeRune r)" "0x80 \<le> r" "length (EncodeRune r) \<noteq> 1"
      "list_all (\<lambda>d. 0x80 \<le> (of_char d :: nat)) (EncodeRune r)"
      "\<And>t. rune_segments (EncodeRune r @ t) = (r, EncodeRune r) # rune_segments t"
proof -
  have "length (EncodeRune r) \<noteq> 1" if "0x80 \<le> r" for r
    using that by (auto simp: EncodeRune_def Let_def RuneError_def)
  with assms show thesis
    by (cases seg) (auto simp: segment_ok_def intro: that)
qed

lemma segments_ok: "list_all segment_ok (rune_segments s)"
proof (induction s rule: rune_segments.induct)
  case (2 c cs)
  obtain r w where rw: "DecodeRuneInString (c # cs) = (r, w)" by fastforce
  have rest: "list_all segment_ok (rune_segments (drop (w - 1) cs))"
    using "2.IH" rw by simp
  have "segment_ok (r, c # take (w - 1) cs)"
  proof (cases "of_char c < (0x80 :: nat)")
    case True
    with rw have "r = of_char c" "w = 1" by (simp_all add: decode_ascii)
    with True show ?thesis by (auto simp: segment_ok_def)
  next
    case False
    show ?thesis
    proof (cases "r = RuneError \<and> w = 1")
      case invalid: False
      have hi: "0x80 \<le> (of_char c :: nat)" using False by simp
      note p = decode_prefix [OF rw invalid hi] and e = encode_decode [OF rw invalid hi]
      have "rune_segments ((c # take (w - 1) cs) @ t) = (r, c # take (w - 1) cs) # rune_segments t" for t
        using p(1) [of t] p(2) by simp
      then show ?thesis
        using p(4) e decode_multi_value [OF rw invalid hi] hi by (auto simp: segment_ok_def)
    qed (simp add: segment_ok_def)
  qed
  then show ?case using rest rw by simp
qed simp

section \<open>Strings\<close>

definition mend :: "nat \<times> string \<Rightarrow> string" where
  "mend seg = (if fst seg = RuneError \<and> length (snd seg) = 1 then EncodeRune RuneError else snd seg)"

lemma mend_valid: "ValidString s \<Longrightarrow> concat (map mend (rune_segments s)) = s"
proof -
  assume "ValidString s"
  then have "map mend (rune_segments s) = map snd (rune_segments s)"
    by (auto simp: ValidString_def mend_def list_all_iff)
  then show ?thesis by (simp only: rune_segments_concat)
qed

lemma hex_char_facts:
  assumes "d < 16"
  shows "is_hex (hex_char d)" "hex_digit (of_char (hex_char d)) = d" "of_char (hex_char d) < (0x80 :: nat)"
  using assms
  by (auto simp: is_hex_def hex_value_def hex_digit_def hex_char_def Let_def)

lemma hex4_u_escape:
  assumes "r < 0x10000"
  shows "hex4 (of_char (hex_char (r div 4096 mod 16))) (of_char (hex_char (r div 256 mod 16)))
    (of_char (hex_char (r div 16 mod 16))) (of_char (hex_char (r mod 16))) = r"
proof -
  have "r div 4096 < 16" using assms by (simp add: less_mult_imp_div_less)
  moreover have "r div 256 = r div 4096 * 16 + r div 256 mod 16" "r div 16 = r div 256 * 16 + r div 16 mod 16"
    using div_mult2_eq [of r 256 16] div_mult2_eq [of r 16 16] by simp_all
  ultimately show ?thesis
    by (simp add: hex4_def hex_char_facts)
qed

lemma ascii_u_escape: "is_ascii (u_escape r)"
  by (simp add: is_ascii_def u_escape_def hex_char_facts)

lemma scan_u_escape:
  "scan_string (u_escape r @ t) = map_option (\<lambda>(raw, u). (u_escape r @ raw, u)) (scan_string t)"
  by (simp add: u_escape_def hex_char_facts simple_escapes_def)

lemma unquote_u_escape:
  assumes "r < 0x10000" "\<not> high_surrogate r"
  shows "unquote (rune_segments (u_escape r @ t)) = EncodeRune r @ unquote (rune_segments t)"
proof -
  have "rune_segments (u_escape r @ t) = map (\<lambda>c. (of_char c, [c])) (u_escape r) @ rune_segments t"
    by (rule segments_ascii_append) (rule ascii_u_escape)
  then show ?thesis
    using assms hex4_u_escape [OF assms(1)] by (simp add: u_escape_def)
qed

lemma scan_plain:
  "list_all (\<lambda>d. 0x20 \<le> (of_char d :: nat) \<and> d \<noteq> CHR 0x22 \<and> d \<noteq> CHR 0x5C) b
     \<Longrightarrow> scan_string (b @ t) = map_option (\<lambda>(raw, u). (b @ raw, u)) (scan_string t)"
proof (induction b)
  case Nil
  then show ?case by (cases "scan_string t") auto
next
  case (Cons c b)
  then show ?case by (cases "scan_string t") auto
qed

lemma high_bytes_plain:
  "list_all (\<lambda>d. 0x80 \<le> (of_char d :: nat)) b
     \<Longrightarrow> list_all (\<lambda>d. 0x20 \<le> (of_char d :: nat) \<and> d \<noteq> CHR 0x22 \<and> d \<noteq> CHR 0x5C) b"
  by (auto simp: list_all_iff)

lemma char_codes:
  "of_char c = (0x22 :: nat) \<longleftrightarrow> c = CHR 0x22" "of_char c = (0x5C :: nat) \<longleftrightarrow> c = CHR 0x5C"
  "of_char c = (0x08 :: nat) \<longleftrightarrow> c = CHR 0x08" "of_char c = (0x0C :: nat) \<longleftrightarrow> c = CHR 0x0C"
  "of_char c = (0x0A :: nat) \<longleftrightarrow> c = CHR 0x0A" "of_char c = (0x0D :: nat) \<longleftrightarrow> c = CHR 0x0D"
  "of_char c = (0x09 :: nat) \<longleftrightarrow> c = CHR 0x09"
  using of_char_eq_iff [of c "CHR 0x22", where 'a = nat] of_char_eq_iff [of c "CHR 0x5C", where 'a = nat]
    of_char_eq_iff [of c "CHR 0x08", where 'a = nat] of_char_eq_iff [of c "CHR 0x0C", where 'a = nat]
    of_char_eq_iff [of c "CHR 0x0A", where 'a = nat] of_char_eq_iff [of c "CHR 0x0D", where 'a = nat]
    of_char_eq_iff [of c "CHR 0x09", where 'a = nat]
  by simp_all

lemma quote_ascii:
  assumes "of_char c < (0x80 :: nat)"
  obtains (plain) "quote_rune (of_char c, [c]) = [c]"
      "0x20 \<le> (of_char c :: nat)" "c \<noteq> CHR 0x22" "c \<noteq> CHR 0x5C"
  | (escape) e where "quote_rune (of_char c, [c]) = [CHR 0x5C, e]" "e \<in> set simple_escapes"
      "escape_byte (of_char e) = c"
  | (hex) "quote_rune (of_char c, [c]) = u_escape (of_char c)"
proof -
  let ?n = "of_char c :: nat"
  consider "?n = 0x22 \<or> ?n = 0x5C" | "?n \<in> {0x08, 0x0C, 0x0A, 0x0D, 0x09}"
    | "?n \<notin> {0x22, 0x5C, 0x08, 0x0C, 0x0A, 0x0D, 0x09}" "?n < 0x20 \<or> ?n = 0x3C \<or> ?n = 0x3E \<or> ?n = 0x26"
    | "?n \<notin> {0x22, 0x5C, 0x08, 0x0C, 0x0A, 0x0D, 0x09}" "\<not> (?n < 0x20 \<or> ?n = 0x3C \<or> ?n = 0x3E \<or> ?n = 0x26)"
    by blast
  then show thesis
  proof cases
    case 1
    then have "c = CHR 0x22 \<or> c = CHR 0x5C" by (simp only: char_codes)
    moreover have "char_of (0x22 :: nat) = CHR 0x22" "char_of (0x5C :: nat) = CHR 0x5C"
      using char_of_char [of "CHR 0x22", where 'a = nat] char_of_char [of "CHR 0x5C", where 'a = nat] by simp_all
    ultimately show thesis
      by (elim disjE; intro escape [of c]) (simp_all add: quote_rune_def simple_escapes_def escape_byte_def)
  next
    case 2
    then have "c \<in> {CHR 0x08, CHR 0x0C, CHR 0x0A, CHR 0x0D, CHR 0x09}" by (simp only: insert_iff empty_iff char_codes)
    moreover define e where "e = (if c = CHR 0x08 then CHR ''b'' else if c = CHR 0x0C then CHR ''f''
      else if c = CHR 0x0A then CHR ''n'' else if c = CHR 0x0D then CHR ''r'' else CHR ''t'')"
    ultimately have "quote_rune (?n, [c]) = [CHR 0x5C, e] \<and> e \<in> set simple_escapes \<and> escape_byte (of_char e) = c"
      by (elim insertE emptyE) (simp_all add: quote_rune_def simple_escapes_def escape_byte_def)
    then show thesis using escape by blast
  next
    case 3
    then show thesis by (intro hex) (auto simp: quote_rune_def Let_def)
  next
    case 4
    then show thesis
      using assms by (intro plain) (auto simp: quote_rune_def Let_def RuneError_def)
  qed
qed

lemma quote_multi:
  assumes "0x80 \<le> r" and "length (EncodeRune r) \<noteq> 1"
  shows "quote_rune (r, EncodeRune r) = (if r = 0x2028 \<or> r = 0x2029 then u_escape r else EncodeRune r)"
  using assms by (auto simp: quote_rune_def Let_def)

lemma scan_rune:
  assumes "segment_ok seg"
  shows "scan_string (quote_rune seg @ t)
    = map_option (\<lambda>(raw, u). (quote_rune seg @ raw, u)) (scan_string t)"
  using assms
proof (cases rule: segment_okE)
  case (ascii c)
  from ascii(2) show ?thesis
  proof (cases rule: quote_ascii)
    case plain
    then show ?thesis using scan_plain [of "[c]" t] by (simp add: ascii(1))
  next
    case (escape e)
    then show ?thesis by (simp add: ascii(1))
  next
    case hex
    then show ?thesis by (simp add: ascii(1) scan_u_escape)
  qed
next
  case (bad b)
  then have "quote_rune seg = u_escape RuneError" by (simp add: quote_rune_def RuneError_def)
  then show ?thesis by (simp add: scan_u_escape)
next
  case (multi r)
  then show ?thesis
    using scan_plain [OF high_bytes_plain [OF multi(4)], of t] by (simp add: quote_multi scan_u_escape)
qed

lemma unquote_rune:
  assumes "segment_ok seg"
  shows "unquote (rune_segments (quote_rune seg @ t)) = mend seg @ unquote (rune_segments t)"
  using assms
proof (cases rule: segment_okE)
  case (ascii c)
  have mend: "mend seg = [c]" using ascii by (simp add: mend_def RuneError_def)
  from ascii(2) show ?thesis
  proof (cases rule: quote_ascii)
    case plain
    then show ?thesis
      using ascii mend segments_ascii_Cons [of c t]
      by (simp add: RuneError_def char_codes del: rune_segments.simps(2))
  next
    case (escape e)
    have "is_ascii [CHR 0x5C, e]" "of_char e \<noteq> (0x75 :: nat)"
      using escape(2) by (auto simp: is_ascii_def simple_escapes_def)
    then show ?thesis
      using escape ascii mend segments_ascii_append [of "[CHR 0x5C, e]" t]
      by (simp del: rune_segments.simps(2))
  next
    case hex
    have "EncodeRune (of_char c) = [c]" using ascii(2) by (simp add: EncodeRune_def)
    then show ?thesis
      using hex ascii mend unquote_u_escape [of "of_char c" t] by (simp add: high_surrogate_def)
  qed
next
  case (bad b)
  then have "quote_rune seg = u_escape RuneError" by (simp add: quote_rune_def RuneError_def)
  moreover have "mend seg = EncodeRune RuneError" using bad by (simp add: mend_def)
  ultimately show ?thesis
    using unquote_u_escape [of RuneError t] by (simp add: high_surrogate_def RuneError_def)
next
  case (multi r)
  have "mend seg = EncodeRune r" using multi by (simp add: mend_def)
  then show ?thesis
    using multi unquote_u_escape [of r t]
    by (auto simp: quote_multi high_surrogate_def)
qed

lemma scan_quoted:
  "list_all segment_ok segs \<Longrightarrow> scan_string (concat (map quote_rune segs) @ CHR 0x22 # t)
     = Some (concat (map quote_rune segs), t)"
  by (induction segs) (simp_all add: scan_rune)

lemma unquote_quoted:
  "list_all segment_ok segs \<Longrightarrow>
     unquote (rune_segments (concat (map quote_rune segs))) = concat (map mend segs)"
  by (induction segs) (simp_all add: unquote_rune)

lemma parse_quoted:
  assumes "ValidString s"
  shows "\<exists>u. quote s @ t = CHR 0x22 # u \<and> parse_string u = Some (s, t)"
proof -
  have "parse_string (concat (map quote_rune (rune_segments s)) @ CHR 0x22 # t) = Some (s, t)"
    using mend_valid [OF assms]
    by (simp add: parse_string_def scan_quoted [OF segments_ok] unquote_quoted [OF segments_ok])
  then show ?thesis by (simp add: quote_def)
qed

section \<open>Values\<close>

fun json_ok :: "json \<Rightarrow> bool" where
  "json_ok (JNumber t) = (valid_number t \<and> list_all number_char t)"
| "json_ok (JString s) = ValidString s"
| "json_ok (JArray vs) = list_all json_ok vs"
| "json_ok (JObject ms) = list_all (\<lambda>(k, v). ValidString k \<and> json_ok v) ms"
| "json_ok _ = True"

text \<open>The fuel a value needs is at most the length of its text.\<close>

fun need :: "json \<Rightarrow> nat" where
  "need (JArray vs) = Suc (\<Sum>v\<leftarrow>vs. Suc (need v))"
| "need (JObject ms) = Suc (\<Sum>m\<leftarrow>ms. Suc (need (snd m)))"
| "need _ = 1"

definition stops :: "string \<Rightarrow> bool" where
  "stops t \<longleftrightarrow> t = [] \<or> \<not> number_char (hd t)"

lemma stops_delimiters [simp]:
  "stops []" "stops (CHR '','' # t)" "stops (CHR ''}'' # t)" "stops (CHR '']'' # t)" "stops (CHR 0x0A # t)"
  by (simp_all add: stops_def number_char_def is_digit_def digit_value_def)

lemma expect_simps [simp]:
  "\<not> json_space c \<Longrightarrow> expect d (c # t) = (if c = d then Some t else None)"
  by (simp add: expect_def skip_ws_def)

lemma delimiters_not_space [simp]:
  "\<not> json_space (CHR '','')" "\<not> json_space (CHR '':'')" "\<not> json_space (CHR ''}'')" "\<not> json_space (CHR '']'')"
  "\<not> json_space (CHR ''{'')" "\<not> json_space (CHR ''['')" "\<not> json_space (CHR 0x22)"
  by (simp_all add: json_space_def)

lemma valid_number_head:
  assumes "valid_number t"
  obtains c r where "t = c # r" "is_digit c \<or> c = CHR ''-''"
proof (cases t)
  case Nil
  with assms show thesis by (simp add: valid_number_def)
next
  case (Cons c r)
  with assms have "is_digit c \<or> c = CHR ''-''"
    by (auto simp: valid_number_def Let_def split: if_splits)
  with Cons show thesis by (rule that)
qed

lemma number_head_facts:
  assumes "is_digit c \<or> c = CHR ''-''"
  shows "\<not> json_space c" and "c \<notin> {CHR ''{'', CHR ''['', CHR 0x22, CHR ''n'', CHR ''t'', CHR ''f'', CHR '']'', CHR ''}''}"
  using assms by (auto simp: is_digit_def digit_value_def json_space_def Let_def)

lemma parse_number:
  assumes "valid_number t" and "list_all number_char t" and "stops u"
  shows "parse_value (Suc n) (t @ u) = Some (JNumber t, u)"
proof -
  obtain c r where t: "t = c # r" "is_digit c \<or> c = CHR ''-''" using assms(1) by (rule valid_number_head)
  note c = number_head_facts [OF t(2)]
  have "takeWhile number_char (t @ u) = t" "dropWhile number_char (t @ u) = u"
    using assms(2,3) by (cases u; simp add: stops_def takeWhile_append2 dropWhile_append2 list_all_iff)+
  then have "parse_scalar (t @ u) = Some (JNumber t, u)"
    using assms(1) c by (auto simp: parse_scalar_def HasPrefix_def t(1))
  then show ?thesis using c by (simp add: t(1) skip_ws_def)
qed

lemma render_head:
  assumes "json_ok v"
  shows "\<exists>c r. render v = c # r \<and> \<not> json_space c \<and> c \<noteq> CHR '']''"
proof (cases v)
  case (JNumber t)
  then obtain c r where "t = c # r" "is_digit c \<or> c = CHR ''-''" using assms valid_number_head by auto
  then show ?thesis using number_head_facts [of c] JNumber by auto
qed (auto simp: json_space_def quote_def)

lemma need_le: "json_ok j \<Longrightarrow> need j \<le> length (render j)"
proof (induction j rule: render.induct)
  case (3 t)
  then show ?case by (cases t) (auto simp: valid_number_def)
next
  case (4 s)
  then show ?case by (simp add: quote_def)
next
  case (5 vs)
  have "(\<Sum>v\<leftarrow>vs. Suc (need v)) \<le> Suc (length (Join (CHR '','') (map render vs)))"
    using 5
  proof (induction vs)
    case (Cons v vs)
    have "need v \<le> length (render v)" using Cons.prems by auto
    moreover have "(\<Sum>v\<leftarrow>vs. Suc (need v)) \<le> Suc (length (Join (CHR '','') (map render vs)))"
      using Cons by auto
    ultimately show ?case by (cases vs) (auto simp: Join_Cons)
  qed simp
  then show ?case by simp
next
  case (6 ms)
  let ?f = "\<lambda>(k, v). quote k @ CHR '':'' # render v"
  have "(\<Sum>m\<leftarrow>ms. Suc (need (snd m))) \<le> Suc (length (Join (CHR '','') (map ?f ms)))"
    using 6
  proof (induction ms)
    case (Cons m ms)
    obtain k v where m: "m = (k, v)" by (cases m)
    have "need v \<le> length (render v)" using Cons.prems by (auto simp: m)
    moreover have "(\<Sum>m\<leftarrow>ms. Suc (need (snd m))) \<le> Suc (length (Join (CHR '','') (map ?f ms)))"
      using Cons by auto
    ultimately show ?case by (cases ms) (auto simp: m Join_Cons quote_def)
  qed simp
  then show ?case by simp
qed simp_all

lemma parse_elements_render:
  assumes "\<And>v t. v \<in> set vs \<Longrightarrow> stops t \<Longrightarrow> pv (render v @ t) = Some (v, t)"
    and "vs \<noteq> []" and "length vs \<le> n"
  shows "parse_elements pv n (Join (CHR '','') (map render vs) @ CHR '']'' # u) = Some (vs, u)"
  using assms
proof (induction vs arbitrary: n)
  case (Cons v vs)
  obtain k where n: "n = Suc k" using Cons.prems(3) by (cases n) auto
  show ?case
  proof (cases "vs = []")
    case True
    then show ?thesis using Cons.prems(1) by (simp add: n)
  next
    case False
    then show ?thesis using Cons.prems Cons.IH [of k] by (simp add: n Join_Cons)
  qed
qed simp

lemma parse_members_render:
  assumes "\<And>k v t. (k, v) \<in> set ms \<Longrightarrow> stops t \<Longrightarrow> ValidString k \<and> pv (render v @ t) = Some (v, t)"
    and "ms \<noteq> []" and "length ms \<le> n"
  shows "parse_members pv n (Join (CHR '','') (map (\<lambda>(k, v). quote k @ CHR '':'' # render v) ms) @ CHR ''}'' # u)
    = Some (ms, u)"
  using assms
proof (induction ms arbitrary: n)
  case (Cons m ms)
  obtain j where n: "n = Suc j" using Cons.prems(3) by (cases n) auto
  obtain k v where m: "m = (k, v)" by (cases m)
  have key: "Option.bind (expect (CHR 0x22) (quote k @ t)) parse_string = Some (k, t)" for t
    using parse_quoted [of k t] Cons.prems(1) [of k v "[]"] by (auto simp: m)
  have val: "pv (render v @ t) = Some (v, t)" if "stops t" for t
    using Cons.prems(1) [of k v t] that by (simp add: m)
  show ?case
  proof (cases "ms = []")
    case True
    then show ?thesis using key val by (simp add: n m)
  next
    case False
    have "parse_members pv j (Join (CHR '','') (map (\<lambda>(k, v). quote k @ CHR '':'' # render v) ms) @ CHR ''}'' # u)
        = Some (ms, u)"
      using Cons.prems False by (intro Cons.IH) (auto simp: n)
    then show ?thesis using False key val by (simp add: n m Join_Cons)
  qed
qed simp

lemma length_le_needs: "length xs \<le> (\<Sum>x\<leftarrow>xs. Suc (f x))"
  by (induction xs) auto

lemma member_le_needs: "x \<in> set xs \<Longrightarrow> f x < (\<Sum>x\<leftarrow>xs. Suc (f x))"
  by (induction xs) auto

lemma parse_render:
  "json_ok j \<Longrightarrow> need j \<le> n \<Longrightarrow> stops t \<Longrightarrow> parse_value n (render j @ t) = Some (j, t)"
proof (induction j arbitrary: n t rule: render.induct)
  case 1
  then show ?case by (cases n) (simp_all add: skip_ws_def json_space_def parse_scalar_def HasPrefix_def)
next
  case (2 b)
  then show ?case by (cases n) (simp_all add: skip_ws_def json_space_def parse_scalar_def HasPrefix_def)
next
  case (3 u)
  then show ?case using parse_number [of u t] by (cases n) simp_all
next
  case (4 s)
  then obtain u where "quote s @ t = CHR 0x22 # u" "parse_string u = Some (s, t)"
    using parse_quoted [of s t] by auto
  then show ?case using 4 by (cases n) (simp_all add: skip_ws_def)
next
  case (5 vs)
  obtain k where n: "n = Suc k" using 5(3) by (cases n) auto
  show ?case
  proof (cases "vs = []")
    case False
    have k: "length vs \<le> k" using 5(3) length_le_needs [of vs need] by (simp add: n)
    have "parse_elements (parse_value k) k (Join (CHR '','') (map render vs) @ CHR '']'' # t) = Some (vs, t)"
    proof (rule parse_elements_render [OF _ False k])
      fix v u assume v: "v \<in> set vs" and u: "stops u"
      have "need v \<le> k" using member_le_needs [OF v, of need] 5(3) by (simp add: n)
      then show "parse_value k (render v @ u) = Some (v, u)"
        using 5(1) [OF v] 5(2) v u by (auto simp: list_all_iff)
    qed
    moreover obtain v ws where "vs = v # ws" using False by (cases vs) auto
    then have "\<exists>c r. Join (CHR '','') (map render vs) = c # r \<and> \<not> json_space c \<and> c \<noteq> CHR '']''"
      using render_head [of v] 5(2) by (cases ws) auto
    ultimately show ?thesis by (auto simp: n skip_ws_def)
  qed (simp add: n skip_ws_def)
next
  case (6 ms)
  let ?f = "\<lambda>(k, v). quote k @ CHR '':'' # render v"
  obtain k where n: "n = Suc k" using 6(3) by (cases n) auto
  show ?case
  proof (cases "ms = []")
    case False
    have k: "length ms \<le> k" using 6(3) length_le_needs [of ms "need \<circ> snd"] by (simp add: n)
    have "parse_members (parse_value k) k (Join (CHR '','') (map ?f ms) @ CHR ''}'' # t) = Some (ms, t)"
    proof (rule parse_members_render [OF _ False k])
      fix x v u assume v: "(x, v) \<in> set ms" and u: "stops u"
      have "need v \<le> k" using member_le_needs [OF v, of "need \<circ> snd"] 6(3) by (simp add: n)
      then show "ValidString x \<and> parse_value k (render v @ u) = Some (v, u)"
        using 6(1) [OF v refl] 6(2) v u by (auto simp: list_all_iff)
    qed
    moreover obtain x v ws where "ms = (x, v) # ws" using False by (cases ms) auto
    then have "\<exists>r. Join (CHR '','') (map ?f ms) = CHR 0x22 # r" by (cases ws) (auto simp: quote_def)
    ultimately show ?thesis by (auto simp: n skip_ws_def)
  qed (simp add: n skip_ws_def)
qed

lemma ParseJson_render: "json_ok j \<Longrightarrow> stops t \<Longrightarrow> ParseJson (render j @ t) = Some (j, t)"
  using need_le [of j] unfolding ParseJson_def by (intro parse_render) simp_all

section \<open>Integers\<close>

lemma digit_char_facts:
  assumes "d < 10"
  shows "is_digit (digit_char d)" and "digit_char d = CHR ''0'' \<longleftrightarrow> d = 0"
  using assms digit_value_char [OF assms] by (auto simp: is_digit_def digit_value_def Let_def digit_chars)

lemma Itoa_digits: "list_all is_digit (Itoa n)"
proof (induction n rule: Itoa.induct)
  case (1 n)
  then show ?case by (simp add: Itoa.simps [of n] digit_char_facts)
qed

lemma Itoa_no_leading_zero: "hd (Itoa n) = CHR ''0'' \<Longrightarrow> tl (Itoa n) = []"
proof (induction n rule: Itoa.induct)
  case (1 n)
  have "hd (Itoa m) \<noteq> CHR ''0''" if "0 < m" for m
    using that
  proof (induction m rule: Itoa.induct)
    case (1 m)
    then show ?case by (cases "m < 10") (simp_all add: Itoa.simps [of m] digit_char_facts)
  qed
  with 1 show ?case by (cases "n < 10") (simp_all add: Itoa.simps [of n])
qed

lemma Itoa_span: "takeWhile is_digit (Itoa n) = Itoa n" "dropWhile is_digit (Itoa n) = []"
  using Itoa_digits [of n] by (simp_all add: takeWhile_eq_all_conv list_all_iff)

lemma Itoa_head: "hd (Itoa n) \<noteq> CHR ''-''" "hd (Itoa n) \<noteq> CHR ''+''"
  using Itoa_digits [of n] by (cases "Itoa n"; auto simp: is_digit_def digit_value_def)+

lemma FormatInt_ok: "json_ok (JNumber (FormatInt i))"
proof -
  have "list_all number_char (Itoa n)" for n
    using Itoa_digits [of n] by (auto simp: list_all_iff number_char_def)
  moreover have plain: "valid_fraction []" by (simp add: valid_fraction_def valid_exponent_def)
  moreover have "valid_number (Itoa n)" "valid_number (CHR ''-'' # Itoa n)" for n
    using Itoa_no_leading_zero [of n] Itoa_head [of n] plain
    by (simp_all add: valid_number_def Let_def Itoa_span)
  ultimately show ?thesis
    by (auto simp: FormatInt_def number_char_def)
qed

lemma ParseInt_FormatInt:
  assumes "- (2 ^ 63) \<le> i" and "i < 2 ^ 63"
  shows "ParseInt (FormatInt i) = Some i"
proof -
  show ?thesis
  proof (cases "i < 0")
    case True
    then show ?thesis using assms
      by (simp add: FormatInt_def ParseInt_def ParseUint_Itoa nat_le_iff)
  next
    case False
    then have "nat i < 2 ^ 63" using assms by (simp add: nat_less_iff)
    then show ?thesis using False Itoa_head
      by (simp add: FormatInt_def ParseInt_def ParseUint_Itoa)
  qed
qed

section \<open>The fuel is enough\<close>

text \<open>Every parser consumes at least one byte, so fuel beyond the length of the input changes nothing.\<close>

lemma length_skip_ws: "length (skip_ws s) \<le> length s"
  by (simp add: skip_ws_def length_dropWhile_le)

lemma expect_shorter: "expect c s = Some t \<Longrightarrow> length t < length s"
  using length_skip_ws [of s] by (auto simp: expect_def split: list.splits if_splits)

lemma scan_shorter: "scan_string s = Some (raw, t) \<Longrightarrow> length t < length s"
proof (induction s arbitrary: raw rule: scan_string.induct)
  case (2 c r)
  then show ?case
    by (fastforce split: if_splits list.splits simp: less_Suc_eq)
qed simp

lemma parse_string_shorter: "parse_string s = Some (k, t) \<Longrightarrow> length t < length s"
  by (auto simp: parse_string_def dest: scan_shorter)

lemma parse_scalar_shorter: "parse_scalar s = Some (v, t) \<Longrightarrow> length t < length s"
proof -
  have "length (dropWhile P s) < length s" if "takeWhile P s \<noteq> []" for P
    using that by (cases s) (auto simp: length_dropWhile_le less_Suc_eq_le split: if_splits)
  moreover have "takeWhile number_char s \<noteq> []" if "valid_number (takeWhile number_char s)"
    using that by (auto simp: valid_number_def)
  moreover have "HasPrefix s p \<Longrightarrow> p \<noteq> [] \<Longrightarrow> length (drop (length p) s) < length s" for p
    by (auto elim!: HasPrefixE)
  from this [of "''null''"] this [of "''true''"] this [of "''false''"] 
  show "parse_scalar s = Some (v, t) \<Longrightarrow> length t < length s"
    using calculation by (auto simp: parse_scalar_def Let_def split: if_splits)
qed

text \<open>Two value parsers that agree, and consume, on texts of at most \<open>l\<close> bytes.\<close>

definition agree :: "nat \<Rightarrow> (string \<Rightarrow> (json \<times> string) option) \<Rightarrow> (string \<Rightarrow> (json \<times> string) option) \<Rightarrow> bool" where
  "agree l pv qv \<longleftrightarrow>
     (\<forall>u. length u \<le> l \<longrightarrow> pv u = qv u \<and> (\<forall>v t. pv u = Some (v, t) \<longrightarrow> length t < length u))"

lemma agreeD:
  assumes "agree l pv qv" and "length u \<le> l"
  shows "pv u = qv u" and "pv u = Some (v, t) \<Longrightarrow> length t < length u"
  using assms by (auto simp: agree_def)

lemma agree_mono: "agree l pv qv \<Longrightarrow> k \<le> l \<Longrightarrow> agree k pv qv"
  by (simp add: agree_def)

lemma parse_elements_stable:
  assumes "agree (length s) pv qv" and "length s < n" and "length s < m"
  shows "parse_elements pv n s = parse_elements qv m s
    \<and> (\<forall>vs t. parse_elements pv n s = Some (vs, t) \<longrightarrow> length t < length s)"
  using assms
proof (induction n arbitrary: s m)
  case (Suc n)
  obtain k where m: "m = Suc k" using Suc.prems(3) by (cases m) auto
  show ?case
  proof (cases "pv s")
    case None
    then show ?thesis using agreeD(1) [OF Suc.prems(1), of s] by (simp add: m)
  next
    case (Some p)
    obtain v t where p: "p = (v, t)" by (cases p)
    note t = agreeD [OF Suc.prems(1), of s] 
    have len: "length t < length s" using t(2) Some p by simp
    show ?thesis
    proof (cases "expect (CHR '','') t")
      case None
      then show ?thesis
        using t(1) Some len by (auto simp: m p dest: expect_shorter split: option.splits)
    next
      case u: (Some u)
      have ul: "length u < length s" using expect_shorter [OF u] len by simp
      have "agree (length u) pv qv" using agree_mono [OF Suc.prems(1)] ul by simp
      from Suc.IH [OF this, of k] ul Suc.prems(2,3)
      have "parse_elements pv n u = parse_elements qv k u"
        "\<And>vs w. parse_elements pv n u = Some (vs, w) \<Longrightarrow> length w < length u"
        by (auto simp: m)
      then show ?thesis
        using t(1) Some len u ul expect_shorter [of "CHR '']''" t]
        by (fastforce simp: m p split: option.splits)
    qed
  qed
qed simp

lemma parse_members_stable:
  assumes "agree (length s) pv qv" and "length s < n" and "length s < m"
  shows "parse_members pv n s = parse_members qv m s
    \<and> (\<forall>ms t. parse_members pv n s = Some (ms, t) \<longrightarrow> length t < length s)"
  using assms
proof (induction n arbitrary: s m)
  case (Suc n)
  obtain k where m: "m = Suc k" using Suc.prems(3) by (cases m) auto
  show ?case
  proof (cases "Option.bind (expect (CHR 0x22) s) parse_string")
    case None
    then show ?thesis by (simp add: m)
  next
    case (Some p)
    obtain x t where p: "p = (x, t)" by (cases p)
    have t: "length t < length s"
      using Some by (auto simp: p bind_eq_Some_conv dest!: expect_shorter parse_string_shorter)
    have val: "Option.bind (expect (CHR '':'') t) pv = Option.bind (expect (CHR '':'') t) qv"
      "Option.bind (expect (CHR '':'') t) pv = Some (v, u) \<Longrightarrow> length u < length t" for v u
      using t agreeD [OF Suc.prems(1), of "the (expect (CHR '':'') t)"] expect_shorter [of "CHR '':''" t]
      by (cases "expect (CHR '':'') t"; fastforce)+
    show ?thesis
    proof (cases "Option.bind (expect (CHR '':'') t) pv")
      case None
      then show ?thesis using Some val(1) by (simp add: m p)
    next
      case vu: (Some q)
      obtain v u where q: "q = (v, u)" by (cases q)
      have ul: "length u < length s" using val(2) vu t by (simp add: q)
      show ?thesis
      proof (cases "expect (CHR '','') u")
        case None
        then show ?thesis
          using Some vu val(1) ul by (auto simp: m p q dest: expect_shorter split: option.splits)
      next
        case w: (Some w)
        have wl: "length w < length s" using expect_shorter [OF w] ul by simp
        have "agree (length w) pv qv" using agree_mono [OF Suc.prems(1)] wl by simp
        from Suc.IH [OF this, of k] wl Suc.prems(2,3)
        have "parse_members pv n w = parse_members qv k w"
          "\<And>ms y. parse_members pv n w = Some (ms, y) \<Longrightarrow> length y < length w"
          by (auto simp: m)
        then show ?thesis
          using Some vu val(1) ul w wl expect_shorter [of "CHR ''}''" u]
          by (fastforce simp: m p q split: option.splits)
      qed
    qed
  qed
qed simp

lemma parse_value_stable: "agree l (parse_value (Suc (l + i))) (parse_value (Suc (l + j)))"
proof (induction l arbitrary: i j rule: less_induct)
  case (less l)
  show ?case
    unfolding agree_def
  proof (intro allI impI)
    fix s :: string assume s: "length s \<le> l"
    show "parse_value (Suc (l + i)) s = parse_value (Suc (l + j)) s
      \<and> (\<forall>v t. parse_value (Suc (l + i)) s = Some (v, t) \<longrightarrow> length t < length s)"
    proof (cases "skip_ws s")
      case Nil
      then show ?thesis by simp
    next
      case (Cons c r)
      have r: "length r < length s" using length_skip_ws [of s] Cons by simp
      define k where "k = l - Suc (length r)"
      have k: "l = Suc (length r + k)" using r s by (simp add: k_def)
      have ag: "agree (length r) (parse_value (l + i)) (parse_value (l + j))"
        using less.IH [of "length r" "k + i" "k + j"] by (simp add: k add.assoc del: parse_value.simps)
      have n: "length r < l + i" "length r < l + j" using r s by simp_all
      note m = parse_members_stable [OF ag n] and e = parse_elements_stable [OF ag n]
      consider "c = CHR ''{''" | "c = CHR ''[''" | "c = CHR 0x22" | "c \<notin> {CHR ''{'', CHR ''['', CHR 0x22}" by blast
      then show ?thesis
      proof cases
        case 1
        then show ?thesis using m r expect_shorter [of "CHR ''}''" r]
          by (fastforce simp: Cons split: option.splits)
      next
        case 2
        then show ?thesis using e r expect_shorter [of "CHR '']''" r]
          by (fastforce simp: Cons split: option.splits)
      next
        case 3
        then show ?thesis using r by (auto simp: Cons dest: parse_string_shorter)
      next
        case 4
        then show ?thesis using r by (auto simp: Cons dest: parse_scalar_shorter)
      qed
    qed
  qed
qed

lemma ParseJson_fuel: "length s < n \<Longrightarrow> parse_value n s = ParseJson s"
  using agreeD(1) [OF parse_value_stable [of "length s" "n - Suc (length s)" 0], of s]
  by (simp add: ParseJson_def)

end
