(* ===== verification/Job_Domain.thy ===== *)
theory Job_Domain
  imports Prelude
begin

text \<open>
  The job domain of \<^verbatim>\<open>src/internal/job\<close>: states, failure codes, actions, events, the
  persistent entities \<^verbatim>\<open>Job\<close> and \<^verbatim>\<open>JobEvent\<close>, the limits of the engine, and the pure
  validators. Go's string-typed enumerations stay strings; their constants are opaque
  definitions with distinctness lemmas, so that proofs never compare characters.
\<close>

section \<open>Constants of job.go, state.go and action.go\<close>

definition StateQueued :: string where "StateQueued = ''queued''"
definition StateDispatched :: string where "StateDispatched = ''dispatched''"
definition StateRunning :: string where "StateRunning = ''running''"
definition StateSucceeded :: string where "StateSucceeded = ''succeeded''"
definition StateFailed :: string where "StateFailed = ''failed''"
definition StateUnknown :: string where "StateUnknown = ''unknown''"

lemmas state_consts = StateQueued_def StateDispatched_def StateRunning_def
  StateSucceeded_def StateFailed_def StateUnknown_def

lemma state_distinct [simp]:
  "distinct [StateQueued, StateDispatched, StateRunning, StateSucceeded, StateFailed, StateUnknown]"
  by (simp add: state_consts)

lemma state_neq [simp]:
  "StateQueued \<noteq> StateDispatched" "StateQueued \<noteq> StateRunning" "StateQueued \<noteq> StateSucceeded"
  "StateQueued \<noteq> StateFailed" "StateQueued \<noteq> StateUnknown"
  "StateDispatched \<noteq> StateQueued" "StateDispatched \<noteq> StateRunning"
  "StateDispatched \<noteq> StateSucceeded" "StateDispatched \<noteq> StateFailed"
  "StateDispatched \<noteq> StateUnknown"
  "StateRunning \<noteq> StateQueued" "StateRunning \<noteq> StateDispatched" "StateRunning \<noteq> StateSucceeded"
  "StateRunning \<noteq> StateFailed" "StateRunning \<noteq> StateUnknown"
  "StateSucceeded \<noteq> StateQueued" "StateSucceeded \<noteq> StateDispatched"
  "StateSucceeded \<noteq> StateRunning" "StateSucceeded \<noteq> StateFailed" "StateSucceeded \<noteq> StateUnknown"
  "StateFailed \<noteq> StateQueued" "StateFailed \<noteq> StateDispatched" "StateFailed \<noteq> StateRunning"
  "StateFailed \<noteq> StateSucceeded" "StateFailed \<noteq> StateUnknown"
  "StateUnknown \<noteq> StateQueued" "StateUnknown \<noteq> StateDispatched" "StateUnknown \<noteq> StateRunning"
  "StateUnknown \<noteq> StateSucceeded" "StateUnknown \<noteq> StateFailed"
  by (simp_all add: state_consts)

definition FailureCodeExecutorError :: string where
  "FailureCodeExecutorError = ''executor_error''"
definition FailureCodeDispatchExhausted :: string where
  "FailureCodeDispatchExhausted = ''dispatch_exhausted''"
definition FailureCodeExecutionTimeout :: string where
  "FailureCodeExecutionTimeout = ''execution_timeout''"

lemmas failure_code_consts = FailureCodeExecutorError_def FailureCodeDispatchExhausted_def
  FailureCodeExecutionTimeout_def

lemma failure_code_neq [simp]:
  "FailureCodeExecutorError \<noteq> FailureCodeDispatchExhausted"
  "FailureCodeExecutorError \<noteq> FailureCodeExecutionTimeout"
  "FailureCodeDispatchExhausted \<noteq> FailureCodeExecutorError"
  "FailureCodeDispatchExhausted \<noteq> FailureCodeExecutionTimeout"
  "FailureCodeExecutionTimeout \<noteq> FailureCodeExecutorError"
  "FailureCodeExecutionTimeout \<noteq> FailureCodeDispatchExhausted"
  "FailureCodeExecutorError \<noteq> []" "FailureCodeDispatchExhausted \<noteq> []"
  "FailureCodeExecutionTimeout \<noteq> []"
  by (simp_all add: failure_code_consts)

definition ActionAgentPing :: string where "ActionAgentPing = ''agent.ping''"

definition EventJobCreated :: string where "EventJobCreated = ''job.created''"
definition EventJobDispatched :: string where "EventJobDispatched = ''job.dispatched''"
definition EventJobRequeued :: string where "EventJobRequeued = ''job.requeued''"
definition EventJobStarted :: string where "EventJobStarted = ''job.started''"
definition EventJobSucceeded :: string where "EventJobSucceeded = ''job.succeeded''"
definition EventJobFailed :: string where "EventJobFailed = ''job.failed''"
definition EventJobUnknown :: string where "EventJobUnknown = ''job.unknown''"

lemmas event_consts = EventJobCreated_def EventJobDispatched_def EventJobRequeued_def
  EventJobStarted_def EventJobSucceeded_def EventJobFailed_def EventJobUnknown_def

lemma event_neq [simp]:
  "EventJobCreated \<noteq> EventJobDispatched" "EventJobCreated \<noteq> EventJobRequeued"
  "EventJobCreated \<noteq> EventJobStarted" "EventJobCreated \<noteq> EventJobSucceeded"
  "EventJobCreated \<noteq> EventJobFailed" "EventJobCreated \<noteq> EventJobUnknown"
  "EventJobDispatched \<noteq> EventJobCreated" "EventJobDispatched \<noteq> EventJobRequeued"
  "EventJobDispatched \<noteq> EventJobStarted" "EventJobDispatched \<noteq> EventJobSucceeded"
  "EventJobDispatched \<noteq> EventJobFailed" "EventJobDispatched \<noteq> EventJobUnknown"
  "EventJobRequeued \<noteq> EventJobCreated" "EventJobRequeued \<noteq> EventJobDispatched"
  "EventJobRequeued \<noteq> EventJobStarted" "EventJobRequeued \<noteq> EventJobSucceeded"
  "EventJobRequeued \<noteq> EventJobFailed" "EventJobRequeued \<noteq> EventJobUnknown"
  "EventJobStarted \<noteq> EventJobCreated" "EventJobStarted \<noteq> EventJobDispatched"
  "EventJobStarted \<noteq> EventJobRequeued" "EventJobStarted \<noteq> EventJobSucceeded"
  "EventJobStarted \<noteq> EventJobFailed" "EventJobStarted \<noteq> EventJobUnknown"
  "EventJobSucceeded \<noteq> EventJobCreated" "EventJobSucceeded \<noteq> EventJobDispatched"
  "EventJobSucceeded \<noteq> EventJobRequeued" "EventJobSucceeded \<noteq> EventJobStarted"
  "EventJobSucceeded \<noteq> EventJobFailed" "EventJobSucceeded \<noteq> EventJobUnknown"
  "EventJobFailed \<noteq> EventJobCreated" "EventJobFailed \<noteq> EventJobDispatched"
  "EventJobFailed \<noteq> EventJobRequeued" "EventJobFailed \<noteq> EventJobStarted"
  "EventJobFailed \<noteq> EventJobSucceeded" "EventJobFailed \<noteq> EventJobUnknown"
  "EventJobUnknown \<noteq> EventJobCreated" "EventJobUnknown \<noteq> EventJobDispatched"
  "EventJobUnknown \<noteq> EventJobRequeued" "EventJobUnknown \<noteq> EventJobStarted"
  "EventJobUnknown \<noteq> EventJobSucceeded" "EventJobUnknown \<noteq> EventJobFailed"
  by (simp_all add: event_consts)

definition ActorTypeOperator :: string where "ActorTypeOperator = ''operator''"
definition ActorTypeAgent :: string where "ActorTypeAgent = ''agent''"
definition ActorTypeController :: string where "ActorTypeController = ''controller''"

definition DispatchLease :: time where "DispatchLease = 30 * second"
definition MaxDispatchAttempts :: int where "MaxDispatchAttempts = 5"
definition ExecutionResultDeadline :: time where "ExecutionResultDeadline = 60 * second"
definition MaxActiveJobsPerAgent :: int where "MaxActiveJobsPerAgent = 64"

lemma durations_pos [simp]: "0 < DispatchLease" "0 < ExecutionResultDeadline"
  by (simp_all add: DispatchLease_def ExecutionResultDeadline_def second_def)

section \<open>Entities\<close>

record Job =
  j_ID :: uuid
  j_AgentID :: uuid
  j_CreatedByOperatorID :: uuid
  j_CreatedByUsername :: string
  j_IdempotencyKeyHash :: bytes
  j_ActionType :: string
  j_State :: string
  j_Attempt :: int
  j_FailureCode :: "string option"
  j_CreatedAt :: time
  j_UpdatedAt :: time
  j_DispatchedAt :: "time option"
  j_DispatchExpiresAt :: "time option"
  j_StartedAt :: "time option"
  j_ExecutionDeadlineAt :: "time option"
  j_FinishedAt :: "time option"

record JobEvent =
  e_ID :: uuid
  e_JobID :: uuid
  e_EventType :: string
  e_Attempt :: int
  e_ActorType :: string
  e_ActorIdentifier :: string
  e_FailureCode :: "string option"
  e_OccurredAt :: time

section \<open>Validators\<close>

definition ValidateAction :: "string \<Rightarrow> unit result" where
  "ValidateAction action = (if action = ActionAgentPing then Inr () else Inl ErrInvalidAction)"

definition IsTerminal :: "string \<Rightarrow> bool" where
  "IsTerminal s \<longleftrightarrow> s = StateSucceeded \<or> s = StateFailed \<or> s = StateUnknown"

definition State_Valid :: "string \<Rightarrow> bool" where
  "State_Valid s \<longleftrightarrow> s \<in> {StateQueued, StateDispatched, StateRunning, StateSucceeded,
     StateFailed, StateUnknown}"

definition FailureCode_Valid :: "string \<Rightarrow> bool" where
  "FailureCode_Valid fc \<longleftrightarrow> fc \<in> {FailureCodeExecutorError, FailureCodeDispatchExhausted,
     FailureCodeExecutionTimeout}"

definition ValidateTransition :: "string \<Rightarrow> string \<Rightarrow> unit result" where
  "ValidateTransition from to =
     (if from = StateQueued \<and> to = StateDispatched then Inr ()
      else if from = StateDispatched
        \<and> (to = StateRunning \<or> to = StateQueued \<or> to = StateFailed) then Inr ()
      else if from = StateRunning
        \<and> (to = StateSucceeded \<or> to = StateFailed \<or> to = StateUnknown) then Inr ()
      else Inl (ErrWrap ''cannot transition'' ErrInvalidStateTransition))"

definition ValidateStateFailureCode :: "string \<Rightarrow> string option \<Rightarrow> unit result" where
  "ValidateStateFailureCode state fc =
     (if state \<in> {StateSucceeded, StateQueued, StateDispatched, StateRunning} then
        (case fc of
           Some code \<Rightarrow>
             (if code \<noteq> [] then
                Inl (ErrWrap ''failure code must be empty'' ErrInvalidFailureCode)
              else Inr ())
         | None \<Rightarrow> Inr ())
      else if state = StateFailed then
        (case fc of
           None \<Rightarrow> Inl (ErrWrap ''failed state requires a code'' ErrInvalidFailureCode)
         | Some code \<Rightarrow>
             (if code \<noteq> FailureCodeExecutorError \<and> code \<noteq> FailureCodeDispatchExhausted then
                Inl (ErrWrap ''failed state requires a code'' ErrInvalidFailureCode)
              else Inr ()))
      else if state = StateUnknown then
        (case fc of
           None \<Rightarrow> Inl (ErrWrap ''unknown state requires a code'' ErrInvalidFailureCode)
         | Some code \<Rightarrow>
             (if code \<noteq> FailureCodeExecutionTimeout then
                Inl (ErrWrap ''unknown state requires a code'' ErrInvalidFailureCode)
              else Inr ()))
      else Inl (ErrOther ''unknown state''))"

definition idempotency_byte :: "char \<Rightarrow> bool" where
  "idempotency_byte b \<longleftrightarrow>
     (CHR ''A'' \<le> b \<and> b \<le> CHR ''Z'') \<or> (CHR ''a'' \<le> b \<and> b \<le> CHR ''z'')
     \<or> (CHR ''0'' \<le> b \<and> b \<le> CHR ''9'') \<or> b = CHR ''.'' \<or> b = CHR ''_'' \<or> b = CHR '':''
     \<or> b = CHR ''-''"

fun scan_key :: "string \<Rightarrow> unit result" where
  "scan_key [] = Inr ()"
| "scan_key (b # bs) =
     (if \<not> idempotency_byte b then
        Inl (ErrWrap ''contains invalid character byte'' ErrInvalidIdempotencyKey)
      else scan_key bs)"

definition ValidateIdempotencyKey :: "string \<Rightarrow> unit result" where
  "ValidateIdempotencyKey key =
     (let n = length key in
      if n < 16 \<or> n > 128 then
        Inl (ErrWrap ''length must be between 16 and 128 bytes'' ErrInvalidIdempotencyKey)
      else scan_key key)"

text \<open>
  \<^verbatim>\<open>uuid.Parse\<close> and \<^verbatim>\<open>UUID.String\<close> belong to \<^verbatim>\<open>github.com/google/uuid\<close>: they are the arguments
  \<open>uuid_Parse\<close> and \<open>uuid_String\<close>.
\<close>

definition ValidateCanonicalUUID ::
  "(string \<Rightarrow> uuid option) \<Rightarrow> (uuid \<Rightarrow> string) \<Rightarrow> string \<Rightarrow> uuid result" where
  "ValidateCanonicalUUID uuid_Parse uuid_String s =
     (case uuid_Parse s of
        None \<Rightarrow> Inl (ErrWrap ''parse'' ErrInvalidUUID)
      | Some u \<Rightarrow>
          (if uuid_String u \<noteq> s then
             Inl (ErrWrap ''non-canonical UUID representation'' ErrInvalidUUID)
           else Inr u))"

section \<open>Facts about the validators\<close>

lemma scan_key_ok: "scan_key key = Inr () \<longleftrightarrow> list_all idempotency_byte key"
  by (induction key) auto

lemma ValidateTransition_edges:
  "ValidateTransition s t = Inr () \<longleftrightarrow>
     (s, t) \<in> {(StateQueued, StateDispatched), (StateDispatched, StateRunning),
       (StateDispatched, StateQueued), (StateDispatched, StateFailed),
       (StateRunning, StateSucceeded), (StateRunning, StateFailed), (StateRunning, StateUnknown)}"
  by (auto simp: ValidateTransition_def)

lemma ValidateTransition_cases:
  assumes "ValidateTransition s t = Inr ()"
  shows "State_Valid s \<and> State_Valid t \<and> \<not> IsTerminal s \<and> t \<noteq> s"
  using assms by (auto simp: ValidateTransition_edges State_Valid_def IsTerminal_def)

end
