(* ===== verification/Wire_Protocol.thy ===== *)
theory Wire_Protocol
  imports Job_Domain Go_Strings
begin

text \<open>
  The agent protocol of \<^verbatim>\<open>src/internal/protocol/protocol.go\<close>: the payloads as records and the
  validators both sides run on them. Go's \<^verbatim>\<open>int\<close> and \<^verbatim>\<open>int64\<close> fields are integers; the
  subtractions the code performs on them are wrapped to 64 bits explicitly.
\<close>

definition CurrentVersion :: int where "CurrentVersion = 2"

definition in_int64 :: "int \<Rightarrow> bool" where
  "in_int64 x \<longleftrightarrow> - (2 ^ 63) \<le> x \<and> x < 2 ^ 63"

definition wrap64 :: "int \<Rightarrow> int" where
  "wrap64 x = (x + 2 ^ 63) mod 2 ^ 64 - 2 ^ 63"

lemma wrap64_id: "in_int64 x \<Longrightarrow> wrap64 x = x"
  by (simp add: in_int64_def wrap64_def)

lemma wrap64_range: "in_int64 (wrap64 x)"
  by (simp add: in_int64_def wrap64_def)

section \<open>Payloads\<close>

record JobAssignment =
  ja_JobID :: string
  ja_Attempt :: int
  ja_Action :: string

record HeartbeatResponse =
  hr_ProtocolVersion :: int
  hr_Job :: "JobAssignment option"

record JobStartRequest =
  js_ProtocolVersion :: int
  js_JobID :: string
  js_Attempt :: int

record JobCompleteRequest =
  jc_ProtocolVersion :: int
  jc_JobID :: string
  jc_Attempt :: int
  jc_Outcome :: string
  jc_FailureCode :: string

record HeartbeatRequest =
  hb_ProtocolVersion :: int

record InventoryRequest =
  ir_ProtocolVersion :: int
  ir_Hostname :: string
  ir_OSID :: string
  ir_OSName :: string
  ir_OSVersion :: string
  ir_KernelRelease :: string
  ir_Architecture :: string
  ir_CPULogicalCores :: int
  ir_MemoryTotalBytes :: int

record TelemetryRequest =
  tr_ProtocolVersion :: int
  tr_CPUUsageBasisPoints :: int
  tr_MemoryTotalBytes :: int
  tr_MemoryUsedBytes :: int
  tr_MemoryAvailableBytes :: int
  tr_Load1mMilli :: int
  tr_Load5mMilli :: int
  tr_Load15mMilli :: int
  tr_RootFilesystemTotalBytes :: int
  tr_RootFilesystemUsedBytes :: int
  tr_RootFilesystemAvailableBytes :: int
  tr_NetworkReceiveBytesTotal :: int
  tr_NetworkTransmitBytesTotal :: int
  tr_UptimeSeconds :: int
  tr_SampleWindowMS :: int

section \<open>Validators\<close>

definition ValidateInventoryString :: "string \<Rightarrow> int \<Rightarrow> int \<Rightarrow> unit result" where
  "ValidateInventoryString s minLen maxLen =
     (if \<not> ValidString s then Inl (ErrOther ''invalid UTF-8'')
      else let charCount = int (RuneCountInString s) in
        if charCount < minLen \<or> charCount > maxLen then Inl (ErrOther ''length out of range'')
        else if s \<noteq> TrimSpace s then
          Inl (ErrOther ''leading or trailing whitespace not allowed'')
        else if list_ex (\<lambda>r. r = 0 \<or> unicode_IsControl r) (runes s) then
          Inl (ErrOther ''control characters not allowed'')
        else Inr ())"

definition osid_byte :: "char \<Rightarrow> bool" where
  "osid_byte b \<longleftrightarrow> (CHR ''a'' \<le> b \<and> b \<le> CHR ''z'') \<or> (CHR ''0'' \<le> b \<and> b \<le> CHR ''9'')
     \<or> (b = CHR ''.'' \<or> b = CHR ''_'' \<or> b = CHR ''-'')"

definition ValidateOSID :: "string \<Rightarrow> unit result" where
  "ValidateOSID s =
     (case ValidateInventoryString s 1 64 of
        Inl e \<Rightarrow> Inl e
      | Inr _ \<Rightarrow>
          (if list_all osid_byte s then Inr ()
           else Inl (ErrOther ''must contain only lowercase ASCII letters, digits, dot, underscore, or hyphen'')))"

text \<open>\<^verbatim>\<open>if err := v; err != nil { return fmt.Errorf(msg, err) }\<close>, then the rest.\<close>

definition check :: "string \<Rightarrow> unit result \<Rightarrow> unit result \<Rightarrow> unit result" where
  "check msg v rest = (case v of Inl e \<Rightarrow> Inl (ErrWrap msg e) | Inr _ \<Rightarrow> rest)"

lemma check_ok [simp]: "check msg v rest = Inr () \<longleftrightarrow> v = Inr () \<and> rest = Inr ()"
  by (auto simp: check_def split: sum.splits)

definition ValidateInventoryRequest :: "InventoryRequest option \<Rightarrow> unit result" where
  "ValidateInventoryRequest req_ptr =
     (case req_ptr of
        None \<Rightarrow> Inl (ErrOther ''inventory request is nil'')
      | Some req \<Rightarrow>
        (if ir_ProtocolVersion req \<le> 0 then Inl (ErrOther ''invalid protocol version'')
         else check ''invalid hostname'' (ValidateInventoryString (ir_Hostname req) 1 255)
          (check ''invalid os_id'' (ValidateOSID (ir_OSID req))
          (check ''invalid os_name'' (ValidateInventoryString (ir_OSName req) 1 128)
          (check ''invalid os_version'' (ValidateInventoryString (ir_OSVersion req) 0 128)
          (check ''invalid kernel_release'' (ValidateInventoryString (ir_KernelRelease req) 1 128)
          (check ''invalid architecture'' (ValidateInventoryString (ir_Architecture req) 1 32)
          (if ir_CPULogicalCores req \<le> 0 \<or> ir_CPULogicalCores req > 1048576 then
             Inl (ErrOther ''invalid cpu_logical_cores: must be between 1 and 1048576'')
           else if ir_MemoryTotalBytes req \<le> 0 then
             Inl (ErrOther ''invalid memory_total_bytes: must be > 0'')
           else Inr ()))))))))"

definition ValidateTelemetryRequest :: "TelemetryRequest option \<Rightarrow> unit result" where
  "ValidateTelemetryRequest req_ptr =
     (case req_ptr of
        None \<Rightarrow> Inl (ErrOther ''telemetry request is nil'')
      | Some req \<Rightarrow>
        (if tr_ProtocolVersion req \<le> 0 then Inl (ErrOther ''invalid protocol version'')
         else if tr_CPUUsageBasisPoints req < 0 \<or> tr_CPUUsageBasisPoints req > 10000 then
           Inl (ErrOther ''invalid cpu_usage_basis_points: must be between 0 and 10000'')
         else if tr_MemoryTotalBytes req \<le> 0 then
           Inl (ErrOther ''invalid memory_total_bytes: must be > 0'')
         else if tr_MemoryAvailableBytes req < 0
             \<or> tr_MemoryAvailableBytes req > tr_MemoryTotalBytes req then
           Inl (ErrOther ''invalid memory_available_bytes: must be between 0 and memory_total_bytes'')
         else if tr_MemoryUsedBytes req < 0 \<or> tr_MemoryUsedBytes req
             \<noteq> wrap64 (tr_MemoryTotalBytes req - tr_MemoryAvailableBytes req) then
           Inl (ErrOther ''invalid memory_used_bytes: must equal memory_total_bytes - memory_available_bytes'')
         else if tr_Load1mMilli req < 0 \<or> tr_Load5mMilli req < 0 \<or> tr_Load15mMilli req < 0 then
           Inl (ErrOther ''invalid load average: must be non-negative'')
         else if tr_RootFilesystemTotalBytes req \<le> 0 then
           Inl (ErrOther ''invalid root_filesystem_total_bytes: must be > 0'')
         else if tr_RootFilesystemUsedBytes req < 0
             \<or> tr_RootFilesystemUsedBytes req > tr_RootFilesystemTotalBytes req then
           Inl (ErrOther ''invalid root_filesystem_used_bytes: must be between 0 and root_filesystem_total_bytes'')
         else if tr_RootFilesystemAvailableBytes req < 0
             \<or> tr_RootFilesystemAvailableBytes req
               > wrap64 (tr_RootFilesystemTotalBytes req - tr_RootFilesystemUsedBytes req) then
           Inl (ErrOther ''invalid root_filesystem_available_bytes: must be between 0 and total - used'')
         else if tr_NetworkReceiveBytesTotal req < 0 \<or> tr_NetworkTransmitBytesTotal req < 0 then
           Inl (ErrOther ''invalid network byte counters: must be non-negative'')
         else if tr_UptimeSeconds req < 0 then
           Inl (ErrOther ''invalid uptime_seconds: must be non-negative'')
         else if tr_SampleWindowMS req < 1 \<or> tr_SampleWindowMS req > 300000 then
           Inl (ErrOther ''invalid sample_window_ms: must be between 1 and 300000'')
         else Inr ()))"

definition ValidateJobStartRequest ::
  "(string \<Rightarrow> uuid option) \<Rightarrow> (uuid \<Rightarrow> string) \<Rightarrow> JobStartRequest option \<Rightarrow> unit result" where
  "ValidateJobStartRequest uuid_Parse uuid_String req_ptr =
     (case req_ptr of
        None \<Rightarrow> Inl (ErrOther ''job start request is nil'')
      | Some req \<Rightarrow>
        (if js_ProtocolVersion req \<le> 0 then Inl (ErrOther ''invalid protocol version'')
         else if js_ProtocolVersion req \<noteq> CurrentVersion then
           Inl (ErrOther ''unsupported protocol version'')
         else case ValidateCanonicalUUID uuid_Parse uuid_String (js_JobID req) of
           Inl e \<Rightarrow> Inl (ErrWrap ''invalid job_id'' e)
         | Inr _ \<Rightarrow>
           (if js_Attempt req < 1 \<or> js_Attempt req > MaxDispatchAttempts then
              Inl (ErrOther ''attempt out of range'')
            else Inr ())))"

definition ValidateJobCompleteRequest ::
  "(string \<Rightarrow> uuid option) \<Rightarrow> (uuid \<Rightarrow> string) \<Rightarrow> JobCompleteRequest option \<Rightarrow> unit result" where
  "ValidateJobCompleteRequest uuid_Parse uuid_String req_ptr =
     (case req_ptr of
        None \<Rightarrow> Inl (ErrOther ''job complete request is nil'')
      | Some req \<Rightarrow>
        (if jc_ProtocolVersion req \<le> 0 then Inl (ErrOther ''invalid protocol version'')
         else if jc_ProtocolVersion req \<noteq> CurrentVersion then
           Inl (ErrOther ''unsupported protocol version'')
         else case ValidateCanonicalUUID uuid_Parse uuid_String (jc_JobID req) of
           Inl e \<Rightarrow> Inl (ErrWrap ''invalid job_id'' e)
         | Inr _ \<Rightarrow>
           (if jc_Attempt req < 1 \<or> jc_Attempt req > MaxDispatchAttempts then
              Inl (ErrOther ''attempt out of range'')
            else if jc_Outcome req = StateSucceeded then
              (if jc_FailureCode req \<noteq> [] then
                 Inl (ErrOther ''failure_code must be empty for succeeded outcome'')
               else Inr ())
            else if jc_Outcome req = StateFailed then
              (if jc_FailureCode req \<noteq> FailureCodeExecutorError then
                 Inl (ErrOther ''failed outcome requires failure_code'')
               else Inr ())
            else Inl (ErrOther ''invalid outcome''))))"

definition ValidateJobAssignment ::
  "(string \<Rightarrow> uuid option) \<Rightarrow> (uuid \<Rightarrow> string) \<Rightarrow> JobAssignment option \<Rightarrow> unit result" where
  "ValidateJobAssignment uuid_Parse uuid_String ja_ptr =
     (case ja_ptr of
        None \<Rightarrow> Inl (ErrOther ''job assignment is nil'')
      | Some ja \<Rightarrow>
        (case ValidateCanonicalUUID uuid_Parse uuid_String (ja_JobID ja) of
           Inl e \<Rightarrow> Inl (ErrWrap ''invalid job_id'' e)
         | Inr _ \<Rightarrow>
           (if ja_Attempt ja < 1 \<or> ja_Attempt ja > MaxDispatchAttempts then
              Inl (ErrOther ''attempt out of range'')
            else if ja_Action ja \<noteq> ActionAgentPing then Inl (ErrOther ''invalid action'')
            else Inr ())))"

section \<open>What an accepted payload satisfies\<close>

lemma ValidateInventoryString_ok:
  assumes "ValidateInventoryString s lo hi = Inr ()"
  shows "ValidString s" "lo \<le> int (RuneCountInString s)" "int (RuneCountInString s) \<le> hi"
    "TrimSpace s = s" "\<forall>r\<in>set (runes s). r \<noteq> 0 \<and> \<not> unicode_IsControl r"
  using assms
  by (auto simp: ValidateInventoryString_def Let_def list_ex_iff split: if_splits)

lemma ValidateOSID_ok:
  assumes "ValidateOSID s = Inr ()"
  shows "ValidateInventoryString s 1 64 = Inr ()" "list_all osid_byte s"
  using assms by (auto simp: ValidateOSID_def split: sum.splits if_splits)

text \<open>Any printable ASCII text without spaces is accepted when its length is in range.\<close>

definition printable :: "string \<Rightarrow> bool" where
  "printable s \<longleftrightarrow> list_all (\<lambda>c. 0x21 \<le> (of_char c :: nat) \<and> (of_char c :: nat) \<le> 0x7E) s"

lemma printable_trim: "printable s \<Longrightarrow> TrimSpace s = s"
proof -
  assume p: "printable s"
  then have "is_ascii s" by (auto simp: printable_def is_ascii_def list_all_iff)
  moreover have keep: "strip_spaces xs = xs" if "set xs \<subseteq> set (rune_segments s)" for xs
    using p that rune_segments_ascii [OF \<open>is_ascii s\<close>]
    by (cases xs) (auto simp: strip_spaces_def printable_def list_all_iff unicode_IsSpace_def)
  ultimately show "TrimSpace s = s"
    by (simp add: TrimSpace_def rune_segments_concat)
qed

lemma printable_accepted:
  assumes "printable s" and "lo \<le> int (length s)" and "int (length s) \<le> hi"
  shows "ValidateInventoryString s lo hi = Inr ()"
proof -
  have ascii: "is_ascii s"
    using assms(1) by (auto simp: printable_def is_ascii_def list_all_iff)
  have "\<not> list_ex (\<lambda>r. r = 0 \<or> unicode_IsControl r) (runes s)"
    using assms(1)
    by (auto simp: runes_def rune_segments_ascii [OF ascii] list_ex_iff printable_def list_all_iff
        unicode_IsControl_def)
  then show ?thesis
    using assms ascii
    by (simp add: ValidateInventoryString_def ascii_valid ascii_rune_count printable_trim)
qed

text \<open>After the guards, neither 64-bit subtraction can wrap.\<close>

lemma wrap64_sub: "0 \<le> b \<Longrightarrow> b \<le> a \<Longrightarrow> in_int64 a \<Longrightarrow> wrap64 (a - b) = a - b"
  by (intro wrap64_id) (simp add: in_int64_def)

end
