(* ===== verification/Wire_Codec.thy ===== *)
theory Wire_Codec
  imports Json_Round_Trip Wire_Protocol
begin

text \<open>
  The JSON form of the agent protocol's payloads (the struct tags of
  \<^verbatim>\<open>src/internal/protocol/protocol.go\<close>): what \<^verbatim>\<open>json.Marshal\<close> writes and how the receiver's struct is
  filled. Every payload is an instance of one locale, in which decoding inverts encoding.
\<close>

section \<open>A wire format\<close>

locale wire_format =
  fixes fields :: "'r field list" and zero :: 'r and to_json :: "'r \<Rightarrow> json" and fits :: "'r \<Rightarrow> bool"
  assumes to_json_ok: "fits r \<Longrightarrow> json_ok (to_json r)"
    and fill: "fits r \<Longrightarrow> set_struct fields (to_json r) zero = Some r"
begin

lemma decodes: "fits r \<Longrightarrow> DecodeOne fields zero (render (to_json r)) = Decoded r"
  using ParseJson_render [OF to_json_ok, of r "[]"] by (simp add: DecodeOne_def fill skip_ws_def)

text \<open>\<^verbatim>\<open>json.Encoder\<close> ends the document with a newline.\<close>

lemma decodes_line: "fits r \<Longrightarrow> DecodeOne fields zero (render (to_json r) @ [CHR 0x0A]) = Decoded r"
  using ParseJson_render [OF to_json_ok, of r "[CHR 0x0A]"]
  by (simp add: DecodeOne_def fill skip_ws_def json_space_def)

lemma encode_injective: "fits r \<Longrightarrow> fits s \<Longrightarrow> render (to_json r) = render (to_json s) \<Longrightarrow> r = s"
  by (metis decodes decoded.inject)

end

abbreviation json_int :: "int \<Rightarrow> json" where
  "json_int i \<equiv> JNumber (FormatInt i)"

lemma set_int_json [simp]: "in_int64 i \<Longrightarrow> set_int upd (json_int i) r = Some (upd i r)"
  by (simp add: set_int_def in_int64_def ParseInt_FormatInt)

lemma set_string_json [simp]: "set_string upd (JString s) r = Some (upd s r)"
  by (simp add: set_string_def)

lemma valid_literals:
  "ValidString ''protocol_version''" "ValidString ''job_id''" "ValidString ''attempt''" "ValidString ''action''"
  "ValidString ''job''" "ValidString ''outcome''" "ValidString ''failure_code''"
  by (rule ascii_valid, simp add: is_ascii_def)+

section \<open>Heartbeats and jobs\<close>

definition HeartbeatRequest_fields :: "HeartbeatRequest field list" where
  "HeartbeatRequest_fields = [(''protocol_version'', set_int (\<lambda>i r. r\<lparr>hb_ProtocolVersion := i\<rparr>))]"

definition HeartbeatRequest_zero :: HeartbeatRequest where
  "HeartbeatRequest_zero = \<lparr>hb_ProtocolVersion = 0\<rparr>"

definition HeartbeatRequest_json :: "HeartbeatRequest \<Rightarrow> json" where
  "HeartbeatRequest_json r = JObject [(''protocol_version'', json_int (hb_ProtocolVersion r))]"

definition JobAssignment_fields :: "JobAssignment field list" where
  "JobAssignment_fields =
     [(''job_id'', set_string (\<lambda>s r. r\<lparr>ja_JobID := s\<rparr>)),
      (''attempt'', set_int (\<lambda>i r. r\<lparr>ja_Attempt := i\<rparr>)),
      (''action'', set_string (\<lambda>s r. r\<lparr>ja_Action := s\<rparr>))]"

definition JobAssignment_zero :: JobAssignment where
  "JobAssignment_zero = \<lparr>ja_JobID = [], ja_Attempt = 0, ja_Action = []\<rparr>"

definition JobAssignment_json :: "JobAssignment \<Rightarrow> json" where
  "JobAssignment_json r =
     JObject [(''job_id'', JString (ja_JobID r)), (''attempt'', json_int (ja_Attempt r)),
       (''action'', JString (ja_Action r))]"

definition HeartbeatResponse_fields :: "HeartbeatResponse field list" where
  "HeartbeatResponse_fields =
     [(''protocol_version'', set_int (\<lambda>i r. r\<lparr>hr_ProtocolVersion := i\<rparr>)),
      (''job'', set_pointer JobAssignment_fields JobAssignment_zero hr_Job (\<lambda>x r. r\<lparr>hr_Job := x\<rparr>))]"

definition HeartbeatResponse_zero :: HeartbeatResponse where
  "HeartbeatResponse_zero = \<lparr>hr_ProtocolVersion = 0, hr_Job = None\<rparr>"

definition HeartbeatResponse_json :: "HeartbeatResponse \<Rightarrow> json" where
  "HeartbeatResponse_json r =
     JObject ([(''protocol_version'', json_int (hr_ProtocolVersion r))]
       @ (case hr_Job r of None \<Rightarrow> [] | Some j \<Rightarrow> [(''job'', JobAssignment_json j)]))"

definition JobStartRequest_fields :: "JobStartRequest field list" where
  "JobStartRequest_fields =
     [(''protocol_version'', set_int (\<lambda>i r. r\<lparr>js_ProtocolVersion := i\<rparr>)),
      (''job_id'', set_string (\<lambda>s r. r\<lparr>js_JobID := s\<rparr>)),
      (''attempt'', set_int (\<lambda>i r. r\<lparr>js_Attempt := i\<rparr>))]"

definition JobStartRequest_zero :: JobStartRequest where
  "JobStartRequest_zero = \<lparr>js_ProtocolVersion = 0, js_JobID = [], js_Attempt = 0\<rparr>"

definition JobStartRequest_json :: "JobStartRequest \<Rightarrow> json" where
  "JobStartRequest_json r =
     JObject [(''protocol_version'', json_int (js_ProtocolVersion r)), (''job_id'', JString (js_JobID r)),
       (''attempt'', json_int (js_Attempt r))]"

definition JobCompleteRequest_fields :: "JobCompleteRequest field list" where
  "JobCompleteRequest_fields =
     [(''protocol_version'', set_int (\<lambda>i r. r\<lparr>jc_ProtocolVersion := i\<rparr>)),
      (''job_id'', set_string (\<lambda>s r. r\<lparr>jc_JobID := s\<rparr>)),
      (''attempt'', set_int (\<lambda>i r. r\<lparr>jc_Attempt := i\<rparr>)),
      (''outcome'', set_string (\<lambda>s r. r\<lparr>jc_Outcome := s\<rparr>)),
      (''failure_code'', set_string (\<lambda>s r. r\<lparr>jc_FailureCode := s\<rparr>))]"

definition JobCompleteRequest_zero :: JobCompleteRequest where
  "JobCompleteRequest_zero =
     \<lparr>jc_ProtocolVersion = 0, jc_JobID = [], jc_Attempt = 0, jc_Outcome = [], jc_FailureCode = []\<rparr>"

definition JobCompleteRequest_json :: "JobCompleteRequest \<Rightarrow> json" where
  "JobCompleteRequest_json r =
     JObject ([(''protocol_version'', json_int (jc_ProtocolVersion r)), (''job_id'', JString (jc_JobID r)),
       (''attempt'', json_int (jc_Attempt r)), (''outcome'', JString (jc_Outcome r))]
       @ (if jc_FailureCode r = [] then [] else [(''failure_code'', JString (jc_FailureCode r))]))"

text \<open>What fits on the wire unchanged: 64-bit integers and valid UTF-8.\<close>

definition JobAssignment_fits :: "JobAssignment \<Rightarrow> bool" where
  "JobAssignment_fits r \<longleftrightarrow> ValidString (ja_JobID r) \<and> in_int64 (ja_Attempt r) \<and> ValidString (ja_Action r)"

definition HeartbeatResponse_fits :: "HeartbeatResponse \<Rightarrow> bool" where
  "HeartbeatResponse_fits r \<longleftrightarrow> in_int64 (hr_ProtocolVersion r) \<and> pred_option JobAssignment_fits (hr_Job r)"

definition JobStartRequest_fits :: "JobStartRequest \<Rightarrow> bool" where
  "JobStartRequest_fits r \<longleftrightarrow>
     in_int64 (js_ProtocolVersion r) \<and> ValidString (js_JobID r) \<and> in_int64 (js_Attempt r)"

definition JobCompleteRequest_fits :: "JobCompleteRequest \<Rightarrow> bool" where
  "JobCompleteRequest_fits r \<longleftrightarrow> in_int64 (jc_ProtocolVersion r) \<and> ValidString (jc_JobID r)
     \<and> in_int64 (jc_Attempt r) \<and> ValidString (jc_Outcome r) \<and> ValidString (jc_FailureCode r)"

interpretation heartbeat_request: wire_format HeartbeatRequest_fields HeartbeatRequest_zero HeartbeatRequest_json
  "\<lambda>r. in_int64 (hb_ProtocolVersion r)"
  by unfold_locales
    (simp_all add: HeartbeatRequest_json_def HeartbeatRequest_fields_def HeartbeatRequest_zero_def
      FormatInt_ok [simplified] valid_literals set_struct_def find_field_def)

interpretation job_assignment: wire_format JobAssignment_fields JobAssignment_zero JobAssignment_json
  JobAssignment_fits
  by unfold_locales
    (simp_all add: JobAssignment_json_def JobAssignment_fields_def JobAssignment_zero_def
      JobAssignment_fits_def FormatInt_ok [simplified] valid_literals set_struct_def find_field_def)

interpretation heartbeat_response: wire_format HeartbeatResponse_fields HeartbeatResponse_zero
  HeartbeatResponse_json HeartbeatResponse_fits
proof unfold_locales
  fix r assume fits: "HeartbeatResponse_fits r"
  then show "json_ok (HeartbeatResponse_json r)"
    by (auto simp: HeartbeatResponse_json_def HeartbeatResponse_fits_def FormatInt_ok [simplified]
        valid_literals job_assignment.to_json_ok split: option.splits)
  have "JobAssignment_json j \<noteq> JNull" for j by (simp add: JobAssignment_json_def)
  then show "set_struct HeartbeatResponse_fields (HeartbeatResponse_json r) HeartbeatResponse_zero = Some r"
    using fits
    by (cases r) (auto simp: HeartbeatResponse_json_def HeartbeatResponse_fields_def HeartbeatResponse_zero_def
        HeartbeatResponse_fits_def set_struct_def find_field_def set_pointer_def
        job_assignment.fill [unfolded set_struct_def] split: option.splits)
qed

interpretation job_start: wire_format JobStartRequest_fields JobStartRequest_zero JobStartRequest_json
  JobStartRequest_fits
  by unfold_locales
    (simp_all add: JobStartRequest_json_def JobStartRequest_fields_def JobStartRequest_zero_def
      JobStartRequest_fits_def FormatInt_ok [simplified] valid_literals set_struct_def find_field_def)

interpretation job_complete: wire_format JobCompleteRequest_fields JobCompleteRequest_zero JobCompleteRequest_json
  JobCompleteRequest_fits
  by unfold_locales
    (auto simp: JobCompleteRequest_json_def JobCompleteRequest_fields_def JobCompleteRequest_zero_def
      JobCompleteRequest_fits_def FormatInt_ok [simplified] valid_literals set_struct_def find_field_def)

section \<open>Inventory and telemetry\<close>

definition InventoryRequest_fields :: "InventoryRequest field list" where
  "InventoryRequest_fields =
     [(''protocol_version'', set_int (\<lambda>i r. r\<lparr>ir_ProtocolVersion := i\<rparr>)),
      (''hostname'', set_string (\<lambda>s r. r\<lparr>ir_Hostname := s\<rparr>)),
      (''os_id'', set_string (\<lambda>s r. r\<lparr>ir_OSID := s\<rparr>)),
      (''os_name'', set_string (\<lambda>s r. r\<lparr>ir_OSName := s\<rparr>)),
      (''os_version'', set_string (\<lambda>s r. r\<lparr>ir_OSVersion := s\<rparr>)),
      (''kernel_release'', set_string (\<lambda>s r. r\<lparr>ir_KernelRelease := s\<rparr>)),
      (''architecture'', set_string (\<lambda>s r. r\<lparr>ir_Architecture := s\<rparr>)),
      (''cpu_logical_cores'', set_int (\<lambda>i r. r\<lparr>ir_CPULogicalCores := i\<rparr>)),
      (''memory_total_bytes'', set_int (\<lambda>i r. r\<lparr>ir_MemoryTotalBytes := i\<rparr>))]"

definition InventoryRequest_zero :: InventoryRequest where
  "InventoryRequest_zero =
     \<lparr>ir_ProtocolVersion = 0,
      ir_Hostname = [],
      ir_OSID = [],
      ir_OSName = [],
      ir_OSVersion = [],
      ir_KernelRelease = [],
      ir_Architecture = [],
      ir_CPULogicalCores = 0,
      ir_MemoryTotalBytes = 0\<rparr>"

definition InventoryRequest_json :: "InventoryRequest \<Rightarrow> json" where
  "InventoryRequest_json r =
     JObject
      [(''protocol_version'', json_int (ir_ProtocolVersion r)),
       (''hostname'', JString (ir_Hostname r)),
       (''os_id'', JString (ir_OSID r)),
       (''os_name'', JString (ir_OSName r)),
       (''os_version'', JString (ir_OSVersion r)),
       (''kernel_release'', JString (ir_KernelRelease r)),
       (''architecture'', JString (ir_Architecture r)),
       (''cpu_logical_cores'', json_int (ir_CPULogicalCores r)),
       (''memory_total_bytes'', json_int (ir_MemoryTotalBytes r))]"

definition InventoryRequest_fits :: "InventoryRequest \<Rightarrow> bool" where
  "InventoryRequest_fits r \<longleftrightarrow>
     in_int64 (ir_ProtocolVersion r) \<and> ValidString (ir_Hostname r) \<and> ValidString (ir_OSID
     r) \<and> ValidString (ir_OSName r) \<and> ValidString (ir_OSVersion r) \<and> ValidString
     (ir_KernelRelease r) \<and> ValidString (ir_Architecture r) \<and> in_int64 (ir_CPULogicalCores
     r) \<and> in_int64 (ir_MemoryTotalBytes r)"

definition TelemetryRequest_fields :: "TelemetryRequest field list" where
  "TelemetryRequest_fields =
     [(''protocol_version'', set_int (\<lambda>i r. r\<lparr>tr_ProtocolVersion := i\<rparr>)),
      (''cpu_usage_basis_points'', set_int (\<lambda>i r. r\<lparr>tr_CPUUsageBasisPoints := i\<rparr>)),
      (''memory_total_bytes'', set_int (\<lambda>i r. r\<lparr>tr_MemoryTotalBytes := i\<rparr>)),
      (''memory_used_bytes'', set_int (\<lambda>i r. r\<lparr>tr_MemoryUsedBytes := i\<rparr>)),
      (''memory_available_bytes'', set_int (\<lambda>i r. r\<lparr>tr_MemoryAvailableBytes := i\<rparr>)),
      (''load_1m_milli'', set_int (\<lambda>i r. r\<lparr>tr_Load1mMilli := i\<rparr>)),
      (''load_5m_milli'', set_int (\<lambda>i r. r\<lparr>tr_Load5mMilli := i\<rparr>)),
      (''load_15m_milli'', set_int (\<lambda>i r. r\<lparr>tr_Load15mMilli := i\<rparr>)),
      (''root_filesystem_total_bytes'', set_int (\<lambda>i r. r\<lparr>tr_RootFilesystemTotalBytes := i\<rparr>)),
      (''root_filesystem_used_bytes'', set_int (\<lambda>i r. r\<lparr>tr_RootFilesystemUsedBytes := i\<rparr>)),
      (''root_filesystem_available_bytes'', set_int (\<lambda>i r. r\<lparr>tr_RootFilesystemAvailableBytes := i\<rparr>)),
      (''network_receive_bytes_total'', set_int (\<lambda>i r. r\<lparr>tr_NetworkReceiveBytesTotal := i\<rparr>)),
      (''network_transmit_bytes_total'', set_int (\<lambda>i r. r\<lparr>tr_NetworkTransmitBytesTotal := i\<rparr>)),
      (''uptime_seconds'', set_int (\<lambda>i r. r\<lparr>tr_UptimeSeconds := i\<rparr>)),
      (''sample_window_ms'', set_int (\<lambda>i r. r\<lparr>tr_SampleWindowMS := i\<rparr>))]"

definition TelemetryRequest_zero :: TelemetryRequest where
  "TelemetryRequest_zero =
     \<lparr>tr_ProtocolVersion = 0,
      tr_CPUUsageBasisPoints = 0,
      tr_MemoryTotalBytes = 0,
      tr_MemoryUsedBytes = 0,
      tr_MemoryAvailableBytes = 0,
      tr_Load1mMilli = 0,
      tr_Load5mMilli = 0,
      tr_Load15mMilli = 0,
      tr_RootFilesystemTotalBytes = 0,
      tr_RootFilesystemUsedBytes = 0,
      tr_RootFilesystemAvailableBytes = 0,
      tr_NetworkReceiveBytesTotal = 0,
      tr_NetworkTransmitBytesTotal = 0,
      tr_UptimeSeconds = 0,
      tr_SampleWindowMS = 0\<rparr>"

definition TelemetryRequest_json :: "TelemetryRequest \<Rightarrow> json" where
  "TelemetryRequest_json r =
     JObject
      [(''protocol_version'', json_int (tr_ProtocolVersion r)),
       (''cpu_usage_basis_points'', json_int (tr_CPUUsageBasisPoints r)),
       (''memory_total_bytes'', json_int (tr_MemoryTotalBytes r)),
       (''memory_used_bytes'', json_int (tr_MemoryUsedBytes r)),
       (''memory_available_bytes'', json_int (tr_MemoryAvailableBytes r)),
       (''load_1m_milli'', json_int (tr_Load1mMilli r)),
       (''load_5m_milli'', json_int (tr_Load5mMilli r)),
       (''load_15m_milli'', json_int (tr_Load15mMilli r)),
       (''root_filesystem_total_bytes'', json_int (tr_RootFilesystemTotalBytes r)),
       (''root_filesystem_used_bytes'', json_int (tr_RootFilesystemUsedBytes r)),
       (''root_filesystem_available_bytes'', json_int (tr_RootFilesystemAvailableBytes r)),
       (''network_receive_bytes_total'', json_int (tr_NetworkReceiveBytesTotal r)),
       (''network_transmit_bytes_total'', json_int (tr_NetworkTransmitBytesTotal r)),
       (''uptime_seconds'', json_int (tr_UptimeSeconds r)),
       (''sample_window_ms'', json_int (tr_SampleWindowMS r))]"

definition TelemetryRequest_fits :: "TelemetryRequest \<Rightarrow> bool" where
  "TelemetryRequest_fits r \<longleftrightarrow>
     in_int64 (tr_ProtocolVersion r) \<and> in_int64 (tr_CPUUsageBasisPoints r) \<and> in_int64
     (tr_MemoryTotalBytes r) \<and> in_int64 (tr_MemoryUsedBytes r) \<and> in_int64
     (tr_MemoryAvailableBytes r) \<and> in_int64 (tr_Load1mMilli r) \<and> in_int64 (tr_Load5mMilli
     r) \<and> in_int64 (tr_Load15mMilli r) \<and> in_int64 (tr_RootFilesystemTotalBytes r) \<and>
     in_int64 (tr_RootFilesystemUsedBytes r) \<and> in_int64 (tr_RootFilesystemAvailableBytes r)
     \<and> in_int64 (tr_NetworkReceiveBytesTotal r) \<and> in_int64 (tr_NetworkTransmitBytesTotal
     r) \<and> in_int64 (tr_UptimeSeconds r) \<and> in_int64 (tr_SampleWindowMS r)"

lemma valid_report_literals:
  "ValidString ''architecture''"
  "ValidString ''cpu_logical_cores''"
  "ValidString ''cpu_usage_basis_points''"
  "ValidString ''hostname''"
  "ValidString ''kernel_release''"
  "ValidString ''load_15m_milli''"
  "ValidString ''load_1m_milli''"
  "ValidString ''load_5m_milli''"
  "ValidString ''memory_available_bytes''"
  "ValidString ''memory_total_bytes''"
  "ValidString ''memory_used_bytes''"
  "ValidString ''network_receive_bytes_total''"
  "ValidString ''network_transmit_bytes_total''"
  "ValidString ''os_id''"
  "ValidString ''os_name''"
  "ValidString ''os_version''"
  "ValidString ''root_filesystem_available_bytes''"
  "ValidString ''root_filesystem_total_bytes''"
  "ValidString ''root_filesystem_used_bytes''"
  "ValidString ''sample_window_ms''"
  "ValidString ''uptime_seconds''"
  by (rule ascii_valid, simp add: is_ascii_def)+

interpretation inventory_request: wire_format InventoryRequest_fields InventoryRequest_zero InventoryRequest_json
  InventoryRequest_fits
  by unfold_locales
    (simp_all add: InventoryRequest_json_def InventoryRequest_fields_def InventoryRequest_zero_def
      InventoryRequest_fits_def FormatInt_ok [simplified] valid_literals valid_report_literals
      set_struct_def find_field_def)

interpretation telemetry_request: wire_format TelemetryRequest_fields TelemetryRequest_zero TelemetryRequest_json
  TelemetryRequest_fits
  by unfold_locales
    (simp_all add: TelemetryRequest_json_def TelemetryRequest_fields_def TelemetryRequest_zero_def
      TelemetryRequest_fits_def FormatInt_ok [simplified] valid_literals valid_report_literals
      set_struct_def find_field_def)

end
