(* ===== verification/Agent_Presence.thy ===== *)
theory Agent_Presence
  imports Wire_Codec
begin

text \<open>
  The agent's presence daemon: \<^verbatim>\<open>src/internal/agent/presence.go\<close>, \<^verbatim>\<open>executor.go\<close>, and the delivery of
  inventory and telemetry (\<^verbatim>\<open>inventory.go\<close>, \<^verbatim>\<open>telemetry.go\<close>). Everything the daemon asks of its
  surroundings (the network, the clock, timers, the collectors, the executor) is a step of an
  interaction program; the daemon's code is what it does with the answers.
\<close>

section \<open>Errors and replies\<close>

definition IsPermanentError :: "go_error \<Rightarrow> bool" where
  "IsPermanentError err \<longleftrightarrow> errors_Is err ErrAuthRejected \<or> errors_Is err ErrProtocolMismatch
     \<or> errors_Is err ErrPermanentFailure"

text \<open>
  What sending a request comes to: it could not be built, \<^verbatim>\<open>client.Do\<close> failed, or a reply with its
  status, its body, and whether reading the body ends in an error.
\<close>

datatype outcome = NotBuilt | NetError string | Reply nat bytes bool

definition permanent :: "string \<Rightarrow> go_error" where
  "permanent msg = ErrWrap msg ErrPermanentFailure"

definition other_status :: "nat \<Rightarrow> go_error" where
  "other_status status =
     (if 500 \<le> status \<and> status \<le> 599 then ErrOther ''controller error''
      else if 400 \<le> status \<and> status \<le> 499 then permanent ''unexpected client error''
      else ErrOther ''unexpected response status'')"

definition sendHeartbeat ::
  "(string \<Rightarrow> uuid option) \<Rightarrow> (uuid \<Rightarrow> string) \<Rightarrow> outcome \<Rightarrow> JobAssignment option result" where
  "sendHeartbeat up us out =
     (case out of
        NotBuilt \<Rightarrow> Inl (permanent ''failed to construct heartbeat request'')
      | NetError msg \<Rightarrow> Inl (ErrOther msg)
      | Reply status body err \<Rightarrow>
        (if status = 204 then Inr None
         else if status = 200 then
           (let bodyBytes = take 1025 body in
            if err \<and> length body < 1025 then Inl (permanent ''failed to read heartbeat response body'')
            else if length bodyBytes > 1024 then Inl (permanent ''heartbeat response body too large'')
            else if \<not> ValidString bodyBytes then
              Inl (permanent ''heartbeat response is not valid UTF-8'')
            else case DecodeOne HeartbeatResponse_fields HeartbeatResponse_zero bodyBytes of
              Malformed \<Rightarrow> Inl (permanent ''malformed heartbeat response'')
            | Trailing \<Rightarrow> Inl (permanent ''trailing data in heartbeat response'')
            | Decoded hbResp \<Rightarrow>
              (if hr_ProtocolVersion hbResp \<noteq> CurrentVersion then Inl ErrProtocolMismatch
               else if hr_Job hbResp = None then
                 Inl (permanent ''HTTP 200 heartbeat missing job assignment'')
               else case ValidateJobAssignment up us (hr_Job hbResp) of
                 Inl _ \<Rightarrow> Inl (permanent ''invalid job assignment'')
               | Inr _ \<Rightarrow> Inr (hr_Job hbResp)))
         else if status = 401 then Inl ErrAuthRejected
         else if status = 409 then Inl ErrProtocolMismatch
         else if status = 400 then Inl (permanent ''request rejected by controller (400)'')
         else if status = 429 then Inl (ErrOther ''heartbeat rate limited by controller (429)'')
         else Inl (other_status status)))"

definition sendJobStart :: "outcome \<Rightarrow> unit result" where
  "sendJobStart out =
     (case out of
        NotBuilt \<Rightarrow> Inl (permanent ''failed to construct start request'')
      | NetError msg \<Rightarrow> Inl (ErrOther msg)
      | Reply status _ _ \<Rightarrow>
        (if status = 204 then Inr ()
         else if status = 401 then Inl ErrAuthRejected
         else if status = 409 then Inl ErrJobConflict
         else if status = 429 then Inl (ErrOther ''start rate limited by controller (429)'')
         else Inl (other_status status)))"

definition sendJobComplete :: "outcome \<Rightarrow> unit result" where
  "sendJobComplete out =
     (case out of
        NotBuilt \<Rightarrow> Inl (permanent ''failed to construct complete request'')
      | NetError msg \<Rightarrow> Inl (ErrOther msg)
      | Reply status _ _ \<Rightarrow>
        (if status = 204 then Inr ()
         else if status = 401 then Inl ErrAuthRejected
         else if status = 409 then Inl ErrJobConflict
         else if status = 429 then Inl (ErrOther ''complete rate limited by controller (429)'')
         else Inl (other_status status)))"

definition sendInventory :: "outcome \<Rightarrow> unit result" where
  "sendInventory out =
     (case out of
        NotBuilt \<Rightarrow> Inl (permanent ''failed to construct inventory request'')
      | NetError msg \<Rightarrow> Inl (ErrOther msg)
      | Reply status _ _ \<Rightarrow>
        (if status = 204 then Inr ()
         else if status = 401 then Inl ErrAuthRejected
         else if status = 409 then Inl ErrProtocolMismatch
         else if status = 400 then
           Inl (permanent ''inventory request rejected by controller (400)'')
         else if status = 429 then Inl (ErrOther ''inventory rate limited by controller (429)'')
         else Inl (other_status status)))"

definition sendTelemetry :: "outcome \<Rightarrow> unit result" where
  "sendTelemetry out =
     (case out of
        NotBuilt \<Rightarrow> Inl (permanent ''failed to construct telemetry request'')
      | NetError msg \<Rightarrow> Inl (ErrOther msg)
      | Reply status _ _ \<Rightarrow>
        (if status = 204 then Inr ()
         else if status = 401 then Inl ErrAuthRejected
         else if status = 409 then Inl ErrProtocolMismatch
         else if status = 400 then
           Inl (permanent ''telemetry request rejected by controller (400)'')
         else if status = 429 then Inl (ErrOther ''telemetry rate limited by controller (429)'')
         else Inl (other_status status)))"

section \<open>Timing\<close>

definition DefaultHeartbeatInterval :: time where "DefaultHeartbeatInterval = 30 * second"
definition DefaultMaxBackoff :: time where "DefaultMaxBackoff = 30 * second"
definition DefaultInventoryInterval :: time where "DefaultInventoryInterval = 3600 * second"
definition DefaultInventoryRetryInterval :: time where "DefaultInventoryRetryInterval = 60 * second"

text \<open>
  \<open>delta\<close> is \<^verbatim>\<open>int64(float64(base) * pct)\<close> for a positive percentage (\<open>None\<close>: the percentage is not positive), and
  \<open>draw\<close> what \<^verbatim>\<open>rand.Int\<close> returns for a limit.
\<close>

definition defaultJitter :: "int option \<Rightarrow> (int \<Rightarrow> int option) \<Rightarrow> time \<Rightarrow> time" where
  "defaultJitter delta draw base =
     (case delta of
        None \<Rightarrow> base
      | Some d \<Rightarrow>
        (if d \<le> 0 then base
         else case draw (2 * d + 1) of
           None \<Rightarrow> base
         | Some n \<Rightarrow> let r = base + (n - d) in if r < 0 then base else r))"

definition backoff_base :: "int \<Rightarrow> time \<Rightarrow> time" where
  "backoff_base failCount maxBackoff =
     (let base = (if failCount > 1 then
            (let shift = (if failCount - 1 > 5 then 5 else failCount - 1) in 2 ^ nat shift * second)
          else second)
      in if base > maxBackoff then maxBackoff else base)"

definition computeBackoff :: "int \<Rightarrow> time \<Rightarrow> (time \<Rightarrow> time) option \<Rightarrow> time" where
  "computeBackoff failCount maxBackoff jitterFunc =
     (let base = backoff_base failCount maxBackoff;
          r0 = (case jitterFunc of None \<Rightarrow> base | Some f \<Rightarrow> f base);
          r1 = (if r0 > maxBackoff then maxBackoff else r0)
      in if r1 < 0 then 0 else r1)"

section \<open>The executor\<close>

definition Execute_action :: "string \<Rightarrow> unit result" where
  "Execute_action action =
     (if action \<noteq> ActionAgentPing then Inl (ErrWrap action ErrUnknownAction) else Inr ())"

section \<open>Interaction programs\<close>

datatype agent_msg =
    MsgHeartbeat HeartbeatRequest
  | MsgJobStart JobStartRequest
  | MsgJobComplete JobCompleteRequest
  | MsgInventory InventoryRequest
  | MsgTelemetry TelemetryRequest

text \<open>
  The variables of \<^verbatim>\<open>runPresenceWithConfig\<close> that live across iterations. \<open>ls_nextInventoryAt\<close> is \<^const>\<open>None\<close>
  for the zero time.
\<close>

record loop_state =
  ls_consecutiveFailures :: int
  ls_loggedFailure :: bool
  ls_nextInventoryAt :: "time option"
  ls_inventoryFailureLogged :: bool
  ls_telemetryFailureLogged :: bool
  ls_pendingCompletion :: "JobCompleteRequest option"

datatype loop_end = Exit "go_error option" | Again loop_state

text \<open>
  One constructor per question, with the continuation that receives the answer. \<open>CtxErr\<close>: is the context
  cancelled; \<open>GetClient\<close>: \<^verbatim>\<open>certManager.getClient\<close>; \<open>Execute\<close>: the executor gets the action, the rest of
  the assignment identifies the call; \<open>Wait\<close>: a timer, answered by whether the context was cancelled
  first.
\<close>

datatype prog =
    Ret loop_end
  | CtxErr "bool \<Rightarrow> prog"
  | GetClient "unit result \<Rightarrow> prog"
  | Send agent_msg "outcome \<Rightarrow> prog"
  | Execute JobAssignment "unit result \<Rightarrow> prog"
  | Now "time \<Rightarrow> prog"
  | Collect "InventoryRequest result \<Rightarrow> prog"
  | Sample time "(TelemetryRequest option \<times> bool) result \<Rightarrow> prog"
  | Jitter time "time \<Rightarrow> prog"
  | Wait time "bool \<Rightarrow> prog"

record presenceConfig =
  pc_jitter :: bool
  pc_baseInterval :: time
  pc_maxBackoff :: time
  pc_inventoryInterval :: time
  pc_inventoryRetryInterval :: time

definition defaultPresenceConfig :: presenceConfig where
  "defaultPresenceConfig = \<lparr>pc_jitter = True, pc_baseInterval = DefaultHeartbeatInterval,
     pc_maxBackoff = DefaultMaxBackoff, pc_inventoryInterval = DefaultInventoryInterval,
     pc_inventoryRetryInterval = DefaultInventoryRetryInterval\<rparr>"

definition jittered :: "presenceConfig \<Rightarrow> time \<Rightarrow> (time \<Rightarrow> prog) \<Rightarrow> prog" where
  "jittered cfg d k = (if pc_jitter cfg then Jitter d k else k d)"

section \<open>One iteration of the loop\<close>

definition wait_phase :: "presenceConfig \<Rightarrow> loop_state \<Rightarrow> prog" where
  "wait_phase cfg st =
     jittered cfg (pc_baseInterval cfg) (\<lambda>waitDur.
       Wait waitDur (\<lambda>cancelled. Ret (if cancelled then Exit None else Again st)))"

definition telemetry_phase :: "presenceConfig \<Rightarrow> loop_state \<Rightarrow> prog" where
  "telemetry_phase cfg st =
     Now (\<lambda>telemetryNow. Sample telemetryNow (\<lambda>sampled.
       case sampled of
         Inl _ \<Rightarrow> wait_phase cfg (st\<lparr>ls_telemetryFailureLogged := True\<rparr>)
       | Inr (Some report, True) \<Rightarrow>
           Send (MsgTelemetry report) (\<lambda>out.
             case sendTelemetry out of
               Inl sendErr \<Rightarrow>
                 CtxErr (\<lambda>cancelled.
                   if cancelled then Ret (Exit None)
                   else if IsPermanentError sendErr then Ret (Exit (Some sendErr))
                   else wait_phase cfg (st\<lparr>ls_telemetryFailureLogged := True\<rparr>))
             | Inr _ \<Rightarrow> wait_phase cfg (st\<lparr>ls_telemetryFailureLogged := False\<rparr>))
       | Inr _ \<Rightarrow> wait_phase cfg st))"

definition positive_or :: "time \<Rightarrow> time \<Rightarrow> time" where
  "positive_or d fallback = (if d \<le> 0 then fallback else d)"

definition inventory_retry :: "presenceConfig \<Rightarrow> time \<Rightarrow> loop_state \<Rightarrow> prog" where
  "inventory_retry cfg inventoryNow st =
     jittered cfg (positive_or (pc_inventoryRetryInterval cfg) DefaultInventoryRetryInterval)
       (\<lambda>retryDur. telemetry_phase cfg (st\<lparr>ls_inventoryFailureLogged := True,
          ls_nextInventoryAt := Some (inventoryNow + retryDur)\<rparr>))"

definition inventory_phase :: "presenceConfig \<Rightarrow> loop_state \<Rightarrow> prog" where
  "inventory_phase cfg st =
     Now (\<lambda>inventoryNow.
       if (case ls_nextInventoryAt st of None \<Rightarrow> True | Some t \<Rightarrow> \<not> inventoryNow < t) then
         Collect (\<lambda>collected.
           case collected of
             Inl _ \<Rightarrow> inventory_retry cfg inventoryNow st
           | Inr report \<Rightarrow>
               Send (MsgInventory report) (\<lambda>out.
                 case sendInventory out of
                   Inl invErr \<Rightarrow>
                     CtxErr (\<lambda>cancelled.
                       if cancelled then Ret (Exit None)
                       else if IsPermanentError invErr then Ret (Exit (Some invErr))
                       else inventory_retry cfg inventoryNow st)
                 | Inr _ \<Rightarrow>
                     jittered cfg (positive_or (pc_inventoryInterval cfg) DefaultInventoryInterval)
                       (\<lambda>interval. telemetry_phase cfg (st\<lparr>ls_inventoryFailureLogged := False,
                          ls_nextInventoryAt := Some (inventoryNow + interval)\<rparr>))))
       else telemetry_phase cfg st)"

definition completion_for :: "JobAssignment \<Rightarrow> unit result \<Rightarrow> JobCompleteRequest" where
  "completion_for a executed =
     \<lparr>jc_ProtocolVersion = CurrentVersion, jc_JobID = ja_JobID a, jc_Attempt = ja_Attempt a,
      jc_Outcome = (case executed of Inl _ \<Rightarrow> ''failed'' | Inr _ \<Rightarrow> ''succeeded''),
      jc_FailureCode = (case executed of Inl _ \<Rightarrow> ''executor_error'' | Inr _ \<Rightarrow> [])\<rparr>"

definition execute_phase :: "presenceConfig \<Rightarrow> JobAssignment \<Rightarrow> loop_state \<Rightarrow> prog" where
  "execute_phase cfg a st =
     Execute a (\<lambda>executed. let completionReq = completion_for a executed in
       Send (MsgJobComplete completionReq) (\<lambda>out.
         case sendJobComplete out of
           Inl compErr \<Rightarrow>
             (if IsPermanentError compErr then Ret (Exit (Some compErr))
              else if errors_Is compErr ErrJobConflict then inventory_phase cfg st
              else inventory_phase cfg (st\<lparr>ls_pendingCompletion := Some completionReq\<rparr>))
         | Inr _ \<Rightarrow> inventory_phase cfg st))"

definition assignment_phase ::
  "(string \<Rightarrow> uuid option) \<Rightarrow> (uuid \<Rightarrow> string) \<Rightarrow> presenceConfig \<Rightarrow> JobAssignment option
     \<Rightarrow> loop_state \<Rightarrow> prog" where
  "assignment_phase up us cfg assignment st =
     (case assignment of
        None \<Rightarrow> inventory_phase cfg st
      | Some a \<Rightarrow>
        (if ls_pendingCompletion st \<noteq> None then inventory_phase cfg st
         else case ValidateJobAssignment up us (Some a) of
           Inl _ \<Rightarrow> Ret (Exit (Some (permanent ''invalid job assignment'')))
         | Inr _ \<Rightarrow>
             Send (MsgJobStart \<lparr>js_ProtocolVersion = CurrentVersion, js_JobID = ja_JobID a,
                 js_Attempt = ja_Attempt a\<rparr>) (\<lambda>out.
               case sendJobStart out of
                 Inl startErr \<Rightarrow>
                   (if IsPermanentError startErr then Ret (Exit (Some startErr))
                    else inventory_phase cfg st)
               | Inr _ \<Rightarrow> execute_phase cfg a st)))"

definition pending_phase ::
  "(string \<Rightarrow> uuid option) \<Rightarrow> (uuid \<Rightarrow> string) \<Rightarrow> presenceConfig \<Rightarrow> JobAssignment option
     \<Rightarrow> loop_state \<Rightarrow> prog" where
  "pending_phase up us cfg assignment st =
     (case ls_pendingCompletion st of
        None \<Rightarrow> assignment_phase up us cfg assignment st
      | Some req \<Rightarrow>
          Send (MsgJobComplete req) (\<lambda>out.
            case sendJobComplete out of
              Inl compErr \<Rightarrow>
                (if IsPermanentError compErr then Ret (Exit (Some compErr))
                 else if errors_Is compErr ErrJobConflict then
                   assignment_phase up us cfg assignment (st\<lparr>ls_pendingCompletion := None\<rparr>)
                 else assignment_phase up us cfg assignment st)
            | Inr _ \<Rightarrow>
                assignment_phase up us cfg assignment (st\<lparr>ls_pendingCompletion := None\<rparr>)))"

definition failure_phase :: "presenceConfig \<Rightarrow> go_error \<Rightarrow> loop_state \<Rightarrow> prog" where
  "failure_phase cfg hbErr st =
     CtxErr (\<lambda>cancelled.
       if cancelled then Ret (Exit None)
       else if IsPermanentError hbErr then Ret (Exit (Some hbErr))
       else let n = ls_consecutiveFailures st + 1;
                st' = st\<lparr>ls_consecutiveFailures := n, ls_loggedFailure := True\<rparr>
         in jittered cfg (backoff_base n (pc_maxBackoff cfg)) (\<lambda>j.
              Wait (computeBackoff n (pc_maxBackoff cfg) (Some (\<lambda>_. j))) (\<lambda>stop.
                Ret (if stop then Exit None else Again st'))))"

definition iteration ::
  "(string \<Rightarrow> uuid option) \<Rightarrow> (uuid \<Rightarrow> string) \<Rightarrow> presenceConfig \<Rightarrow> loop_state \<Rightarrow> prog" where
  "iteration up us cfg st =
     CtxErr (\<lambda>cancelled.
       if cancelled then Ret (Exit None)
       else GetClient (\<lambda>client.
         case client of
           Inl _ \<Rightarrow> Ret (Exit (Some (permanent ''failed to obtain client certificate'')))
         | Inr _ \<Rightarrow>
             Send (MsgHeartbeat \<lparr>hb_ProtocolVersion = CurrentVersion\<rparr>) (\<lambda>out.
               case sendHeartbeat up us out of
                 Inl hbErr \<Rightarrow> failure_phase cfg hbErr st
               | Inr assignment \<Rightarrow>
                   pending_phase up us cfg assignment
                     (st\<lparr>ls_loggedFailure := False, ls_consecutiveFailures := 0\<rparr>))))"

definition initial_loop :: loop_state where
  "initial_loop = \<lparr>ls_consecutiveFailures = 0, ls_loggedFailure = False, ls_nextInventoryAt = None,
     ls_inventoryFailureLogged = False, ls_telemetryFailureLogged = False,
     ls_pendingCompletion = None\<rparr>"

text \<open>
  What precedes the loop: the state directory, the identity, the controller URL with its scheme, the
  trust roots and the key, each as the loader returned it.
\<close>

definition runPresence_start ::
  "string \<Rightarrow> string result \<Rightarrow> (string \<Rightarrow> string result) \<Rightarrow> unit result \<Rightarrow> unit result \<Rightarrow> loop_state result" where
  "runPresence_start stateDir controllerURL schemeOf trustRoots privKey =
     (if stateDir = [] then Inl (ErrOther ''state directory is required'')
      else case controllerURL of
        Inl err \<Rightarrow> Inl (ErrWrap ''failed to load agent identity'' err)
      | Inr rawURL \<Rightarrow>
        (case schemeOf rawURL of
           Inl err \<Rightarrow> Inl (ErrWrap ''invalid controller URL in identity'' err)
         | Inr scheme \<Rightarrow>
           (if scheme \<noteq> ''https'' then
              Inl (ErrOther ''agent presence requires HTTPS controller URL; found HTTP loopback identity'')
            else case trustRoots of
              Inl err \<Rightarrow> Inl (ErrWrap ''failed to load controller trust roots'' err)
            | Inr _ \<Rightarrow>
              (case privKey of
                 Inl err \<Rightarrow> Inl (ErrWrap ''failed to load agent private key'' err)
               | Inr _ \<Rightarrow> Inr initial_loop))))"

end
