(* ===== verification/Db_Schema.thy ===== *)
theory Db_Schema
  imports Job_Domain Go_Strings
begin

text \<open>
  The PostgreSQL database behind \<^verbatim>\<open>src/internal/database\<close>: the tables of the migrations as
  lists of rows (a new row is appended), and the transaction a store operation runs in.
\<close>

section \<open>Rows\<close>

record EnrollmentTokenRow =
  et_id :: uuid
  et_token_hash :: bytes
  et_created_at :: time
  et_expires_at :: time
  et_consumed_at :: "time option"

record AgentRow =
  a_id :: uuid
  a_public_key :: bytes
  a_enrollment_token_id :: uuid
  a_created_at :: time
  a_last_seen_at :: "time option"
  a_protocol_version :: "int option"

record InventoryRow =
  inv_agent_id :: uuid
  inv_hostname :: string
  inv_os_id :: string
  inv_os_name :: string
  inv_os_version :: string
  inv_kernel_release :: string
  inv_architecture :: string
  inv_cpu_logical_cores :: int
  inv_memory_total_bytes :: int
  inv_reported_at :: time

record TelemetryRow =
  tel_agent_id :: uuid
  tel_cpu_usage_basis_points :: int
  tel_memory_total_bytes :: int
  tel_memory_used_bytes :: int
  tel_memory_available_bytes :: int
  tel_load_1m_milli :: int
  tel_load_5m_milli :: int
  tel_load_15m_milli :: int
  tel_root_filesystem_total_bytes :: int
  tel_root_filesystem_used_bytes :: int
  tel_root_filesystem_available_bytes :: int
  tel_network_receive_bytes_total :: int
  tel_network_transmit_bytes_total :: int
  tel_uptime_seconds :: int
  tel_sample_window_ms :: int
  tel_reported_at :: time

record OperatorRow =
  o_id :: uuid
  o_username :: string
  o_password_hash :: string
  o_role :: string
  o_disabled_at :: "time option"
  o_created_at :: time
  o_updated_at :: time

record SessionRow =
  s_id :: uuid
  s_operator_id :: uuid
  s_token_hash :: bytes
  s_created_at :: time
  s_expires_at :: time

record AuditRow =
  au_id :: uuid
  au_occurred_at :: time
  au_actor_operator_id :: "uuid option"
  au_actor_username :: string
  au_action :: string
  au_target_operator_id :: "uuid option"
  au_target_username :: "string option"
  au_target_job_id :: "uuid option"
  au_outcome :: string

record db =
  enrollment_tokens :: "EnrollmentTokenRow list"
  agents :: "AgentRow list"
  agent_inventory :: "InventoryRow list"
  agent_telemetry :: "TelemetryRow list"
  operators :: "OperatorRow list"
  operator_sessions :: "SessionRow list"
  operator_audit_events :: "AuditRow list"
  jobs :: "Job list"
  job_events :: "JobEvent list"

definition empty_db :: db where
  "empty_db = \<lparr>enrollment_tokens = [], agents = [], agent_inventory = [], agent_telemetry = [],
     operators = [], operator_sessions = [], operator_audit_events = [], jobs = [],
     job_events = []\<rparr>"

section \<open>Transactions\<close>

text \<open>
  What the server and the connection contribute to one store operation. A SQL statement is
  named by the Go constant that holds its text and, inside a loop, by the row it is run for
  (0 otherwise).

  \<^item> \<open>pool_nil\<close>: the \<^verbatim>\<open>DB\<close> was never opened.
  \<^item> \<open>tx_now\<close>: \<^verbatim>\<open>now()\<close>, the transaction's start. It is also the DEFAULT of the timestamp
    columns.
  \<^item> \<open>clock_at s k\<close>: the \<open>k\<close>-th reading of \<^verbatim>\<open>clock_timestamp()\<close> in statement \<open>s\<close>. In a WHERE
    clause the function is read once per row, and \<open>k\<close> is that row's id. Readings are not
    assumed monotone.
  \<^item> \<open>gen_id s\<close>: the \<^verbatim>\<open>uuidv7()\<close> DEFAULT of the id column of an INSERT.
  \<^item> \<open>stmt_fails s\<close>: the statement returns an infrastructure error.
  \<^item> \<open>skip_locked i\<close>: row \<open>i\<close> is locked elsewhere, so SKIP LOCKED passes over it.
  \<^item> \<open>commit_result\<close>: COMMIT succeeds, fails, or succeeds while its acknowledgement is lost.
\<close>

type_synonym stmt = "string \<times> nat"

datatype commit_outcome = Committed | CommitFailed | CommitLost

record txctx =
  pool_nil :: bool
  tx_now :: time
  clock_at :: "stmt \<Rightarrow> nat \<Rightarrow> time"
  gen_id :: "stmt \<Rightarrow> uuid"
  stmt_fails :: "stmt \<Rightarrow> bool"
  skip_locked :: "uuid \<Rightarrow> bool"
  commit_result :: commit_outcome

text \<open>
  The body of a transaction ends by returning without a commit (the deferred ROLLBACK undoes
  its writes) or by a commit followed by a return. A commit carries the message its own
  failure is reported with, and the value returned after it may itself be an error.
\<close>

datatype 'r tx_end = Rollback 'r | Commit string 'r db

definition run_tx :: "txctx \<Rightarrow> string \<Rightarrow> db \<Rightarrow> 'a result tx_end \<Rightarrow> 'a result \<times> db" where
  "run_tx c begin_msg s body =
     (if stmt_fails c (''begin'', 0) then (Inl (ErrOther begin_msg), s)
      else case body of
        Rollback r \<Rightarrow> (r, s)
      | Commit commit_msg r s' \<Rightarrow>
          (case commit_result c of
             Committed \<Rightarrow> (r, s')
           | CommitFailed \<Rightarrow> (Inl (ErrOther commit_msg), s)
           | CommitLost \<Rightarrow> (Inl (ErrOther commit_msg), s')))"

definition pool_error :: "'a result" where
  "pool_error = Inl (ErrOther ''database pool is not initialized'')"

lemma run_tx_cases:
  assumes "run_tx c bm s body = (r, s')"
  shows "s' = s \<or> (\<exists>m r'. body = Commit m r' s')"
  using assms by (auto simp: run_tx_def split: if_splits tx_end.splits commit_outcome.splits)

lemma run_tx_snd:
  "snd (run_tx c bm s body) = s \<or> (\<exists>m r. body = Commit m r (snd (run_tx c bm s body)))"
  using run_tx_cases [of c bm s body] by (cases "run_tx c bm s body") auto

lemma run_tx_ok:
  assumes "run_tx c bm s body = (Inr x, s')"
  shows "(body = Rollback (Inr x) \<and> s' = s) \<or> (\<exists>m. body = Commit m (Inr x) s')"
  using assms by (auto simp: run_tx_def split: if_splits tx_end.splits commit_outcome.splits)

text \<open>
  A single statement run on the pool is its own transaction: it fails as a whole, or takes
  effect, or takes effect while its result is lost.
\<close>

definition run_auto :: "txctx \<Rightarrow> stmt \<Rightarrow> string \<Rightarrow> db \<Rightarrow> 'a result \<times> db \<Rightarrow> 'a result \<times> db" where
  "run_auto c st msg s body =
     (if stmt_fails c st then (Inl (ErrOther msg), s)
      else case commit_result c of
        Committed \<Rightarrow> body
      | CommitFailed \<Rightarrow> (Inl (ErrOther msg), s)
      | CommitLost \<Rightarrow> (Inl (ErrOther msg), snd body))"

lemma run_auto_cases: "run_auto c st msg s body = (r, s') \<Longrightarrow> s' = s \<or> s' = snd body"
  by (auto simp: run_auto_def split: if_splits commit_outcome.splits)

lemma run_auto_ok: "run_auto c st msg s body = (Inr x, s') \<Longrightarrow> body = (Inr x, s')"
  by (auto simp: run_auto_def split: if_splits commit_outcome.splits)

text \<open>
  What PostgreSQL accepts as \<^verbatim>\<open>text\<close> (well-formed UTF-8 without the zero byte), its
  \<^verbatim>\<open>char_length\<close>, and the range of \<^verbatim>\<open>integer\<close>.
\<close>

definition pg_text :: "string \<Rightarrow> bool" where
  "pg_text s \<longleftrightarrow> ValidString s \<and> CHR 0x00 \<notin> set s"

definition char_length :: "string \<Rightarrow> int" where
  "char_length s = int (RuneCountInString s)"

definition in_int32 :: "int \<Rightarrow> bool" where
  "in_int32 x \<longleftrightarrow> - (2 ^ 31) \<le> x \<and> x < 2 ^ 31"

text \<open>A context in which nothing fails, for evaluating the operations on concrete inputs.\<close>

definition quiet_ctx :: "time \<Rightarrow> uuid \<Rightarrow> txctx" where
  "quiet_ctx t i = \<lparr>pool_nil = False, tx_now = t, clock_at = (\<lambda>_ _. t), gen_id = (\<lambda>_. i),
     stmt_fails = (\<lambda>_. False), skip_locked = (\<lambda>_. False), commit_result = Committed\<rparr>"

lemma quiet_ctx_simps [simp]:
  "pool_nil (quiet_ctx t i) = False" "tx_now (quiet_ctx t i) = t"
  "clock_at (quiet_ctx t i) s k = t" "gen_id (quiet_ctx t i) s = i"
  "stmt_fails (quiet_ctx t i) s = False" "skip_locked (quiet_ctx t i) k = False"
  "commit_result (quiet_ctx t i) = Committed"
  by (simp_all add: quiet_ctx_def)

end
