(* ===== verification/Job_Machine.thy ===== *)
theory Job_Machine
  imports Job_Domain
begin

text \<open>
  The job engine as an abstract machine over the two tables it owns, \<^verbatim>\<open>jobs\<close> and
  \<^verbatim>\<open>job_events\<close>. A step creates a job or moves one job along one edge of its life cycle,
  and each step appends exactly one event. The columns each edge writes are the SET clauses
  of the UPDATE statements in \<^verbatim>\<open>src/internal/database/jobs.go\<close>. The store's operations are
  shown elsewhere to be sequences of these steps, so the invariants proved here are
  invariants of the store.
\<close>

section \<open>The UPDATE clauses\<close>

definition row_requeue :: "time \<Rightarrow> Job \<Rightarrow> Job" where
  "row_requeue t j = j\<lparr>j_State := StateQueued, j_DispatchedAt := None,
     j_DispatchExpiresAt := None, j_UpdatedAt := t\<rparr>"

definition row_exhaust :: "time \<Rightarrow> time \<Rightarrow> Job \<Rightarrow> Job" where
  "row_exhaust tf tu j = j\<lparr>j_State := StateFailed,
     j_FailureCode := Some FailureCodeDispatchExhausted, j_DispatchExpiresAt := None,
     j_FinishedAt := Some tf, j_UpdatedAt := tu\<rparr>"

definition row_timeout :: "time \<Rightarrow> time \<Rightarrow> Job \<Rightarrow> Job" where
  "row_timeout tf tu j = j\<lparr>j_State := StateUnknown,
     j_FailureCode := Some FailureCodeExecutionTimeout, j_ExecutionDeadlineAt := None,
     j_FinishedAt := Some tf, j_UpdatedAt := tu\<rparr>"

definition row_dispatch :: "int \<Rightarrow> time \<Rightarrow> Job \<Rightarrow> Job" where
  "row_dispatch att t j = j\<lparr>j_State := StateDispatched, j_Attempt := att,
     j_DispatchedAt := Some t, j_DispatchExpiresAt := Some (t + DispatchLease),
     j_UpdatedAt := t\<rparr>"

definition row_start :: "time \<Rightarrow> Job \<Rightarrow> Job" where
  "row_start t j = j\<lparr>j_State := StateRunning, j_StartedAt := Some t,
     j_ExecutionDeadlineAt := Some (t + ExecutionResultDeadline),
     j_DispatchExpiresAt := None, j_UpdatedAt := t\<rparr>"

definition row_succeed :: "time \<Rightarrow> Job \<Rightarrow> Job" where
  "row_succeed t j = j\<lparr>j_State := StateSucceeded, j_FailureCode := None,
     j_ExecutionDeadlineAt := None, j_FinishedAt := Some t, j_UpdatedAt := t\<rparr>"

definition row_fail :: "time \<Rightarrow> Job \<Rightarrow> Job" where
  "row_fail t j = j\<lparr>j_State := StateFailed, j_FailureCode := Some FailureCodeExecutorError,
     j_ExecutionDeadlineAt := None, j_FinishedAt := Some t, j_UpdatedAt := t\<rparr>"

lemmas row_update_defs = row_requeue_def row_exhaust_def row_timeout_def row_dispatch_def
  row_start_def row_succeed_def row_fail_def

section \<open>Queries on job rows\<close>

definition is_active :: "Job \<Rightarrow> bool" where
  "is_active j \<longleftrightarrow> j_State j \<in> {StateQueued, StateDispatched, StateRunning}"

definition in_flight :: "Job \<Rightarrow> bool" where
  "in_flight j \<longleftrightarrow> j_State j \<in> {StateDispatched, StateRunning}"

definition active_count :: "uuid \<Rightarrow> Job list \<Rightarrow> nat" where
  "active_count a js = count_where (\<lambda>j. j_AgentID j = a \<and> is_active j) js"

definition in_flight_count :: "uuid \<Rightarrow> Job list \<Rightarrow> nat" where
  "in_flight_count a js = count_where (\<lambda>j. j_AgentID j = a \<and> in_flight j) js"

section \<open>Edges and steps\<close>

inductive row_edge :: "Job \<Rightarrow> Job \<Rightarrow> string \<Rightarrow> string option \<Rightarrow> bool" where
  edge_dispatch: "j_State j = StateQueued \<Longrightarrow> 0 \<le> j_Attempt j \<Longrightarrow> j_Attempt j < MaxDispatchAttempts
     \<Longrightarrow> row_edge j (row_dispatch (j_Attempt j + 1) t j) EventJobDispatched None"
| edge_requeue: "j_State j = StateDispatched \<Longrightarrow> j_Attempt j < MaxDispatchAttempts
     \<Longrightarrow> row_edge j (row_requeue t j) EventJobRequeued None"
| edge_exhaust: "j_State j = StateDispatched \<Longrightarrow> \<not> j_Attempt j < MaxDispatchAttempts
     \<Longrightarrow> row_edge j (row_exhaust tf tu j) EventJobFailed (Some FailureCodeDispatchExhausted)"
| edge_start: "j_State j = StateDispatched
     \<Longrightarrow> row_edge j (row_start t j) EventJobStarted None"
| edge_succeed: "j_State j = StateRunning
     \<Longrightarrow> row_edge j (row_succeed t j) EventJobSucceeded None"
| edge_fail: "j_State j = StateRunning
     \<Longrightarrow> row_edge j (row_fail t j) EventJobFailed (Some FailureCodeExecutorError)"
| edge_timeout: "j_State j = StateRunning
     \<Longrightarrow> row_edge j (row_timeout tf tu j) EventJobUnknown (Some FailureCodeExecutionTimeout)"

definition event_of :: "uuid \<Rightarrow> string \<Rightarrow> int \<Rightarrow> string option \<Rightarrow> JobEvent \<Rightarrow> bool" where
  "event_of i typ att fc e \<longleftrightarrow>
     e_JobID e = i \<and> e_EventType e = typ \<and> e_Attempt e = att \<and> e_FailureCode e = fc"

definition fresh_row :: "Job \<Rightarrow> bool" where
  "fresh_row j \<longleftrightarrow> j_State j = StateQueued \<and> j_Attempt j = 0 \<and> j_ActionType j = ActionAgentPing
     \<and> j_FailureCode j = None \<and> j_DispatchedAt j = None \<and> j_DispatchExpiresAt j = None
     \<and> j_StartedAt j = None \<and> j_ExecutionDeadlineAt j = None \<and> j_FinishedAt j = None"

type_synonym job_view = "Job list \<times> JobEvent list"

inductive job_step :: "job_view \<Rightarrow> job_view \<Rightarrow> bool" where
  create: "fresh_row j \<Longrightarrow> j_ID j \<notin> j_ID ` set js
     \<Longrightarrow> \<not> (\<exists>k\<in>set js. j_CreatedByOperatorID k = j_CreatedByOperatorID j
            \<and> j_IdempotencyKeyHash k = j_IdempotencyKeyHash j)
     \<Longrightarrow> int (active_count (j_AgentID j) js) < MaxActiveJobsPerAgent
     \<Longrightarrow> event_of (j_ID j) EventJobCreated 0 None e
     \<Longrightarrow> job_step (js, es) (js @ [j], es @ [e])"
| claim: "j \<in> set js \<Longrightarrow> row_edge j (f j) typ fc
     \<Longrightarrow> \<not> in_flight j \<Longrightarrow> in_flight_count (j_AgentID j) js = 0
     \<Longrightarrow> event_of (j_ID j) typ (j_Attempt (f j)) fc e
     \<Longrightarrow> job_step (js, es) (update_where (\<lambda>y. j_ID y = j_ID j) f js, es @ [e])"
| advance: "j \<in> set js \<Longrightarrow> row_edge j (f j) typ fc \<Longrightarrow> in_flight j
     \<Longrightarrow> event_of (j_ID j) typ (j_Attempt (f j)) fc e
     \<Longrightarrow> job_step (js, es) (update_where (\<lambda>y. j_ID y = j_ID j) f js, es @ [e])"

inductive_cases job_stepE: "job_step v w"

lemma row_edge_same:
  assumes "row_edge j j' typ fc"
  shows "j_ID j' = j_ID j" "j_AgentID j' = j_AgentID j"
    "j_CreatedByOperatorID j' = j_CreatedByOperatorID j"
    "j_IdempotencyKeyHash j' = j_IdempotencyKeyHash j" "j_ActionType j' = j_ActionType j"
    "j_CreatedAt j' = j_CreatedAt j"
  using assms by (auto elim!: row_edge.cases simp: row_update_defs)

lemma row_edge_transition:
  "row_edge j j' typ fc \<Longrightarrow> ValidateTransition (j_State j) (j_State j') = Inr ()"
  by (auto elim!: row_edge.cases simp: row_update_defs ValidateTransition_def)

lemma row_edge_active: "row_edge j j' typ fc \<Longrightarrow> is_active j"
  by (auto elim!: row_edge.cases simp: is_active_def)

section \<open>The event log determines the row\<close>

text \<open>
  Replaying a job's events, in the order they were appended, from no job at all. The result
  is \<^const>\<open>None\<close> when the log is not a legal history.
\<close>

type_synonym status = "(string \<times> int \<times> string option) option"

fun log_step :: "status \<Rightarrow> JobEvent \<Rightarrow> status option" where
  "log_step None e =
     (if event_of (e_JobID e) EventJobCreated 0 None e then Some (Some (StateQueued, 0, None))
      else None)"
| "log_step (Some (st, n, _)) e =
     (if st = StateQueued \<and> n < MaxDispatchAttempts
        \<and> event_of (e_JobID e) EventJobDispatched (n + 1) None e
        then Some (Some (StateDispatched, n + 1, None))
      else if st = StateDispatched \<and> n < MaxDispatchAttempts
        \<and> event_of (e_JobID e) EventJobRequeued n None e
        then Some (Some (StateQueued, n, None))
      else if st = StateDispatched \<and> \<not> n < MaxDispatchAttempts
        \<and> event_of (e_JobID e) EventJobFailed n (Some FailureCodeDispatchExhausted) e
        then Some (Some (StateFailed, n, Some FailureCodeDispatchExhausted))
      else if st = StateDispatched \<and> event_of (e_JobID e) EventJobStarted n None e
        then Some (Some (StateRunning, n, None))
      else if st = StateRunning \<and> event_of (e_JobID e) EventJobSucceeded n None e
        then Some (Some (StateSucceeded, n, None))
      else if st = StateRunning
        \<and> event_of (e_JobID e) EventJobFailed n (Some FailureCodeExecutorError) e
        then Some (Some (StateFailed, n, Some FailureCodeExecutorError))
      else if st = StateRunning
        \<and> event_of (e_JobID e) EventJobUnknown n (Some FailureCodeExecutionTimeout) e
        then Some (Some (StateUnknown, n, Some FailureCodeExecutionTimeout))
      else None)"

definition replay :: "JobEvent list \<Rightarrow> status option" where
  "replay es = foldl (\<lambda>acc e. Option.bind acc (\<lambda>st. log_step st e)) (Some None) es"

definition events_of :: "uuid \<Rightarrow> JobEvent list \<Rightarrow> JobEvent list" where
  "events_of i es = filter (\<lambda>e. e_JobID e = i) es"

definition row_status :: "Job \<Rightarrow> string \<times> int \<times> string option" where
  "row_status j = (j_State j, j_Attempt j, j_FailureCode j)"

definition status_of :: "uuid \<Rightarrow> Job list \<Rightarrow> status" where
  "status_of i js = map_option row_status (List.find (\<lambda>j. j_ID j = i) js)"

lemma replay_Nil [simp]: "replay [] = Some None"
  by (simp add: replay_def)

lemma replay_snoc [simp]: "replay (es @ [e]) = Option.bind (replay es) (\<lambda>st. log_step st e)"
  by (simp add: replay_def)

lemma events_of_append [simp]: "events_of i (es @ fs) = events_of i es @ events_of i fs"
  by (simp add: events_of_def)

lemma events_of_single [simp]: "events_of i [e] = (if e_JobID e = i then [e] else [])"
  by (simp add: events_of_def)

section \<open>The row and machine invariants\<close>

definition job_ok :: "Job \<Rightarrow> bool" where
  "job_ok j \<longleftrightarrow>
     State_Valid (j_State j) \<and> j_ActionType j = ActionAgentPing
     \<and> 0 \<le> j_Attempt j \<and> j_Attempt j \<le> MaxDispatchAttempts
     \<and> (is_active j \<or> j_State j = StateSucceeded \<longrightarrow> j_FailureCode j = None)
     \<and> (j_State j = StateFailed \<longrightarrow> j_FailureCode j \<in>
          {Some FailureCodeExecutorError, Some FailureCodeDispatchExhausted})
     \<and> (j_State j = StateUnknown \<longrightarrow> j_FailureCode j = Some FailureCodeExecutionTimeout)
     \<and> (IsTerminal (j_State j) \<longleftrightarrow> j_FinishedAt j \<noteq> None)
     \<and> (j_State j = StateDispatched \<longleftrightarrow> j_DispatchExpiresAt j \<noteq> None)
     \<and> (j_State j = StateRunning \<longleftrightarrow> j_ExecutionDeadlineAt j \<noteq> None)
     \<and> (j_State j = StateQueued \<longrightarrow> j_Attempt j < MaxDispatchAttempts)
     \<and> (j_State j = StateDispatched \<or> j_State j = StateRunning \<longrightarrow> 1 \<le> j_Attempt j)"

definition ids_unique :: "Job list \<Rightarrow> bool" where
  "ids_unique js \<longleftrightarrow> distinct (map j_ID js)"

definition keys_unique :: "Job list \<Rightarrow> bool" where
  "keys_unique js \<longleftrightarrow> distinct (map (\<lambda>j. (j_CreatedByOperatorID j, j_IdempotencyKeyHash j)) js)"

definition log_ok :: "job_view \<Rightarrow> bool" where
  "log_ok v \<longleftrightarrow> (\<forall>i. replay (events_of i (snd v)) = Some (status_of i (fst v)))"

definition machine_inv :: "job_view \<Rightarrow> bool" where
  "machine_inv v \<longleftrightarrow> ids_unique (fst v) \<and> keys_unique (fst v) \<and> list_all job_ok (fst v)
     \<and> (\<forall>a. in_flight_count a (fst v) \<le> 1)
     \<and> (\<forall>a. int (active_count a (fst v)) \<le> MaxActiveJobsPerAgent)
     \<and> log_ok v"

lemma machine_invD:
  assumes "machine_inv (js, es)"
  shows "distinct (map j_ID js)" "\<And>j. j \<in> set js \<Longrightarrow> job_ok j" "in_flight_count a js \<le> 1"
    "int (active_count a js) \<le> MaxActiveJobsPerAgent" "log_ok (js, es)" "keys_unique js"
  using assms by (auto simp: machine_inv_def ids_unique_def list_all_iff)

section \<open>Steps preserve the invariant\<close>

lemma row_edge_job_ok: "row_edge j j' typ fc \<Longrightarrow> job_ok j \<Longrightarrow> job_ok j'"
  by (erule row_edge.cases)
    (auto simp: job_ok_def row_update_defs is_active_def IsTerminal_def State_Valid_def
      MaxDispatchAttempts_def)

lemma row_edge_log_step:
  "row_edge j j' typ fc \<Longrightarrow> job_ok j \<Longrightarrow> event_of (j_ID j) typ (j_Attempt j') fc e
     \<Longrightarrow> log_step (Some (row_status j)) e = Some (Some (row_status j'))"
  by (erule row_edge.cases)
    (auto simp: job_ok_def row_update_defs row_status_def event_of_def is_active_def
      MaxDispatchAttempts_def)

lemma status_of_update:
  assumes "distinct (map j_ID js)" and "j \<in> set js" and "j_ID (f j) = j_ID j"
  shows "status_of i (update_where (\<lambda>y. j_ID y = j_ID j) f js) =
    (if i = j_ID j then Some (row_status (f j)) else status_of i js)"
proof -
  obtain as bs where split: "js = as @ j # bs"
      "\<And>f. update_where (\<lambda>y. j_ID y = j_ID j) f js = as @ f j # bs"
      "\<And>y. y \<in> set as \<union> set bs \<Longrightarrow> j_ID y \<noteq> j_ID j"
    using distinct_key_split [OF assms(1,2)] by blast
  have found: "List.find (\<lambda>y. j_ID y = i) (as @ f j # bs) =
      (if i = j_ID j then Some (f j) else List.find (\<lambda>y. j_ID y = i) js)"
    using split(1,3) assms(3) by (induction as arbitrary: js) auto
  show ?thesis
    unfolding split(2) status_of_def found by simp
qed

lemma log_ok_move:
  assumes "machine_inv (js, es)" and "j \<in> set js" and "row_edge j (f j) typ fc"
    and "event_of (j_ID j) typ (j_Attempt (f j)) fc e"
  shows "log_ok (update_where (\<lambda>y. j_ID y = j_ID j) f js, es @ [e])"
proof -
  note inv = machine_invD [OF assms(1)]
  have before: "replay (events_of i es) = Some (status_of i js)" for i
    using inv(5) by (simp add: log_ok_def)
  have row: "status_of (j_ID j) js = Some (row_status j)"
    using find_unique_key [OF inv(1) assms(2)] by (simp add: status_of_def)
  have id: "e_JobID e = j_ID j"
    using assms(4) by (simp add: event_of_def)
  show ?thesis
    using before row id row_edge_log_step [OF assms(3) inv(2) [OF assms(2)] assms(4)]
      status_of_update [where f = f, OF inv(1) assms(2) row_edge_same(1) [OF assms(3)]]
    by (simp add: log_ok_def)
qed

lemma machine_inv_update:
  assumes "machine_inv (js, es)" and "j \<in> set js" and "row_edge j (f j) typ fc"
    and "event_of (j_ID j) typ (j_Attempt (f j)) fc e"
    and flight: "in_flight j \<or> in_flight_count (j_AgentID j) js = 0"
  shows "machine_inv (update_where (\<lambda>y. j_ID y = j_ID j) f js, es @ [e])"
proof -
  note inv = machine_invD [OF assms(1)]
  note same = row_edge_same [OF assms(3)]
  obtain as bs where split: "js = as @ j # bs"
      "\<And>f. update_where (\<lambda>y. j_ID y = j_ID j) f js = as @ f j # bs"
      "\<And>y. y \<in> set as \<union> set bs \<Longrightarrow> j_ID y \<noteq> j_ID j"
    using distinct_key_split [OF inv(1) assms(2)] by blast
  have ok: "list_all job_ok (as @ f j # bs)"
    using inv(2) split(1) row_edge_job_ok [OF assms(3)] by (simp add: list_all_iff)
  have flights: "in_flight_count a (as @ f j # bs) \<le> 1" for a
    using inv(3) [of a] flight same(2) split(1)
    by (auto simp: in_flight_count_def split: if_splits)
  have "active_count a (as @ f j # bs) \<le> active_count a js" for a
    using row_edge_active [OF assms(3)] same(2) by (auto simp: split(1) active_count_def)
  then have active: "int (active_count a (as @ f j # bs)) \<le> MaxActiveJobsPerAgent" for a
    using inv(4) [of a] by (meson of_nat_mono order_trans)
  have ids: "distinct (map j_ID (as @ f j # bs))"
    using inv(1) same(1) by (simp add: split(1))
  have keys: "keys_unique (as @ f j # bs)"
    using inv(6) same(3,4) by (simp add: keys_unique_def split(1))
  show ?thesis
    using ok flights active ids keys log_ok_move [where f = f, OF assms(1-4)]
    by (simp add: machine_inv_def ids_unique_def split(2))
qed

lemma machine_inv_create:
  assumes "machine_inv (js, es)" and "fresh_row j" and "j_ID j \<notin> j_ID ` set js"
    and "\<not> (\<exists>k\<in>set js. j_CreatedByOperatorID k = j_CreatedByOperatorID j
            \<and> j_IdempotencyKeyHash k = j_IdempotencyKeyHash j)"
    and "int (active_count (j_AgentID j) js) < MaxActiveJobsPerAgent"
    and "event_of (j_ID j) EventJobCreated 0 None e"
  shows "machine_inv (js @ [j], es @ [e])"
proof -
  note inv = machine_invD [OF assms(1)]
  have ok: "job_ok j"
    using assms(2) by (auto simp: fresh_row_def job_ok_def is_active_def IsTerminal_def
        State_Valid_def MaxDispatchAttempts_def)
  have flights: "in_flight_count a (js @ [j]) \<le> 1" for a
    using inv(3) [of a] assms(2) by (simp add: in_flight_count_def in_flight_def fresh_row_def)
  have active: "int (active_count a (js @ [j])) \<le> MaxActiveJobsPerAgent" for a
    using inv(4) [of a] assms(5) by (auto simp: active_count_def)
  have none: "status_of (j_ID j) js = None"
    using assms(3) by (auto simp: status_of_def find_None_iff rev_image_eqI)
  have found: "List.find P (js @ [j]) =
      (case List.find P js of None \<Rightarrow> (if P j then Some j else None) | Some k \<Rightarrow> Some k)" for P
    by (induction js) auto
  have "status_of i (js @ [j]) =
      (if i = j_ID j then Some (StateQueued, 0, None) else status_of i js)" for i
    using none assms(2)
    by (auto simp: status_of_def found row_status_def fresh_row_def split: option.splits)
  moreover have "replay (events_of i es) = Some (status_of i js)" for i
    using inv(5) by (simp add: log_ok_def)
  ultimately have log: "log_ok (js @ [j], es @ [e])"
    using none assms(6) by (auto simp: log_ok_def event_of_def)
  have keys: "keys_unique (js @ [j])"
    using inv(6) assms(4) by (auto simp: keys_unique_def)
  show ?thesis
    using ok flights active log keys inv(1,2) assms(3)
    by (simp add: machine_inv_def ids_unique_def list_all_iff)
qed

lemma job_step_inv: "machine_inv v \<Longrightarrow> job_step v w \<Longrightarrow> machine_inv w"
  by (erule job_stepE) (simp_all add: machine_inv_create machine_inv_update)

lemma job_steps_inv: "job_step\<^sup>*\<^sup>* v w \<Longrightarrow> machine_inv v \<Longrightarrow> machine_inv w"
  by (rule rtranclp_invariant [where r = job_step]) (auto intro: job_step_inv)

lemma machine_inv_empty: "machine_inv ([], [])"
  by (simp add: machine_inv_def ids_unique_def keys_unique_def in_flight_count_def
      active_count_def MaxActiveJobsPerAgent_def log_ok_def status_of_def events_of_def)

end
