(* ===== verification/Operator_Domain.thy ===== *)
theory Operator_Domain
  imports Go_Strings
begin

text \<open>
  The operator domain of \<^verbatim>\<open>src/internal/operator\<close>: roles and the permission matrix
  (\<^verbatim>\<open>role.go\<close>), user names and the audit vocabulary (\<^verbatim>\<open>operator.go\<close>).
\<close>

section \<open>Roles and permissions\<close>

definition RoleViewer :: string where "RoleViewer = ''viewer''"
definition RoleOperator :: string where "RoleOperator = ''operator''"
definition RoleAdmin :: string where "RoleAdmin = ''admin''"

lemmas role_consts = RoleViewer_def RoleOperator_def RoleAdmin_def

lemma role_neq [simp]:
  "RoleViewer \<noteq> RoleOperator" "RoleViewer \<noteq> RoleAdmin" "RoleOperator \<noteq> RoleViewer"
  "RoleOperator \<noteq> RoleAdmin" "RoleAdmin \<noteq> RoleViewer" "RoleAdmin \<noteq> RoleOperator"
  by (simp_all add: role_consts)

definition PermissionServersRead :: string where "PermissionServersRead = ''servers.read''"
definition PermissionJobsRead :: string where "PermissionJobsRead = ''jobs.read''"
definition PermissionOperationsExecute :: string where
  "PermissionOperationsExecute = ''operations.execute''"
definition PermissionOperatorsManage :: string where
  "PermissionOperatorsManage = ''operators.manage''"
definition PermissionAuditRead :: string where "PermissionAuditRead = ''audit.read''"

lemmas permission_consts = PermissionServersRead_def PermissionJobsRead_def
  PermissionOperationsExecute_def PermissionOperatorsManage_def PermissionAuditRead_def

definition ParseRole :: "string \<Rightarrow> string result" where
  "ParseRole s =
     (if s = RoleViewer then Inr RoleViewer
      else if s = RoleOperator then Inr RoleOperator
      else if s = RoleAdmin then Inr RoleAdmin
      else Inl (ErrOther ''unknown role''))"

definition Role_Valid :: "string \<Rightarrow> bool" where
  "Role_Valid r \<longleftrightarrow> r = RoleViewer \<or> r = RoleOperator \<or> r = RoleAdmin"

definition HasPermission :: "string \<Rightarrow> string \<Rightarrow> bool" where
  "HasPermission r p \<longleftrightarrow>
     (if r = RoleViewer then p = PermissionServersRead \<or> p = PermissionJobsRead
      else if r = RoleOperator then
        p = PermissionServersRead \<or> p = PermissionJobsRead \<or> p = PermissionOperationsExecute
      else if r = RoleAdmin then
        p = PermissionServersRead \<or> p = PermissionJobsRead \<or> p = PermissionOperationsExecute
        \<or> p = PermissionOperatorsManage \<or> p = PermissionAuditRead
      else False)"

lemma ParseRole_ok: "ParseRole s = Inr r \<longleftrightarrow> r = s \<and> Role_Valid s"
  by (auto simp: ParseRole_def Role_Valid_def)

lemma execute_roles:
  "HasPermission r PermissionOperationsExecute \<longleftrightarrow> r = RoleOperator \<or> r = RoleAdmin"
  by (auto simp: HasPermission_def permission_consts)

section \<open>User names\<close>

text \<open>
  \<^verbatim>\<open>strings.ToLower\<close>: byte by byte on an ASCII string; otherwise the Unicode case mapping of
  Go's tables, which is the argument \<open>unicode_lower\<close>.
\<close>

definition ascii_lower :: "char \<Rightarrow> char" where
  "ascii_lower c = (if CHR ''A'' \<le> c \<and> c \<le> CHR ''Z'' then char_of (of_char c + 32 :: nat) else c)"

definition strings_ToLower :: "(string \<Rightarrow> string) \<Rightarrow> string \<Rightarrow> string" where
  "strings_ToLower unicode_lower s =
     (if is_ascii s then map ascii_lower s else unicode_lower s)"

definition NormalizeUsername :: "(string \<Rightarrow> string) \<Rightarrow> string \<Rightarrow> string" where
  "NormalizeUsername unicode_lower u = strings_ToLower unicode_lower u"

definition username_head :: "char \<Rightarrow> bool" where
  "username_head c \<longleftrightarrow> (CHR ''a'' \<le> c \<and> c \<le> CHR ''z'') \<or> (CHR ''0'' \<le> c \<and> c \<le> CHR ''9'')"

definition username_tail :: "char \<Rightarrow> bool" where
  "username_tail c \<longleftrightarrow> username_head c \<or> c = CHR ''.'' \<or> c = CHR ''_'' \<or> c = CHR ''-''"

definition canonicalUsernamePattern :: "string \<Rightarrow> bool" where
  "canonicalUsernamePattern u =
     (case u of [] \<Rightarrow> False
      | c # cs \<Rightarrow> username_head c \<and> list_all username_tail cs \<and> 2 \<le> length cs \<and> length cs \<le> 63)"

definition ValidateUsername :: "string \<Rightarrow> unit result" where
  "ValidateUsername u =
     (if length u < 3 \<or> length u > 64 then
        Inl (ErrOther ''username must be between 3 and 64 characters'')
      else if \<not> canonicalUsernamePattern u then
        Inl (ErrOther ''username must begin with a-z or 0-9'')
      else Inr ())"

section \<open>Audit vocabulary\<close>

definition ActionOperatorCreated :: string where "ActionOperatorCreated = ''operator.created''"
definition ActionOperatorLogin :: string where "ActionOperatorLogin = ''operator.login''"
definition ActionOperatorLogout :: string where "ActionOperatorLogout = ''operator.logout''"
definition ActionOperatorAuditRead :: string where
  "ActionOperatorAuditRead = ''operator.audit.read''"
definition ActionJobCreated :: string where "ActionJobCreated = ''job.created''"

definition OutcomeSuccess :: string where "OutcomeSuccess = ''success''"

lemma ascii_lower_not_upper: "\<not> (CHR ''A'' \<le> ascii_lower c \<and> ascii_lower c \<le> CHR ''Z'')"
proof (cases "CHR ''A'' \<le> c \<and> c \<le> CHR ''Z''")
  case True
  then have "of_char c + 32 < (256 :: nat)" "97 \<le> (of_char c :: nat) + 32"
    by (simp_all add: less_eq_char_def)
  with True show ?thesis by (simp add: ascii_lower_def less_eq_char_def)
qed (auto simp: ascii_lower_def)

end
