(* ===== verification/Jobs_Store.thy ===== *)
theory Jobs_Store
  imports Db_Schema Job_Machine Operator_Domain Wire_Protocol
begin

text \<open>
  The persistent job store, \<^verbatim>\<open>src/internal/database/jobs.go\<close>: one definition per exported
  method and per helper that runs inside a transaction. Every operation takes the context of
  its transaction first and the database last, and returns its Go result and the database it
  leaves behind. A locked row serialises conflicting transactions, so an operation is one
  atomic step on the tables it touches.
\<close>

section \<open>Statements shared by the operations\<close>

definition set_job :: "uuid \<Rightarrow> (Job \<Rightarrow> Job) \<Rightarrow> db \<Rightarrow> db" where
  "set_job i f s = s\<lparr>jobs := update_where (\<lambda>j. j_ID j = i) f (jobs s)\<rparr>"

definition add_event ::
  "txctx \<Rightarrow> stmt \<Rightarrow> uuid \<Rightarrow> string \<Rightarrow> int \<Rightarrow> string \<Rightarrow> string \<Rightarrow> string option \<Rightarrow> db \<Rightarrow> db" where
  "add_event c st jobID typ att actor ident fc s = s\<lparr>job_events := job_events s @
     [\<lparr>e_ID = gen_id c st, e_JobID = jobID, e_EventType = typ, e_Attempt = att,
       e_ActorType = actor, e_ActorIdentifier = ident, e_FailureCode = fc,
       e_OccurredAt = tx_now c\<rparr>]\<rparr>"

definition find_job :: "uuid \<Rightarrow> db \<Rightarrow> Job option" where
  "find_job i s = List.find (\<lambda>j. j_ID j = i) (jobs s)"

definition validateJobRow :: "Job \<Rightarrow> unit result" where
  "validateJobRow j =
     (if \<not> State_Valid (j_State j) then Inl (ErrOther ''corrupt job state'')
      else if j_ActionType j \<noteq> ActionAgentPing then Inl (ErrOther ''corrupt action type'')
      else if j_Attempt j < 0 \<or> j_Attempt j > MaxDispatchAttempts then
        Inl (ErrOther ''corrupt attempt count'')
      else case ValidateStateFailureCode (j_State j) (j_FailureCode j) of
        Inl e \<Rightarrow> Inl (ErrWrap ''corrupt job failure code consistency'' e)
      | Inr _ \<Rightarrow> Inr ())"

section \<open>CreateJob\<close>

text \<open>
  The INSERT fails on a duplicate primary key and on \<^verbatim>\<open>jobs_action_type_check\<close>. The other
  constraints of the table cannot fire: the code has just read that the idempotency key is
  free and that both referenced rows exist.
\<close>

definition CreateJob_insert ::
  "txctx \<Rightarrow> uuid \<Rightarrow> uuid \<Rightarrow> string \<Rightarrow> bytes \<Rightarrow> string \<Rightarrow> db \<Rightarrow> (Job \<times> bool) result tx_end" where
  "CreateJob_insert c operatorID agentID action keyHash username s =
     (let newJob = \<lparr>j_ID = gen_id c (''insertJob'', 0), j_AgentID = agentID,
            j_CreatedByOperatorID = operatorID, j_CreatedByUsername = username,
            j_IdempotencyKeyHash = keyHash, j_ActionType = action, j_State = StateQueued,
            j_Attempt = 0, j_FailureCode = None, j_CreatedAt = tx_now c,
            j_UpdatedAt = tx_now c, j_DispatchedAt = None, j_DispatchExpiresAt = None,
            j_StartedAt = None, j_ExecutionDeadlineAt = None, j_FinishedAt = None\<rparr>
      in if stmt_fails c (''insertJob'', 0) \<or> find_job (j_ID newJob) s \<noteq> None
           \<or> action \<noteq> ActionAgentPing then
           Rollback (Inl (ErrOther ''failed to insert job''))
         else let s1 = s\<lparr>jobs := jobs s @ [newJob]\<rparr>
         in if stmt_fails c (''insertEvent'', 0) then
              Rollback (Inl (ErrOther ''failed to insert job created event''))
            else let s2 = add_event c (''insertEvent'', 0) (j_ID newJob) EventJobCreated 0
                   ActorTypeOperator username None s1
            in if stmt_fails c (''insertAudit'', 0) then
                 Rollback (Inl (ErrOther ''failed to insert operator audit event''))
               else Commit ''failed to commit job creation'' (Inr (newJob, True))
                 (s2\<lparr>operator_audit_events := operator_audit_events s2 @
                   [\<lparr>au_id = gen_id c (''insertAudit'', 0), au_occurred_at = tx_now c,
                     au_actor_operator_id = Some operatorID, au_actor_username = username,
                     au_action = ActionJobCreated, au_target_operator_id = None,
                     au_target_username = None, au_target_job_id = Some (j_ID newJob),
                     au_outcome = OutcomeSuccess\<rparr>]\<rparr>))"

definition CreateJob_tx ::
  "txctx \<Rightarrow> uuid \<Rightarrow> uuid \<Rightarrow> string \<Rightarrow> bytes \<Rightarrow> db \<Rightarrow> (Job \<times> bool) result tx_end" where
  "CreateJob_tx c operatorID agentID action keyHash s =
     (if stmt_fails c (''queryOp'', 0) then Rollback (Inl (ErrOther ''failed to query operator''))
      else case List.find (\<lambda>r. o_id r = operatorID) (operators s) of
        None \<Rightarrow> Rollback (Inl ErrOperatorAuthRequired)
      | Some opr \<Rightarrow>
        (if o_disabled_at opr \<noteq> None then Rollback (Inl ErrOperatorAuthRequired)
         else case ParseRole (o_role opr) of
           Inl _ \<Rightarrow> Rollback (Inl (ErrOther ''corrupt operator role in database''))
         | Inr r \<Rightarrow>
           (if \<not> HasPermission r PermissionOperationsExecute then
              Rollback (Inl ErrPermissionDenied)
            else if stmt_fails c (''queryIdempotency'', 0) then
              Rollback (Inl (ErrOther ''failed to check idempotency key''))
            else case List.find (\<lambda>j. j_CreatedByOperatorID j = operatorID
                   \<and> j_IdempotencyKeyHash j = keyHash) (jobs s) of
              Some existing \<Rightarrow>
                (case validateJobRow existing of
                   Inl e \<Rightarrow> Rollback (Inl (ErrWrap ''corrupt existing job in database'' e))
                 | Inr _ \<Rightarrow>
                   (if j_AgentID existing = agentID \<and> j_ActionType existing = action then
                      Commit ''failed to commit idempotent replay'' (Inr (existing, False)) s
                    else Rollback (Inl ErrJobIdempotencyConflict)))
            | None \<Rightarrow>
                (if stmt_fails c (''queryAgent'', 0) then
                   Rollback (Inl (ErrOther ''failed to lock agent row''))
                 else if \<not> list_ex (\<lambda>a. a_id a = agentID) (agents s) then
                   Rollback (Inl ErrJobAgentNotFound)
                 else if stmt_fails c (''queryActiveCount'', 0) then
                   Rollback (Inl (ErrOther ''failed to count active jobs''))
                 else if int (active_count agentID (jobs s)) \<ge> MaxActiveJobsPerAgent then
                   Rollback (Inl ErrQueueFull)
                 else CreateJob_insert c operatorID agentID action keyHash (o_username opr) s))))"

definition CreateJob ::
  "txctx \<Rightarrow> uuid \<Rightarrow> uuid \<Rightarrow> string \<Rightarrow> bytes \<Rightarrow> db \<Rightarrow> (Job \<times> bool) result \<times> db" where
  "CreateJob c operatorID agentID action keyHash s =
     (if pool_nil c then (pool_error, s)
      else run_tx c ''failed to begin transaction'' s
        (CreateJob_tx c operatorID agentID action keyHash s))"

section \<open>Reconciliation of expired jobs\<close>

text \<open>
  The three writes of a reconciliation, each an UPDATE and an INSERT that may fail. The
  instants are the values the statement gives to \<^verbatim>\<open>finished_at\<close> and \<^verbatim>\<open>updated_at\<close>.
\<close>

definition requeue_expired :: "txctx \<Rightarrow> string \<Rightarrow> time \<Rightarrow> uuid \<Rightarrow> int \<Rightarrow> db \<Rightarrow> db result" where
  "requeue_expired c msg tu i att s =
     (if stmt_fails c (''requeueSQL'', i) then Inl (ErrOther msg)
      else if stmt_fails c (''eventSQL'', i) then
        Inl (ErrOther ''failed to insert requeued event'')
      else Inr (add_event c (''eventSQL'', i) i EventJobRequeued att ActorTypeController
        ''controller'' None (set_job i (row_requeue tu) s)))"

definition exhaust_expired ::
  "txctx \<Rightarrow> string \<Rightarrow> time \<Rightarrow> time \<Rightarrow> uuid \<Rightarrow> int \<Rightarrow> db \<Rightarrow> db result" where
  "exhaust_expired c msg tf tu i att s =
     (if stmt_fails c (''failSQL'', i) then Inl (ErrOther msg)
      else if stmt_fails c (''eventSQL'', i) then
        Inl (ErrOther ''failed to insert dispatch_exhausted event'')
      else Inr (add_event c (''eventSQL'', i) i EventJobFailed att ActorTypeController
        ''controller'' (Some FailureCodeDispatchExhausted) (set_job i (row_exhaust tf tu) s)))"

definition timeout_expired ::
  "txctx \<Rightarrow> string \<Rightarrow> time \<Rightarrow> time \<Rightarrow> uuid \<Rightarrow> int \<Rightarrow> db \<Rightarrow> db result" where
  "timeout_expired c msg tf tu i att s =
     (if stmt_fails c (''unknownSQL'', i) then Inl (ErrOther msg)
      else if stmt_fails c (''eventSQL'', i) then
        Inl (ErrOther ''failed to insert unknown event'')
      else Inr (add_event c (''eventSQL'', i) i EventJobUnknown att ActorTypeController
        ''controller'' (Some FailureCodeExecutionTimeout) (set_job i (row_timeout tf tu) s)))"

definition at_or_before :: "time option \<Rightarrow> time \<Rightarrow> bool" where
  "at_or_before t now = (case t of None \<Rightarrow> False | Some x \<Rightarrow> x \<le> now)"

definition dispatch_expired :: "txctx \<Rightarrow> Job \<Rightarrow> bool" where
  "dispatch_expired c j \<longleftrightarrow> j_State j = StateDispatched
     \<and> at_or_before (j_DispatchExpiresAt j) (clock_at c (''queryDispatched'', 0) (j_ID j))"

definition execution_expired :: "txctx \<Rightarrow> Job \<Rightarrow> bool" where
  "execution_expired c j \<longleftrightarrow> j_State j = StateRunning
     \<and> at_or_before (j_ExecutionDeadlineAt j) (clock_at c (''queryRunning'', 0) (j_ID j))"

definition instant :: "time option \<Rightarrow> time" where
  "instant t = (case t of None \<Rightarrow> 0 | Some x \<Rightarrow> x)"

definition queryDispatched :: "txctx \<Rightarrow> uuid option \<Rightarrow> int \<Rightarrow> db \<Rightarrow> (uuid \<times> int) list" where
  "queryDispatched c agentID limit s = map (\<lambda>j. (j_ID j, j_Attempt j))
     (case agentID of
        Some a \<Rightarrow> filter (\<lambda>j. j_AgentID j = a \<and> dispatch_expired c j) (jobs s)
      | None \<Rightarrow> take (nat limit) (filter (\<lambda>j. \<not> skip_locked c (j_ID j))
          (sort_key (\<lambda>j. instant (j_DispatchExpiresAt j)) (filter (dispatch_expired c) (jobs s)))))"

definition queryRunning :: "txctx \<Rightarrow> uuid option \<Rightarrow> int \<Rightarrow> db \<Rightarrow> (uuid \<times> int) list" where
  "queryRunning c agentID limit s = map (\<lambda>j. (j_ID j, j_Attempt j))
     (case agentID of
        Some a \<Rightarrow> filter (\<lambda>j. j_AgentID j = a \<and> execution_expired c j) (jobs s)
      | None \<Rightarrow> take (nat limit) (filter (\<lambda>j. \<not> skip_locked c (j_ID j))
          (sort_key (\<lambda>j. instant (j_ExecutionDeadlineAt j)) (filter (execution_expired c) (jobs s)))))"

definition reconcile_dispatched :: "txctx \<Rightarrow> uuid \<times> int \<Rightarrow> db \<Rightarrow> db result" where
  "reconcile_dispatched c ej s =
     (let i = fst ej; att = snd ej in
      if att < MaxDispatchAttempts then
        requeue_expired c ''failed to requeue job'' (clock_at c (''requeueSQL'', i) 0) i att s
      else
        exhaust_expired c ''failed to mark job dispatch_exhausted''
          (clock_at c (''failSQL'', i) 0) (clock_at c (''failSQL'', i) 1) i att s)"

definition reconcile_running :: "txctx \<Rightarrow> uuid \<times> int \<Rightarrow> db \<Rightarrow> db result" where
  "reconcile_running c ej s =
     (let i = fst ej; att = snd ej in
      timeout_expired c ''failed to mark running job unknown''
        (clock_at c (''unknownSQL'', i) 0) (clock_at c (''unknownSQL'', i) 1) i att s)"

definition reconcileExpiredJobsInTx :: "txctx \<Rightarrow> uuid option \<Rightarrow> int \<Rightarrow> db \<Rightarrow> db result" where
  "reconcileExpiredJobsInTx c agentID limit0 s =
     (let limit = (if limit0 \<le> 0 \<or> limit0 > 100 then 100 else limit0) in
      if stmt_fails c (''queryDispatched'', 0) then
        Inl (ErrOther ''failed to query expired dispatched jobs'')
      else if stmt_fails c (''scanDispatched'', 0) then
        Inl (ErrOther ''failed to scan expired dispatched job'')
      else if stmt_fails c (''rowsDispatched'', 0) then
        Inl (ErrOther ''error iterating expired dispatched jobs'')
      else let expiredDispatched = queryDispatched c agentID limit s in
        case for_each (reconcile_dispatched c) expiredDispatched s of
          Inl e \<Rightarrow> Inl e
        | Inr s1 \<Rightarrow>
          (let remainingLimit = limit - int (length expiredDispatched) in
           if remainingLimit \<le> 0 \<and> agentID = None then Inr s1
           else if stmt_fails c (''queryRunning'', 0) then
             Inl (ErrOther ''failed to query expired running jobs'')
           else if stmt_fails c (''scanRunning'', 0) then
             Inl (ErrOther ''failed to scan expired running job'')
           else if stmt_fails c (''rowsRunning'', 0) then
             Inl (ErrOther ''error iterating expired running jobs'')
           else for_each (reconcile_running c) (queryRunning c agentID remainingLimit s1) s1))"

definition reconcileSingleJobInTx :: "txctx \<Rightarrow> uuid \<Rightarrow> db \<Rightarrow> db result" where
  "reconcileSingleJobInTx c jobID s =
     (if stmt_fails c (''querySingle'', 0) then
        Inl (ErrOther ''failed to query job for reconciliation'')
      else case find_job jobID s of
        None \<Rightarrow> Inl ErrJobNotFound
      | Some j \<Rightarrow>
        (if stmt_fails c (''clock'', 0) then
           Inl (ErrOther ''failed to evaluate reconciliation clock'')
         else let wallNow = clock_at c (''clock'', 0) 0;
                  dispExpired = at_or_before (j_DispatchExpiresAt j) wallNow;
                  execExpired = at_or_before (j_ExecutionDeadlineAt j) wallNow
           in if j_State j = StateDispatched \<and> dispExpired then
                (if j_Attempt j < MaxDispatchAttempts then
                   requeue_expired c ''failed to requeue expired dispatched job'' wallNow jobID
                     (j_Attempt j) s
                 else
                   exhaust_expired c ''failed to fail expired dispatched job'' wallNow wallNow
                     jobID (j_Attempt j) s)
              else if j_State j = StateRunning \<and> execExpired then
                timeout_expired c ''failed to transition expired running job to unknown''
                  wallNow wallNow jobID (j_Attempt j) s
              else Inr s))"

section \<open>Reading jobs\<close>

text \<open>
  The SELECT lists of the reads leave out \<^verbatim>\<open>idempotency_key_hash\<close>: the \<^verbatim>\<open>Job\<close> they fill keeps
  the zero value of that field.
\<close>

definition scanned :: "Job \<Rightarrow> Job" where
  "scanned j = j\<lparr>j_IdempotencyKeyHash := replicate 32 (CHR 0x00)\<rparr>"

lemma scanned_simps [simp]:
  "j_ID (scanned j) = j_ID j" "j_AgentID (scanned j) = j_AgentID j"
  "j_State (scanned j) = j_State j" "j_Attempt (scanned j) = j_Attempt j"
  "j_FailureCode (scanned j) = j_FailureCode j" "j_ActionType (scanned j) = j_ActionType j"
  "j_CreatedAt (scanned j) = j_CreatedAt j"
  "j_DispatchExpiresAt (scanned j) = j_DispatchExpiresAt j"
  "j_ExecutionDeadlineAt (scanned j) = j_ExecutionDeadlineAt j"
  by (simp_all add: scanned_def)

definition GetJobByID_query :: "txctx \<Rightarrow> uuid \<Rightarrow> db \<Rightarrow> Job result" where
  "GetJobByID_query c jobID s =
     (if stmt_fails c (''query'', 0) then Inl (ErrOther ''failed to query job'')
      else case find_job jobID s of
        None \<Rightarrow> Inl ErrJobNotFound
      | Some j \<Rightarrow>
        (case validateJobRow (scanned j) of
           Inl e \<Rightarrow> Inl (ErrWrap ''corrupt job row in database'' e)
         | Inr _ \<Rightarrow> Inr (scanned j)))"

text \<open>
  \<^verbatim>\<open>GetJobByID\<close> commits the reconciliation first and reads the row in a second statement,
  outside the transaction. Another transaction may commit in between: the argument
  \<open>between\<close> is what it does to the database (\<^const>\<open>id\<close> when there is none).
\<close>

definition GetJobByID :: "txctx \<Rightarrow> (db \<Rightarrow> db) \<Rightarrow> uuid \<Rightarrow> db \<Rightarrow> Job result \<times> db" where
  "GetJobByID c between jobID s =
     (if pool_nil c then (pool_error, s)
      else case run_tx c ''failed to begin reconciliation transaction'' s
          (case reconcileSingleJobInTx c jobID s of
             Inl e \<Rightarrow> Rollback (Inl (if errors_Is e ErrJobNotFound then ErrJobNotFound else e))
           | Inr s1 \<Rightarrow> Commit ''failed to commit job reconciliation'' (Inr ()) s1) of
        (Inl e, s1) \<Rightarrow> (Inl e, s1)
      | (Inr _, s1) \<Rightarrow> (GetJobByID_query c jobID (between s1), between s1))"

fun scan_jobs :: "Job list \<Rightarrow> Job list result" where
  "scan_jobs [] = Inr []"
| "scan_jobs (j # js) =
     (case validateJobRow (scanned j) of
        Inl e \<Rightarrow> Inl (ErrWrap ''corrupt job row in database'' e)
      | Inr _ \<Rightarrow> (case scan_jobs js of Inl e \<Rightarrow> Inl e | Inr rest \<Rightarrow> Inr (scanned j # rest)))"

definition list_conditions :: "uuid option \<Rightarrow> string option \<Rightarrow> Job \<Rightarrow> bool" where
  "list_conditions agentID state j \<longleftrightarrow>
     (case agentID of None \<Rightarrow> True | Some a \<Rightarrow> j_AgentID j = a)
     \<and> (case state of None \<Rightarrow> True | Some st \<Rightarrow> j_State j = st)"

definition ListJobs_query ::
  "txctx \<Rightarrow> int \<Rightarrow> uuid option \<Rightarrow> string option \<Rightarrow> db \<Rightarrow> Job list result" where
  "ListJobs_query c limit agentID state s =
     (if stmt_fails c (''baseQuery'', 0) then Inl (ErrOther ''failed to list jobs'')
      else if stmt_fails c (''scan'', 0) then Inl (ErrOther ''failed to scan job'')
      else if stmt_fails c (''rows'', 0) then Inl (ErrOther ''error iterating jobs'')
      else scan_jobs (take (nat limit) (order_by_desc (\<lambda>j. (j_CreatedAt j, j_ID j))
        (filter (list_conditions agentID state) (jobs s)))))"

definition ListJobs ::
  "txctx \<Rightarrow> (db \<Rightarrow> db) \<Rightarrow> int \<Rightarrow> uuid option \<Rightarrow> string option \<Rightarrow> db \<Rightarrow> Job list result \<times> db" where
  "ListJobs c between limit0 agentID state s =
     (if pool_nil c then (pool_error, s)
      else let limit = (if limit0 \<le> 0 \<or> limit0 > 200 then 100 else limit0) in
        case run_tx c ''failed to begin list reconciliation transaction'' s
          (case reconcileExpiredJobsInTx c agentID 100 s of
             Inl _ \<Rightarrow> Rollback (Inl (ErrOther ''failed to reconcile expired jobs''))
           | Inr s1 \<Rightarrow> Commit ''failed to commit list reconciliation'' (Inr ()) s1) of
        (Inl e, s1) \<Rightarrow> (Inl e, s1)
      | (Inr _, s1) \<Rightarrow> (ListJobs_query c limit agentID state (between s1), between s1))"

definition ListJobEvents :: "txctx \<Rightarrow> uuid \<Rightarrow> int \<Rightarrow> db \<Rightarrow> JobEvent list result" where
  "ListJobEvents c jobID limit0 s =
     (if pool_nil c then pool_error
      else let limit = (if limit0 \<le> 0 \<or> limit0 > 200 then 100 else limit0) in
      if stmt_fails c (''checkJob'', 0) then Inl (ErrOther ''failed to check job'')
      else if find_job jobID s = None then Inl ErrJobNotFound
      else if stmt_fails c (''query'', 0) then Inl (ErrOther ''failed to list job events'')
      else if stmt_fails c (''scan'', 0) then Inl (ErrOther ''failed to scan job event'')
      else if stmt_fails c (''rows'', 0) then Inl (ErrOther ''error iterating job events'')
      else Inr (take (nat limit) (sort_key (\<lambda>e. (e_OccurredAt e, e_ID e))
        (filter (\<lambda>e. e_JobID e = jobID) (job_events s)))))"

section \<open>Claiming, starting and completing\<close>

definition claim_order :: "uuid \<Rightarrow> db \<Rightarrow> Job list" where
  "claim_order agentID s = sort_key (\<lambda>j. (j_CreatedAt j, j_ID j))
     (filter (\<lambda>j. j_AgentID j = agentID \<and> j_State j = StateQueued) (jobs s))"

definition ClaimNextAgentJob_pick ::
  "(uuid \<Rightarrow> string) \<Rightarrow> txctx \<Rightarrow> uuid \<Rightarrow> db \<Rightarrow> JobAssignment option result tx_end" where
  "ClaimNextAgentJob_pick uuid_String c agentID s =
     (if stmt_fails c (''claimQuery'', 0) then Rollback (Inl (ErrOther ''failed to claim job''))
      else case claim_order agentID s of
        [] \<Rightarrow> Commit ''failed to commit claim check'' (Inr None) s
      | j # _ \<Rightarrow>
        (if j_ActionType j \<noteq> ActionAgentPing then
           Rollback (Inl (ErrOther ''corrupt action type in database''))
         else if j_Attempt j < 0 \<or> j_Attempt j \<ge> MaxDispatchAttempts then
           Rollback (Inl (ErrOther ''corrupt queued job''))
         else let newAttempt = j_Attempt j + 1 in
           if stmt_fails c (''updateDispatched'', 0) then
             Rollback (Inl (ErrOther ''failed to update job to dispatched''))
           else if stmt_fails c (''insertDispatchedEvent'', 0) then
             Rollback (Inl (ErrOther ''failed to insert dispatched event''))
           else Commit ''failed to commit job claim''
             (Inr (Some \<lparr>ja_JobID = uuid_String (j_ID j), ja_Attempt = newAttempt,
                ja_Action = j_ActionType j\<rparr>))
             (add_event c (''insertDispatchedEvent'', 0) (j_ID j) EventJobDispatched newAttempt
               ActorTypeController ''controller'' None
               (set_job (j_ID j)
                 (row_dispatch newAttempt (clock_at c (''updateDispatched'', 0) 0)) s))))"

definition ClaimNextAgentJob_tx ::
  "(uuid \<Rightarrow> string) \<Rightarrow> txctx \<Rightarrow> uuid \<Rightarrow> db \<Rightarrow> JobAssignment option result tx_end" where
  "ClaimNextAgentJob_tx uuid_String c agentID s =
     (if stmt_fails c (''lockAgent'', 0) then
        Rollback (Inl (ErrOther ''failed to lock agent row''))
      else if \<not> list_ex (\<lambda>a. a_id a = agentID) (agents s) then Rollback (Inr None)
      else case reconcileExpiredJobsInTx c (Some agentID) 64 s of
        Inl _ \<Rightarrow> Rollback (Inl (ErrOther ''failed to reconcile expired jobs for agent''))
      | Inr s1 \<Rightarrow>
        (if stmt_fails c (''queryInFlight'', 0) then
           Rollback (Inl (ErrOther ''failed to check in-flight jobs''))
         else if list_ex (\<lambda>j. j_AgentID j = agentID \<and> in_flight j) (jobs s1) then
           Commit ''failed to commit claim check'' (Inr None) s1
         else ClaimNextAgentJob_pick uuid_String c agentID s1))"

definition ClaimNextAgentJob ::
  "(uuid \<Rightarrow> string) \<Rightarrow> txctx \<Rightarrow> uuid \<Rightarrow> db \<Rightarrow> JobAssignment option result \<times> db" where
  "ClaimNextAgentJob uuid_String c agentID s =
     (if pool_nil c then (pool_error, s)
      else run_tx c ''failed to begin transaction'' s
        (ClaimNextAgentJob_tx uuid_String c agentID s))"

text \<open>The WHERE clause of \<^verbatim>\<open>updateRunning\<close>, with its clock reading.\<close>

definition start_guard :: "time \<Rightarrow> uuid \<Rightarrow> uuid \<Rightarrow> int \<Rightarrow> Job \<Rightarrow> bool" where
  "start_guard ts agentID jobID attempt k \<longleftrightarrow>
     j_ID k = jobID \<and> j_AgentID k = agentID \<and> j_State k = StateDispatched
     \<and> j_Attempt k = attempt
     \<and> (case j_DispatchExpiresAt k of None \<Rightarrow> False | Some x \<Rightarrow> x > ts)"

definition StartAgentJob_tx ::
  "(uuid \<Rightarrow> string) \<Rightarrow> txctx \<Rightarrow> uuid \<Rightarrow> uuid \<Rightarrow> int \<Rightarrow> db \<Rightarrow> unit result tx_end" where
  "StartAgentJob_tx uuid_String c agentID jobID attempt s =
     (if stmt_fails c (''lockJob'', 0) then
        Rollback (Inl (ErrOther ''failed to lock job for start''))
      else case find_job jobID s of
        None \<Rightarrow> Rollback (Inl ErrJobConflict)
      | Some j \<Rightarrow>
        (if j_State j \<noteq> StateDispatched \<or> j_AgentID j \<noteq> agentID \<or> j_Attempt j \<noteq> attempt
            \<or> j_DispatchExpiresAt j = None then Rollback (Inl ErrJobConflict)
         else if stmt_fails c (''updateRunning'', 0) then
           Rollback (Inl (ErrOther ''failed to transition job to running''))
         else let ts = clock_at c (''updateRunning'', 0) 0;
                  hit = start_guard ts agentID jobID attempt
           in if \<not> list_ex hit (jobs s) then Rollback (Inl ErrJobConflict)
              else if stmt_fails c (''insertStartEvent'', 0) then
                Rollback (Inl (ErrOther ''failed to insert job started event''))
              else Commit ''failed to commit start transition'' (Inr ())
                (add_event c (''insertStartEvent'', 0) jobID EventJobStarted attempt
                  ActorTypeAgent (uuid_String agentID) None
                  (s\<lparr>jobs := update_where hit (row_start ts) (jobs s)\<rparr>))))"

definition StartAgentJob ::
  "(uuid \<Rightarrow> string) \<Rightarrow> txctx \<Rightarrow> uuid \<Rightarrow> uuid \<Rightarrow> int \<Rightarrow> db \<Rightarrow> unit result \<times> db" where
  "StartAgentJob uuid_String c agentID jobID attempt s =
     (if pool_nil c then (pool_error, s)
      else run_tx c ''failed to begin transaction'' s
        (StartAgentJob_tx uuid_String c agentID jobID attempt s))"

definition complete_running ::
  "(uuid \<Rightarrow> string) \<Rightarrow> txctx \<Rightarrow> uuid \<Rightarrow> uuid \<Rightarrow> int \<Rightarrow> string \<Rightarrow> time \<Rightarrow> db \<Rightarrow> unit result tx_end" where
  "complete_running uuid_String c agentID jobID attempt outcome execDeadline s =
     (if stmt_fails c (''clock'', 0) then
        Rollback (Inl (ErrOther ''failed to evaluate completion clock''))
      else let wallNow = clock_at c (''clock'', 0) 0 in
        if execDeadline \<le> wallNow then
          (if stmt_fails c (''updateUnknown'', 0) then
             Rollback (Inl (ErrOther ''failed to update late job to unknown''))
           else if stmt_fails c (''eventUnknown'', 0) then
             Rollback (Inl (ErrOther ''failed to insert unknown event''))
           else Commit ''failed to commit unknown transition'' (Inl ErrJobConflict)
             (add_event c (''eventUnknown'', 0) jobID EventJobUnknown attempt ActorTypeController
               ''controller'' (Some FailureCodeExecutionTimeout)
               (set_job jobID (row_timeout wallNow wallNow) s)))
        else if outcome = StateSucceeded then
          (if stmt_fails c (''updateSucceeded'', 0) then
             Rollback (Inl (ErrOther ''failed to update job to succeeded''))
           else if stmt_fails c (''eventSucceeded'', 0) then
             Rollback (Inl (ErrOther ''failed to insert succeeded event''))
           else Commit ''failed to commit completion'' (Inr ())
             (add_event c (''eventSucceeded'', 0) jobID EventJobSucceeded attempt ActorTypeAgent
               (uuid_String agentID) None (set_job jobID (row_succeed wallNow) s)))
        else
          (if stmt_fails c (''updateFailed'', 0) then
             Rollback (Inl (ErrOther ''failed to update job to failed''))
           else if stmt_fails c (''eventFailed'', 0) then
             Rollback (Inl (ErrOther ''failed to insert failed event''))
           else Commit ''failed to commit completion'' (Inr ())
             (add_event c (''eventFailed'', 0) jobID EventJobFailed attempt ActorTypeAgent
               (uuid_String agentID) (Some FailureCodeExecutorError)
               (set_job jobID (row_fail wallNow) s))))"

definition CompleteAgentJob_tx ::
  "(uuid \<Rightarrow> string) \<Rightarrow> txctx \<Rightarrow> uuid \<Rightarrow> uuid \<Rightarrow> int \<Rightarrow> string \<Rightarrow> string \<Rightarrow> db
     \<Rightarrow> unit result tx_end" where
  "CompleteAgentJob_tx uuid_String c agentID jobID attempt outcome failureCode s =
     (if stmt_fails c (''queryJob'', 0) then
        Rollback (Inl (ErrOther ''failed to query job for completion''))
      else case find_job jobID s of
        None \<Rightarrow> Rollback (Inl ErrJobConflict)
      | Some j \<Rightarrow>
        (if j_AgentID j \<noteq> agentID \<or> j_Attempt j \<noteq> attempt then Rollback (Inl ErrJobConflict)
         else if j_State j = StateRunning then
           (case j_ExecutionDeadlineAt j of
              None \<Rightarrow> Rollback (Inl (ErrOther ''corrupt running job''))
            | Some execDeadline \<Rightarrow>
                complete_running uuid_String c agentID jobID attempt outcome execDeadline s)
         else if j_State j = outcome then
           (let fcMatch =
              (if outcome = StateSucceeded \<and> (j_FailureCode j = None \<or> j_FailureCode j = Some [])
                  \<and> failureCode = [] then True
               else outcome = StateFailed \<and> j_FailureCode j = Some FailureCodeExecutorError
                  \<and> failureCode = FailureCodeExecutorError)
            in if fcMatch then Commit ''failed to commit idempotent replay'' (Inr ()) s
               else Rollback (Inl ErrJobConflict))
         else Rollback (Inl ErrJobConflict)))"

definition CompleteAgentJob ::
  "(uuid \<Rightarrow> string) \<Rightarrow> txctx \<Rightarrow> uuid \<Rightarrow> uuid \<Rightarrow> int \<Rightarrow> string \<Rightarrow> string \<Rightarrow> db
     \<Rightarrow> unit result \<times> db" where
  "CompleteAgentJob uuid_String c agentID jobID attempt outcome failureCode s =
     (if pool_nil c then (pool_error, s)
      else if outcome = StateSucceeded \<and> failureCode \<noteq> [] then (Inl ErrJobConflict, s)
      else if outcome = StateFailed \<and> failureCode \<noteq> FailureCodeExecutorError then
        (Inl ErrJobConflict, s)
      else if outcome \<noteq> StateSucceeded \<and> outcome \<noteq> StateFailed then (Inl ErrJobConflict, s)
      else run_tx c ''failed to begin transaction'' s
        (CompleteAgentJob_tx uuid_String c agentID jobID attempt outcome failureCode s))"

end
