(* ===== verification/Jobs_Refinement.thy ===== *)
theory Jobs_Refinement
  imports Jobs_Store
begin

text \<open>
  The store's operations refine the abstract job machine: whatever an operation returns, and
  however its statements fail, the jobs and events it leaves behind are reached from those it
  found by machine steps. The invariants of the machine are therefore invariants of the store.
\<close>

definition view_of :: "db \<Rightarrow> job_view" where
  "view_of s = (jobs s, job_events s)"

lemma view_of_simps [simp]:
  "fst (view_of s) = jobs s" "snd (view_of s) = job_events s"
  "view_of (s\<lparr>operator_audit_events := x\<rparr>) = view_of s"
  "view_of (s\<lparr>operator_sessions := xs\<rparr>) = view_of s"
  "view_of (s\<lparr>operators := os\<rparr>) = view_of s"
  "view_of (s\<lparr>agents := ags\<rparr>) = view_of s"
  "view_of (s\<lparr>enrollment_tokens := ts\<rparr>) = view_of s"
  "view_of (s\<lparr>agent_inventory := ivs\<rparr>) = view_of s"
  "view_of (s\<lparr>agent_telemetry := tls\<rparr>) = view_of s"
  by (simp_all add: view_of_def)

lemma find_job_D: "find_job i s = Some j \<Longrightarrow> j \<in> set (jobs s) \<and> j_ID j = i"
  by (auto simp: find_job_def dest: find_Some_D)

section \<open>One write is one step\<close>

lemma write_is_step:
  assumes "j \<in> set (jobs s)" and "row_edge j (f j) typ fc"
    and "in_flight j \<or> in_flight_count (j_AgentID j) (jobs s) = 0"
    and "att = j_Attempt (f j)"
  shows "job_step (view_of s)
    (view_of (add_event c st (j_ID j) typ att actor ident fc (set_job (j_ID j) f s)))"
proof -
  let ?e = "\<lparr>e_ID = gen_id c st, e_JobID = j_ID j, e_EventType = typ, e_Attempt = att,
       e_ActorType = actor, e_ActorIdentifier = ident, e_FailureCode = fc,
       e_OccurredAt = tx_now c\<rparr>"
  have ev: "event_of (j_ID j) typ (j_Attempt (f j)) fc ?e"
    by (simp add: event_of_def assms(4))
  have view: "view_of (add_event c st (j_ID j) typ att actor ident fc (set_job (j_ID j) f s)) =
      (update_where (\<lambda>y. j_ID y = j_ID j) f (jobs s), job_events s @ [?e])"
    by (simp add: view_of_def add_event_def set_job_def)
  show ?thesis
    unfolding view unfolding view_of_def
    using job_step.claim [of j "jobs s" f, OF assms(1,2) _ _ ev]
      job_step.advance [of j "jobs s" f, OF assms(1,2) _ ev] assms(3)
    by (cases "in_flight j") auto
qed

lemma other_rows_kept:
  "k \<in> set (jobs s) \<Longrightarrow> j_ID k \<noteq> i
     \<Longrightarrow> k \<in> set (jobs (add_event c st i typ att actor ident fc (set_job i f s)))"
  by (force simp: add_event_def set_job_def in_set_update_where)

lemma requeue_expired_step:
  assumes "requeue_expired c m t (j_ID j) (j_Attempt j) s = Inr s'" and "j \<in> set (jobs s)"
    and "j_State j = StateDispatched" and "j_Attempt j < MaxDispatchAttempts"
  shows "job_step (view_of s) (view_of s')"
  using assms write_is_step [of j s "row_requeue t"] edge_requeue [of j t]
  by (auto simp: requeue_expired_def row_requeue_def in_flight_def split: if_splits)

lemma exhaust_expired_step:
  assumes "exhaust_expired c m tf tu (j_ID j) (j_Attempt j) s = Inr s'" and "j \<in> set (jobs s)"
    and "j_State j = StateDispatched" and "\<not> j_Attempt j < MaxDispatchAttempts"
  shows "job_step (view_of s) (view_of s')"
  using assms write_is_step [of j s "row_exhaust tf tu"] edge_exhaust [of j tf tu]
  by (auto simp: exhaust_expired_def row_exhaust_def in_flight_def split: if_splits)

lemma timeout_expired_step:
  assumes "timeout_expired c m tf tu (j_ID j) (j_Attempt j) s = Inr s'" and "j \<in> set (jobs s)"
    and "j_State j = StateRunning"
  shows "job_step (view_of s) (view_of s')"
  using assms write_is_step [of j s "row_timeout tf tu"] edge_timeout [of j tf tu]
  by (auto simp: timeout_expired_def row_timeout_def in_flight_def split: if_splits)

section \<open>The reconciliation loops\<close>

text \<open>\<open>target st\<close>: the (id, attempt) pair names a row of the table that is in state \<open>st\<close>.\<close>

definition target :: "string \<Rightarrow> db \<Rightarrow> uuid \<times> int \<Rightarrow> bool" where
  "target st s ej \<longleftrightarrow>
     (\<exists>j\<in>set (jobs s). j_ID j = fst ej \<and> j_Attempt j = snd ej \<and> j_State j = st)"

lemma targetE:
  assumes "target st s ej"
  obtains j where "j \<in> set (jobs s)" "ej = (j_ID j, j_Attempt j)" "j_State j = st"
  using assms by (cases ej) (auto simp: target_def)

lemma reconcile_dispatched_step:
  assumes "reconcile_dispatched c ej s = Inr s'" and "target StateDispatched s ej"
  shows "job_step (view_of s) (view_of s')"
  using assms(2)
proof (rule targetE)
  fix j assume j: "j \<in> set (jobs s)" "ej = (j_ID j, j_Attempt j)" "j_State j = StateDispatched"
  show ?thesis
    using assms(1) requeue_expired_step [OF _ j(1,3)] exhaust_expired_step [OF _ j(1,3)]
    unfolding reconcile_dispatched_def j(2) Let_def fst_conv snd_conv
    by (cases "j_Attempt j < MaxDispatchAttempts") auto
qed

lemma reconcile_running_step:
  assumes "reconcile_running c ej s = Inr s'" and "target StateRunning s ej"
  shows "job_step (view_of s) (view_of s')"
  using assms(2)
proof (rule targetE)
  fix j assume j: "j \<in> set (jobs s)" "ej = (j_ID j, j_Attempt j)" "j_State j = StateRunning"
  show ?thesis
    using assms(1) timeout_expired_step [OF _ j(1,3)]
    unfolding reconcile_running_def j(2) Let_def fst_conv snd_conv by blast
qed

lemma target_kept:
  assumes "target st s y" and "fst y \<noteq> i"
  shows "target st (add_event c stm i typ att actor ident fc (set_job i f s)) y"
  using assms(1)
proof (rule targetE)
  fix j assume j: "j \<in> set (jobs s)" "y = (j_ID j, j_Attempt j)" "j_State j = st"
  then have "j_ID j \<noteq> i" using assms(2) by simp
  from other_rows_kept [OF j(1) this] j(2,3) show ?thesis
    unfolding target_def by (metis fst_conv snd_conv)
qed

lemma reconcile_dispatched_keeps:
  assumes "reconcile_dispatched c x s = Inr t" and "target st s y" and "fst y \<noteq> fst x"
  shows "target st t y"
  using assms(1) target_kept [OF assms(2,3)]
  unfolding reconcile_dispatched_def requeue_expired_def exhaust_expired_def Let_def
  by (simp split: if_splits) (metis)+

lemma reconcile_running_keeps:
  assumes "reconcile_running c x s = Inr t" and "target st s y" and "fst y \<noteq> fst x"
  shows "target st t y"
  using assms(1) target_kept [OF assms(2,3)]
  unfolding reconcile_running_def timeout_expired_def Let_def
  by (simp split: if_splits) metis

lemma for_each_steps:
  assumes "for_each body xs s = Inr s'" and "distinct (map fst xs)"
    and "\<And>x. x \<in> set xs \<Longrightarrow> target st s x"
    and step: "\<And>x s t. body x s = Inr t \<Longrightarrow> target st s x \<Longrightarrow> job_step (view_of s) (view_of t)"
    and keep: "\<And>x y s t. body x s = Inr t \<Longrightarrow> target st s y \<Longrightarrow> fst y \<noteq> fst x \<Longrightarrow> target st t y"
  shows "job_step\<^sup>*\<^sup>* (view_of s) (view_of s')"
  using assms(1-3)
proof (induction xs arbitrary: s)
  case Nil
  then show ?case by simp
next
  case (Cons x xs)
  from Cons.prems(1) obtain t where t: "body x s = Inr t" "for_each body xs t = Inr s'"
    by (auto split: sum.splits)
  have "target st t y" if "y \<in> set xs" for y
  proof (rule keep [OF t(1)])
    show "target st s y" using Cons.prems(3) that by simp
    show "fst y \<noteq> fst x" using Cons.prems(2) that by (simp, metis imageI)
  qed
  then have "job_step\<^sup>*\<^sup>* (view_of t) (view_of s')"
    using Cons.IH [OF t(2)] Cons.prems(2) by simp
  with step [OF t(1)] Cons.prems(3) show ?case
    by (meson converse_rtranclp_into_rtranclp list.set_intros(1))
qed

lemma distinct_map_sort_key: "distinct (map f (sort_key k xs)) = distinct (map f xs)"
  by (simp add: distinct_map)

lemma queryDispatched_distinct:
  "distinct (map j_ID (jobs s)) \<Longrightarrow> distinct (map fst (queryDispatched c a n s))"
  by (auto simp: queryDispatched_def comp_def distinct_map_filter distinct_map_sort_key
      take_map [symmetric] split: option.splits intro!: distinct_take)

lemma queryRunning_distinct:
  "distinct (map j_ID (jobs s)) \<Longrightarrow> distinct (map fst (queryRunning c a n s))"
  by (auto simp: queryRunning_def comp_def distinct_map_filter distinct_map_sort_key
      take_map [symmetric] split: option.splits intro!: distinct_take)

lemma queryDispatched_target: "x \<in> set (queryDispatched c a n s) \<Longrightarrow> target StateDispatched s x"
  by (auto simp: queryDispatched_def target_def dispatch_expired_def split: option.splits
      dest!: in_set_takeD)

lemma queryRunning_target: "x \<in> set (queryRunning c a n s) \<Longrightarrow> target StateRunning s x"
  by (auto simp: queryRunning_def target_def execution_expired_def split: option.splits
      dest!: in_set_takeD)

lemma reconcile_dispatched_loop:
  assumes "for_each (reconcile_dispatched c) (queryDispatched c a n s) s = Inr s'"
    and "distinct (map j_ID (jobs s))"
  shows "job_step\<^sup>*\<^sup>* (view_of s) (view_of s')"
  by (rule for_each_steps [OF assms(1) queryDispatched_distinct [OF assms(2)],
        where st = StateDispatched])
    (auto intro: queryDispatched_target reconcile_dispatched_step reconcile_dispatched_keeps)

lemma reconcile_running_loop:
  assumes "for_each (reconcile_running c) (queryRunning c a n s) s = Inr s'"
    and "distinct (map j_ID (jobs s))"
  shows "job_step\<^sup>*\<^sup>* (view_of s) (view_of s')"
  by (rule for_each_steps [OF assms(1) queryRunning_distinct [OF assms(2)],
        where st = StateRunning])
    (auto intro: queryRunning_target reconcile_running_step reconcile_running_keeps)

lemma reconcileExpiredE:
  assumes "reconcileExpiredJobsInTx c a limit s = Inr s'"
  obtains n m s1 where "for_each (reconcile_dispatched c) (queryDispatched c a n s) s = Inr s1"
    and "s' = s1 \<or> for_each (reconcile_running c) (queryRunning c a m s1) s1 = Inr s'"
  using assms by (auto simp: reconcileExpiredJobsInTx_def Let_def split: if_splits sum.splits)

lemma reconcileExpired_steps:
  assumes "reconcileExpiredJobsInTx c a limit s = Inr s'" and "machine_inv (view_of s)"
  shows "job_step\<^sup>*\<^sup>* (view_of s) (view_of s')"
proof -
  obtain n m s1 where s1: "for_each (reconcile_dispatched c) (queryDispatched c a n s) s = Inr s1"
    and s': "s' = s1 \<or> for_each (reconcile_running c) (queryRunning c a m s1) s1 = Inr s'"
    by (rule reconcileExpiredE [OF assms(1)])
  have "distinct (map j_ID (jobs s))"
    using assms(2) by (simp add: machine_inv_def ids_unique_def)
  from reconcile_dispatched_loop [OF s1 this] have one: "job_step\<^sup>*\<^sup>* (view_of s) (view_of s1)" .
  then have "machine_inv (view_of s1)"
    using assms(2) by (rule job_steps_inv)
  then have "distinct (map j_ID (jobs s1))"
    by (simp add: machine_inv_def ids_unique_def)
  then show ?thesis
    using s' one reconcile_running_loop by (metis rtranclp_trans)
qed

lemma reconcileSingle_steps:
  "reconcileSingleJobInTx c i s = Inr s' \<Longrightarrow> job_step\<^sup>*\<^sup>* (view_of s) (view_of s')"
  by (auto simp: reconcileSingleJobInTx_def Let_def split: if_splits option.splits
      dest!: find_job_D dest: requeue_expired_step exhaust_expired_step timeout_expired_step
      intro: r_into_rtranclp)

section \<open>The operations\<close>

text \<open>A transaction whose committed body is a run of steps is a run of steps.\<close>

lemma run_tx_steps:
  assumes "run_tx c bm s body = (r, s')"
    and "\<And>m r' t. body = Commit m r' t \<Longrightarrow> job_step\<^sup>*\<^sup>* (view_of s) (view_of t)"
  shows "job_step\<^sup>*\<^sup>* (view_of s) (view_of s')"
  using run_tx_cases [OF assms(1)] assms(2) by auto

lemma CreateJob_insert_step:
  assumes "CreateJob_insert c opr agt action key user s = Commit m r t"
    and free: "\<not> (\<exists>k\<in>set (jobs s). j_CreatedByOperatorID k = opr \<and> j_IdempotencyKeyHash k = key)"
    and room: "int (active_count agt (jobs s)) < MaxActiveJobsPerAgent"
  shows "job_step (view_of s) (view_of t)"
proof -
  let ?i = "gen_id c (''insertJob'', 0)"
  have new: "?i \<notin> j_ID ` set (jobs s)"
    using assms(1)
    by (auto simp: CreateJob_insert_def find_job_def find_None_iff Let_def split: if_splits)
  show ?thesis
    unfolding view_of_def
    using assms(1) new free room
    by (auto simp: CreateJob_insert_def Let_def add_event_def fresh_row_def event_of_def
        split: if_splits intro!: job_step.create)
qed

lemma CreateJob_tx_steps:
  assumes "CreateJob_tx c opr agt action key s = Commit m r t"
  shows "job_step\<^sup>*\<^sup>* (view_of s) (view_of t)"
proof (cases "List.find (\<lambda>j. j_CreatedByOperatorID j = opr \<and> j_IdempotencyKeyHash j = key) (jobs s)")
  case None
  then have free: "\<not> (\<exists>k\<in>set (jobs s). j_CreatedByOperatorID k = opr \<and> j_IdempotencyKeyHash k = key)"
    by (auto simp: find_None_iff)
  obtain user where ins: "CreateJob_insert c opr agt action key user s = Commit m r t"
    and "\<not> int (active_count agt (jobs s)) \<ge> MaxActiveJobsPerAgent"
    using assms None by (auto simp: CreateJob_tx_def split: if_splits option.splits sum.splits)
  then show ?thesis
    using CreateJob_insert_step [OF ins free] by auto
next
  case (Some j)
  then have "t = s"
    using assms by (auto simp: CreateJob_tx_def split: if_splits option.splits sum.splits)
  then show ?thesis by simp
qed

lemma CreateJob_steps:
  "CreateJob c opr agt action key s = (r, s') \<Longrightarrow> job_step\<^sup>*\<^sup>* (view_of s) (view_of s')"
  by (auto simp: CreateJob_def split: if_splits intro: run_tx_steps CreateJob_tx_steps)

lemma GetJobByID_steps:
  assumes "GetJobByID c between i s = (r, s')"
    and "\<And>u. job_step\<^sup>*\<^sup>* (view_of u) (view_of (between u))"
  shows "job_step\<^sup>*\<^sup>* (view_of s) (view_of s')"
proof -
  let ?tx = "run_tx c ''failed to begin reconciliation transaction'' s
    (case reconcileSingleJobInTx c i s of
       Inl e \<Rightarrow> Rollback (Inl (if errors_Is e ErrJobNotFound then ErrJobNotFound else e))
     | Inr s1 \<Rightarrow> Commit ''failed to commit job reconciliation'' (Inr ()) s1)"
  obtain q s1 where tx: "?tx = (q, s1)" by (cases ?tx)
  have one: "job_step\<^sup>*\<^sup>* (view_of s) (view_of s1)"
    by (rule run_tx_steps [OF tx]) (auto split: sum.splits intro: reconcileSingle_steps)
  have "pool_nil c \<and> s' = s \<or> s' = s1 \<or> s' = between s1"
    using assms(1) tx by (auto simp: GetJobByID_def split: if_splits sum.splits)
  then show ?thesis
    using one assms(2) [of s1] by (auto intro: rtranclp_trans)
qed

lemma ListJobs_steps:
  assumes "ListJobs c between limit agt st s = (r, s')" and "machine_inv (view_of s)"
    and "\<And>u. job_step\<^sup>*\<^sup>* (view_of u) (view_of (between u))"
  shows "job_step\<^sup>*\<^sup>* (view_of s) (view_of s')"
proof -
  let ?tx = "run_tx c ''failed to begin list reconciliation transaction'' s
    (case reconcileExpiredJobsInTx c agt 100 s of
       Inl _ \<Rightarrow> Rollback (Inl (ErrOther ''failed to reconcile expired jobs''))
     | Inr s1 \<Rightarrow> Commit ''failed to commit list reconciliation'' (Inr ()) s1)"
  obtain q s1 where tx: "?tx = (q, s1)" by (cases ?tx)
  have one: "job_step\<^sup>*\<^sup>* (view_of s) (view_of s1)"
    by (rule run_tx_steps [OF tx])
      (auto split: sum.splits intro: reconcileExpired_steps [OF _ assms(2)])
  have "pool_nil c \<and> s' = s \<or> s' = s1 \<or> s' = between s1"
    using assms(1) tx by (auto simp: ListJobs_def Let_def split: if_splits sum.splits)
  then show ?thesis
    using one assms(3) [of s1] by (auto intro: rtranclp_trans)
qed

lemma claim_order_D:
  "claim_order a s = j # js \<Longrightarrow> j \<in> set (jobs s) \<and> j_AgentID j = a \<and> j_State j = StateQueued"
  by (metis (mono_tags, lifting) claim_order_def list.set_intros(1) mem_Collect_eq set_filter
      set_sort)

lemma ClaimNextAgentJob_pick_steps:
  assumes "ClaimNextAgentJob_pick us c a s = Commit m r t"
    and idle: "in_flight_count a (jobs s) = 0"
  shows "job_step\<^sup>*\<^sup>* (view_of s) (view_of t)"
proof (cases "claim_order a s")
  case Nil
  then show ?thesis
    using assms(1) by (simp add: ClaimNextAgentJob_pick_def split: if_splits)
next
  case (Cons j js)
  let ?f = "row_dispatch (j_Attempt j + 1) (clock_at c (''updateDispatched'', 0) 0)"
  note j = claim_order_D [OF Cons]
  have t: "0 \<le> j_Attempt j" "j_Attempt j < MaxDispatchAttempts"
    "t = add_event c (''insertDispatchedEvent'', 0) (j_ID j) EventJobDispatched (j_Attempt j + 1)
       ActorTypeController ''controller'' None (set_job (j_ID j) ?f s)"
    using assms(1) Cons by (auto simp: ClaimNextAgentJob_pick_def Let_def split: if_splits)
  have "row_edge j (?f j) EventJobDispatched None"
    using j t(1,2) by (auto intro: edge_dispatch)
  then have "job_step (view_of s) (view_of t)"
    unfolding t(3) using j idle by (intro write_is_step) (auto simp: row_dispatch_def)
  then show ?thesis by (rule r_into_rtranclp)
qed

lemma ClaimNextAgentJob_tx_steps:
  assumes "ClaimNextAgentJob_tx us c a s = Commit m r t" and "machine_inv (view_of s)"
  shows "job_step\<^sup>*\<^sup>* (view_of s) (view_of t)"
proof -
  obtain s1 where s1: "reconcileExpiredJobsInTx c (Some a) 64 s = Inr s1"
    and t: "t = s1 \<or> \<not> list_ex (\<lambda>j. j_AgentID j = a \<and> in_flight j) (jobs s1)
      \<and> ClaimNextAgentJob_pick us c a s1 = Commit m r t"
    using assms(1) by (auto simp: ClaimNextAgentJob_tx_def split: if_splits sum.splits)
  note one = reconcileExpired_steps [OF s1 assms(2)]
  show ?thesis
    using t
  proof
    assume "t = s1" with one show ?thesis by simp
  next
    assume pick: "\<not> list_ex (\<lambda>j. j_AgentID j = a \<and> in_flight j) (jobs s1)
      \<and> ClaimNextAgentJob_pick us c a s1 = Commit m r t"
    then have "in_flight_count a (jobs s1) = 0"
      by (auto simp: in_flight_count_def count_where_zero list_ex_iff)
    with pick one show ?thesis
      by (meson ClaimNextAgentJob_pick_steps rtranclp_trans)
  qed
qed

lemma ClaimNextAgentJob_steps:
  "ClaimNextAgentJob us c a s = (r, s') \<Longrightarrow> machine_inv (view_of s)
     \<Longrightarrow> job_step\<^sup>*\<^sup>* (view_of s) (view_of s')"
  by (auto simp: ClaimNextAgentJob_def split: if_splits
      intro: run_tx_steps ClaimNextAgentJob_tx_steps)

text \<open>
  The UPDATE of \<^verbatim>\<open>StartAgentJob\<close> repeats the whole guard in its WHERE clause. Ids are unique, so
  when it hits anything it hits the row the id names.
\<close>

lemma update_where_guarded:
  assumes "distinct (map j_ID js)" and "j \<in> set js" and "P j" and "\<And>k. P k \<Longrightarrow> j_ID k = j_ID j"
  shows "update_where P f js = update_where (\<lambda>k. j_ID k = j_ID j) f js"
proof -
  have "P k \<longleftrightarrow> j_ID k = j_ID j" if "k \<in> set js" for k
    using assms that distinct_key_eq [OF assms(1,2) that] by metis
  then show ?thesis by (simp add: update_where_def)
qed

lemma StartAgentJob_tx_commit:
  assumes "StartAgentJob_tx us c a i att s = Commit m r t" and ids: "distinct (map j_ID (jobs s))"
  obtains j x where "j \<in> set (jobs s)" "j_ID j = i" "j_AgentID j = a" "j_State j = StateDispatched"
    "j_Attempt j = att" "j_DispatchExpiresAt j = Some x"
    "clock_at c (''updateRunning'', 0) 0 < x" "r = Inr ()"
    "t = add_event c (''insertStartEvent'', 0) i EventJobStarted att ActorTypeAgent (us a) None
       (set_job i (row_start (clock_at c (''updateRunning'', 0) 0)) s)"
proof -
  let ?ts = "clock_at c (''updateRunning'', 0) 0"
  let ?hit = "start_guard ?ts a i att"
  have t: "list_ex ?hit (jobs s)" "r = Inr ()"
    "t = add_event c (''insertStartEvent'', 0) i EventJobStarted att ActorTypeAgent (us a) None
       (s\<lparr>jobs := update_where ?hit (row_start ?ts) (jobs s)\<rparr>)"
    using assms(1) by (auto simp: StartAgentJob_tx_def Let_def split: if_splits option.splits)
  then obtain j where j: "j \<in> set (jobs s)" "?hit j"
    by (auto simp: list_ex_iff)
  have "update_where ?hit (row_start ?ts) (jobs s) =
      update_where (\<lambda>k. j_ID k = j_ID j) (row_start ?ts) (jobs s)"
    by (rule update_where_guarded [where P = ?hit, OF ids j]) (use j(2) in \<open>auto simp: start_guard_def\<close>)
  then have "s\<lparr>jobs := update_where ?hit (row_start ?ts) (jobs s)\<rparr> = set_job i (row_start ?ts) s"
    using j(2) by (simp add: set_job_def start_guard_def)
  with that j t show thesis
    by (cases "j_DispatchExpiresAt j") (auto simp: start_guard_def)
qed

lemma StartAgentJob_tx_step:
  assumes "StartAgentJob_tx us c a i att s = Commit m r t" and "distinct (map j_ID (jobs s))"
  shows "job_step (view_of s) (view_of t)"
  using assms
proof (rule StartAgentJob_tx_commit)
  let ?ts = "clock_at c (''updateRunning'', 0) 0"
  fix j x
  assume j: "j \<in> set (jobs s)" "j_ID j = i" "j_State j = StateDispatched" "j_Attempt j = att"
    and t: "t = add_event c (''insertStartEvent'', 0) i EventJobStarted att ActorTypeAgent (us a)
       None (set_job i (row_start ?ts) s)"
  have "row_edge j (row_start ?ts j) EventJobStarted None"
    using j(3) by (rule edge_start)
  then show ?thesis
    unfolding t j(2) [symmetric] using j
    by (intro write_is_step) (auto simp: row_start_def in_flight_def)
qed

lemma StartAgentJob_steps:
  assumes "StartAgentJob us c a i att s = (r, s')" and "machine_inv (view_of s)"
  shows "job_step\<^sup>*\<^sup>* (view_of s) (view_of s')"
proof -
  have "distinct (map j_ID (jobs s))"
    using assms(2) by (simp add: machine_inv_def ids_unique_def)
  then show ?thesis
    using assms(1) by (auto simp: StartAgentJob_def split: if_splits
        intro: run_tx_steps r_into_rtranclp StartAgentJob_tx_step)
qed

lemma complete_running_step:
  assumes "complete_running us c a (j_ID j) (j_Attempt j) outcome d s = Commit m r t"
    and "j \<in> set (jobs s)" and "j_State j = StateRunning"
  shows "job_step (view_of s) (view_of t)"
proof -
  let ?now = "clock_at c (''clock'', 0) 0"
  have flight: "in_flight j" using assms(3) by (simp add: in_flight_def)
  consider "t = add_event c (''eventUnknown'', 0) (j_ID j) EventJobUnknown (j_Attempt j)
      ActorTypeController ''controller'' (Some FailureCodeExecutionTimeout)
      (set_job (j_ID j) (row_timeout ?now ?now) s)"
    | "t = add_event c (''eventSucceeded'', 0) (j_ID j) EventJobSucceeded (j_Attempt j)
      ActorTypeAgent (us a) None (set_job (j_ID j) (row_succeed ?now) s)"
    | "t = add_event c (''eventFailed'', 0) (j_ID j) EventJobFailed (j_Attempt j) ActorTypeAgent
      (us a) (Some FailureCodeExecutorError) (set_job (j_ID j) (row_fail ?now) s)"
    using assms(1) by (auto simp: complete_running_def Let_def split: if_splits)
  then show ?thesis
  proof cases
    case 1
    then show ?thesis
      using write_is_step [where f = "row_timeout ?now ?now", OF assms(2) edge_timeout [OF assms(3)]] flight
      by (simp add: row_timeout_def)
  next
    case 2
    then show ?thesis
      using write_is_step [where f = "row_succeed ?now", OF assms(2) edge_succeed [OF assms(3)]] flight
      by (simp add: row_succeed_def)
  next
    case 3
    then show ?thesis
      using write_is_step [where f = "row_fail ?now", OF assms(2) edge_fail [OF assms(3)]] flight
      by (simp add: row_fail_def)
  qed
qed

lemma CompleteAgentJob_tx_steps:
  assumes "CompleteAgentJob_tx us c a i att outcome fc s = Commit m r t"
  shows "job_step\<^sup>*\<^sup>* (view_of s) (view_of t)"
proof -
  obtain j where j: "find_job i s = Some j" "j_Attempt j = att"
    and cases: "t = s \<or> j_State j = StateRunning
      \<and> (\<exists>d. complete_running us c a i att outcome d s = Commit m r t)"
    using assms by (auto simp: CompleteAgentJob_tx_def Let_def split: if_splits option.splits)
  note row = find_job_D [OF j(1)]
  from cases show ?thesis
    using complete_running_step [of us c a j outcome _ s m r t] row j(2) by auto
qed

lemma CompleteAgentJob_steps:
  "CompleteAgentJob us c a i att outcome fc s = (r, s') \<Longrightarrow> job_step\<^sup>*\<^sup>* (view_of s) (view_of s')"
  by (auto simp: CompleteAgentJob_def split: if_splits
      intro: run_tx_steps CompleteAgentJob_tx_steps)

end
