(* ===== verification/Agent_Store.thy ===== *)
theory Agent_Store
  imports Db_Schema Job_Machine Wire_Protocol
begin

text \<open>
  The agent side of \<^verbatim>\<open>src/internal/database/database.go\<close>: enrollment tokens, agent
  registration, presence, inventory and telemetry. Identifiers cross the Go interfaces as the
  text of a uuid; the model carries the uuid itself.
\<close>

section \<open>Enrollment\<close>

record TokenRecord =
  tk_ID :: uuid
  tk_CreatedAt :: time
  tk_ExpiresAt :: time

record AgentRecord =
  ar_ID :: uuid
  ar_PublicKey :: bytes
  ar_CreatedAt :: time
  ar_LastSeenAt :: "time option"
  ar_ProtocolVersion :: "int option"

definition CreateEnrollmentToken :: "txctx \<Rightarrow> bytes \<Rightarrow> time \<Rightarrow> db \<Rightarrow> TokenRecord result \<times> db" where
  "CreateEnrollmentToken c tokenHash expiresAt s =
     (if pool_nil c then (pool_error, s)
      else run_auto c (''query'', 0) ''failed to create enrollment token'' s
        (let i = gen_id c (''query'', 0) in
         if length tokenHash \<noteq> 32
            \<or> list_ex (\<lambda>t. et_id t = i \<or> et_token_hash t = tokenHash) (enrollment_tokens s) then
           (Inl (ErrOther ''failed to create enrollment token''), s)
         else (Inr \<lparr>tk_ID = i, tk_CreatedAt = tx_now c, tk_ExpiresAt = expiresAt\<rparr>,
           s\<lparr>enrollment_tokens := enrollment_tokens s @
             [\<lparr>et_id = i, et_token_hash = tokenHash, et_created_at = tx_now c,
               et_expires_at = expiresAt, et_consumed_at = None\<rparr>]\<rparr>)))"

definition insertAgent :: "txctx \<Rightarrow> bytes \<Rightarrow> uuid \<Rightarrow> db \<Rightarrow> AgentRow result" where
  "insertAgent c publicKey tokenID s =
     (let i = gen_id c (''insertAgent'', 0) in
      if stmt_fails c (''insertAgent'', 0) \<or> length publicKey \<noteq> 32 then
        Inl (ErrOther ''failed to insert agent'')
      else if list_ex (\<lambda>a. a_id a = i \<or> a_public_key a = publicKey
           \<or> a_enrollment_token_id a = tokenID) (agents s) then Inl ErrIdentityConflict
      else Inr \<lparr>a_id = i, a_public_key = publicKey, a_enrollment_token_id = tokenID,
        a_created_at = tx_now c, a_last_seen_at = None, a_protocol_version = None\<rparr>)"

definition RegisterAgent_tx ::
  "txctx \<Rightarrow> bytes \<Rightarrow> bytes \<Rightarrow> db \<Rightarrow> (AgentRecord \<times> bool) result tx_end" where
  "RegisterAgent_tx c tokenHash publicKey s =
     (if stmt_fails c (''queryToken'', 0) then
        Rollback (Inl (ErrOther ''failed to query enrollment token''))
      else case List.find (\<lambda>t. et_token_hash t = tokenHash) (enrollment_tokens s) of
        None \<Rightarrow> Rollback (Inl ErrEnrollmentRejected)
      | Some t \<Rightarrow>
        (if et_consumed_at t \<noteq> None then
           (if stmt_fails c (''queryExistingAgent'', 0) then
              Rollback (Inl (ErrOther ''failed to query existing agent''))
            else case List.find (\<lambda>a. a_enrollment_token_id a = et_id t) (agents s) of
              None \<Rightarrow> Rollback (Inl (ErrOther ''failed to query existing agent''))
            | Some a \<Rightarrow>
              (if a_public_key a \<noteq> publicKey then Rollback (Inl ErrEnrollmentRejected)
               else Commit ''failed to commit transaction''
                 (Inr (\<lparr>ar_ID = a_id a, ar_PublicKey = publicKey,
                    ar_CreatedAt = a_created_at a, ar_LastSeenAt = None,
                    ar_ProtocolVersion = None\<rparr>, False)) s))
         else if tx_now c \<ge> et_expires_at t then Rollback (Inl ErrEnrollmentRejected)
         else case insertAgent c publicKey (et_id t) s of
           Inl e \<Rightarrow> Rollback (Inl e)
         | Inr a \<Rightarrow>
           (if stmt_fails c (''consumeToken'', 0) then
              Rollback (Inl (ErrOther ''failed to update enrollment token''))
            else if count_where (\<lambda>u. et_id u = et_id t) (enrollment_tokens s) \<noteq> 1 then
              Rollback (Inl (ErrOther ''unexpected rows affected marking token consumed''))
            else Commit ''failed to commit transaction''
              (Inr (\<lparr>ar_ID = a_id a, ar_PublicKey = publicKey, ar_CreatedAt = a_created_at a,
                 ar_LastSeenAt = None, ar_ProtocolVersion = None\<rparr>, True))
              (s\<lparr>agents := agents s @ [a],
                 enrollment_tokens := update_where (\<lambda>u. et_id u = et_id t)
                   (\<lambda>u. u\<lparr>et_consumed_at := Some (tx_now c)\<rparr>) (enrollment_tokens s)\<rparr>))))"

definition RegisterAgent ::
  "txctx \<Rightarrow> bytes \<Rightarrow> bytes \<Rightarrow> db \<Rightarrow> (AgentRecord \<times> bool) result \<times> db" where
  "RegisterAgent c tokenHash publicKey s =
     (if pool_nil c then (pool_error, s)
      else run_tx c ''failed to begin transaction'' s (RegisterAgent_tx c tokenHash publicKey s))"

definition agent_by_key :: "bytes \<Rightarrow> db \<Rightarrow> AgentRow option" where
  "agent_by_key publicKey s = List.find (\<lambda>a. a_public_key a = publicKey) (agents s)"

definition FindAgentByPublicKey :: "txctx \<Rightarrow> bytes \<Rightarrow> db \<Rightarrow> AgentRecord result" where
  "FindAgentByPublicKey c publicKey s =
     (if pool_nil c then pool_error
      else if stmt_fails c (''query'', 0) then Inl (ErrOther ''failed to query agent'')
      else case agent_by_key publicKey s of
        None \<Rightarrow> Inl ErrAgentNotFound
      | Some a \<Rightarrow>
        (if length (a_public_key a) \<noteq> 32 then
           Inl (ErrOther ''unexpected public key length in database'')
         else Inr \<lparr>ar_ID = a_id a, ar_PublicKey = a_public_key a, ar_CreatedAt = a_created_at a,
           ar_LastSeenAt = a_last_seen_at a, ar_ProtocolVersion = a_protocol_version a\<rparr>))"

section \<open>Presence\<close>

definition RecordAgentHeartbeat ::
  "txctx \<Rightarrow> bytes \<Rightarrow> int \<Rightarrow> db \<Rightarrow> (AgentRecord \<times> bool) result \<times> db" where
  "RecordAgentHeartbeat c publicKey protocolVersion s =
     (if pool_nil c then (pool_error, s)
      else run_auto c (''query'', 0) ''failed to record agent heartbeat'' s
        (if \<not> in_int32 protocolVersion then
           (Inl (ErrOther ''failed to record agent heartbeat''), s)
         else case agent_by_key publicKey s of
           None \<Rightarrow> (Inl ErrAgentNotFound, s)
         | Some a \<Rightarrow>
           (if protocolVersion \<le> 0 then
              (Inl (ErrOther ''failed to record agent heartbeat''), s)
            else (Inr (\<lparr>ar_ID = a_id a, ar_PublicKey = publicKey, ar_CreatedAt = a_created_at a,
                 ar_LastSeenAt = Some (tx_now c), ar_ProtocolVersion = Some protocolVersion\<rparr>,
                 list_ex (\<lambda>j. j_AgentID j = a_id a \<and> is_active j) (jobs s)),
               s\<lparr>agents := update_where (\<lambda>b. a_public_key b = publicKey)
                 (\<lambda>b. b\<lparr>a_last_seen_at := Some (tx_now c),
                   a_protocol_version := Some protocolVersion\<rparr>) (agents s)\<rparr>))))"

section \<open>Inventory and telemetry snapshots\<close>

text \<open>The CHECK constraints of the two tables, on the row about to be written.\<close>

definition inventory_check :: "InventoryRow \<Rightarrow> bool" where
  "inventory_check r \<longleftrightarrow>
     1 \<le> char_length (inv_hostname r) \<and> char_length (inv_hostname r) \<le> 255
     \<and> 1 \<le> char_length (inv_os_id r) \<and> char_length (inv_os_id r) \<le> 64
     \<and> 1 \<le> char_length (inv_os_name r) \<and> char_length (inv_os_name r) \<le> 128
     \<and> char_length (inv_os_version r) \<le> 128
     \<and> 1 \<le> char_length (inv_kernel_release r) \<and> char_length (inv_kernel_release r) \<le> 128
     \<and> 1 \<le> char_length (inv_architecture r) \<and> char_length (inv_architecture r) \<le> 32
     \<and> 0 < inv_cpu_logical_cores r \<and> inv_cpu_logical_cores r \<le> 1048576
     \<and> 0 < inv_memory_total_bytes r"

definition inventory_encodes :: "InventoryRow \<Rightarrow> bool" where
  "inventory_encodes r \<longleftrightarrow>
     pg_text (inv_hostname r) \<and> pg_text (inv_os_id r) \<and> pg_text (inv_os_name r)
     \<and> pg_text (inv_os_version r) \<and> pg_text (inv_kernel_release r)
     \<and> pg_text (inv_architecture r) \<and> in_int32 (inv_cpu_logical_cores r)
     \<and> in_int64 (inv_memory_total_bytes r)"

definition telemetry_check :: "TelemetryRow \<Rightarrow> bool" where
  "telemetry_check r \<longleftrightarrow>
     0 \<le> tel_cpu_usage_basis_points r \<and> tel_cpu_usage_basis_points r \<le> 10000
     \<and> 0 < tel_memory_total_bytes r
     \<and> 0 \<le> tel_memory_available_bytes r \<and> tel_memory_available_bytes r \<le> tel_memory_total_bytes r
     \<and> 0 \<le> tel_memory_used_bytes r
     \<and> tel_memory_used_bytes r = tel_memory_total_bytes r - tel_memory_available_bytes r
     \<and> 0 \<le> tel_load_1m_milli r \<and> 0 \<le> tel_load_5m_milli r \<and> 0 \<le> tel_load_15m_milli r
     \<and> 0 < tel_root_filesystem_total_bytes r
     \<and> 0 \<le> tel_root_filesystem_used_bytes r
     \<and> tel_root_filesystem_used_bytes r \<le> tel_root_filesystem_total_bytes r
     \<and> 0 \<le> tel_root_filesystem_available_bytes r
     \<and> tel_root_filesystem_available_bytes r
         \<le> tel_root_filesystem_total_bytes r - tel_root_filesystem_used_bytes r
     \<and> 0 \<le> tel_network_receive_bytes_total r \<and> 0 \<le> tel_network_transmit_bytes_total r
     \<and> 0 \<le> tel_uptime_seconds r \<and> 1 \<le> tel_sample_window_ms r \<and> tel_sample_window_ms r \<le> 300000"

text \<open>\<^verbatim>\<open>INSERT ... ON CONFLICT (agent_id) DO UPDATE\<close>: every column but the key is replaced.\<close>

definition upsert :: "('r \<Rightarrow> uuid) \<Rightarrow> 'r \<Rightarrow> 'r list \<Rightarrow> 'r list" where
  "upsert key r rows =
     (if list_ex (\<lambda>x. key x = key r) rows then update_where (\<lambda>x. key x = key r) (\<lambda>_. r) rows
      else rows @ [r])"

definition inventory_row :: "uuid \<Rightarrow> time \<Rightarrow> InventoryRequest \<Rightarrow> InventoryRow" where
  "inventory_row i now req = \<lparr>inv_agent_id = i, inv_hostname = ir_Hostname req,
     inv_os_id = ir_OSID req, inv_os_name = ir_OSName req, inv_os_version = ir_OSVersion req,
     inv_kernel_release = ir_KernelRelease req, inv_architecture = ir_Architecture req,
     inv_cpu_logical_cores = ir_CPULogicalCores req,
     inv_memory_total_bytes = ir_MemoryTotalBytes req, inv_reported_at = now\<rparr>"

definition telemetry_row :: "uuid \<Rightarrow> time \<Rightarrow> TelemetryRequest \<Rightarrow> TelemetryRow" where
  "telemetry_row i now req = \<lparr>tel_agent_id = i,
     tel_cpu_usage_basis_points = tr_CPUUsageBasisPoints req,
     tel_memory_total_bytes = tr_MemoryTotalBytes req,
     tel_memory_used_bytes = tr_MemoryUsedBytes req,
     tel_memory_available_bytes = tr_MemoryAvailableBytes req,
     tel_load_1m_milli = tr_Load1mMilli req, tel_load_5m_milli = tr_Load5mMilli req,
     tel_load_15m_milli = tr_Load15mMilli req,
     tel_root_filesystem_total_bytes = tr_RootFilesystemTotalBytes req,
     tel_root_filesystem_used_bytes = tr_RootFilesystemUsedBytes req,
     tel_root_filesystem_available_bytes = tr_RootFilesystemAvailableBytes req,
     tel_network_receive_bytes_total = tr_NetworkReceiveBytesTotal req,
     tel_network_transmit_bytes_total = tr_NetworkTransmitBytesTotal req,
     tel_uptime_seconds = tr_UptimeSeconds req, tel_sample_window_ms = tr_SampleWindowMS req,
     tel_reported_at = now\<rparr>"

definition RecordAgentInventory ::
  "txctx \<Rightarrow> bytes \<Rightarrow> InventoryRequest option \<Rightarrow> db \<Rightarrow> unit result \<times> db" where
  "RecordAgentInventory c publicKey req_ptr s =
     (if pool_nil c then (pool_error, s)
      else case req_ptr of
        None \<Rightarrow> (Inl (ErrOther ''inventory request is nil''), s)
      | Some req \<Rightarrow>
        run_auto c (''query'', 0) ''failed to record agent inventory'' s
          (if \<not> inventory_encodes (inventory_row 0 0 req) then
             (Inl (ErrOther ''failed to record agent inventory''), s)
           else case agent_by_key publicKey s of
             None \<Rightarrow> (Inl ErrAgentNotFound, s)
           | Some a \<Rightarrow>
             (let row = inventory_row (a_id a) (tx_now c) req in
              if \<not> inventory_check row then
                (Inl (ErrOther ''failed to record agent inventory''), s)
              else (Inr (),
                s\<lparr>agent_inventory := upsert inv_agent_id row (agent_inventory s)\<rparr>))))"

definition RecordAgentTelemetry ::
  "txctx \<Rightarrow> bytes \<Rightarrow> TelemetryRequest option \<Rightarrow> db \<Rightarrow> unit result \<times> db" where
  "RecordAgentTelemetry c publicKey req_ptr s =
     (if pool_nil c then (pool_error, s)
      else case req_ptr of
        None \<Rightarrow> (Inl (ErrOther ''telemetry request is nil''), s)
      | Some req \<Rightarrow>
        run_auto c (''query'', 0) ''failed to record agent telemetry'' s
          (if \<not> in_int32 (tr_CPUUsageBasisPoints req) then
             (Inl (ErrOther ''failed to record agent telemetry''), s)
           else case agent_by_key publicKey s of
             None \<Rightarrow> (Inl ErrAgentNotFound, s)
           | Some a \<Rightarrow>
             (let row = telemetry_row (a_id a) (tx_now c) req in
              if \<not> telemetry_check row then
                (Inl (ErrOther ''failed to record agent telemetry''), s)
              else (Inr (),
                s\<lparr>agent_telemetry := upsert tel_agent_id row (agent_telemetry s)\<rparr>))))"

end
