(* ===== verification/Operator_Store.thy ===== *)
theory Operator_Store
  imports Db_Schema Operator_Domain
begin

text \<open>
  The operator side of \<^verbatim>\<open>src/internal/database/database.go\<close>: accounts, sessions and the audit
  log. \<^verbatim>\<open>OperatorRecord\<close> and \<^verbatim>\<open>AuditEventRecord\<close> have the columns of their tables, so the row
  types serve for both. Identifiers cross the Go interfaces as text; the model carries the
  uuid itself.
\<close>

section \<open>Session constants and records\<close>

definition SessionLifetime :: time where "SessionLifetime = 12 * 3600 * second"
definition MaxActiveSessionsPerOperator :: int where "MaxActiveSessionsPerOperator = 8"

record SessionRecord =
  sr_ID :: uuid
  sr_OperatorID :: uuid
  sr_CreatedAt :: time
  sr_ExpiresAt :: time

record Principal =
  p_OperatorID :: uuid
  p_Username :: string
  p_Role :: string
  p_SessionID :: uuid
  p_ExpiresAt :: time

section \<open>The audit log\<close>

text \<open>
  An INSERT into \<^verbatim>\<open>operator_audit_events\<close>. The actor must exist when one is named (the
  foreign key) and its name must be storable and 1 to 64 characters long.
\<close>

definition audit_check :: "uuid option \<Rightarrow> string \<Rightarrow> db \<Rightarrow> bool" where
  "audit_check actor username s \<longleftrightarrow>
     (case actor of None \<Rightarrow> True | Some i \<Rightarrow> list_ex (\<lambda>r. o_id r = i) (operators s))
     \<and> pg_text username \<and> 1 \<le> char_length username \<and> char_length username \<le> 64"

definition add_audit ::
  "txctx \<Rightarrow> uuid option \<Rightarrow> string \<Rightarrow> string \<Rightarrow> uuid option \<Rightarrow> string option \<Rightarrow> db \<Rightarrow> db" where
  "add_audit c actor username action target target_name s =
     s\<lparr>operator_audit_events := operator_audit_events s @
       [\<lparr>au_id = gen_id c (''insertAuditQuery'', 0), au_occurred_at = tx_now c,
         au_actor_operator_id = actor, au_actor_username = username, au_action = action,
         au_target_operator_id = target, au_target_username = target_name,
         au_target_job_id = None, au_outcome = OutcomeSuccess\<rparr>]\<rparr>"

section \<open>Accounts\<close>

definition CreateOperator_tx :: "txctx \<Rightarrow> string \<Rightarrow> string \<Rightarrow> string \<Rightarrow> db \<Rightarrow> OperatorRow result tx_end" where
  "CreateOperator_tx c username passwordHash role s =
     (let rec = \<lparr>o_id = gen_id c (''insertOpQuery'', 0), o_username = username,
            o_password_hash = passwordHash, o_role = role, o_disabled_at = None,
            o_created_at = tx_now c, o_updated_at = tx_now c\<rparr>
      in if stmt_fails c (''insertOpQuery'', 0) \<or> \<not> pg_text passwordHash
            \<or> char_length passwordHash < 50 \<or> char_length passwordHash > 256 then
           Rollback (Inl (ErrOther ''failed to insert operator''))
         else if list_ex (\<lambda>r. o_id r = o_id rec \<or> o_username r = username) (operators s) then
           Rollback (Inl ErrUsernameConflict)
         else let s1 = s\<lparr>operators := operators s @ [rec]\<rparr>
         in if stmt_fails c (''insertAuditQuery'', 0) then
              Rollback (Inl (ErrOther ''failed to record operator creation audit event''))
            else Commit ''failed to commit operator creation'' (Inr rec)
              (add_audit c None ''system'' ActionOperatorCreated (Some (o_id rec))
                (Some (o_username rec)) s1))"

definition CreateOperator ::
  "(string \<Rightarrow> string) \<Rightarrow> txctx \<Rightarrow> string \<Rightarrow> string \<Rightarrow> string \<Rightarrow> db \<Rightarrow> OperatorRow result \<times> db" where
  "CreateOperator unicode_lower c username0 passwordHash role s =
     (if pool_nil c then (pool_error, s)
      else let username = NormalizeUsername unicode_lower username0 in
        case ValidateUsername username of
          Inl e \<Rightarrow> (Inl e, s)
        | Inr _ \<Rightarrow>
          (if \<not> Role_Valid role then (Inl (ErrOther ''invalid operator role''), s)
           else run_tx c ''failed to begin transaction'' s
             (CreateOperator_tx c username passwordHash role s)))"

definition GetOperatorByUsername ::
  "(string \<Rightarrow> string) \<Rightarrow> txctx \<Rightarrow> string \<Rightarrow> db \<Rightarrow> OperatorRow result" where
  "GetOperatorByUsername unicode_lower c username0 s =
     (if pool_nil c then pool_error
      else let username = NormalizeUsername unicode_lower username0 in
        if stmt_fails c (''query'', 0) \<or> \<not> pg_text username then
          Inl (ErrOther ''failed to query operator'')
        else case List.find (\<lambda>r. o_username r = username) (operators s) of
          None \<Rightarrow> Inl ErrOperatorNotFound
        | Some r \<Rightarrow>
          (case ParseRole (o_role r) of
             Inl e \<Rightarrow> Inl (ErrOther ''corrupt operator role'')
           | Inr role \<Rightarrow> Inr (r\<lparr>o_role := role\<rparr>)))"

section \<open>Sessions\<close>

definition prune_expired :: "txctx \<Rightarrow> uuid \<Rightarrow> SessionRow list \<Rightarrow> SessionRow list" where
  "prune_expired c operatorID rows =
     delete_where (\<lambda>r. s_operator_id r = operatorID \<and> s_expires_at r \<le> tx_now c) rows"

definition prune_excess :: "uuid \<Rightarrow> int \<Rightarrow> SessionRow list \<Rightarrow> SessionRow list" where
  "prune_excess operatorID retainCount rows =
     (let keep = map s_id (take (nat retainCount) (order_by_desc (\<lambda>r. (s_created_at r, s_id r))
            (filter (\<lambda>r. s_operator_id r = operatorID) rows)))
      in delete_where (\<lambda>r. s_operator_id r = operatorID \<and> s_id r \<notin> set keep) rows)"

definition CreateOperatorSession_tx ::
  "txctx \<Rightarrow> uuid \<Rightarrow> bytes \<Rightarrow> db \<Rightarrow> SessionRecord result tx_end" where
  "CreateOperatorSession_tx c operatorID tokenHash s =
     (if stmt_fails c (''lockOperator'', 0) then
        Rollback (Inl (ErrOther ''failed to lock operator record''))
      else case List.find (\<lambda>r. o_id r = operatorID \<and> o_disabled_at r = None) (operators s) of
        None \<Rightarrow> Rollback (Inl ErrAuthenticationFailed)
      | Some opr \<Rightarrow>
        (if stmt_fails c (''pruneExpired'', 0) then
           Rollback (Inl (ErrOther ''failed to prune expired sessions''))
         else if stmt_fails c (''pruneExcessQuery'', 0) then
           Rollback (Inl (ErrOther ''failed to prune excess sessions''))
         else let retainCount = MaxActiveSessionsPerOperator - 1;
                  rows = prune_excess operatorID retainCount
                    (prune_expired c operatorID (operator_sessions s));
                  lifetimeSeconds = SessionLifetime div second;
                  row = \<lparr>s_id = gen_id c (''insertSessionQuery'', 0), s_operator_id = operatorID,
                    s_token_hash = tokenHash, s_created_at = tx_now c,
                    s_expires_at = tx_now c + lifetimeSeconds * second\<rparr>
           in if stmt_fails c (''insertSessionQuery'', 0) \<or> length tokenHash \<noteq> 32
                 \<or> list_ex (\<lambda>r. s_id r = s_id row \<or> s_token_hash r = tokenHash) rows then
                Rollback (Inl (ErrOther ''failed to insert session''))
              else if stmt_fails c (''insertAuditQuery'', 0) then
                Rollback (Inl (ErrOther ''failed to record login audit event''))
              else Commit ''failed to commit session transaction''
                (Inr \<lparr>sr_ID = s_id row, sr_OperatorID = operatorID, sr_CreatedAt = s_created_at row,
                   sr_ExpiresAt = s_expires_at row\<rparr>)
                (add_audit c (Some operatorID) (o_username opr) ActionOperatorLogin
                  (Some operatorID) (Some (o_username opr))
                  (s\<lparr>operator_sessions := rows @ [row]\<rparr>))))"

definition CreateOperatorSession ::
  "txctx \<Rightarrow> uuid \<Rightarrow> bytes \<Rightarrow> db \<Rightarrow> SessionRecord result \<times> db" where
  "CreateOperatorSession c operatorID tokenHash s =
     (if pool_nil c then (pool_error, s)
      else run_tx c ''failed to begin session transaction'' s
        (CreateOperatorSession_tx c operatorID tokenHash s))"

definition enabled_operator :: "uuid \<Rightarrow> db \<Rightarrow> OperatorRow option" where
  "enabled_operator i s = List.find (\<lambda>r. o_id r = i \<and> o_disabled_at r = None) (operators s)"

definition FindOperatorSessionByTokenHash :: "txctx \<Rightarrow> bytes \<Rightarrow> db \<Rightarrow> Principal result" where
  "FindOperatorSessionByTokenHash c tokenHash s =
     (if pool_nil c then pool_error
      else if stmt_fails c (''query'', 0) then Inl (ErrOther ''failed to query session'')
      else case List.find (\<lambda>r. s_token_hash r = tokenHash \<and> s_expires_at r > tx_now c
             \<and> enabled_operator (s_operator_id r) s \<noteq> None) (operator_sessions s) of
        None \<Rightarrow> Inl ErrAuthenticationFailed
      | Some r \<Rightarrow>
        (case enabled_operator (s_operator_id r) s of
           None \<Rightarrow> Inl ErrAuthenticationFailed
         | Some opr \<Rightarrow>
           (case ParseRole (o_role opr) of
              Inl _ \<Rightarrow> Inl ErrAuthenticationFailed
            | Inr role \<Rightarrow> Inr \<lparr>p_OperatorID = o_id opr, p_Username = o_username opr,
                p_Role = role, p_SessionID = s_id r, p_ExpiresAt = s_expires_at r\<rparr>)))"

definition RevokeOperatorSession_tx ::
  "txctx \<Rightarrow> uuid \<Rightarrow> uuid \<Rightarrow> string \<Rightarrow> db \<Rightarrow> unit result tx_end" where
  "RevokeOperatorSession_tx c sessionID operatorID username s =
     (let hit = (\<lambda>r. s_id r = sessionID \<and> s_operator_id r = operatorID) in
      if stmt_fails c (''deleteSession'', 0) then
        Rollback (Inl (ErrOther ''failed to delete session''))
      else if \<not> list_ex hit (operator_sessions s) then Rollback (Inl ErrSessionNotFound)
      else let s1 = s\<lparr>operator_sessions := delete_where hit (operator_sessions s)\<rparr>
      in if stmt_fails c (''insertAuditQuery'', 0)
            \<or> \<not> audit_check (Some operatorID) username s1 then
           Rollback (Inl (ErrOther ''failed to record logout audit event''))
         else Commit ''failed to commit logout transaction'' (Inr ())
           (add_audit c (Some operatorID) username ActionOperatorLogout None None s1))"

definition RevokeOperatorSession ::
  "txctx \<Rightarrow> uuid \<Rightarrow> uuid \<Rightarrow> string \<Rightarrow> db \<Rightarrow> unit result \<times> db" where
  "RevokeOperatorSession c sessionID operatorID username s =
     (if pool_nil c then (pool_error, s)
      else run_tx c ''failed to begin logout transaction'' s
        (RevokeOperatorSession_tx c sessionID operatorID username s))"

section \<open>Reading the audit log\<close>

definition RecordAndListAuditEvents_tx ::
  "txctx \<Rightarrow> uuid \<Rightarrow> string \<Rightarrow> int \<Rightarrow> db \<Rightarrow> AuditRow list result tx_end" where
  "RecordAndListAuditEvents_tx c actorOperatorID actorUsername limit s =
     (if stmt_fails c (''insertAuditQuery'', 0)
         \<or> \<not> audit_check (Some actorOperatorID) actorUsername s then
        Rollback (Inl (ErrOther ''failed to record audit read event''))
      else let s1 = add_audit c (Some actorOperatorID) actorUsername ActionOperatorAuditRead None
                 None s
      in if stmt_fails c (''listAuditQuery'', 0) then
           Rollback (Inl (ErrOther ''failed to query audit events''))
         else if stmt_fails c (''scan'', 0) then
           Rollback (Inl (ErrOther ''failed to scan audit event''))
         else if stmt_fails c (''rows'', 0) then
           Rollback (Inl (ErrOther ''error iterating audit events''))
         else Commit ''failed to commit audit read transaction''
           (Inr (take (nat limit) (order_by_desc (\<lambda>r. (au_occurred_at r, au_id r))
             (operator_audit_events s1)))) s1)"

definition RecordAndListAuditEvents ::
  "txctx \<Rightarrow> uuid \<Rightarrow> string \<Rightarrow> int \<Rightarrow> db \<Rightarrow> AuditRow list result \<times> db" where
  "RecordAndListAuditEvents c actorOperatorID actorUsername limit s =
     (if pool_nil c then (pool_error, s)
      else if limit \<le> 0 \<or> limit > 200 then (Inl (ErrOther ''invalid audit limit''), s)
      else run_tx c ''failed to begin audit read transaction'' s
        (RecordAndListAuditEvents_tx c actorOperatorID actorUsername limit s))"

end
