(* ===== verification/Store_Runs.thy ===== *)
theory Store_Runs
  imports Jobs_Refinement Agent_Store Operator_Store
begin

text \<open>
  The store as a whole: every operation of \<^verbatim>\<open>src/internal/database\<close> as a value of one type,
  interleavings as lists of operations, the databases reachable from the empty one, and the
  invariant all of them satisfy.
\<close>

section \<open>Operations and runs\<close>

datatype store_op =
    OpCreateEnrollmentToken bytes time
  | OpRegisterAgent bytes bytes
  | OpRecordAgentHeartbeat bytes int
  | OpRecordAgentInventory bytes "InventoryRequest option"
  | OpRecordAgentTelemetry bytes "TelemetryRequest option"
  | OpCreateOperator string string string
  | OpCreateOperatorSession uuid bytes
  | OpRevokeOperatorSession uuid uuid string
  | OpRecordAndListAuditEvents uuid string int
  | OpCreateJob uuid uuid string bytes
  | OpGetJobByID uuid
  | OpListJobs int "uuid option" "string option"
  | OpClaimNextAgentJob uuid
  | OpStartAgentJob uuid uuid int
  | OpCompleteAgentJob uuid uuid int string string

text \<open>
  The database an operation leaves behind. The reads that follow the reconciling transaction
  of \<^verbatim>\<open>GetJobByID\<close> and \<^verbatim>\<open>ListJobs\<close> do not write, so what runs between the two is simply the
  next operation of the run.
\<close>

fun exec :: "(uuid \<Rightarrow> string) \<Rightarrow> (string \<Rightarrow> string) \<Rightarrow> txctx \<times> store_op \<Rightarrow> db \<Rightarrow> db" where
  "exec us ul (c, OpCreateEnrollmentToken h t) s = snd (CreateEnrollmentToken c h t s)"
| "exec us ul (c, OpRegisterAgent h k) s = snd (RegisterAgent c h k s)"
| "exec us ul (c, OpRecordAgentHeartbeat k v) s = snd (RecordAgentHeartbeat c k v s)"
| "exec us ul (c, OpRecordAgentInventory k q) s = snd (RecordAgentInventory c k q s)"
| "exec us ul (c, OpRecordAgentTelemetry k q) s = snd (RecordAgentTelemetry c k q s)"
| "exec us ul (c, OpCreateOperator u h r) s = snd (CreateOperator ul c u h r s)"
| "exec us ul (c, OpCreateOperatorSession i h) s = snd (CreateOperatorSession c i h s)"
| "exec us ul (c, OpRevokeOperatorSession i p u) s = snd (RevokeOperatorSession c i p u s)"
| "exec us ul (c, OpRecordAndListAuditEvents p u n) s = snd (RecordAndListAuditEvents c p u n s)"
| "exec us ul (c, OpCreateJob p a x h) s = snd (CreateJob c p a x h s)"
| "exec us ul (c, OpGetJobByID i) s = snd (GetJobByID c id i s)"
| "exec us ul (c, OpListJobs n a st) s = snd (ListJobs c id n a st s)"
| "exec us ul (c, OpClaimNextAgentJob a) s = snd (ClaimNextAgentJob us c a s)"
| "exec us ul (c, OpStartAgentJob a i n) s = snd (StartAgentJob us c a i n s)"
| "exec us ul (c, OpCompleteAgentJob a i n out fc) s = snd (CompleteAgentJob us c a i n out fc s)"

definition run_ops :: "(uuid \<Rightarrow> string) \<Rightarrow> (string \<Rightarrow> string) \<Rightarrow> (txctx \<times> store_op) list \<Rightarrow> db \<Rightarrow> db" where
  "run_ops us ul ops s = foldl (\<lambda>t x. exec us ul x t) s ops"

inductive reachable :: "(uuid \<Rightarrow> string) \<Rightarrow> (string \<Rightarrow> string) \<Rightarrow> db \<Rightarrow> bool" for us ul where
  start: "reachable us ul empty_db"
| step: "reachable us ul s \<Longrightarrow> reachable us ul (exec us ul x s)"

lemma run_ops_simps [simp]:
  "run_ops us ul [] s = s"
  "run_ops us ul (x # xs) s = run_ops us ul xs (exec us ul x s)"
  "run_ops us ul (xs @ ys) s = run_ops us ul ys (run_ops us ul xs s)"
  by (simp_all add: run_ops_def)

lemma reachable_run_ops: "reachable us ul s \<Longrightarrow> reachable us ul (run_ops us ul ops s)"
  by (induction ops arbitrary: s) (auto intro: reachable.step)

lemma reachable_iff_run: "reachable us ul s \<longleftrightarrow> (\<exists>ops. s = run_ops us ul ops empty_db)"
proof
  assume "reachable us ul s"
  then show "\<exists>ops. s = run_ops us ul ops empty_db"
  proof induction
    case start
    show ?case by (rule exI [of _ "[]"]) simp
  next
    case (step s x)
    then obtain ops where "s = run_ops us ul ops empty_db" by blast
    then have "exec us ul x s = run_ops us ul (ops @ [x]) empty_db" by simp
    then show ?case by blast
  qed
qed (auto intro: reachable_run_ops reachable.start)

section \<open>What each operation leaves alone\<close>

text \<open>
  Anything \<open>g\<close> reads off the database is unchanged by an operation when it does not depend on
  the tables that operation writes.
\<close>

lemma run_tx_keeps:
  "(\<And>m r t. body = Commit m r t \<Longrightarrow> g t = g s) \<Longrightarrow> g (snd (run_tx c bm s body)) = g s"
  using run_tx_snd [of c bm s body] by metis

lemma run_auto_keeps: "g (snd body) = g s \<Longrightarrow> g (snd (run_auto c st m s body)) = g s"
  using run_auto_cases [of c st m s body] by (cases "run_auto c st m s body") auto

lemmas expired_defs = requeue_expired_def exhaust_expired_def timeout_expired_def

text \<open>The job engine writes \<^verbatim>\<open>jobs\<close> and \<^verbatim>\<open>job_events\<close>, and \<^verbatim>\<open>CreateJob\<close> the audit log.\<close>

definition ignores_jobs :: "(db \<Rightarrow> 'x) \<Rightarrow> bool" where
  "ignores_jobs g \<longleftrightarrow> (\<forall>s x. g (s\<lparr>jobs := x\<rparr>) = g s) \<and> (\<forall>s x. g (s\<lparr>job_events := x\<rparr>) = g s)"

lemma ignores_jobs_writes:
  assumes "ignores_jobs g"
  shows "g (add_event c st i ev att actor ident fc s) = g s" "g (set_job i f s) = g s"
    "g (s\<lparr>jobs := js\<rparr>) = g s"
  using assms by (simp_all add: ignores_jobs_def add_event_def set_job_def)

lemma reconcileExpired_keeps:
  assumes "reconcileExpiredJobsInTx c a n s = Inr t" and "ignores_jobs g"
  shows "g t = g s"
proof -
  note writes = ignores_jobs_writes [OF assms(2)]
  have loop1: "g u = g v" if "for_each (reconcile_dispatched c) xs v = Inr u" for xs u v
    by (rule for_each_invariant [OF that, where I = "\<lambda>w. g w = g v"])
      (auto simp: reconcile_dispatched_def expired_defs Let_def writes split: if_splits)
  have loop2: "g u = g v" if "for_each (reconcile_running c) xs v = Inr u" for xs u v
    by (rule for_each_invariant [OF that, where I = "\<lambda>w. g w = g v"])
      (auto simp: reconcile_running_def expired_defs Let_def writes split: if_splits)
  show ?thesis
    using assms(1) by (rule reconcileExpiredE) (metis loop1 loop2)
qed

lemma reconcileSingle_keeps:
  "reconcileSingleJobInTx c i s = Inr t \<Longrightarrow> ignores_jobs g \<Longrightarrow> g t = g s"
  by (auto simp: reconcileSingleJobInTx_def expired_defs Let_def ignores_jobs_writes
      split: if_splits option.splits)

lemma CreateJob_keeps:
  assumes "ignores_jobs g" and "\<And>s x. g (s\<lparr>operator_audit_events := x\<rparr>) = g s"
  shows "g (snd (CreateJob c p a x h s)) = g s"
proof -
  have ins: "g t = g s" if "CreateJob_insert c p a x h u s = Commit m r t" for u m r t
    using that by (auto simp: CreateJob_insert_def Let_def ignores_jobs_writes [OF assms(1)] assms(2)
        split: if_splits)
  have "g t = g s" if "CreateJob_tx c p a x h s = Commit m r t" for m r t
    using that by (auto simp: CreateJob_tx_def split: if_splits option.splits sum.splits dest: ins)
  then show ?thesis by (simp add: CreateJob_def run_tx_keeps)
qed

lemma GetJobByID_keeps:
  assumes "ignores_jobs g"
  shows "g (snd (GetJobByID c id i s)) = g s"
proof -
  let ?b = "case reconcileSingleJobInTx c i s of
      Inl e \<Rightarrow> Rollback (Inl (if errors_Is e ErrJobNotFound then ErrJobNotFound else e))
    | Inr s1 \<Rightarrow> Commit ''failed to commit job reconciliation'' (Inr ()) s1"
  have "g (snd (run_tx c ''failed to begin reconciliation transaction'' s ?b)) = g s"
    by (rule run_tx_keeps) (auto split: sum.splits intro: reconcileSingle_keeps [OF _ assms])
  then show ?thesis
    by (auto simp: GetJobByID_def split: prod.splits sum.splits)
qed

lemma ListJobs_keeps:
  assumes "ignores_jobs g"
  shows "g (snd (ListJobs c id n a st s)) = g s"
proof -
  let ?b = "case reconcileExpiredJobsInTx c a 100 s of
      Inl _ \<Rightarrow> Rollback (Inl (ErrOther ''failed to reconcile expired jobs''))
    | Inr s1 \<Rightarrow> Commit ''failed to commit list reconciliation'' (Inr ()) s1"
  have "g (snd (run_tx c ''failed to begin list reconciliation transaction'' s ?b)) = g s"
    by (rule run_tx_keeps) (auto split: sum.splits intro: reconcileExpired_keeps [OF _ assms])
  then show ?thesis
    by (auto simp: ListJobs_def Let_def split: prod.splits sum.splits)
qed

lemma ClaimNextAgentJob_keeps:
  assumes "ignores_jobs g"
  shows "g (snd (ClaimNextAgentJob us c a s)) = g s"
proof -
  have pick: "g t = g u" if "ClaimNextAgentJob_pick us c a u = Commit m r t" for u m r t
    using that by (auto simp: ClaimNextAgentJob_pick_def Let_def ignores_jobs_writes [OF assms]
        split: if_splits list.splits)
  have "g t = g s" if "ClaimNextAgentJob_tx us c a s = Commit m r t" for m r t
    using that by (auto simp: ClaimNextAgentJob_tx_def split: if_splits sum.splits
        dest!: pick reconcileExpired_keeps [OF _ assms])
  then show ?thesis by (simp add: ClaimNextAgentJob_def run_tx_keeps)
qed

lemma StartAgentJob_keeps:
  assumes "ignores_jobs g"
  shows "g (snd (StartAgentJob us c a i n s)) = g s"
proof -
  have "g t = g s" if "StartAgentJob_tx us c a i n s = Commit m r t" for m r t
    using that by (auto simp: StartAgentJob_tx_def Let_def ignores_jobs_writes [OF assms]
        split: if_splits option.splits)
  then show ?thesis by (simp add: StartAgentJob_def run_tx_keeps)
qed

lemma CompleteAgentJob_keeps:
  assumes "ignores_jobs g"
  shows "g (snd (CompleteAgentJob us c a i n out fc s)) = g s"
proof -
  have run: "g t = g s" if "complete_running us c b i k out d s = Commit m r t" for b k d m r t
    using that by (auto simp: complete_running_def Let_def ignores_jobs_writes [OF assms]
        split: if_splits)
  have "g t = g s" if "CompleteAgentJob_tx us c a i n out fc s = Commit m r t" for m r t
    using that by (auto simp: CompleteAgentJob_tx_def Let_def split: if_splits option.splits
        dest: run)
  then show ?thesis by (simp add: CompleteAgentJob_def run_tx_keeps)
qed

lemmas job_op_keeps = CreateJob_keeps GetJobByID_keeps ListJobs_keeps ClaimNextAgentJob_keeps
  StartAgentJob_keeps CompleteAgentJob_keeps

text \<open>The other stores.\<close>

lemma CreateEnrollmentToken_keeps:
  assumes "\<And>s x. g (s\<lparr>enrollment_tokens := x\<rparr>) = g s"
  shows "g (snd (CreateEnrollmentToken c h t s)) = g s"
  by (auto simp: CreateEnrollmentToken_def Let_def assms intro!: run_auto_keeps)

lemma RegisterAgent_keeps:
  assumes "\<And>s x. g (s\<lparr>enrollment_tokens := x\<rparr>) = g s" and "\<And>s x. g (s\<lparr>agents := x\<rparr>) = g s"
  shows "g (snd (RegisterAgent c h k s)) = g s"
proof -
  have "g t = g s" if "RegisterAgent_tx c h k s = Commit m r t" for m r t
    using that by (auto simp: RegisterAgent_tx_def assms split: if_splits option.splits sum.splits)
  then show ?thesis by (simp add: RegisterAgent_def run_tx_keeps)
qed

lemma RecordAgentHeartbeat_keeps:
  assumes "\<And>s x. g (s\<lparr>agents := x\<rparr>) = g s"
  shows "g (snd (RecordAgentHeartbeat c k v s)) = g s"
  by (auto simp: RecordAgentHeartbeat_def assms split: option.splits intro!: run_auto_keeps)

lemma RecordAgentInventory_keeps:
  assumes "\<And>s x. g (s\<lparr>agent_inventory := x\<rparr>) = g s"
  shows "g (snd (RecordAgentInventory c k q s)) = g s"
  by (auto simp: RecordAgentInventory_def Let_def assms split: option.splits
      intro!: run_auto_keeps)

lemma RecordAgentTelemetry_keeps:
  assumes "\<And>s x. g (s\<lparr>agent_telemetry := x\<rparr>) = g s"
  shows "g (snd (RecordAgentTelemetry c k q s)) = g s"
  by (auto simp: RecordAgentTelemetry_def Let_def assms split: option.splits
      intro!: run_auto_keeps)

lemma CreateOperator_keeps:
  assumes "\<And>s x. g (s\<lparr>operators := x\<rparr>) = g s" and "\<And>s x. g (s\<lparr>operator_audit_events := x\<rparr>) = g s"
  shows "g (snd (CreateOperator ul c u h r s)) = g s"
proof -
  have "g t = g s" if "CreateOperator_tx c v h r s = Commit m q t" for m q t v
    using that by (auto simp: CreateOperator_tx_def add_audit_def Let_def assms split: if_splits)
  then show ?thesis by (simp add: CreateOperator_def Let_def run_tx_keeps split: sum.splits)
qed

lemma CreateOperatorSession_keeps:
  assumes "\<And>s x. g (s\<lparr>operator_sessions := x\<rparr>) = g s"
    and "\<And>s x. g (s\<lparr>operator_audit_events := x\<rparr>) = g s"
  shows "g (snd (CreateOperatorSession c i h s)) = g s"
proof -
  have "g t = g s" if "CreateOperatorSession_tx c i h s = Commit m q t" for m q t
    using that by (auto simp: CreateOperatorSession_tx_def add_audit_def Let_def assms
        split: if_splits option.splits)
  then show ?thesis by (simp add: CreateOperatorSession_def run_tx_keeps)
qed

lemma RevokeOperatorSession_keeps:
  assumes "\<And>s x. g (s\<lparr>operator_sessions := x\<rparr>) = g s"
    and "\<And>s x. g (s\<lparr>operator_audit_events := x\<rparr>) = g s"
  shows "g (snd (RevokeOperatorSession c i p u s)) = g s"
proof -
  have "g t = g s" if "RevokeOperatorSession_tx c i p u s = Commit m q t" for m q t
    using that by (auto simp: RevokeOperatorSession_tx_def add_audit_def Let_def assms
        split: if_splits)
  then show ?thesis by (simp add: RevokeOperatorSession_def run_tx_keeps)
qed

lemma RecordAndListAuditEvents_keeps:
  assumes "\<And>s x. g (s\<lparr>operator_audit_events := x\<rparr>) = g s"
  shows "g (snd (RecordAndListAuditEvents c p u n s)) = g s"
proof -
  have "g t = g s" if "RecordAndListAuditEvents_tx c p u n s = Commit m q t" for m q t
    using that by (auto simp: RecordAndListAuditEvents_tx_def add_audit_def Let_def assms
        split: if_splits)
  then show ?thesis by (simp add: RecordAndListAuditEvents_def run_tx_keeps)
qed

lemmas other_op_keeps = CreateEnrollmentToken_keeps RegisterAgent_keeps RecordAgentHeartbeat_keeps
  RecordAgentInventory_keeps RecordAgentTelemetry_keeps CreateOperator_keeps
  CreateOperatorSession_keeps RevokeOperatorSession_keeps RecordAndListAuditEvents_keeps

lemma other_op_view:
  "view_of (snd (CreateEnrollmentToken c h t s)) = view_of s"
  "view_of (snd (RegisterAgent c h k s)) = view_of s"
  "view_of (snd (RecordAgentHeartbeat c k v s)) = view_of s"
  "view_of (snd (RecordAgentInventory c k q s)) = view_of s"
  "view_of (snd (RecordAgentTelemetry c k p s)) = view_of s"
  "view_of (snd (CreateOperator ul c u h r s)) = view_of s"
  "view_of (snd (CreateOperatorSession c i h s)) = view_of s"
  "view_of (snd (RevokeOperatorSession c i j u s)) = view_of s"
  "view_of (snd (RecordAndListAuditEvents c i u n s)) = view_of s"
  by (simp_all add: other_op_keeps [where g = view_of])

lemma exec_steps:
  assumes "machine_inv (view_of s)"
  shows "job_step\<^sup>*\<^sup>* (view_of s) (view_of (exec us ul x s))"
proof -
  obtain c op where x: "x = (c, op)" by (cases x)
  show ?thesis
    using assms CreateJob_steps GetJobByID_steps [where between = id]
      ListJobs_steps [where between = id] ClaimNextAgentJob_steps StartAgentJob_steps
      CompleteAgentJob_steps other_op_view
    unfolding x by (cases op) (simp_all, (metis id_apply prod.collapse rtranclp.rtrancl_refl)+)
qed

end
