(* ===== verification/Store_Invariant.thy ===== *)
theory Store_Invariant
  imports Store_Runs
begin

text \<open>
  The invariant of the whole database: the job machine's, the one-to-one correspondence of
  consumed enrollment tokens and agents, the snapshot tables' CHECK constraints, and the
  bounds on operator sessions. Each store operation preserves it, so it holds in every
  reachable database.
\<close>

section \<open>Systems with an invariant\<close>

text \<open>
  A contract shared by the job machine and by the store: steps keep an invariant. Under it,
  any predicate that single steps keep is kept by every run.
\<close>

locale invariant_system =
  fixes step :: "'s \<Rightarrow> 's \<Rightarrow> bool" and inv :: "'s \<Rightarrow> bool"
  assumes step_inv: "inv s \<Longrightarrow> step s t \<Longrightarrow> inv t"
begin

lemma run_inv: "step\<^sup>*\<^sup>* s t \<Longrightarrow> inv s \<Longrightarrow> inv t"
  by (induction rule: rtranclp_induct) (auto intro: step_inv)

lemma run_keeps:
  assumes "step\<^sup>*\<^sup>* s t" and "inv s" and "P s"
    and "\<And>s t. inv s \<Longrightarrow> step s t \<Longrightarrow> P s \<Longrightarrow> P t"
  shows "P t"
proof -
  have "inv t \<and> P t"
    using assms(1)
  proof (induction rule: rtranclp_induct)
    case base
    show ?case using assms(2,3) by simp
  next
    case (step u v)
    then show ?case using assms(4) step_inv by blast
  qed
  then show ?thesis ..
qed

end

interpretation machine: invariant_system job_step machine_inv
  by unfold_locales (rule job_step_inv)

section \<open>Enrollment\<close>

definition consumed_ids :: "EnrollmentTokenRow list \<Rightarrow> uuid set" where
  "consumed_ids ts = et_id ` {t \<in> set ts. et_consumed_at t \<noteq> None}"

definition enrollment_inv :: "EnrollmentTokenRow list \<Rightarrow> AgentRow list \<Rightarrow> bool" where
  "enrollment_inv ts ags \<longleftrightarrow>
     distinct (map et_id ts) \<and> distinct (map et_token_hash ts)
     \<and> distinct (map a_id ags) \<and> distinct (map a_public_key ags)
     \<and> distinct (map a_enrollment_token_id ags)
     \<and> list_all (\<lambda>t. length (et_token_hash t) = 32) ts
     \<and> list_all (\<lambda>a. length (a_public_key a) = 32) ags
     \<and> consumed_ids ts = a_enrollment_token_id ` set ags"

lemma enrollment_invD:
  assumes "enrollment_inv ts ags"
  shows "distinct (map et_id ts)" "distinct (map et_token_hash ts)" "distinct (map a_id ags)"
    "distinct (map a_public_key ags)" "distinct (map a_enrollment_token_id ags)"
    "consumed_ids ts = a_enrollment_token_id ` set ags"
    "\<And>a. a \<in> set ags \<Longrightarrow> length (a_public_key a) = 32"
  using assms by (auto simp: enrollment_inv_def list_all_iff)

lemma consumed_ids_simps [simp]:
  "consumed_ids [] = {}"
  "consumed_ids (t # ts) = (if et_consumed_at t = None then consumed_ids ts
     else insert (et_id t) (consumed_ids ts))"
  "consumed_ids (ts @ us) = consumed_ids ts \<union> consumed_ids us"
  by (auto simp: consumed_ids_def)

lemma consumed_ids_consume:
  "consumed_ids (update_where (\<lambda>u. et_id u = i) (\<lambda>u. u\<lparr>et_consumed_at := Some now\<rparr>) ts)
     = consumed_ids ts \<union> ({i} \<inter> et_id ` set ts)"
  by (induction ts) auto

lemma CreateEnrollmentToken_inv:
  assumes "enrollment_inv (enrollment_tokens s) (agents s)"
    and "s' = snd (CreateEnrollmentToken c h t s)"
  shows "enrollment_inv (enrollment_tokens s') (agents s')"
proof -
  let ?i = "gen_id c (''query'', 0)"
  let ?row = "\<lparr>et_id = ?i, et_token_hash = h, et_created_at = tx_now c, et_expires_at = t,
    et_consumed_at = None\<rparr>"
  have "s' = s \<or> length h = 32
      \<and> ?i \<notin> et_id ` set (enrollment_tokens s) \<and> h \<notin> et_token_hash ` set (enrollment_tokens s)
      \<and> s' = s\<lparr>enrollment_tokens := enrollment_tokens s @ [?row]\<rparr>"
    using assms(2) by (auto simp: CreateEnrollmentToken_def run_auto_def Let_def list_ex_iff
        split: if_splits commit_outcome.splits)
  then show ?thesis
    using assms(1) by (auto simp: enrollment_inv_def)
qed

text \<open>What a committed registration was and did.\<close>

lemma RegisterAgent_tx_commit:
  assumes "RegisterAgent_tx c h k s = Commit m r s'"
  obtains (Replay) t a where "t \<in> set (enrollment_tokens s)" "et_token_hash t = h"
      "et_consumed_at t \<noteq> None" "a \<in> set (agents s)" "a_enrollment_token_id a = et_id t"
      "a_public_key a = k" "s' = s"
      "r = Inr (\<lparr>ar_ID = a_id a, ar_PublicKey = k, ar_CreatedAt = a_created_at a,
         ar_LastSeenAt = None, ar_ProtocolVersion = None\<rparr>, False)"
  | (Fresh) t a where "t \<in> set (enrollment_tokens s)" "et_token_hash t = h"
      "et_consumed_at t = None" "tx_now c < et_expires_at t"
      "insertAgent c k (et_id t) s = Inr a"
      "s' = s\<lparr>agents := agents s @ [a], enrollment_tokens := update_where (\<lambda>u. et_id u = et_id t)
         (\<lambda>u. u\<lparr>et_consumed_at := Some (tx_now c)\<rparr>) (enrollment_tokens s)\<rparr>"
      "r = Inr (\<lparr>ar_ID = a_id a, ar_PublicKey = k, ar_CreatedAt = a_created_at a,
         ar_LastSeenAt = None, ar_ProtocolVersion = None\<rparr>, True)"
proof -
  obtain t where t: "List.find (\<lambda>t. et_token_hash t = h) (enrollment_tokens s) = Some t"
    using assms by (auto simp: RegisterAgent_tx_def split: if_splits option.splits)
  note row = find_Some_D [OF t]
  show thesis
  proof (cases "et_consumed_at t")
    case None
    then show thesis
      using assms t row Fresh by (auto simp: RegisterAgent_tx_def split: if_splits sum.splits)
  next
    case (Some x)
    then obtain a where "List.find (\<lambda>a. a_enrollment_token_id a = et_id t) (agents s) = Some a"
      using assms t by (auto simp: RegisterAgent_tx_def split: if_splits option.splits)
    then show thesis
      using assms t row Some find_Some_D Replay
      by (fastforce simp: RegisterAgent_tx_def split: if_splits)
  qed
qed

lemma insertAgent_ok:
  assumes "insertAgent c k i s = Inr a"
  shows "a = \<lparr>a_id = gen_id c (''insertAgent'', 0), a_public_key = k, a_enrollment_token_id = i,
      a_created_at = tx_now c, a_last_seen_at = None, a_protocol_version = None\<rparr>"
    and "length k = 32"
    and "a_id a \<notin> a_id ` set (agents s)" "k \<notin> a_public_key ` set (agents s)"
      "i \<notin> a_enrollment_token_id ` set (agents s)"
  using assms by (auto simp: insertAgent_def Let_def list_ex_iff split: if_splits)

lemma RegisterAgent_inv:
  assumes inv: "enrollment_inv (enrollment_tokens s) (agents s)"
    and "s' = snd (RegisterAgent c h k s)"
  shows "enrollment_inv (enrollment_tokens s') (agents s')"
proof -
  have "s' = s \<or> (\<exists>m r. RegisterAgent_tx c h k s = Commit m r s')"
    using assms(2) run_tx_snd by (metis RegisterAgent_def snd_conv)
  then show ?thesis
  proof (elim disjE exE)
    fix m r
    assume "RegisterAgent_tx c h k s = Commit m r s'"
    then show ?thesis
    proof (cases rule: RegisterAgent_tx_commit)
      case (Fresh t a)
      note ins = insertAgent_ok [OF Fresh(5)]
      have cons: "consumed_ids (enrollment_tokens s') = insert (et_id t) (consumed_ids (enrollment_tokens s))"
        unfolding Fresh(6) using Fresh(1) by (auto simp: consumed_ids_consume)
      have keys: "map et_id (enrollment_tokens s') = map et_id (enrollment_tokens s)"
        "map et_token_hash (enrollment_tokens s') = map et_token_hash (enrollment_tokens s)"
        unfolding Fresh(6) by (simp_all add: map_update_where)
      have "list_all (\<lambda>t. length (et_token_hash t) = 32) (enrollment_tokens s')"
        using inv unfolding Fresh(6)
        by (auto simp: enrollment_inv_def list_all_iff in_set_update_where split: if_splits)
      moreover have "agents s' = agents s @ [a]" by (simp add: Fresh(6))
      ultimately show ?thesis
        using inv ins cons keys by (auto simp: enrollment_inv_def)
    qed (use inv in simp)
  qed (use inv in simp)
qed

lemma RecordAgentHeartbeat_inv:
  assumes "enrollment_inv (enrollment_tokens s) (agents s)"
    and "s' = snd (RecordAgentHeartbeat c k v s)"
  shows "enrollment_inv (enrollment_tokens s') (agents s')"
proof -
  let ?f = "\<lambda>b. b\<lparr>a_last_seen_at := Some (tx_now c), a_protocol_version := Some v\<rparr>"
  have cases: "s' = s \<or> s' = s\<lparr>agents := update_where (\<lambda>b. a_public_key b = k) ?f (agents s)\<rparr>"
    using assms(2) by (auto simp: RecordAgentHeartbeat_def run_auto_def
        split: if_splits option.splits commit_outcome.splits)
  have keys: "map g (update_where (\<lambda>b. a_public_key b = k) ?f (agents s)) = map g (agents s)"
    if "\<And>b. g (?f b) = g b" for g :: "AgentRow \<Rightarrow> 'x"
    using that by (simp add: map_update_where)
  have "list_all (\<lambda>a. length (a_public_key a) = 32) (update_where (\<lambda>b. a_public_key b = k) ?f (agents s))"
    using assms(1) by (auto simp: enrollment_inv_def list_all_iff in_set_update_where)
  moreover have "a_enrollment_token_id ` set (update_where (\<lambda>b. a_public_key b = k) ?f (agents s))
      = a_enrollment_token_id ` set (agents s)"
    by (metis (no_types, lifting) AgentRow.select_convs(3) AgentRow.surjective
        AgentRow.update_convs(5,6) keys list.set_map)
  ultimately show ?thesis
    using cases assms(1) by (elim disjE) (simp_all add: enrollment_inv_def keys)
qed

section \<open>Snapshots\<close>

definition snapshot_inv :: "InventoryRow list \<Rightarrow> TelemetryRow list \<Rightarrow> bool" where
  "snapshot_inv ivs tls \<longleftrightarrow>
     distinct (map inv_agent_id ivs) \<and> list_all inventory_check ivs
     \<and> distinct (map tel_agent_id tls) \<and> list_all telemetry_check tls"

lemma map_key_upsert:
  "map key (upsert key r rows) = map key rows @ (if key r \<in> key ` set rows then [] else [key r])"
proof (cases "key r \<in> key ` set rows")
  case True
  then have "list_ex (\<lambda>x. key x = key r) rows"
    by (auto simp: list_ex_iff)
  moreover have "map key (update_where (\<lambda>x. key x = key r) (\<lambda>_. r) rows) = map key rows"
    by (rule map_update_where) simp
  ultimately show ?thesis using True by (simp add: upsert_def)
next
  case False
  then have "\<not> list_ex (\<lambda>x. key x = key r) rows"
    by (auto simp: list_ex_iff rev_image_eqI)
  then show ?thesis using False by (simp add: upsert_def)
qed

lemma distinct_upsert: "distinct (map key rows) \<Longrightarrow> distinct (map key (upsert key r rows))"
  by (simp add: map_key_upsert)

lemma list_all_upsert: "list_all P rows \<Longrightarrow> P r \<Longrightarrow> list_all P (upsert key r rows)"
  by (auto simp: upsert_def list_all_iff in_set_update_where)

lemma upsert_mem: "r \<in> set (upsert key r rows)"
  by (auto simp: upsert_def in_set_update_where list_ex_iff)

lemma upsert_find:
  assumes "distinct (map key rows)"
  shows "List.find (\<lambda>x. key x = key r) (upsert key r rows) = Some r"
  by (rule find_unique_key [OF distinct_upsert [OF assms] upsert_mem])

lemma RecordAgentInventory_inv:
  assumes "snapshot_inv (agent_inventory s) tls" and "s' = snd (RecordAgentInventory c k q s)"
  shows "snapshot_inv (agent_inventory s') tls"
proof -
  have "s' = s \<or> (\<exists>row. inventory_check row
      \<and> s' = s\<lparr>agent_inventory := upsert inv_agent_id row (agent_inventory s)\<rparr>)"
    using assms(2) by (auto simp: RecordAgentInventory_def run_auto_def Let_def
        split: if_splits option.splits commit_outcome.splits)
  then show ?thesis
    using assms(1) by (auto simp: snapshot_inv_def distinct_upsert list_all_upsert)
qed

lemma RecordAgentTelemetry_inv:
  assumes "snapshot_inv ivs (agent_telemetry s)" and "s' = snd (RecordAgentTelemetry c k q s)"
  shows "snapshot_inv ivs (agent_telemetry s')"
proof -
  have "s' = s \<or> (\<exists>row. telemetry_check row
      \<and> s' = s\<lparr>agent_telemetry := upsert tel_agent_id row (agent_telemetry s)\<rparr>)"
    using assms(2) by (auto simp: RecordAgentTelemetry_def run_auto_def Let_def
        split: if_splits option.splits commit_outcome.splits)
  then show ?thesis
    using assms(1) by (auto simp: snapshot_inv_def distinct_upsert list_all_upsert)
qed

section \<open>Operators and sessions\<close>

definition operator_row_ok :: "OperatorRow \<Rightarrow> bool" where
  "operator_row_ok r \<longleftrightarrow> ValidateUsername (o_username r) = Inr () \<and> Role_Valid (o_role r)"

definition session_count :: "uuid \<Rightarrow> SessionRow list \<Rightarrow> nat" where
  "session_count i rows = count_where (\<lambda>r. s_operator_id r = i) rows"

definition operator_inv :: "OperatorRow list \<Rightarrow> SessionRow list \<Rightarrow> bool" where
  "operator_inv oprs ss \<longleftrightarrow>
     distinct (map o_id oprs) \<and> distinct (map o_username oprs) \<and> list_all operator_row_ok oprs
     \<and> distinct (map s_id ss) \<and> distinct (map s_token_hash ss)
     \<and> list_all (\<lambda>r. s_operator_id r \<in> o_id ` set oprs) ss
     \<and> list_all (\<lambda>r. s_expires_at r = s_created_at r + SessionLifetime) ss
     \<and> (\<forall>i. int (session_count i ss) \<le> MaxActiveSessionsPerOperator)"

lemma distinct_map_delete_where: "distinct (map k xs) \<Longrightarrow> distinct (map k (delete_where P xs))"
  by (simp add: delete_where_def distinct_map_filter)

lemma list_all_delete_where: "list_all P xs \<Longrightarrow> list_all P (delete_where Q xs)"
  by (auto simp: delete_where_def list_all_iff)

lemma count_delete_where_le: "count_where P (delete_where Q xs) \<le> count_where P xs"
  by (induction xs) (auto simp: delete_where_def)

lemma operator_inv_delete:
  assumes "operator_inv oprs ss"
  shows "operator_inv oprs (delete_where Q ss)"
proof -
  have "int (session_count i (delete_where Q ss)) \<le> MaxActiveSessionsPerOperator" for i
    using assms count_delete_where_le [of "\<lambda>r. s_operator_id r = i" Q ss]
    by (auto simp: operator_inv_def session_count_def intro: order_trans [OF of_nat_mono])
  then show ?thesis
    using assms by (simp add: operator_inv_def distinct_map_delete_where list_all_delete_where)
qed

text \<open>
  After the excess is pruned at most \<open>retainCount\<close> of the operator's sessions are left: each
  has a distinct id, and every id is among the kept ones.
\<close>

lemma prune_excess_count:
  assumes "distinct (map s_id rows)"
  shows "session_count i (prune_excess i n rows) \<le> nat n"
proof -
  let ?keep = "map s_id (take (nat n) (order_by_desc (\<lambda>r. (s_created_at r, s_id r))
    (filter (\<lambda>r. s_operator_id r = i) rows)))"
  let ?left = "filter (\<lambda>r. s_operator_id r = i) (prune_excess i n rows)"
  have "distinct (map s_id ?left)"
    using assms by (simp add: prune_excess_def Let_def distinct_map_delete_where distinct_map_filter)
  then have "length ?left = card (s_id ` set ?left)"
    by (metis distinct_card length_map list.set_map)
  also have "\<dots> \<le> card (set ?keep)"
    by (rule card_mono) (auto simp: prune_excess_def delete_where_def Let_def)
  also have "\<dots> \<le> length ?keep" by (rule card_length)
  also have "\<dots> \<le> nat n" by simp
  finally show ?thesis by (simp add: session_count_def count_where_def)
qed

lemma prune_excess_delete: "\<exists>Q. prune_excess i n rows = delete_where Q rows"
  by (auto simp: prune_excess_def Let_def)

lemma CreateOperatorSession_tx_commit:
  assumes "CreateOperatorSession_tx c i h s = Commit m r s'"
  obtains opr row where "opr \<in> set (operators s)" "o_id opr = i" "o_disabled_at opr = None"
    "row = \<lparr>s_id = gen_id c (''insertSessionQuery'', 0), s_operator_id = i, s_token_hash = h,
       s_created_at = tx_now c, s_expires_at = tx_now c + SessionLifetime\<rparr>"
    "length h = 32"
    "s_id row \<notin> s_id ` set (prune_excess i 7 (prune_expired c i (operator_sessions s)))"
    "h \<notin> s_token_hash ` set (prune_excess i 7 (prune_expired c i (operator_sessions s)))"
    "s' = add_audit c (Some i) (o_username opr) ActionOperatorLogin (Some i) (Some (o_username opr))
       (s\<lparr>operator_sessions :=
          prune_excess i 7 (prune_expired c i (operator_sessions s)) @ [row]\<rparr>)"
    "r = Inr \<lparr>sr_ID = s_id row, sr_OperatorID = i, sr_CreatedAt = tx_now c,
       sr_ExpiresAt = tx_now c + SessionLifetime\<rparr>"
proof -
  have life: "SessionLifetime div second * second = SessionLifetime"
    by (simp add: SessionLifetime_def second_def)
  obtain opr where opr: "List.find (\<lambda>r. o_id r = i \<and> o_disabled_at r = None) (operators s) = Some opr"
    using assms by (auto simp: CreateOperatorSession_tx_def split: if_splits option.splits)
  with find_Some_D [OF opr] assms show thesis
    by (intro that [of opr "\<lparr>s_id = gen_id c (''insertSessionQuery'', 0), s_operator_id = i,
        s_token_hash = h, s_created_at = tx_now c, s_expires_at = tx_now c + SessionLifetime\<rparr>"])
      (auto simp: CreateOperatorSession_tx_def MaxActiveSessionsPerOperator_def life Let_def
        list_ex_iff split: if_splits)
qed

lemma add_audit_simps [simp]:
  "operators (add_audit c a u x t n s) = operators s"
  "operator_sessions (add_audit c a u x t n s) = operator_sessions s"
  "enrollment_tokens (add_audit c a u x t n s) = enrollment_tokens s"
  "agents (add_audit c a u x t n s) = agents s"
  "agent_inventory (add_audit c a u x t n s) = agent_inventory s"
  "agent_telemetry (add_audit c a u x t n s) = agent_telemetry s"
  by (simp_all add: add_audit_def)

lemma CreateOperatorSession_inv:
  assumes inv: "operator_inv (operators s) (operator_sessions s)"
    and "s' = snd (CreateOperatorSession c i h s)"
  shows "operator_inv (operators s') (operator_sessions s')"
proof -
  have "s' = s \<or> (\<exists>m r. CreateOperatorSession_tx c i h s = Commit m r s')"
    using assms(2) run_tx_snd by (metis CreateOperatorSession_def snd_conv)
  then show ?thesis
  proof (elim disjE exE)
    fix m r
    assume "CreateOperatorSession_tx c i h s = Commit m r s'"
    then show ?thesis
    proof (rule CreateOperatorSession_tx_commit)
      fix opr row
      let ?rows = "prune_excess i 7 (prune_expired c i (operator_sessions s))"
      assume opr: "opr \<in> set (operators s)" "o_id opr = i"
        and row: "row = \<lparr>s_id = gen_id c (''insertSessionQuery'', 0), s_operator_id = i,
          s_token_hash = h, s_created_at = tx_now c, s_expires_at = tx_now c + SessionLifetime\<rparr>"
        and new: "s_id row \<notin> s_id ` set ?rows" "h \<notin> s_token_hash ` set ?rows"
        and s': "s' = add_audit c (Some i) (o_username opr) ActionOperatorLogin (Some i)
          (Some (o_username opr)) (s\<lparr>operator_sessions := ?rows @ [row]\<rparr>)"
      have live: "operator_inv (operators s) (prune_expired c i (operator_sessions s))"
        using inv unfolding prune_expired_def by (rule operator_inv_delete)
      then have rows: "operator_inv (operators s) ?rows"
        using prune_excess_delete operator_inv_delete by metis
      have "session_count i ?rows \<le> 7"
        using prune_excess_count [of _ i 7] live by (simp add: operator_inv_def)
      then have "int (session_count k (?rows @ [row])) \<le> MaxActiveSessionsPerOperator" for k
        using rows by (auto simp: operator_inv_def session_count_def row
            MaxActiveSessionsPerOperator_def)
      moreover have "distinct (map s_id (?rows @ [row]))" "distinct (map s_token_hash (?rows @ [row]))"
        using rows new row by (auto simp: operator_inv_def)
      ultimately have "operator_inv (operators s) (?rows @ [row])"
        using rows row imageI [OF opr(1), of o_id] opr(2) by (simp add: operator_inv_def)
      then show ?thesis by (simp add: s')
    qed
  qed (use inv in simp)
qed

lemma CreateOperator_inv:
  assumes inv: "operator_inv (operators s) (operator_sessions s)"
    and "s' = snd (CreateOperator ul c u h r s)"
  shows "operator_inv (operators s') (operator_sessions s')"
proof -
  have cases: "s' = s \<or> (\<exists>row. operator_row_ok row \<and> o_id row \<notin> o_id ` set (operators s)
      \<and> o_username row \<notin> o_username ` set (operators s)
      \<and> operators s' = operators s @ [row] \<and> operator_sessions s' = operator_sessions s)"
    (is "_ \<or> ?new")
  proof (cases "pool_nil c \<or> ValidateUsername (NormalizeUsername ul u) \<noteq> Inr () \<or> \<not> Role_Valid r")
    case True
    then show ?thesis
      using assms(2) by (auto simp: CreateOperator_def Let_def split: sum.splits)
  next
    case False
    let ?tx = "CreateOperator_tx c (NormalizeUsername ul u) h r s"
    have "s' = snd (run_tx c ''failed to begin transaction'' s ?tx)"
      using assms(2) False by (simp add: CreateOperator_def Let_def)
    then have "s' = s \<or> (\<exists>m q. ?tx = Commit m q s')"
      using run_tx_snd by metis
    moreover have ?new if "?tx = Commit m q s'" for m q
      using that False
      by (fastforce simp: CreateOperator_tx_def Let_def operator_row_ok_def list_ex_iff
          split: if_splits)
    ultimately show ?thesis by blast
  qed
  show ?thesis
    using cases
  proof
    assume ?new
    then obtain row where row: "operator_row_ok row" "o_id row \<notin> o_id ` set (operators s)"
      "o_username row \<notin> o_username ` set (operators s)"
      "operators s' = operators s @ [row]" "operator_sessions s' = operator_sessions s" by blast
    have "list_all (\<lambda>x. s_operator_id x \<in> o_id ` set (operators s')) (operator_sessions s)"
      using inv unfolding operator_inv_def row(4) by (auto simp: list_all_iff)
    then show ?thesis
      using inv row by (simp add: operator_inv_def)
  qed (use inv in simp)
qed

lemma RevokeOperatorSession_inv:
  assumes inv: "operator_inv (operators s) (operator_sessions s)"
    and "s' = snd (RevokeOperatorSession c i p u s)"
  shows "operator_inv (operators s') (operator_sessions s')"
proof -
  have "s' = s \<or> (\<exists>m r. RevokeOperatorSession_tx c i p u s = Commit m r s')"
    using assms(2) run_tx_snd by (metis RevokeOperatorSession_def snd_conv)
  moreover have "\<exists>Q. operators s' = operators s \<and> operator_sessions s' = delete_where Q (operator_sessions s)"
    if "RevokeOperatorSession_tx c i p u s = Commit m r s'" for m r
    using that by (auto simp: RevokeOperatorSession_tx_def Let_def split: if_splits)
  ultimately show ?thesis
    using inv operator_inv_delete by metis
qed

section \<open>The whole database\<close>

definition db_inv :: "db \<Rightarrow> bool" where
  "db_inv s \<longleftrightarrow> machine_inv (view_of s)
     \<and> enrollment_inv (enrollment_tokens s) (agents s)
     \<and> snapshot_inv (agent_inventory s) (agent_telemetry s)
     \<and> operator_inv (operators s) (operator_sessions s)"

lemma db_inv_empty: "db_inv empty_db"
  by (simp add: db_inv_def empty_db_def view_of_def machine_inv_empty enrollment_inv_def
      snapshot_inv_def operator_inv_def session_count_def MaxActiveSessionsPerOperator_def)

lemma exec_machine_inv: "db_inv s \<Longrightarrow> machine_inv (view_of (exec us ul x s))"
  by (auto simp: db_inv_def intro: job_steps_inv exec_steps)

lemma exec_enrollment_inv:
  assumes "db_inv s" and "s' = exec us ul (c, op) s"
  shows "enrollment_inv (enrollment_tokens s') (agents s')"
proof -
  note jobs = job_op_keeps [where g = enrollment_tokens] job_op_keeps [where g = agents]
  note keeps = other_op_keeps(4-9) [where g = enrollment_tokens] other_op_keeps(4-9) [where g = agents]
  have inv: "enrollment_inv (enrollment_tokens s) (agents s)"
    using assms(1) by (simp add: db_inv_def)
  show ?thesis
    using assms(2) inv
    by (cases op) (simp_all add: keeps jobs ignores_jobs_def CreateEnrollmentToken_inv [OF inv refl]
        RegisterAgent_inv [OF inv refl] RecordAgentHeartbeat_inv [OF inv refl])
qed

lemma exec_snapshot_inv:
  assumes "db_inv s" and "s' = exec us ul (c, op) s"
  shows "snapshot_inv (agent_inventory s') (agent_telemetry s')"
proof -
  note jobs = job_op_keeps [where g = agent_inventory] job_op_keeps [where g = agent_telemetry]
  note keeps = other_op_keeps [where g = agent_inventory] other_op_keeps [where g = agent_telemetry]
  have inv: "snapshot_inv (agent_inventory s) (agent_telemetry s)"
    using assms(1) by (simp add: db_inv_def)
  show ?thesis
    using assms(2) inv
    by (cases op) (simp_all add: keeps jobs ignores_jobs_def RecordAgentInventory_inv [OF inv refl]
        RecordAgentTelemetry_inv [OF inv refl])
qed

lemma exec_operator_inv:
  assumes "db_inv s" and "s' = exec us ul (c, op) s"
  shows "operator_inv (operators s') (operator_sessions s')"
proof -
  note jobs = job_op_keeps [where g = operators] job_op_keeps [where g = operator_sessions]
  note keeps = other_op_keeps(1-5,9) [where g = operators]
    other_op_keeps(1-5,9) [where g = operator_sessions]
  have inv: "operator_inv (operators s) (operator_sessions s)"
    using assms(1) by (simp add: db_inv_def)
  show ?thesis
    using assms(2) inv
    by (cases op) (simp_all add: keeps jobs ignores_jobs_def CreateOperator_inv [OF inv refl]
        CreateOperatorSession_inv [OF inv refl] RevokeOperatorSession_inv [OF inv refl])
qed

lemma exec_inv:
  assumes "db_inv s"
  shows "db_inv (exec us ul x s)"
proof -
  obtain c op where x: "x = (c, op)" by (cases x)
  show ?thesis
    unfolding x db_inv_def [of "exec us ul (c, op) s"]
    using exec_machine_inv [OF assms] exec_enrollment_inv [OF assms refl]
      exec_snapshot_inv [OF assms refl] exec_operator_inv [OF assms refl] by blast
qed

definition store_step :: "(uuid \<Rightarrow> string) \<Rightarrow> (string \<Rightarrow> string) \<Rightarrow> db \<Rightarrow> db \<Rightarrow> bool" where
  "store_step us ul s t \<longleftrightarrow> (\<exists>x. t = exec us ul x s)"

interpretation store: invariant_system "store_step us ul" db_inv for us ul
  by unfold_locales (auto simp: store_step_def exec_inv)

lemma run_ops_steps: "(store_step us ul)\<^sup>*\<^sup>* s (run_ops us ul ops s)"
proof (induction ops arbitrary: s)
  case (Cons x xs)
  have "store_step us ul s (exec us ul x s)" unfolding store_step_def by (rule exI) (rule refl)
  with Cons.IH show ?case by (simp add: converse_rtranclp_into_rtranclp)
qed simp

lemma run_ops_inv: "db_inv s \<Longrightarrow> db_inv (run_ops us ul ops s)"
  by (rule store.run_inv [OF run_ops_steps])

lemma reachable_inv: "reachable us ul s \<Longrightarrow> db_inv s"
  by (induction rule: reachable.induct) (simp_all add: db_inv_empty exec_inv)

lemma run_ops_job_steps:
  assumes "db_inv s"
  shows "job_step\<^sup>*\<^sup>* (view_of s) (view_of (run_ops us ul ops s))"
  using assms
proof (induction ops arbitrary: s)
  case (Cons x xs)
  have "job_step\<^sup>*\<^sup>* (view_of s) (view_of (exec us ul x s))"
    using Cons.prems by (intro exec_steps) (simp add: db_inv_def)
  with Cons.IH [OF exec_inv [OF Cons.prems]] show ?case by (simp add: rtranclp_trans)
qed simp

end
