(* ===== verification/Example_Run.thy ===== *)
theory Example_Run
  imports Store_Invariant
begin

text \<open>
  One concrete run of the store, evaluated step by step: an operator and an enrollment token
  are created, an agent enrolls, a job is queued, claimed, started and completed. The databases
  of the run are the concrete inputs on which the properties are exercised.
\<close>

definition ex_key :: bytes where "ex_key = replicate 32 CHR ''k''"
definition ex_hash :: bytes where "ex_hash = replicate 32 CHR ''h''"
definition ex_idem :: bytes where "ex_idem = replicate 32 CHR ''i''"
definition ex_phc :: string where "ex_phc = replicate 60 CHR ''p''"
definition ex_name :: string where "ex_name = ''alice''"
definition ex_uuid :: "uuid \<Rightarrow> string" where "ex_uuid i = replicate i CHR ''u''"

definition ex_operator :: OperatorRow where
  "ex_operator = \<lparr>o_id = 8, o_username = ex_name, o_password_hash = ex_phc, o_role = RoleOperator,
     o_disabled_at = None, o_created_at = 0, o_updated_at = 0\<rparr>"

definition ex_agent :: AgentRow where
  "ex_agent = \<lparr>a_id = 3, a_public_key = ex_key, a_enrollment_token_id = 2, a_created_at = 1,
     a_last_seen_at = None, a_protocol_version = None\<rparr>"

definition ex_token :: "time option \<Rightarrow> EnrollmentTokenRow" where
  "ex_token used = \<lparr>et_id = 2, et_token_hash = ex_hash, et_created_at = 0,
     et_expires_at = 900 * second, et_consumed_at = used\<rparr>"

definition ex_job :: Job where
  "ex_job = \<lparr>j_ID = 4, j_AgentID = 3, j_CreatedByOperatorID = 8, j_CreatedByUsername = ex_name,
     j_IdempotencyKeyHash = ex_idem, j_ActionType = ActionAgentPing, j_State = StateQueued,
     j_Attempt = 0, j_FailureCode = None, j_CreatedAt = 2, j_UpdatedAt = 2, j_DispatchedAt = None,
     j_DispatchExpiresAt = None, j_StartedAt = None, j_ExecutionDeadlineAt = None,
     j_FinishedAt = None\<rparr>"

definition ex_event :: "uuid \<Rightarrow> string \<Rightarrow> int \<Rightarrow> string \<Rightarrow> string \<Rightarrow> time \<Rightarrow> JobEvent" where
  "ex_event i ev att actor ident t = \<lparr>e_ID = i, e_JobID = 4, e_EventType = ev, e_Attempt = att,
     e_ActorType = actor, e_ActorIdentifier = ident, e_FailureCode = None, e_OccurredAt = t\<rparr>"

definition ex_audit :: "AuditRow list" where
  "ex_audit = [\<lparr>au_id = 8, au_occurred_at = 0, au_actor_operator_id = None,
     au_actor_username = ''system'', au_action = ActionOperatorCreated,
     au_target_operator_id = Some 8, au_target_username = Some ex_name, au_target_job_id = None,
     au_outcome = OutcomeSuccess\<rparr>]"

definition ex_job_audit :: AuditRow where
  "ex_job_audit = \<lparr>au_id = 4, au_occurred_at = 2, au_actor_operator_id = Some 8,
     au_actor_username = ex_name, au_action = ActionJobCreated, au_target_operator_id = None,
     au_target_username = None, au_target_job_id = Some 4, au_outcome = OutcomeSuccess\<rparr>"

text \<open>The databases after each operation.\<close>

definition ex_enrolled :: db where
  "ex_enrolled = empty_db\<lparr>operators := [ex_operator], operator_audit_events := ex_audit,
     enrollment_tokens := [ex_token (Some 1)], agents := [ex_agent]\<rparr>"

definition ex_queued :: db where
  "ex_queued = ex_enrolled\<lparr>jobs := [ex_job],
     job_events := [ex_event 4 EventJobCreated 0 ActorTypeOperator ex_name 2],
     operator_audit_events := ex_audit @ [ex_job_audit]\<rparr>"

definition ex_dispatched :: db where
  "ex_dispatched = ex_queued\<lparr>jobs := [row_dispatch 1 3 ex_job],
     job_events := job_events ex_queued @
       [ex_event 5 EventJobDispatched 1 ActorTypeController ''controller'' 3]\<rparr>"

definition ex_running :: db where
  "ex_running = ex_dispatched\<lparr>jobs := [row_start 4 (row_dispatch 1 3 ex_job)],
     job_events := job_events ex_dispatched @
       [ex_event 6 EventJobStarted 1 ActorTypeAgent (ex_uuid 3) 4]\<rparr>"

definition ex_finished :: db where
  "ex_finished = ex_running\<lparr>jobs := [row_succeed 5 (row_start 4 (row_dispatch 1 3 ex_job))],
     job_events := job_events ex_running @
       [ex_event 7 EventJobSucceeded 1 ActorTypeAgent (ex_uuid 3) 5]\<rparr>"

lemma ex_lengths [simp]: "length ex_key = 32" "length ex_hash = 32" "length ex_idem = 32"
  by (simp_all add: ex_key_def ex_hash_def ex_idem_def)

lemma ex_phc_ok [simp]: "pg_text ex_phc" "char_length ex_phc = 60"
proof -
  have "is_ascii ex_phc" by (simp add: is_ascii_def ex_phc_def list_all_iff)
  then show "pg_text ex_phc" "char_length ex_phc = 60"
    by (auto simp: pg_text_def char_length_def ascii_valid ascii_rune_count ex_phc_def)
qed

lemma ex_name_ok [simp]: "NormalizeUsername ul ex_name = ex_name" "ValidateUsername ex_name = Inr ()"
  by (simp_all add: ex_name_def NormalizeUsername_def strings_ToLower_def is_ascii_def
      ascii_lower_def ValidateUsername_def canonicalUsernamePattern_def username_head_def
      username_tail_def)

lemmas ex_row_defs = ex_operator_def ex_agent_def ex_token_def ex_job_def ex_event_def ex_audit_def
  ex_job_audit_def

lemmas ex_db_defs = ex_enrolled_def ex_queued_def ex_dispatched_def ex_running_def ex_finished_def

lemma ex_tables [simp]:
  "jobs ex_enrolled = []" "jobs ex_queued = [ex_job]"
  "jobs ex_dispatched = [row_dispatch 1 3 ex_job]"
  "jobs ex_running = [row_start 4 (row_dispatch 1 3 ex_job)]"
  "jobs ex_finished = [row_succeed 5 (row_start 4 (row_dispatch 1 3 ex_job))]"
  "operators ex_enrolled = [ex_operator]" "operators ex_queued = [ex_operator]"
  "agents ex_enrolled = [ex_agent]" "agents ex_queued = [ex_agent]"
  "agents ex_dispatched = [ex_agent]" "agents ex_running = [ex_agent]"
  by (simp_all add: ex_db_defs empty_db_def)

section \<open>The run\<close>

definition ex_boot :: "(txctx \<times> store_op) list" where
  "ex_boot = [(quiet_ctx 0 8, OpCreateOperator ex_name ex_phc RoleOperator),
     (quiet_ctx 0 2, OpCreateEnrollmentToken ex_hash (900 * second)),
     (quiet_ctx 1 3, OpRegisterAgent ex_hash ex_key)]"

lemma ex_boot_run: "run_ops ex_uuid id ex_boot empty_db = ex_enrolled"
  by (simp add: ex_boot_def ex_enrolled_def empty_db_def CreateOperator_def CreateOperator_tx_def
      Role_Valid_def run_tx_def add_audit_def CreateEnrollmentToken_def run_auto_def
      RegisterAgent_def RegisterAgent_tx_def insertAgent_def ex_row_defs second_def Let_def)

lemma ex_create: "CreateJob (quiet_ctx 2 4) 8 3 ActionAgentPing ex_idem ex_enrolled =
    (Inr (ex_job, True), ex_queued)"
  by (simp add: CreateJob_def CreateJob_tx_def CreateJob_insert_def run_tx_def Let_def find_job_def
      ex_queued_def add_event_def ParseRole_def HasPermission_def permission_consts
      MaxActiveJobsPerAgent_def active_count_def ex_row_defs)
    (simp add: ex_enrolled_def empty_db_def ex_audit_def)

lemma ex_claim: "ClaimNextAgentJob ex_uuid (quiet_ctx 3 5) 3 ex_queued =
    (Inr (Some \<lparr>ja_JobID = ex_uuid 4, ja_Attempt = 1, ja_Action = ActionAgentPing\<rparr>), ex_dispatched)"
  by (simp add: ClaimNextAgentJob_def ClaimNextAgentJob_tx_def ClaimNextAgentJob_pick_def run_tx_def
      Let_def reconcileExpiredJobsInTx_def queryDispatched_def queryRunning_def dispatch_expired_def
      execution_expired_def in_flight_def claim_order_def MaxDispatchAttempts_def add_event_def
      set_job_def ex_dispatched_def ex_row_defs)

lemma ex_start: "StartAgentJob ex_uuid (quiet_ctx 4 6) 3 4 1 ex_dispatched = (Inr (), ex_running)"
  by (simp add: StartAgentJob_def StartAgentJob_tx_def run_tx_def Let_def find_job_def
      start_guard_def add_event_def ex_running_def row_dispatch_def DispatchLease_def second_def
      ex_row_defs)

lemma ex_complete: "CompleteAgentJob ex_uuid (quiet_ctx 5 7) 3 4 1 StateSucceeded [] ex_running =
    (Inr (), ex_finished)"
  by (simp add: CompleteAgentJob_def CompleteAgentJob_tx_def complete_running_def run_tx_def Let_def
      find_job_def add_event_def set_job_def ex_finished_def row_dispatch_def row_start_def
      ExecutionResultDeadline_def second_def ex_row_defs)

lemma ex_reachable:
  "reachable ex_uuid id ex_enrolled" "reachable ex_uuid id ex_queued"
  "reachable ex_uuid id ex_dispatched" "reachable ex_uuid id ex_running"
  "reachable ex_uuid id ex_finished"
proof -
  show 1: "reachable ex_uuid id ex_enrolled"
    using reachable_run_ops [OF reachable.start, of ex_uuid id ex_boot] by (simp add: ex_boot_run)
  show 2: "reachable ex_uuid id ex_queued"
    using reachable.step [OF 1, of "(quiet_ctx 2 4, OpCreateJob 8 3 ActionAgentPing ex_idem)"]
    by (simp add: ex_create)
  show 3: "reachable ex_uuid id ex_dispatched"
    using reachable.step [OF 2, of "(quiet_ctx 3 5, OpClaimNextAgentJob 3)"] by (simp add: ex_claim)
  show 4: "reachable ex_uuid id ex_running"
    using reachable.step [OF 3, of "(quiet_ctx 4 6, OpStartAgentJob 3 4 1)"] by (simp add: ex_start)
  show "reachable ex_uuid id ex_finished"
    using reachable.step [OF 4, of "(quiet_ctx 5 7, OpCompleteAgentJob 3 4 1 StateSucceeded [])"]
    by (simp add: ex_complete)
qed

end
