(* ===== verification/Identity_Properties.thy ===== *)
theory Identity_Properties
  imports Example_Run
begin

text \<open>
  Properties of enrollment, of the snapshots agents report, of operator sessions and of the
  audit log, over every database the store can reach.
\<close>

section \<open>Enrollment\<close>

lemma reachable_enrollment:
  "reachable us ul s \<Longrightarrow> enrollment_inv (enrollment_tokens s) (agents s)"
  using reachable_inv by (auto simp: db_inv_def)

text \<open>
  C17. One token, one agent. In every reachable database the consumed enrollment tokens and the
  agents correspond one to one, and no two agents share an id or a public key.
\<close>

theorem consumed_tokens_match_agents:
  assumes "reachable us ul s"
  shows "(\<forall>t\<in>set (enrollment_tokens s). et_consumed_at t \<noteq> None
      \<longrightarrow> (\<exists>!a. a \<in> set (agents s) \<and> a_enrollment_token_id a = et_id t))
    \<and> (\<forall>a\<in>set (agents s). \<exists>!t. t \<in> set (enrollment_tokens s)
        \<and> et_id t = a_enrollment_token_id a \<and> et_consumed_at t \<noteq> None)
    \<and> distinct (map a_id (agents s)) \<and> distinct (map a_public_key (agents s))"
proof -
  note inv = enrollment_invD [OF reachable_enrollment [OF assms]]
  have "\<exists>!a. a \<in> set (agents s) \<and> a_enrollment_token_id a = et_id t"
    if "t \<in> set (enrollment_tokens s)" "et_consumed_at t \<noteq> None" for t
  proof -
    have "et_id t \<in> consumed_ids (enrollment_tokens s)"
      using that by (auto simp: consumed_ids_def)
    then obtain a where "a \<in> set (agents s)" "a_enrollment_token_id a = et_id t"
      using inv(6) by auto
    then show ?thesis by (metis distinct_key_eq inv(5))
  qed
  moreover have "\<exists>!t. t \<in> set (enrollment_tokens s) \<and> et_id t = a_enrollment_token_id a
      \<and> et_consumed_at t \<noteq> None" if "a \<in> set (agents s)" for a
  proof -
    have "a_enrollment_token_id a \<in> consumed_ids (enrollment_tokens s)"
      using that inv(6) by simp
    then obtain t where "t \<in> set (enrollment_tokens s)" "et_id t = a_enrollment_token_id a"
      "et_consumed_at t \<noteq> None" by (auto simp: consumed_ids_def)
    then show ?thesis by (metis distinct_key_eq inv(1))
  qed
  ultimately show ?thesis using inv(3,4) by blast
qed

theorem consumed_tokens_match_agents_witness:
  "\<exists>!t. t \<in> set (enrollment_tokens ex_enrolled) \<and> et_id t = 2 \<and> et_consumed_at t \<noteq> None"
  using consumed_tokens_match_agents [OF ex_reachable(1)]
  by (simp add: ex_agent_def)

text \<open>Agents and consumed tokens survive every operation.\<close>

definition enrolled :: "bytes \<Rightarrow> uuid \<Rightarrow> bytes \<Rightarrow> db \<Rightarrow> bool" where
  "enrolled h i k s \<longleftrightarrow> (\<exists>t\<in>set (enrollment_tokens s). \<exists>a\<in>set (agents s).
     et_token_hash t = h \<and> et_consumed_at t \<noteq> None \<and> a_enrollment_token_id a = et_id t
     \<and> a_id a = i \<and> a_public_key a = k)"

lemma enrolled_frame [simp]:
  "enrolled h i k (s\<lparr>operators := a\<rparr>) = enrolled h i k s"
  "enrolled h i k (s\<lparr>operator_sessions := b\<rparr>) = enrolled h i k s"
  "enrolled h i k (s\<lparr>operator_audit_events := e\<rparr>) = enrolled h i k s"
  "enrolled h i k (s\<lparr>agent_inventory := f\<rparr>) = enrolled h i k s"
  "enrolled h i k (s\<lparr>agent_telemetry := g\<rparr>) = enrolled h i k s"
  "ignores_jobs (enrolled h i k)"
  by (simp_all add: enrolled_def ignores_jobs_def)

lemma enrolled_mono:
  assumes "enrolled h i k s"
    and "\<And>t. t \<in> set (enrollment_tokens s) \<Longrightarrow> et_consumed_at t \<noteq> None
      \<Longrightarrow> \<exists>u\<in>set (enrollment_tokens s'). et_id u = et_id t \<and> et_token_hash u = et_token_hash t
        \<and> et_consumed_at u \<noteq> None"
    and "\<And>a. a \<in> set (agents s) \<Longrightarrow> \<exists>b\<in>set (agents s'). a_id b = a_id a
      \<and> a_public_key b = a_public_key a \<and> a_enrollment_token_id b = a_enrollment_token_id a"
  shows "enrolled h i k s'"
  using assms unfolding enrolled_def by metis

lemma CreateEnrollmentToken_enrolled:
  "enrolled h i k s \<Longrightarrow> enrolled h i k (snd (CreateEnrollmentToken c x y s))"
  by (rule enrolled_mono)
    (auto simp: CreateEnrollmentToken_def run_auto_def Let_def split: commit_outcome.splits)

lemma RegisterAgent_enrolled:
  assumes "enrolled h i k s"
  shows "enrolled h i k (snd (RegisterAgent c x y s))"
proof -
  have "enrolled h i k t" if "RegisterAgent_tx c x y s = Commit m r t" for m r t
    using that
  proof (cases rule: RegisterAgent_tx_commit)
    case (Fresh u a)
    show ?thesis
    proof (rule enrolled_mono [OF assms])
      fix v assume v: "v \<in> set (enrollment_tokens s)" "et_consumed_at v \<noteq> None"
      let ?w = "if et_id v = et_id u then v\<lparr>et_consumed_at := Some (tx_now c)\<rparr> else v"
      have "?w \<in> set (enrollment_tokens t)"
        using v(1) by (auto simp: Fresh(6) in_set_update_where)
      then show "\<exists>w\<in>set (enrollment_tokens t). et_id w = et_id v
          \<and> et_token_hash w = et_token_hash v \<and> et_consumed_at w \<noteq> None"
        by (rule bexI [rotated]) (use v(2) in simp)
    qed (auto simp: Fresh(6))
  qed (use assms in simp)
  then show ?thesis
    using assms run_tx_snd [of c "''failed to begin transaction''" s "RegisterAgent_tx c x y s"]
    by (auto simp: RegisterAgent_def)
qed

lemma RecordAgentHeartbeat_enrolled:
  assumes "enrolled h i k s"
  shows "enrolled h i k (snd (RecordAgentHeartbeat c x v s))"
proof -
  let ?f = "\<lambda>b. b\<lparr>a_last_seen_at := Some (tx_now c), a_protocol_version := Some v\<rparr>"
  let ?t = "s\<lparr>agents := update_where (\<lambda>b. a_public_key b = x) ?f (agents s)\<rparr>"
  have "enrolled h i k ?t"
  proof (rule enrolled_mono [OF assms])
    fix a assume "a \<in> set (agents s)"
    then have "(if a_public_key a = x then ?f a else a) \<in> set (agents ?t)"
      by (auto simp: in_set_update_where)
    then show "\<exists>b\<in>set (agents ?t). a_id b = a_id a \<and> a_public_key b = a_public_key a
        \<and> a_enrollment_token_id b = a_enrollment_token_id a"
      by (rule bexI [rotated]) simp
  qed auto
  moreover have "snd (RecordAgentHeartbeat c x v s) = s \<or> snd (RecordAgentHeartbeat c x v s) = ?t"
    by (auto simp: RecordAgentHeartbeat_def run_auto_def
        split: option.splits commit_outcome.splits)
  ultimately show ?thesis using assms by auto
qed

lemma exec_enrolled:
  assumes "enrolled h i k s"
  shows "enrolled h i k (exec us ul x s)"
proof -
  obtain c op where x: "x = (c, op)" by (cases x)
  note keeps = other_op_keeps(4-9) [where g = "enrolled h i k"]
  show ?thesis
    unfolding x using assms
    by (cases op) (simp_all add: keeps job_op_keeps [where g = "enrolled h i k"]
        CreateEnrollmentToken_enrolled RegisterAgent_enrolled RecordAgentHeartbeat_enrolled)
qed

lemma run_ops_enrolled: "enrolled h i k s \<Longrightarrow> enrolled h i k (run_ops us ul ops s)"
  by (induction ops arbitrary: s) (auto intro: exec_enrolled)

lemma RegisterAgent_no_rollback: "RegisterAgent_tx c h k s \<noteq> Rollback (Inr v)"
proof
  assume "RegisterAgent_tx c h k s = Rollback (Inr v)"
  then show False
    by (auto simp: RegisterAgent_tx_def split: if_splits option.splits sum.splits)
qed

lemma RegisterAgent_success:
  assumes "RegisterAgent c h k s = (Inr (r, fresh), t)"
  shows "enrolled h (ar_ID r) k t"
proof -
  have "run_tx c ''failed to begin transaction'' s (RegisterAgent_tx c h k s) = (Inr (r, fresh), t)"
    using assms by (auto simp: RegisterAgent_def pool_error_def split: if_splits)
  from run_tx_ok [OF this] RegisterAgent_no_rollback
  obtain m where "RegisterAgent_tx c h k s = Commit m (Inr (r, fresh)) t" by metis
  then show ?thesis
  proof (cases rule: RegisterAgent_tx_commit)
    case (Replay u a)
    then show ?thesis unfolding enrolled_def by (intro bexI [of _ u] bexI [of _ a]) auto
  next
    case (Fresh u a)
    let ?w = "u\<lparr>et_consumed_at := Some (tx_now c)\<rparr>"
    note row = insertAgent_ok(1) [OF Fresh(5)]
    have "?w \<in> set (enrollment_tokens t)" "a \<in> set (agents t)"
      using Fresh(1) by (auto simp: Fresh(6) in_set_update_where)
    then show ?thesis
      unfolding enrolled_def using Fresh(2,7) row by (intro bexI [of _ ?w] bexI [of _ a]) auto
  qed
qed

lemma enrolled_lookup:
  assumes "enrollment_inv (enrollment_tokens s) (agents s)" and "enrolled h i k s"
  obtains t a where "List.find (\<lambda>t. et_token_hash t = h) (enrollment_tokens s) = Some t"
    "et_consumed_at t \<noteq> None"
    "List.find (\<lambda>a. a_enrollment_token_id a = et_id t) (agents s) = Some a"
    "a_id a = i" "a_public_key a = k"
proof -
  obtain t a where t: "t \<in> set (enrollment_tokens s)" "et_token_hash t = h" "et_consumed_at t \<noteq> None"
    and a: "a \<in> set (agents s)" "a_enrollment_token_id a = et_id t" "a_id a = i" "a_public_key a = k"
    using assms(2) by (auto simp: enrolled_def)
  note inv = enrollment_invD [OF assms(1)]
  show thesis
    by (rule that [of t a])
      (use find_unique_key [OF inv(2) t(1)] find_unique_key [OF inv(5) a(1)] t a in auto)
qed

text \<open>A token that enrolled a key answers for that key again, and for no other.\<close>

lemma RegisterAgent_again:
  assumes "enrollment_inv (enrollment_tokens s) (agents s)" and "enrolled h i k s"
    and "\<not> pool_nil c" and "\<forall>st. \<not> stmt_fails c st" and "commit_result c = Committed"
  shows "\<exists>r. RegisterAgent c h k' s = (if k' = k then Inr (r, False) else Inl ErrEnrollmentRejected, s) \<and> ar_ID r = i"
  using assms(1,2)
proof (rule enrolled_lookup)
  fix w a
  assume found: "List.find (\<lambda>t. et_token_hash t = h) (enrollment_tokens s) = Some w"
    "et_consumed_at w \<noteq> None"
    "List.find (\<lambda>a. a_enrollment_token_id a = et_id w) (agents s) = Some a"
    "a_id a = i" "a_public_key a = k"
  have "\<not> stmt_fails c st" for st using assms(4) by blast
  then show ?thesis
    using assms(3,5) found
    by (intro exI [of _ "\<lparr>ar_ID = i, ar_PublicKey = k, ar_CreatedAt = a_created_at a, ar_LastSeenAt = None,
        ar_ProtocolVersion = None\<rparr>"]) (auto simp: RegisterAgent_def RegisterAgent_tx_def run_tx_def)
qed

lemma enrolled_unique:
  assumes "enrollment_inv (enrollment_tokens s) (agents s)" and "enrolled h i k s" and "enrolled h' j k s"
  shows "j = i"
proof -
  have "distinct (map a_public_key (agents s))" using enrollment_invD(4) [OF assms(1)] .
  then show ?thesis using assms(2,3) distinct_key_eq unfolding enrolled_def by metis
qed

text \<open>
  C16. Enrollment retries. Once a token has enrolled a public key, presenting that token again
  after any operations returns the same agent id without change when the key is the same, even
  after the token's expiry, and is rejected without change when the key differs.
\<close>

theorem enrollment_is_single_use:
  assumes "reachable us ul s" and "RegisterAgent c h k s = (Inr (r, fresh), t)"
    and "\<not> pool_nil c'" and "\<forall>st. \<not> stmt_fails c' st" and "commit_result c' = Committed"
  shows "\<exists>r'. RegisterAgent c' h k' (run_ops us ul ops t) =
    (if k' = k then Inr (r', False) else Inl ErrEnrollmentRejected, run_ops us ul ops t)
    \<and> (k' = k \<longrightarrow> ar_ID r' = ar_ID r)"
proof -
  let ?u = "run_ops us ul ops t"
  have "reachable us ul t"
    using reachable.step [OF assms(1), of "(c, OpRegisterAgent h k)"] assms(2) by simp
  then have inv: "enrollment_inv (enrollment_tokens ?u) (agents ?u)"
    by (rule reachable_enrollment [OF reachable_run_ops])
  have "enrolled h (ar_ID r) k ?u"
    by (rule run_ops_enrolled [OF RegisterAgent_success [OF assms(2)]])
  from RegisterAgent_again [OF inv this assms(3-5)] show ?thesis by blast
qed

lemma ex_register:
  "RegisterAgent (quiet_ctx 1 3) ex_hash ex_key
     (run_ops ex_uuid id (take 2 ex_boot) empty_db) =
   (Inr (\<lparr>ar_ID = 3, ar_PublicKey = ex_key, ar_CreatedAt = 1, ar_LastSeenAt = None,
      ar_ProtocolVersion = None\<rparr>, True), ex_enrolled)"
  by (simp add: ex_boot_def ex_enrolled_def empty_db_def CreateOperator_def CreateOperator_tx_def
      Role_Valid_def run_tx_def add_audit_def CreateEnrollmentToken_def run_auto_def
      RegisterAgent_def RegisterAgent_tx_def insertAgent_def ex_row_defs second_def Let_def)

theorem enrollment_is_single_use_witness:
  "fst (RegisterAgent (quiet_ctx (9000 * second) 30) ex_hash [] ex_enrolled) = Inl ErrEnrollmentRejected
   \<and> (\<exists>r. fst (RegisterAgent (quiet_ctx (9000 * second) 30) ex_hash ex_key ex_enrolled) = Inr (r, False)
        \<and> ar_ID r = 3)"
proof -
  have s: "reachable ex_uuid id (run_ops ex_uuid id (take 2 ex_boot) empty_db)"
    by (intro reachable_run_ops reachable.start)
  have "ex_key \<noteq> []" by (simp add: ex_key_def)
  then show ?thesis
    using enrollment_is_single_use [OF s ex_register, of "quiet_ctx (9000 * second) 30" "[]" "[]"]
      enrollment_is_single_use [OF s ex_register, of "quiet_ctx (9000 * second) 30" ex_key "[]"]
    by auto
qed

section \<open>Snapshots\<close>

lemma accepted_text:
  assumes "ValidateInventoryString s lo hi = Inr ()"
  shows "pg_text s" and "lo \<le> char_length s" and "char_length s \<le> hi"
proof -
  note ok = ValidateInventoryString_ok [OF assms]
  show "lo \<le> char_length s" "char_length s \<le> hi"
    using ok(2,3) by (simp_all add: char_length_def)
  have "CHR 0x00 \<notin> set s"
  proof
    assume "CHR 0x00 \<in> set s"
    then have "0 \<in> set (runes s)" by (rule nul_is_a_rune)
    then show False using ok(5) by blast
  qed
  then show "pg_text s" using ok(1) by (simp add: pg_text_def)
qed

lemma inventory_accepted:
  assumes "ValidateInventoryRequest (Some req) = Inr ()" and "in_int64 (ir_MemoryTotalBytes req)"
  shows "inventory_encodes (inventory_row i t req)" and "inventory_check (inventory_row i t req)"
proof -
  have host: "ValidateInventoryString (ir_Hostname req) 1 255 = Inr ()"
    and osid: "ValidateInventoryString (ir_OSID req) 1 64 = Inr ()"
    and name: "ValidateInventoryString (ir_OSName req) 1 128 = Inr ()"
    and vers: "ValidateInventoryString (ir_OSVersion req) 0 128 = Inr ()"
    and kern: "ValidateInventoryString (ir_KernelRelease req) 1 128 = Inr ()"
    and arch: "ValidateInventoryString (ir_Architecture req) 1 32 = Inr ()"
    and cpu: "0 < ir_CPULogicalCores req" "ir_CPULogicalCores req \<le> 1048576"
    and mem: "0 < ir_MemoryTotalBytes req"
    using assms(1) ValidateOSID_ok(1)
    by (auto simp: ValidateInventoryRequest_def split: if_splits)
  note texts = accepted_text [OF host] accepted_text [OF osid] accepted_text [OF name]
    accepted_text [OF vers] accepted_text [OF kern] accepted_text [OF arch]
  show "inventory_encodes (inventory_row i t req)"
    using texts cpu assms(2) by (simp add: inventory_encodes_def inventory_row_def in_int32_def)
  show "inventory_check (inventory_row i t req)"
    using texts cpu mem by (simp add: inventory_check_def inventory_row_def)
qed

lemma telemetry_accepted:
  assumes "ValidateTelemetryRequest (Some req) = Inr ()"
    and "in_int64 (tr_MemoryTotalBytes req)" and "in_int64 (tr_RootFilesystemTotalBytes req)"
  shows "in_int32 (tr_CPUUsageBasisPoints req)" and "telemetry_check (telemetry_row i t req)"
proof -
  have mem: "0 \<le> tr_MemoryAvailableBytes req" "tr_MemoryAvailableBytes req \<le> tr_MemoryTotalBytes req"
    and fs: "0 \<le> tr_RootFilesystemUsedBytes req"
      "tr_RootFilesystemUsedBytes req \<le> tr_RootFilesystemTotalBytes req"
    using assms(1) by (auto simp: ValidateTelemetryRequest_def split: if_splits)
  note subs = wrap64_sub [OF mem assms(2)] wrap64_sub [OF fs assms(3)]
  show "in_int32 (tr_CPUUsageBasisPoints req)" "telemetry_check (telemetry_row i t req)"
    using assms(1) subs
    by (auto simp: ValidateTelemetryRequest_def telemetry_check_def telemetry_row_def in_int32_def
        split: if_splits)
qed

text \<open>
  C19. What the wire validators accept, the database stores. For a known agent and no failing
  statement, an inventory that passes \<^verbatim>\<open>ValidateInventoryRequest\<close> and a telemetry sample that passes
  \<^verbatim>\<open>ValidateTelemetryRequest\<close> are never refused by a column type or CHECK constraint, 64-bit
  arithmetic included: each becomes the agent's one snapshot row, replacing any earlier one.
\<close>

theorem accepted_reports_are_stored:
  assumes "reachable us ul s" and "g \<in> set (agents s)"
    and "\<not> pool_nil c" and "\<forall>st. \<not> stmt_fails c st" and "commit_result c = Committed"
    and "ValidateInventoryRequest (Some iv) = Inr ()" and "in_int64 (ir_MemoryTotalBytes iv)"
    and "ValidateTelemetryRequest (Some tel) = Inr ()" and "in_int64 (tr_MemoryTotalBytes tel)"
    and "in_int64 (tr_RootFilesystemTotalBytes tel)"
  shows "(\<exists>t. RecordAgentInventory c (a_public_key g) (Some iv) s = (Inr (), t)
      \<and> List.find (\<lambda>r. inv_agent_id r = a_id g) (agent_inventory t) =
          Some (inventory_row (a_id g) (tx_now c) iv))
    \<and> (\<exists>t. RecordAgentTelemetry c (a_public_key g) (Some tel) s = (Inr (), t)
      \<and> List.find (\<lambda>r. tel_agent_id r = a_id g) (agent_telemetry t) =
          Some (telemetry_row (a_id g) (tx_now c) tel))"
proof -
  have found: "agent_by_key (a_public_key g) s = Some g"
    using find_unique_key [OF _ assms(2)] enrollment_invD(4) [OF reachable_enrollment [OF assms(1)]]
    by (simp add: agent_by_key_def)
  have quiet: "\<not> stmt_fails c st" for st using assms(4) by blast
  have snaps: "distinct (map inv_agent_id (agent_inventory s))"
    "distinct (map tel_agent_id (agent_telemetry s))"
    using reachable_inv [OF assms(1)] by (simp_all add: db_inv_def snapshot_inv_def)
  have rows: "inv_agent_id (inventory_row (a_id g) (tx_now c) iv) = a_id g"
    "tel_agent_id (telemetry_row (a_id g) (tx_now c) tel) = a_id g"
    by (simp_all add: inventory_row_def telemetry_row_def)
  show ?thesis
    using upsert_find [OF snaps(1), of "inventory_row (a_id g) (tx_now c) iv"]
      upsert_find [OF snaps(2), of "telemetry_row (a_id g) (tx_now c) tel"] rows
    by (simp add: RecordAgentInventory_def RecordAgentTelemetry_def run_auto_def quiet assms(3,5)
        found inventory_accepted [OF assms(6,7)] telemetry_accepted [OF assms(8-10)] Let_def)
qed

definition ex_inventory :: InventoryRequest where
  "ex_inventory = \<lparr>ir_ProtocolVersion = 2, ir_Hostname = ''web'', ir_OSID = ''debian'',
     ir_OSName = ''Debian'', ir_OSVersion = [], ir_KernelRelease = ''6.1'',
     ir_Architecture = ''x86'', ir_CPULogicalCores = 4, ir_MemoryTotalBytes = 4096\<rparr>"

definition ex_telemetry :: TelemetryRequest where
  "ex_telemetry = \<lparr>tr_ProtocolVersion = 2, tr_CPUUsageBasisPoints = 100, tr_MemoryTotalBytes = 4096,
     tr_MemoryUsedBytes = 1024, tr_MemoryAvailableBytes = 3072, tr_Load1mMilli = 1,
     tr_Load5mMilli = 2, tr_Load15mMilli = 3, tr_RootFilesystemTotalBytes = 9,
     tr_RootFilesystemUsedBytes = 4, tr_RootFilesystemAvailableBytes = 5,
     tr_NetworkReceiveBytesTotal = 6, tr_NetworkTransmitBytesTotal = 7, tr_UptimeSeconds = 8,
     tr_SampleWindowMS = 250\<rparr>"

lemma ex_inventory_ok: "ValidateInventoryRequest (Some ex_inventory) = Inr ()"
  by (simp add: ex_inventory_def ValidateInventoryRequest_def ValidateOSID_def osid_byte_def
      printable_accepted printable_def)

lemma ex_telemetry_ok: "ValidateTelemetryRequest (Some ex_telemetry) = Inr ()"
  by (simp add: ex_telemetry_def ValidateTelemetryRequest_def wrap64_def)

theorem accepted_reports_are_stored_witness:
  "\<exists>t. RecordAgentInventory (quiet_ctx 7 40) ex_key (Some ex_inventory) ex_enrolled = (Inr (), t)"
  using accepted_reports_are_stored [OF ex_reachable(1), of ex_agent "quiet_ctx 7 40" ex_inventory
      ex_telemetry] ex_inventory_ok ex_telemetry_ok
  by (auto simp: ex_agent_def in_int64_def ex_inventory_def ex_telemetry_def)

section \<open>Sessions\<close>

lemma reachable_operators:
  "reachable us ul s \<Longrightarrow> operator_inv (operators s) (operator_sessions s)"
  using reachable_inv by (auto simp: db_inv_def)

text \<open>
  Session bounds. In every reachable database an operator has at most
  \<^verbatim>\<open>MaxActiveSessionsPerOperator\<close> session rows, each belongs to an existing operator, expires
  exactly \<^verbatim>\<open>SessionLifetime\<close> after its creation, and no two share a token hash.
\<close>

theorem sessions_are_bounded:
  assumes "reachable us ul s"
  shows "int (session_count i (operator_sessions s)) \<le> MaxActiveSessionsPerOperator
    \<and> distinct (map s_token_hash (operator_sessions s))
    \<and> (\<forall>r\<in>set (operator_sessions s). s_operator_id r \<in> o_id ` set (operators s)
         \<and> s_expires_at r = s_created_at r + SessionLifetime)"
  using reachable_operators [OF assms] by (auto simp: operator_inv_def list_all_iff)

theorem sessions_are_bounded_witness:
  "session_count 8 (operator_sessions (run_ops ex_uuid id
     [(quiet_ctx 10 50, OpCreateOperatorSession 8 ex_hash)] ex_enrolled)) \<le> 8"
  using sessions_are_bounded [OF reachable_run_ops [OF ex_reachable(1)], of 8
      "[(quiet_ctx 10 50, OpCreateOperatorSession 8 ex_hash)]"]
  by (simp add: MaxActiveSessionsPerOperator_def)

lemma CreateOperatorSession_committed:
  assumes "CreateOperatorSession c i h s = (Inr rec, t)"
  obtains m where "CreateOperatorSession_tx c i h s = Commit m (Inr rec) t"
proof -
  have run: "run_tx c ''failed to begin session transaction'' s
      (CreateOperatorSession_tx c i h s) = (Inr rec, t)"
    using assms by (auto simp: CreateOperatorSession_def pool_error_def split: if_splits)
  have "CreateOperatorSession_tx c i h s \<noteq> Rollback (Inr rec)"
  proof
    assume "CreateOperatorSession_tx c i h s = Rollback (Inr rec)"
    then show False
      by (auto simp: CreateOperatorSession_tx_def Let_def split: if_splits option.splits)
  qed
  with run_tx_ok [OF run] that show thesis by metis
qed

lemma enabled_operator_row:
  assumes "operator_inv (operators s) ss" and "r \<in> set (operators s)" and "o_disabled_at r = None"
  shows "enabled_operator (o_id r) s = Some r"
proof -
  have ids: "distinct (map o_id (operators s))" using assms(1) by (simp add: operator_inv_def)
  show ?thesis
  proof (cases "enabled_operator (o_id r) s")
    case None
    then show ?thesis using assms(2,3) by (auto simp: enabled_operator_def find_None_iff)
  next
    case (Some q)
    then have "q \<in> set (operators s)" "o_id q = o_id r"
      by (auto simp: enabled_operator_def dest: find_Some_D)
    then show ?thesis using Some distinct_key_eq [OF ids _ assms(2)] by auto
  qed
qed

text \<open>A session that was created is found by its token hash until it expires.\<close>

lemma created_session_found:
  assumes "reachable us ul s" and "CreateOperatorSession c i h s = (Inr rec, t)"
    and "\<not> pool_nil c'" and "\<not> stmt_fails c' (''query'', 0)"
    and "tx_now c' < tx_now c + SessionLifetime"
  shows "\<exists>opr\<in>set (operators s). o_id opr = i \<and> FindOperatorSessionByTokenHash c' h t =
    Inr \<lparr>p_OperatorID = i, p_Username = o_username opr, p_Role = o_role opr,
      p_SessionID = sr_ID rec, p_ExpiresAt = tx_now c + SessionLifetime\<rparr>"
proof -
  obtain m where "CreateOperatorSession_tx c i h s = Commit m (Inr rec) t"
    by (rule CreateOperatorSession_committed [OF assms(2)])
  then show ?thesis
  proof (rule CreateOperatorSession_tx_commit)
    fix opr row
    let ?rows = "prune_excess i 7 (prune_expired c i (operator_sessions s))"
    assume opr: "opr \<in> set (operators s)" "o_id opr = i" "o_disabled_at opr = None"
      and row: "row = \<lparr>s_id = gen_id c (''insertSessionQuery'', 0), s_operator_id = i,
        s_token_hash = h, s_created_at = tx_now c, s_expires_at = tx_now c + SessionLifetime\<rparr>"
      and new: "h \<notin> s_token_hash ` set ?rows"
      and t: "t = add_audit c (Some i) (o_username opr) ActionOperatorLogin (Some i)
        (Some (o_username opr)) (s\<lparr>operator_sessions := ?rows @ [row]\<rparr>)"
      and rec: "Inr rec = Inr \<lparr>sr_ID = s_id row, sr_OperatorID = i, sr_CreatedAt = tx_now c,
        sr_ExpiresAt = tx_now c + SessionLifetime\<rparr>"
    have enabled: "enabled_operator i t = Some opr"
      using enabled_operator_row [OF reachable_operators [OF assms(1)] opr(1,3)] opr(2)
      by (simp add: enabled_operator_def t)
    have role: "ParseRole (o_role opr) = Inr (o_role opr)"
      using reachable_operators [OF assms(1)] opr(1)
      by (auto simp: operator_inv_def list_all_iff operator_row_ok_def ParseRole_ok)
    have miss: "List.find (\<lambda>r. s_token_hash r = h \<and> P r) ?rows = None" for P
      using new by (auto simp: find_None_iff)
    have "List.find P (xs @ [x]) = (case List.find P xs of None \<Rightarrow> if P x then Some x else None | y \<Rightarrow> y)"
      for P :: "SessionRow \<Rightarrow> bool" and xs x
      by (induction xs) auto
    then have "FindOperatorSessionByTokenHash c' h t =
      Inr \<lparr>p_OperatorID = i, p_Username = o_username opr, p_Role = o_role opr,
        p_SessionID = sr_ID rec, p_ExpiresAt = tx_now c + SessionLifetime\<rparr>"
      using assms(3-5) enabled role miss rec opr(2)
      by (simp add: FindOperatorSessionByTokenHash_def t row)
    then show ?thesis using opr(1,2) by blast
  qed
qed

lemma ex_login:
  "CreateOperatorSession (quiet_ctx 10 50) 8 ex_hash ex_enrolled =
     (Inr \<lparr>sr_ID = 50, sr_OperatorID = 8, sr_CreatedAt = 10, sr_ExpiresAt = 10 + SessionLifetime\<rparr>,
      snd (CreateOperatorSession (quiet_ctx 10 50) 8 ex_hash ex_enrolled))"
  by (simp add: CreateOperatorSession_def CreateOperatorSession_tx_def run_tx_def Let_def
      ex_operator_def SessionLifetime_def second_def prune_excess_def prune_expired_def
      delete_where_def) (simp add: ex_enrolled_def empty_db_def)

lemma FindOperatorSession_row:
  assumes "FindOperatorSessionByTokenHash c h s = Inr p"
  obtains r opr where "r \<in> set (operator_sessions s)" "s_token_hash r = h"
    "tx_now c < s_expires_at r" "opr \<in> set (operators s)" "o_id opr = s_operator_id r"
    "o_disabled_at opr = None" "Role_Valid (o_role opr)"
    "p = \<lparr>p_OperatorID = o_id opr, p_Username = o_username opr, p_Role = o_role opr,
       p_SessionID = s_id r, p_ExpiresAt = s_expires_at r\<rparr>"
proof -
  obtain r opr where r: "List.find (\<lambda>r. s_token_hash r = h \<and> s_expires_at r > tx_now c
        \<and> enabled_operator (s_operator_id r) s \<noteq> None) (operator_sessions s) = Some r"
    and opr: "enabled_operator (s_operator_id r) s = Some opr" and role: "Role_Valid (o_role opr)"
    and p: "p = \<lparr>p_OperatorID = o_id opr, p_Username = o_username opr, p_Role = o_role opr,
       p_SessionID = s_id r, p_ExpiresAt = s_expires_at r\<rparr>"
    using assms by (auto simp: FindOperatorSessionByTokenHash_def pool_error_def ParseRole_ok
        split: if_splits option.splits sum.splits)
  show thesis
    using that [OF _ _ _ _ _ _ role p] find_Some_D [OF r]
      find_Some_D [OF opr [unfolded enabled_operator_def]] by simp
qed

definition ex_logged_in :: db where
  "ex_logged_in = snd (CreateOperatorSession (quiet_ctx 10 50) 8 ex_hash ex_enrolled)"

lemma ex_logged_in_sessions:
  "operator_sessions ex_logged_in = [\<lparr>s_id = 50, s_operator_id = 8, s_token_hash = ex_hash,
     s_created_at = 10, s_expires_at = 10 + SessionLifetime\<rparr>]"
  "operators ex_logged_in = [ex_operator]"
  by (simp_all add: ex_logged_in_def CreateOperatorSession_def CreateOperatorSession_tx_def run_tx_def
      Let_def ex_operator_def SessionLifetime_def second_def prune_excess_def prune_expired_def
      delete_where_def)
    (simp_all add: ex_enrolled_def empty_db_def)

lemma ex_lookup:
  "FindOperatorSessionByTokenHash (quiet_ctx 20 51) ex_hash ex_logged_in =
     Inr \<lparr>p_OperatorID = 8, p_Username = ex_name, p_Role = RoleOperator, p_SessionID = 50,
       p_ExpiresAt = 10 + SessionLifetime\<rparr>"
  by (simp add: FindOperatorSessionByTokenHash_def enabled_operator_def ex_logged_in_sessions
      ex_operator_def ParseRole_def SessionLifetime_def second_def)

text \<open>
  C18. Logout revokes. After a successful \<^verbatim>\<open>RevokeOperatorSession\<close> for a session, no lookup of that
  session's token hash authenticates anyone.
\<close>

theorem revoked_session_is_dead:
  assumes "reachable us ul s" and "r \<in> set (operator_sessions s)"
    and "RevokeOperatorSession c' (s_id r) (s_operator_id r) u s = (Inr (), t)"
  shows "FindOperatorSessionByTokenHash c (s_token_hash r) t \<noteq> Inr q"
proof
  assume "FindOperatorSessionByTokenHash c (s_token_hash r) t = Inr q"
  then obtain x where x: "x \<in> set (operator_sessions t)" "s_token_hash x = s_token_hash r"
    by (rule FindOperatorSession_row)
  have run: "run_tx c' ''failed to begin logout transaction'' s
      (RevokeOperatorSession_tx c' (s_id r) (s_operator_id r) u s) = (Inr (), t)"
    using assms(3) by (auto simp: RevokeOperatorSession_def pool_error_def split: if_splits)
  have gone: "operator_sessions t = delete_where
      (\<lambda>x. s_id x = s_id r \<and> s_operator_id x = s_operator_id r) (operator_sessions s)"
    using run_tx_ok [OF run] by (auto simp: RevokeOperatorSession_tx_def Let_def split: if_splits)
  have "distinct (map s_token_hash (operator_sessions s))"
    using reachable_operators [OF assms(1)] by (simp add: operator_inv_def)
  then show False
    using distinct_key_eq [of s_token_hash "operator_sessions s" x r] x assms(2)
    by (auto simp: gone delete_where_def)
qed

lemma ex_name_text: "audit_check (Some 8) ex_name (s\<lparr>operators := [ex_operator]\<rparr>)"
proof -
  have "is_ascii ex_name" by (simp add: is_ascii_def ex_name_def)
  then show ?thesis
    by (simp add: audit_check_def pg_text_def char_length_def ascii_valid ascii_rune_count
        ex_operator_def) (simp add: ex_name_def)
qed

lemma ex_logout:
  "fst (RevokeOperatorSession (quiet_ctx 20 60) 50 8 ex_name ex_logged_in) = Inr ()"
proof -
  have "audit_check (Some 8) ex_name (ex_logged_in\<lparr>operator_sessions := []\<rparr>)"
    using ex_name_text [of "ex_logged_in\<lparr>operator_sessions := []\<rparr>"]
    by (simp add: audit_check_def ex_logged_in_sessions)
  then show ?thesis
    by (simp add: RevokeOperatorSession_def RevokeOperatorSession_tx_def run_tx_def Let_def
        delete_where_def ex_logged_in_sessions)
qed

theorem revoked_session_is_dead_witness:
  "\<forall>q. FindOperatorSessionByTokenHash (quiet_ctx 21 61) ex_hash
     (snd (RevokeOperatorSession (quiet_ctx 20 60) 50 8 ex_name ex_logged_in)) \<noteq> Inr q"
proof -
  have "reachable ex_uuid id ex_logged_in"
    using reachable.step [OF ex_reachable(1), of "(quiet_ctx 10 50, OpCreateOperatorSession 8 ex_hash)"]
    by (simp add: ex_logged_in_def)
  from revoked_session_is_dead [OF this, of _ "quiet_ctx 20 60" ex_name _ "quiet_ctx 21 61"] ex_logout
  show ?thesis
    by (cases "RevokeOperatorSession (quiet_ctx 20 60) 50 8 ex_name ex_logged_in")
      (simp add: ex_logged_in_sessions)
qed

section \<open>The audit log\<close>

definition audit_extends :: "db \<Rightarrow> db \<Rightarrow> bool" where
  "audit_extends s t \<longleftrightarrow> (\<exists>es. operator_audit_events t = operator_audit_events s @ es)"

lemma audit_extends_refl [simp]: "operator_audit_events t = operator_audit_events s \<Longrightarrow> audit_extends s t"
  by (simp add: audit_extends_def)

lemma audit_extends_trans: "audit_extends s t \<Longrightarrow> audit_extends t u \<Longrightarrow> audit_extends s u"
  by (auto simp: audit_extends_def)

lemma run_tx_audit:
  assumes "\<And>m r t. body = Commit m r t \<Longrightarrow> audit_extends s t"
  shows "audit_extends s (snd (run_tx c bm s body))"
  using run_tx_snd [of c bm s body] assms by (metis audit_extends_refl)

lemma CreateJob_audit: "audit_extends s (snd (CreateJob c p a x h s))"
proof -
  have ins: "audit_extends s t" if "CreateJob_insert c p a x h u s = Commit m r t" for u m r t
    using that by (auto simp: CreateJob_insert_def Let_def add_event_def audit_extends_def
        split: if_splits)
  have "audit_extends s t" if "CreateJob_tx c p a x h s = Commit m r t" for m r t
    using that by (auto simp: CreateJob_tx_def split: if_splits option.splits sum.splits dest: ins)
  then show ?thesis by (simp add: CreateJob_def run_tx_audit)
qed

lemma operator_op_audit:
  "audit_extends s (snd (CreateOperator ul c u h r s))"
  "audit_extends s (snd (CreateOperatorSession c i k s))"
  "audit_extends s (snd (RevokeOperatorSession c i j u s))"
  "audit_extends s (snd (RecordAndListAuditEvents c i u n s))"
proof -
  have one: "audit_extends s t" if "CreateOperator_tx c v h r s = Commit m q t" for v m q t
    using that by (auto simp: CreateOperator_tx_def add_audit_def audit_extends_def Let_def
        split: if_splits)
  have two: "audit_extends s t" if "CreateOperatorSession_tx c i k s = Commit m q t" for m q t
    using that by (auto simp: CreateOperatorSession_tx_def add_audit_def audit_extends_def Let_def
        split: if_splits option.splits)
  have three: "audit_extends s t" if "RevokeOperatorSession_tx c i j u s = Commit m q t" for m q t
    using that by (auto simp: RevokeOperatorSession_tx_def add_audit_def audit_extends_def Let_def
        split: if_splits)
  have four: "audit_extends s t" if "RecordAndListAuditEvents_tx c i u n s = Commit m q t" for m q t
    using that by (auto simp: RecordAndListAuditEvents_tx_def add_audit_def audit_extends_def Let_def
        split: if_splits)
  show "audit_extends s (snd (CreateOperator ul c u h r s))"
    using one by (simp add: CreateOperator_def Let_def run_tx_audit split: sum.splits)
  show "audit_extends s (snd (CreateOperatorSession c i k s))"
    using two by (simp add: CreateOperatorSession_def run_tx_audit)
  show "audit_extends s (snd (RevokeOperatorSession c i j u s))"
    using three by (simp add: RevokeOperatorSession_def run_tx_audit)
  show "audit_extends s (snd (RecordAndListAuditEvents c i u n s))"
    using four by (simp add: RecordAndListAuditEvents_def run_tx_audit)
qed

lemma exec_audit: "audit_extends s (exec us ul x s)"
proof -
  obtain c op where x: "x = (c, op)" by (cases x)
  note keeps = other_op_keeps(1-5) [where g = operator_audit_events]
    job_op_keeps(2-6) [where g = operator_audit_events]
  show ?thesis
    unfolding x by (cases op)
      (simp_all add: keeps ignores_jobs_def CreateJob_audit operator_op_audit)
qed

text \<open>
  C20. The audit log is append-only. Whatever operations run, every audit record stays, unchanged
  and in place; later records come after it.
\<close>

theorem audit_log_is_append_only:
  "\<exists>es. operator_audit_events (run_ops us ul ops s) = operator_audit_events s @ es"
proof -
  have "audit_extends s (run_ops us ul ops s)"
  proof (induction ops arbitrary: s)
    case (Cons x xs)
    then show ?case using exec_audit audit_extends_trans by (simp, metis)
  qed simp
  then show ?thesis by (simp add: audit_extends_def)
qed

section \<open>Roles\<close>

text \<open>
  The permission matrix. Anything a viewer may do an operator may, and anything an operator
  may do an admin may; only operators and admins execute operations, only admins manage operators
  or read the audit log; a role \<^verbatim>\<open>ParseRole\<close> does not know has no permission at all.
\<close>

theorem permission_matrix:
  "(HasPermission RoleViewer p \<longrightarrow> HasPermission RoleOperator p)
   \<and> (HasPermission RoleOperator p \<longrightarrow> HasPermission RoleAdmin p)
   \<and> (HasPermission r PermissionOperationsExecute \<longleftrightarrow> r = RoleOperator \<or> r = RoleAdmin)
   \<and> (HasPermission r PermissionOperatorsManage \<longleftrightarrow> r = RoleAdmin)
   \<and> (HasPermission r PermissionAuditRead \<longleftrightarrow> r = RoleAdmin)
   \<and> ((\<exists>e. ParseRole r = Inl e) \<longrightarrow> \<not> HasPermission r p)"
  by (auto simp: HasPermission_def permission_consts ParseRole_def)

theorem permission_matrix_witness:
  "HasPermission RoleAdmin PermissionJobsRead \<and> \<not> HasPermission ''root'' PermissionJobsRead"
  using permission_matrix [of PermissionJobsRead "''root''"]
  by (simp add: HasPermission_def ParseRole_def role_consts)

end
