(* ===== verification/Tokens.thy ===== *)
theory Tokens
  imports Base64 Sha256 Identity_Properties
begin

text \<open>
  Bearer tokens: operator session tokens (\<^verbatim>\<open>src/internal/operator/session.go\<close>) and enrollment
  tokens (\<^verbatim>\<open>src/internal/enrollment/token.go\<close>), and the digest of an idempotency key
  (\<^verbatim>\<open>src/internal/job/idempotency.go\<close>). What \<^verbatim>\<open>io.ReadFull\<close> on the random source delivers is an
  argument: \<^const>\<open>None\<close> when it fails, otherwise the bytes read.
\<close>

section \<open>The codec contract\<close>

text \<open>
  What the token code asks of an encoding: decoding inverts encoding, the encoded length is a
  function of the byte count, and an encoded text has neither padding nor line breaks.
\<close>

definition clean_text :: "string \<Rightarrow> bool" where
  "clean_text s \<longleftrightarrow> list_all (\<lambda>c. c \<noteq> CHR ''='' \<and> \<not> line_break c) s"

locale codec =
  fixes enc :: "bytes \<Rightarrow> string" and dec :: "string \<Rightarrow> bytes option"
  assumes dec_enc: "dec (enc b) = Some b"
    and enc_length: "length (enc b) = (4 * length b + 2) div 3"
    and enc_clean: "clean_text (enc b)"
begin

lemma enc_inj: "enc a = enc b \<Longrightarrow> a = b"
  by (metis dec_enc option.inject)

lemma token_round_trip:
  "length b = 32 \<Longrightarrow> length (enc b) = 43 \<and> CHR ''='' \<notin> set (enc b) \<and> dec (enc b) = Some b"
  using enc_length [of b] enc_clean [of b] by (auto simp: dec_enc clean_text_def list_all_iff)

end

text \<open>A strict codec accepts no other text for the same bytes, line breaks aside.\<close>

locale strict_codec = codec +
  assumes dec_canonical: "dec s = Some b \<Longrightarrow> enc b = filter (\<lambda>c. \<not> line_break c) s"
begin

lemma dec_iff:
  assumes "length s = (4 * n + 2) div 3"
  shows "(\<exists>b. dec s = Some b \<and> length b = n) \<longleftrightarrow> (\<exists>b. length b = n \<and> s = enc b)"
proof
  assume "\<exists>b. dec s = Some b \<and> length b = n"
  then obtain b where b: "dec s = Some b" "length b = n" by blast
  have eq: "enc b = filter (\<lambda>c. \<not> line_break c) s" using dec_canonical [OF b(1)] .
  then have "length (filter (\<lambda>c. \<not> line_break c) s) = length s"
    using enc_length [of b] b(2) assms by simp
  then have "filter (\<lambda>c. \<not> line_break c) s = s"
    by (metis filter_id_conv length_filter_less nat_neq_iff)
  then show "\<exists>b. length b = n \<and> s = enc b" using eq b(2) by metis
qed (auto simp: dec_enc)

end

interpretation raw_url: codec "EncodeToString True" "DecodeString True False"
  by unfold_locales
    (use encode_clean in \<open>auto simp: decode_encode encode_length clean_text_def list_all_iff line_break_def\<close>)

interpretation raw_url_strict: strict_codec "EncodeToString True" "DecodeString True True"
  by unfold_locales
    (use encode_clean in \<open>auto simp: decode_encode encode_length clean_text_def list_all_iff line_break_def
      decode_strict_canonical\<close>)

interpretation raw_std_strict: strict_codec "EncodeToString False" "DecodeString False True"
  by unfold_locales
    (use encode_clean in \<open>auto simp: decode_encode encode_length clean_text_def list_all_iff line_break_def
      decode_strict_canonical\<close>)

section \<open>Session tokens\<close>

definition SessionTokenPrefix :: string where "SessionTokenPrefix = ''sp_session_''"
definition SessionEntropyBytes :: nat where "SessionEntropyBytes = 32"
definition SessionTokenRandomLength :: nat where "SessionTokenRandomLength = 43"
definition SessionTokenTotalLength :: nat where
  "SessionTokenTotalLength = length SessionTokenPrefix + SessionTokenRandomLength"

definition GenerateSessionToken :: "bytes option \<Rightarrow> string result" where
  "GenerateSessionToken entropy =
     (case entropy of
        None \<Rightarrow> Inl (ErrOther ''failed to generate session entropy'')
      | Some b \<Rightarrow> Inr (SessionTokenPrefix @ EncodeToString True b))"

definition ValidateSessionToken :: "string \<Rightarrow> unit result" where
  "ValidateSessionToken token =
     (if \<not> HasPrefix token SessionTokenPrefix then Inl (ErrOther ''invalid session token prefix'')
      else if length token \<noteq> SessionTokenTotalLength then
        Inl (ErrOther ''invalid session token length'')
      else if CHR ''='' \<in> set token then Inl (ErrOther ''session token must not have padding'')
      else case DecodeString True True (drop (length SessionTokenPrefix) token) of
        None \<Rightarrow> Inl (ErrOther ''invalid session token entropy encoding'')
      | Some decoded \<Rightarrow>
          (if length decoded \<noteq> SessionEntropyBytes then
             Inl (ErrOther ''invalid session token entropy encoding'')
           else Inr ()))"

definition HashSessionToken :: "string \<Rightarrow> bytes" where
  "HashSessionToken token = Sum256 token"

lemma prefix_has_no_padding: "CHR ''='' \<notin> set SessionTokenPrefix"
  by (simp add: SessionTokenPrefix_def)

text \<open>
  Session tokens are canonical. \<^verbatim>\<open>ValidateSessionToken\<close> accepts exactly the strings
  \<^verbatim>\<open>GenerateSessionToken\<close> can produce from 32 bytes of entropy: every generated token is valid, and
  no two different valid tokens carry the same entropy.
\<close>

theorem session_tokens_are_canonical:
  "ValidateSessionToken token = Inr () \<longleftrightarrow>
     (\<exists>b. length b = SessionEntropyBytes \<and> GenerateSessionToken (Some b) = Inr token)"
proof
  assume ok: "ValidateSessionToken token = Inr ()"
  then have "HasPrefix token SessionTokenPrefix"
    by (simp add: ValidateSessionToken_def split: if_splits)
  then obtain rest where rest: "token = SessionTokenPrefix @ rest"
    by (rule HasPrefixE)
  have len: "length rest = (4 * 32 + 2) div 3"
    using ok by (simp add: ValidateSessionToken_def rest SessionTokenTotalLength_def
        SessionTokenRandomLength_def split: if_splits)
  have "\<exists>b. DecodeString True True rest = Some b \<and> length b = 32"
    using ok by (auto simp: ValidateSessionToken_def rest SessionEntropyBytes_def
        split: if_splits option.splits)
  then show "\<exists>b. length b = SessionEntropyBytes \<and> GenerateSessionToken (Some b) = Inr token"
    using raw_url_strict.dec_iff [OF len]
    by (auto simp: GenerateSessionToken_def rest SessionEntropyBytes_def)
next
  assume "\<exists>b. length b = SessionEntropyBytes \<and> GenerateSessionToken (Some b) = Inr token"
  then obtain b where b: "length b = 32" "token = SessionTokenPrefix @ EncodeToString True b"
    by (auto simp: GenerateSessionToken_def SessionEntropyBytes_def)
  show "ValidateSessionToken token = Inr ()"
    using raw_url_strict.token_round_trip [OF b(1)] prefix_has_no_padding b(1)
    by (simp add: b(2) ValidateSessionToken_def SessionTokenTotalLength_def
        SessionTokenRandomLength_def SessionEntropyBytes_def)
qed

section \<open>Enrollment tokens\<close>

definition TokenPrefix :: string where "TokenPrefix = ''sp_enroll_''"
definition TokenEntropyBytes :: nat where "TokenEntropyBytes = 32"
definition TokenTotalLength :: nat where "TokenTotalLength = length TokenPrefix + 43"
definition TokenLifetime :: time where "TokenLifetime = 15 * 60 * second"

definition ValidateToken :: "string \<Rightarrow> unit result" where
  "ValidateToken token =
     (if length token \<noteq> TokenTotalLength then Inl (ErrOther ''invalid enrollment token length'')
      else if \<not> HasPrefix token TokenPrefix then
        Inl (ErrOther ''invalid enrollment token prefix'')
      else let randomPart = drop (length TokenPrefix) token in
        if CHR ''='' \<in> set randomPart then Inl (ErrOther ''invalid enrollment token padding'')
        else case DecodeString True False randomPart of
          None \<Rightarrow> Inl (ErrOther ''invalid enrollment token encoding'')
        | Some raw \<Rightarrow>
            (if length raw \<noteq> TokenEntropyBytes then
               Inl (ErrOther ''invalid enrollment token entropy length'')
             else Inr ()))"

definition generatePlaintextToken :: "bytes option \<Rightarrow> string result" where
  "generatePlaintextToken entropy =
     (case entropy of
        None \<Rightarrow> Inl (ErrOther ''failed to read random entropy'')
      | Some b \<Rightarrow> Inr (TokenPrefix @ EncodeToString True b))"

definition HashToken :: "string \<Rightarrow> bytes" where
  "HashToken plaintext = Sum256 plaintext"

text \<open>
  The persister is the argument \<^verbatim>\<open>TokenPersister\<close>: what it does with a digest and an expiry.
\<close>

definition issueTokenWithReader ::
  "(bytes \<Rightarrow> time \<Rightarrow> 's \<Rightarrow> TokenRecord result \<times> 's) \<Rightarrow> bytes option \<Rightarrow> time \<Rightarrow> 's
     \<Rightarrow> string result \<times> 's" where
  "issueTokenWithReader persister entropy now s =
     (case generatePlaintextToken entropy of
        Inl e \<Rightarrow> (Inl (ErrWrap ''failed to generate enrollment token'' e), s)
      | Inr plaintext \<Rightarrow>
        (let tokenHash = HashToken plaintext; expiresAt = now + TokenLifetime in
         case persister tokenHash expiresAt s of
           (Inl _, t) \<Rightarrow> (Inl (ErrOther ''failed to persist enrollment token''), t)
         | (Inr _, t) \<Rightarrow> (Inr plaintext, t)))"

definition IssueToken :: "txctx \<Rightarrow> bytes option \<Rightarrow> time \<Rightarrow> db \<Rightarrow> string result \<times> db" where
  "IssueToken c entropy now s = issueTokenWithReader (CreateEnrollmentToken c) entropy now s"

definition HashIdempotencyKey :: "string \<Rightarrow> bytes" where
  "HashIdempotencyKey key = Sum256 key"

lemma generated_token_valid:
  assumes "length b = 32"
  shows "ValidateToken (TokenPrefix @ EncodeToString True b) = Inr ()"
  using raw_url.token_round_trip [OF assms] assms
  by (simp add: ValidateToken_def TokenTotalLength_def TokenEntropyBytes_def)

section \<open>Issuing and enrolling\<close>

text \<open>
  The contract between the issuer of tokens and the registrar (\<^verbatim>\<open>TokenPersister\<close> and
  \<^verbatim>\<open>AgentRegistrar\<close>): a persisted digest is pending until its expiry, and a pending digest
  enrolls a new key.
\<close>

locale enrollment_service =
  fixes inv :: "'s \<Rightarrow> bool" and pending :: "bytes \<Rightarrow> time \<Rightarrow> 's \<Rightarrow> bool"
    and persist :: "bytes \<Rightarrow> time \<Rightarrow> 's \<Rightarrow> TokenRecord result \<times> 's"
    and ready :: "'c \<Rightarrow> time \<Rightarrow> bytes \<Rightarrow> 's \<Rightarrow> bool"
    and register :: "'c \<Rightarrow> bytes \<Rightarrow> bytes \<Rightarrow> 's \<Rightarrow> (AgentRecord \<times> bool) result \<times> 's"
  assumes persist_ok: "inv s \<Longrightarrow> persist h e s = (Inr r, t) \<Longrightarrow> inv t \<and> pending h e t"
    and register_ok: "inv s \<Longrightarrow> pending h e s \<Longrightarrow> ready c e k s
      \<Longrightarrow> \<exists>r t. register c h k s = (Inr (r, True), t) \<and> ar_PublicKey r = k"
begin

lemma issue_then_enroll:
  assumes "inv s" and "issueTokenWithReader persist (Some b) now s = (Inr tok, t)"
    and "ready c (now + TokenLifetime) k t"
  shows "\<exists>r u. register c (HashToken tok) k t = (Inr (r, True), u) \<and> ar_PublicKey r = k"
proof -
  obtain r where tok: "persist (HashToken tok) (now + TokenLifetime) s = (Inr r, t)"
    using assms(2) by (auto simp: issueTokenWithReader_def generatePlaintextToken_def Let_def
        split: prod.splits sum.splits)
  show ?thesis
    using register_ok [OF _ _ assms(3)] persist_ok [OF assms(1) tok] by blast
qed

end

definition token_pending :: "bytes \<Rightarrow> time \<Rightarrow> db \<Rightarrow> bool" where
  "token_pending h e s \<longleftrightarrow> (\<exists>t\<in>set (enrollment_tokens s).
     et_token_hash t = h \<and> et_expires_at t = e \<and> et_consumed_at t = None)"

definition register_ready :: "txctx \<Rightarrow> time \<Rightarrow> bytes \<Rightarrow> db \<Rightarrow> bool" where
  "register_ready c e k s \<longleftrightarrow> \<not> pool_nil c \<and> (\<forall>st. \<not> stmt_fails c st) \<and> commit_result c = Committed
     \<and> tx_now c < e \<and> length k = 32 \<and> k \<notin> a_public_key ` set (agents s)
     \<and> gen_id c (''insertAgent'', 0) \<notin> a_id ` set (agents s)"

lemma CreateEnrollmentToken_ok:
  assumes "CreateEnrollmentToken c h e s = (Inr r, t)"
  shows "token_pending h e t"
  using assms by (auto simp: CreateEnrollmentToken_def pool_error_def token_pending_def Let_def
      dest!: run_auto_ok split: if_splits)

lemma RegisterAgent_pending:
  assumes "db_inv s" and "token_pending h e s" and "register_ready c e k s"
  shows "\<exists>r t. RegisterAgent c h k s = (Inr (r, True), t) \<and> ar_PublicKey r = k"
proof -
  obtain w where w: "w \<in> set (enrollment_tokens s)" "et_token_hash w = h" "et_expires_at w = e"
    "et_consumed_at w = None" using assms(2) by (auto simp: token_pending_def)
  have einv: "enrollment_inv (enrollment_tokens s) (agents s)"
    using assms(1) by (simp add: db_inv_def)
  note inv = enrollment_invD [OF einv]
  have found: "List.find (\<lambda>t. et_token_hash t = h) (enrollment_tokens s) = Some w"
    using find_unique_key [OF inv(2) w(1)] w(2) by simp
  have "et_id w \<notin> consumed_ids (enrollment_tokens s)"
  proof
    assume "et_id w \<in> consumed_ids (enrollment_tokens s)"
    then obtain x where x: "x \<in> set (enrollment_tokens s)" "et_id x = et_id w" "et_consumed_at x \<noteq> None"
      by (auto simp: consumed_ids_def)
    from distinct_key_eq [OF inv(1) x(1) w(1) x(2)] x(3) w(4) show False by simp
  qed
  then have free: "\<not> list_ex (\<lambda>a. a_id a = gen_id c (''insertAgent'', 0) \<or> a_public_key a = k
      \<or> a_enrollment_token_id a = et_id w) (agents s)"
    using assms(3) inv(6) unfolding register_ready_def list_ex_iff by (metis imageI)
  obtain as bs where "enrollment_tokens s = as @ w # bs"
      "\<And>y. y \<in> set as \<union> set bs \<Longrightarrow> et_id y \<noteq> et_id w"
    using distinct_key_split [OF inv(1) w(1)] by metis
  then have one: "count_where (\<lambda>u. et_id u = et_id w) (enrollment_tokens s) = 1"
    using count_where_zero [of "\<lambda>u. et_id u = et_id w" as] count_where_zero [of _ bs] by simp
  have quiet: "\<not> stmt_fails c st" for st using assms(3) unfolding register_ready_def by blast
  show ?thesis
    using assms(3) found w(3,4) free one
    by (simp add: register_ready_def RegisterAgent_def run_tx_def quiet RegisterAgent_tx_def
        insertAgent_def Let_def)
qed

interpretation enrollment_db: enrollment_service db_inv token_pending "CreateEnrollmentToken d"
  register_ready RegisterAgent for d
proof unfold_locales
  fix s h e r t
  assume "db_inv s" "CreateEnrollmentToken d h e s = (Inr r, t)"
  then show "db_inv t \<and> token_pending h e t"
    using exec_inv [of s ex_uuid id "(d, OpCreateEnrollmentToken h e)"] CreateEnrollmentToken_ok
    by simp
qed (rule RegisterAgent_pending)

text \<open>
  Issue, then enroll. A token returned by \<^verbatim>\<open>IssueToken\<close> passes \<^verbatim>\<open>ValidateToken\<close>, and presenting it
  within \<^verbatim>\<open>TokenLifetime\<close> with a 32-byte key that no agent uses, in a registration in which nothing
  fails, enrolls a new agent under that key.
\<close>

theorem issued_token_enrolls:
  assumes "reachable us ul s" and "length b = TokenEntropyBytes"
    and "IssueToken d (Some b) now s = (Inr tok, t)"
    and "register_ready c (now + TokenLifetime) k t"
  shows "ValidateToken tok = Inr ()
    \<and> (\<exists>r u. RegisterAgent c (HashToken tok) k t = (Inr (r, True), u) \<and> ar_PublicKey r = k)"
proof -
  have "tok = TokenPrefix @ EncodeToString True b"
    using assms(3) by (auto simp: IssueToken_def issueTokenWithReader_def
        generatePlaintextToken_def Let_def split: prod.splits sum.splits)
  then have "ValidateToken tok = Inr ()"
    using generated_token_valid assms(2) by (simp add: TokenEntropyBytes_def)
  then show ?thesis
    using enrollment_db.issue_then_enroll [OF reachable_inv [OF assms(1)]
        assms(3) [unfolded IssueToken_def] assms(4)] by simp
qed

theorem issued_token_enrolls_witness:
  "\<exists>tok t. IssueToken (quiet_ctx 0 2) (Some ex_key) 5 empty_db = (Inr tok, t)
     \<and> ValidateToken tok = Inr ()
     \<and> (\<exists>r u. RegisterAgent (quiet_ctx 6 3) (HashToken tok) ex_key t = (Inr (r, True), u))"
proof -
  let ?tok = "TokenPrefix @ EncodeToString True ex_key"
  have issue: "\<exists>t. IssueToken (quiet_ctx 0 2) (Some ex_key) 5 empty_db = (Inr ?tok, t) \<and> agents t = []"
    by (simp add: IssueToken_def issueTokenWithReader_def generatePlaintextToken_def HashToken_def
        CreateEnrollmentToken_def run_auto_def empty_db_def Let_def)
  then obtain t where t: "IssueToken (quiet_ctx 0 2) (Some ex_key) 5 empty_db = (Inr ?tok, t)"
    "agents t = []" by blast
  have "register_ready (quiet_ctx 6 3) (5 + TokenLifetime) ex_key t"
    by (simp add: register_ready_def t(2) TokenLifetime_def second_def)
  from issued_token_enrolls [OF reachable.start [of ex_uuid id] _ t(1) this] t(1) show ?thesis
    by (auto simp: TokenEntropyBytes_def)
qed

end
