(* ===== verification/Password.thy ===== *)
theory Password
  imports Go_Text Tokens
begin

text \<open>
  Operator passwords (\<^verbatim>\<open>src/internal/operator/password.go\<close>): validation, the PHC text of a hash, its
  strict verification, and the limiter that bounds concurrent derivations.
  \<^verbatim>\<open>argon2.IDKey\<close> is third-party code: a parameter \<open>IDKey\<close> taking password, salt, time, memory,
  threads and key length.
\<close>

section \<open>Validation and hashing\<close>

definition Argon2MemoryKiB :: nat where "Argon2MemoryKiB = 32 * 1024"
definition Argon2Iterations :: nat where "Argon2Iterations = 3"
definition Argon2Parallelism :: nat where "Argon2Parallelism = 1"
definition Argon2SaltLength :: nat where "Argon2SaltLength = 16"
definition Argon2KeyLength :: nat where "Argon2KeyLength = 32"
definition Argon2Version :: nat where "Argon2Version = 19"
definition MinPasswordBytes :: nat where "MinPasswordBytes = 12"
definition MaxPasswordBytes :: nat where "MaxPasswordBytes = 128"

type_synonym kdf = "bytes \<Rightarrow> bytes \<Rightarrow> nat \<Rightarrow> nat \<Rightarrow> nat \<Rightarrow> nat \<Rightarrow> bytes"

definition ValidatePassword :: "string \<Rightarrow> unit result" where
  "ValidatePassword pw =
     (if length pw < MinPasswordBytes then Inl (ErrOther ''password must be at least 12 bytes'')
      else if length pw > MaxPasswordBytes then
        Inl (ErrOther ''password must be at most 128 bytes'')
      else if \<not> ValidString pw then Inl (ErrOther ''password must be valid UTF-8'')
      else if list_ex unicode_IsControl (runes pw) then
        Inl (ErrOther ''password must not contain control characters or NUL'')
      else Inr ())"

definition derive :: "kdf \<Rightarrow> string \<Rightarrow> bytes \<Rightarrow> bytes" where
  "derive IDKey pw salt =
     IDKey pw salt Argon2Iterations Argon2MemoryKiB Argon2Parallelism Argon2KeyLength"

definition phc_text :: "bytes \<Rightarrow> bytes \<Rightarrow> string" where
  "phc_text salt key =
     ''$argon2id$v='' @ Itoa Argon2Version @ ''$m='' @ Itoa Argon2MemoryKiB
     @ '',t='' @ Itoa Argon2Iterations @ '',p='' @ Itoa Argon2Parallelism
     @ ''$'' @ EncodeToString False salt @ ''$'' @ EncodeToString False key"

definition HashPassword :: "kdf \<Rightarrow> bytes option \<Rightarrow> string \<Rightarrow> string result" where
  "HashPassword IDKey entropy pw =
     (case ValidatePassword pw of
        Inl e \<Rightarrow> Inl e
      | Inr _ \<Rightarrow>
        (case entropy of
           None \<Rightarrow> Inl (ErrOther ''failed to generate random salt'')
         | Some salt \<Rightarrow> Inr (phc_text salt (derive IDKey pw salt))))"

definition VerifyPassword :: "kdf \<Rightarrow> string \<Rightarrow> string \<Rightarrow> unit result" where
  "VerifyPassword IDKey encodedHash pw =
     (let parts = Split (CHR ''$'') encodedHash in
      if length parts \<noteq> 6 \<or> parts ! 0 \<noteq> [] \<or> parts ! 1 \<noteq> ''argon2id'' then
        Inl (ErrOther ''invalid password hash format'')
      else if parts ! 2 \<noteq> ''v=19'' then Inl (ErrOther ''unsupported argon2 version'')
      else if parts ! 3 \<noteq> ''m=32768,t=3,p=1'' then
        Inl (ErrOther ''unsupported argon2 parameters'')
      else case DecodeString False True (parts ! 4) of
        None \<Rightarrow> Inl (ErrOther ''invalid salt in password hash'')
      | Some salt \<Rightarrow>
        (if length salt \<noteq> Argon2SaltLength then Inl (ErrOther ''invalid salt in password hash'')
         else case DecodeString False True (parts ! 5) of
           None \<Rightarrow> Inl (ErrOther ''invalid key in password hash'')
         | Some expectedKey \<Rightarrow>
           (if length expectedKey \<noteq> Argon2KeyLength then
              Inl (ErrOther ''invalid key in password hash'')
            else if derive IDKey pw salt \<noteq> expectedKey then Inl (ErrOther ''invalid password'')
            else Inr ())))"

definition dummySalt :: bytes where "dummySalt = ''stackpilot_dummy''"
definition dummyKey :: bytes where "dummyKey = replicate Argon2KeyLength (CHR 0x00)"

text \<open>The result is discarded by the caller; it is returned here so that the call is visible.\<close>

definition DummyPasswordDerivation :: "kdf \<Rightarrow> string \<Rightarrow> bool" where
  "DummyPasswordDerivation IDKey pw \<longleftrightarrow> derive IDKey pw dummySalt = dummyKey"

section \<open>The concurrency limiter\<close>

text \<open>
  The buffered channel holds one element per slot in use. \<^verbatim>\<open>TryAcquire\<close> never blocks; the release
  callback receives one element, and would block (\<^const>\<open>None\<close>) on an empty channel.
\<close>

record ConcurrencyLimiter =
  sem_cap :: nat
  sem_len :: nat

definition NewConcurrencyLimiter :: "nat \<Rightarrow> ConcurrencyLimiter" where
  "NewConcurrencyLimiter limit = \<lparr>sem_cap = limit, sem_len = 0\<rparr>"

definition TryAcquire :: "ConcurrencyLimiter \<Rightarrow> bool \<times> ConcurrencyLimiter" where
  "TryAcquire c = (if sem_len c < sem_cap c then (True, c\<lparr>sem_len := sem_len c + 1\<rparr>) else (False, c))"

definition release :: "ConcurrencyLimiter \<Rightarrow> ConcurrencyLimiter option" where
  "release c = (if sem_len c = 0 then None else Some (c\<lparr>sem_len := sem_len c - 1\<rparr>))"

definition limiter_ok :: "ConcurrencyLimiter \<Rightarrow> bool" where
  "limiter_ok c \<longleftrightarrow> sem_len c \<le> sem_cap c"

lemma TryAcquire_ok: "limiter_ok c \<Longrightarrow> limiter_ok (snd (TryAcquire c))"
  by (simp add: TryAcquire_def limiter_ok_def)

lemma acquire_then_release: "TryAcquire c = (True, d) \<Longrightarrow> release d = Some c"
  by (auto simp: TryAcquire_def release_def split: if_splits)

section \<open>The PHC text\<close>

lemma parameters_text:
  "Itoa Argon2Version = ''19''" "Itoa Argon2MemoryKiB = ''32768''" "Itoa Argon2Iterations = ''3''"
  "Itoa Argon2Parallelism = ''1''"
  by (simp_all add: Itoa.simps digit_chars Argon2Version_def Argon2MemoryKiB_def
      Argon2Iterations_def Argon2Parallelism_def)

lemma phc_text_parts:
  "Split (CHR ''$'') (phc_text salt key) =
     [[], ''argon2id'', ''v=19'', ''m=32768,t=3,p=1'', EncodeToString False salt, EncodeToString False key]"
proof -
  have clean: "CHR ''$'' \<notin> set (EncodeToString False b)" for b
    using encode_clean [of False b] by (auto simp: list_all_iff)
  have "phc_text salt key = [] @ CHR ''$'' # ''argon2id'' @ CHR ''$'' # ''v=19'' @ CHR ''$''
      # ''m=32768,t=3,p=1'' @ CHR ''$'' # EncodeToString False salt @ CHR ''$'' # EncodeToString False key"
    by (simp add: phc_text_def parameters_text)
  then show ?thesis by (simp add: Split_append Split_word clean)
qed

lemma length_phc_text:
  "length salt = 16 \<Longrightarrow> length key = 32 \<Longrightarrow> length (phc_text salt key) = 97"
  by (simp add: phc_text_def parameters_text encode_length)

text \<open>
  Password hashes round trip. A hash made by \<^verbatim>\<open>HashPassword\<close> from a 16-byte salt fits the 50 to 256
  characters the operators table allows, and \<^verbatim>\<open>VerifyPassword\<close> accepts against it exactly the
  passwords that derive the same key: the original one always. Argon2 is assumed only to return
  as many bytes as asked for.
\<close>

theorem password_hash_round_trip:
  assumes "\<And>p s. length (IDKey p s Argon2Iterations Argon2MemoryKiB Argon2Parallelism Argon2KeyLength)
      = Argon2KeyLength"
    and "length salt = Argon2SaltLength" and "HashPassword IDKey (Some salt) pw = Inr enc"
  shows "VerifyPassword IDKey enc pw = Inr ()
    \<and> (VerifyPassword IDKey enc guess = Inr () \<longleftrightarrow> derive IDKey guess salt = derive IDKey pw salt)
    \<and> 50 \<le> length enc \<and> length enc \<le> 256"
proof -
  have enc: "enc = phc_text salt (derive IDKey pw salt)"
    using assms(3) by (auto simp: HashPassword_def split: sum.splits)
  have key: "length (derive IDKey p s) = Argon2KeyLength" for p s
    using assms(1) by (simp add: derive_def)
  have "VerifyPassword IDKey enc p =
      (if derive IDKey p salt \<noteq> derive IDKey pw salt then Inl (ErrOther ''invalid password'') else Inr ())" for p
    by (simp add: VerifyPassword_def enc phc_text_parts decode_encode key assms(2))
  then show ?thesis
    using length_phc_text [of salt "derive IDKey pw salt"] assms(2) key [of pw salt]
    by (auto simp: enc Argon2SaltLength_def Argon2KeyLength_def)
qed

theorem password_hash_round_trip_witness:
  "\<exists>enc. HashPassword (\<lambda>p s t m th n. take n (p @ s @ replicate n CHR ''x'')) (Some (replicate 16 CHR ''s''))
        ''correct horse'' = Inr enc
     \<and> VerifyPassword (\<lambda>p s t m th n. take n (p @ s @ replicate n CHR ''x'')) enc ''correct horse'' = Inr ()
     \<and> VerifyPassword (\<lambda>p s t m th n. take n (p @ s @ replicate n CHR ''x'')) enc ''wrong horse'' \<noteq> Inr ()"
proof -
  let ?k = "\<lambda>p s t m th n. take n (p @ s @ replicate n CHR ''x'')"
  have ok: "ValidatePassword ''correct horse'' = Inr ()"
    by (simp add: ValidatePassword_def MinPasswordBytes_def MaxPasswordBytes_def runes_def
        rune_segments_ascii ascii_valid is_ascii_def unicode_IsControl_def
        del: rune_segments.simps)
  then obtain enc where h: "HashPassword ?k (Some (replicate 16 CHR ''s'')) ''correct horse'' = Inr enc"
    by (simp add: HashPassword_def)
  have len: "\<And>p s. length (?k p s Argon2Iterations Argon2MemoryKiB Argon2Parallelism Argon2KeyLength) = Argon2KeyLength"
    by simp
  have other: "derive ?k ''wrong horse'' (replicate 16 CHR ''s'') \<noteq> derive ?k ''correct horse'' (replicate 16 CHR ''s'')"
    by (simp add: derive_def Argon2KeyLength_def)
  note t = password_hash_round_trip [where guess = "''wrong horse''", OF len _ h]
  show ?thesis
    using h t other by (auto simp: Argon2SaltLength_def)
qed

end
