(* ===== verification/Http.thy ===== *)
theory Http
  imports Password Wire_Codec Store_Runs
begin

text \<open>
  HTTP as the handlers of \<^verbatim>\<open>src/internal/controller/controller.go\<close> see it: a request as \<^verbatim>\<open>net/http\<close>
  delivers it (headers under their canonical names, the query already parsed), a response as the
  status, the headers and the body a handler writes, and the environment a handler call runs in.
\<close>

section \<open>Requests and responses\<close>

record certificate =
  cert_NotBefore :: time
  cert_NotAfter :: time
  cert_ExtKeyUsage :: "nat list"
  cert_PublicKey :: "bytes option"

text \<open>
  \<open>cert_PublicKey\<close> is \<^const>\<open>Some\<close> for an \<^verbatim>\<open>ed25519.PublicKey\<close> and \<^const>\<open>None\<close> for a key of any other type.
  \<open>rq_TLS\<close> is \<^const>\<open>None\<close> on a plain connection. \<open>rq_BodyErr\<close>: reading past the body's bytes reports an
  error instead of the end of the stream.
\<close>

record request =
  rq_Method :: string
  rq_Path :: string
  rq_TLS :: "certificate list option"
  rq_Header :: "string \<Rightarrow> string list"
  rq_Query :: "(string \<times> string list) list"
  rq_Body :: bytes
  rq_BodyErr :: bool

datatype body = NoBody | TextBody string | JsonBody json

record response =
  rs_Status :: nat
  rs_Header :: "(string \<times> string) list"
  rs_Body :: body

definition StatusOK :: nat where "StatusOK = 200"
definition StatusCreated :: nat where "StatusCreated = 201"
definition StatusNoContent :: nat where "StatusNoContent = 204"
definition StatusBadRequest :: nat where "StatusBadRequest = 400"
definition StatusUnauthorized :: nat where "StatusUnauthorized = 401"
definition StatusForbidden :: nat where "StatusForbidden = 403"
definition StatusNotFound :: nat where "StatusNotFound = 404"
definition StatusMethodNotAllowed :: nat where "StatusMethodNotAllowed = 405"
definition StatusConflict :: nat where "StatusConflict = 409"
definition StatusUnsupportedMediaType :: nat where "StatusUnsupportedMediaType = 415"
definition StatusTooManyRequests :: nat where "StatusTooManyRequests = 429"
definition StatusInternalServerError :: nat where "StatusInternalServerError = 500"
definition StatusServiceUnavailable :: nat where "StatusServiceUnavailable = 503"

lemmas status_codes = StatusOK_def StatusCreated_def StatusNoContent_def StatusBadRequest_def
  StatusUnauthorized_def StatusForbidden_def StatusNotFound_def StatusMethodNotAllowed_def
  StatusConflict_def StatusUnsupportedMediaType_def StatusTooManyRequests_def
  StatusInternalServerError_def StatusServiceUnavailable_def

definition writeJSON :: "nat \<Rightarrow> json \<Rightarrow> response" where
  "writeJSON status data =
     \<lparr>rs_Status = status,
      rs_Header = [(''Content-Type'', ''application/json''), (''Cache-Control'', ''no-store''),
        (''X-Content-Type-Options'', ''nosniff'')],
      rs_Body = JsonBody data\<rparr>"

definition errJSON :: "nat \<Rightarrow> string \<Rightarrow> response" where
  "errJSON status msg = writeJSON status (JObject [(''error'', JString msg)])"

definition add_header :: "string \<Rightarrow> string \<Rightarrow> response \<Rightarrow> response" where
  "add_header k v r = r\<lparr>rs_Header := (k, v) # rs_Header r\<rparr>"

definition WriteHeader :: "nat \<Rightarrow> (string \<times> string) list \<Rightarrow> response" where
  "WriteHeader status hs = \<lparr>rs_Status = status, rs_Header = hs, rs_Body = NoBody\<rparr>"

definition method_not_allowed :: "string \<Rightarrow> response" where
  "method_not_allowed allow = WriteHeader StatusMethodNotAllowed [(''Allow'', allow)]"

definition no_content :: response where
  "no_content = WriteHeader StatusNoContent [(''Cache-Control'', ''no-store'')]"

lemma status_simps [simp]:
  "rs_Status (writeJSON n j) = n" "rs_Status (errJSON n m) = n" "rs_Status (WriteHeader n hs) = n"
  "rs_Status (add_header k v r) = rs_Status r"
  "rs_Status (method_not_allowed a) = StatusMethodNotAllowed" "rs_Status no_content = StatusNoContent"
  by (simp_all add: writeJSON_def errJSON_def WriteHeader_def add_header_def method_not_allowed_def
      no_content_def)

definition Header_Get :: "request \<Rightarrow> string \<Rightarrow> string" where
  "Header_Get r k = (case rq_Header r k of [] \<Rightarrow> [] | v # _ \<Rightarrow> v)"

definition Query_Has :: "request \<Rightarrow> string \<Rightarrow> bool" where
  "Query_Has r k \<longleftrightarrow> map_of (rq_Query r) k \<noteq> None"

definition Query_Get :: "request \<Rightarrow> string \<Rightarrow> string" where
  "Query_Get r k = (case map_of (rq_Query r) k of Some (v # _) \<Rightarrow> v | _ \<Rightarrow> [])"

text \<open>\<^verbatim>\<open>io.ReadAll(io.LimitReader(r.Body, n))\<close>.\<close>

definition read_limited :: "nat \<Rightarrow> request \<Rightarrow> bytes option" where
  "read_limited n r =
     (if n \<le> length (rq_Body r) then Some (take n (rq_Body r))
      else if rq_BodyErr r then None else Some (rq_Body r))"

section \<open>The environment of a call\<close>

text \<open>
  What a handler call gets from outside the program: the clock, the random source, third-party
  code (uuid parsing and printing, Argon2), the parts of the standard library whose definition
  the program does not depend on (\<^verbatim>\<open>mime.ParseMediaType\<close>, time formatting, Unicode case
  mapping), the transaction context of the \<open>k\<close>-th database call it makes, and the operations other
  requests run before that call.
\<close>

record env =
  env_now :: time
  env_entropy :: "bytes option"
  env_ParseMediaType :: "string \<Rightarrow> (string \<times> (string \<Rightarrow> string option)) option"
  env_Format :: "time \<Rightarrow> string"
  env_lower :: "string \<Rightarrow> string"
  env_uuid_Parse :: "string \<Rightarrow> uuid option"
  env_uuid_String :: "uuid \<Rightarrow> string"
  env_IDKey :: kdf
  env_ctx :: "nat \<Rightarrow> txctx"
  env_others :: "nat \<Rightarrow> (txctx \<times> store_op) list"

definition others :: "env \<Rightarrow> nat \<Rightarrow> db \<Rightarrow> db" where
  "others e k s = run_ops (env_uuid_String e) (env_lower e) (env_others e k) s"

text \<open>Which of the interfaces a handler was built with are non-nil.\<close>

record backends =
  be_checker :: bool
  be_registrar :: bool
  be_authenticator :: bool
  be_operators :: bool
  be_jobs :: bool

datatype media_check = MediaOk | MediaBad | CharsetBad

definition check_media :: "env \<Rightarrow> request \<Rightarrow> media_check" where
  "check_media e r =
     (case env_ParseMediaType e (Header_Get r ''Content-Type'') of
        None \<Rightarrow> MediaBad
      | Some (mediaType, params) \<Rightarrow>
        (if mediaType \<noteq> ''application/json'' then MediaBad
         else case params ''charset'' of
           None \<Rightarrow> MediaOk
         | Some charset \<Rightarrow>
             if strings_ToLower (env_lower e) charset \<noteq> ''utf-8'' then CharsetBad else MediaOk))"

end
