(* ===== verification/Controller_Agent.thy ===== *)
theory Controller_Agent
  imports Http
begin

text \<open>
  The agent-facing handlers of \<^verbatim>\<open>src/internal/controller/controller.go\<close>: enrollment and everything on
  the remote TLS listener. A handler returns its response and the database it leaves behind.
\<close>

section \<open>Enrollment\<close>

record enroll_request =
  en_Token :: string
  en_PublicKey :: string

definition enroll_fields :: "enroll_request field list" where
  "enroll_fields = [(''token'', set_string (\<lambda>s r. r\<lparr>en_Token := s\<rparr>)),
     (''public_key'', set_string (\<lambda>s r. r\<lparr>en_PublicKey := s\<rparr>))]"

definition enroll_zero :: enroll_request where
  "enroll_zero = \<lparr>en_Token = [], en_PublicKey = []\<rparr>"

text \<open>
  The body is decoded from a stream cut at 4096 bytes: a longer body, or one whose reading fails,
  makes one of the two \<^verbatim>\<open>Decode\<close> calls fail.
\<close>

definition handleEnroll :: "env \<Rightarrow> backends \<Rightarrow> request \<Rightarrow> db \<Rightarrow> response \<times> db" where
  "handleEnroll e be r s =
     (if rq_Method r \<noteq> ''POST'' then (method_not_allowed ''POST'', s)
      else if check_media e r \<noteq> MediaOk then
        (errJSON StatusUnsupportedMediaType ''unsupported media type'', s)
      else if length (rq_Body r) > 4096 \<or> rq_BodyErr r then
        (errJSON StatusBadRequest ''malformed request'', s)
      else case DecodeOne enroll_fields enroll_zero (rq_Body r) of
        Malformed \<Rightarrow> (errJSON StatusBadRequest ''malformed request'', s)
      | Trailing \<Rightarrow> (errJSON StatusBadRequest ''malformed request'', s)
      | Decoded req \<Rightarrow>
        (case ValidateToken (en_Token req) of
           Inl _ \<Rightarrow> (errJSON StatusUnauthorized ''enrollment rejected'', s)
         | Inr _ \<Rightarrow>
           (if CHR ''='' \<in> set (en_PublicKey req) then
              (errJSON StatusBadRequest ''invalid public key format'', s)
            else case DecodeString True False (en_PublicKey req) of
              None \<Rightarrow> (errJSON StatusBadRequest ''invalid public key format'', s)
            | Some pubKey \<Rightarrow>
              (if length pubKey \<noteq> 32 then (errJSON StatusBadRequest ''invalid public key format'', s)
               else if \<not> be_registrar be then
                 (errJSON StatusServiceUnavailable ''service unavailable'', s)
               else case RegisterAgent (env_ctx e 0) (HashToken (en_Token req)) pubKey s of
                 (Inl err, s') \<Rightarrow>
                   ((if errors_Is err ErrEnrollmentRejected then
                       errJSON StatusUnauthorized ''enrollment rejected''
                     else if errors_Is err ErrIdentityConflict then
                       errJSON StatusConflict ''identity conflict''
                     else errJSON StatusInternalServerError ''internal server error''), s')
               | (Inr (record, created), s') \<Rightarrow>
                   (writeJSON (if created then StatusCreated else StatusOK)
                     (JObject [(''agent_id'', JString (env_uuid_String e (ar_ID record)))]), s')))))"

section \<open>Authentication of an agent\<close>

definition ExtKeyUsageClientAuth :: nat where "ExtKeyUsageClientAuth = 2"

definition errAuthFailed :: go_error where
  "errAuthFailed = ErrOther ''agent authentication failed''"

definition extractAuthenticatedPeerPublicKey :: "env \<Rightarrow> request \<Rightarrow> bytes result" where
  "extractAuthenticatedPeerPublicKey e r =
     (case rq_TLS r of
        None \<Rightarrow> Inl errAuthFailed
      | Some [] \<Rightarrow> Inl errAuthFailed
      | Some (cert # _) \<Rightarrow>
        (if env_now e < cert_NotBefore cert \<or> env_now e > cert_NotAfter cert then Inl errAuthFailed
         else if cert_ExtKeyUsage cert \<noteq> [] \<and> ExtKeyUsageClientAuth \<notin> set (cert_ExtKeyUsage cert) then
           Inl errAuthFailed
         else case cert_PublicKey cert of
           None \<Rightarrow> Inl errAuthFailed
         | Some k \<Rightarrow> if length k \<noteq> 32 then Inl errAuthFailed else Inr k))"

section \<open>Requests of an authenticated agent\<close>

text \<open>
  What the handlers below do first, in the same order: TLS, method, peer key, media type, bounded
  body, UTF-8 (not for heartbeats), strict JSON, protocol version.
\<close>

definition agent_request ::
  "env \<Rightarrow> string \<Rightarrow> nat \<Rightarrow> bool \<Rightarrow> 'r field list \<Rightarrow> 'r \<Rightarrow> ('r \<Rightarrow> int) \<Rightarrow> request \<Rightarrow> response + bytes \<times> 'r" where
  "agent_request e meth limit utf8 fs zero version r =
     (if rq_TLS r = None then Inl (errJSON StatusBadRequest ''tls required'')
      else if rq_Method r \<noteq> meth then Inl (method_not_allowed meth)
      else case extractAuthenticatedPeerPublicKey e r of
        Inl _ \<Rightarrow> Inl (errJSON StatusUnauthorized ''agent authentication failed'')
      | Inr pubKey \<Rightarrow>
        (case check_media e r of
           MediaBad \<Rightarrow> Inl (errJSON StatusBadRequest ''invalid content type'')
         | CharsetBad \<Rightarrow> Inl (errJSON StatusBadRequest ''unsupported charset'')
         | MediaOk \<Rightarrow>
           (case read_limited (limit + 1) r of
              None \<Rightarrow> Inl (errJSON StatusBadRequest ''failed to read request body'')
            | Some bodyBytes \<Rightarrow>
              (if length bodyBytes > limit then
                 Inl (errJSON StatusBadRequest ''request body too large'')
               else if utf8 \<and> \<not> ValidString bodyBytes then
                 Inl (errJSON StatusBadRequest ''invalid request body'')
               else case DecodeOne fs zero bodyBytes of
                 Malformed \<Rightarrow> Inl (errJSON StatusBadRequest ''invalid request body'')
               | Trailing \<Rightarrow> Inl (errJSON StatusBadRequest ''trailing data in request body'')
               | Decoded req \<Rightarrow>
                 (if version req \<le> 0 then Inl (errJSON StatusBadRequest ''invalid protocol version'')
                  else if version req \<noteq> CurrentVersion then
                    Inl (errJSON StatusConflict ''unsupported agent protocol'')
                  else Inr (pubKey, req))))))"

definition agent_lookup_error :: "go_error \<Rightarrow> response" where
  "agent_lookup_error err =
     (if errors_Is err ErrAgentNotFound then
        errJSON StatusUnauthorized ''agent authentication failed''
      else errJSON StatusInternalServerError ''internal server error'')"

definition job_report_error :: "string \<Rightarrow> go_error \<Rightarrow> response" where
  "job_report_error msg err =
     (if errors_Is err ErrJobNotFound \<or> errors_Is err ErrJobConflict then errJSON StatusConflict msg
      else errJSON StatusInternalServerError ''internal server error'')"

definition handleAgentJobStart :: "env \<Rightarrow> backends \<Rightarrow> request \<Rightarrow> db \<Rightarrow> response \<times> db" where
  "handleAgentJobStart e be r s =
     (case agent_request e ''POST'' 1024 True JobStartRequest_fields JobStartRequest_zero
        js_ProtocolVersion r of
        Inl resp \<Rightarrow> (resp, s)
      | Inr (pubKey, req) \<Rightarrow>
        (case ValidateJobStartRequest (env_uuid_Parse e) (env_uuid_String e) (Some req) of
           Inl _ \<Rightarrow> (errJSON StatusBadRequest ''invalid job start request'', s)
         | Inr _ \<Rightarrow>
           (case ValidateCanonicalUUID (env_uuid_Parse e) (env_uuid_String e) (js_JobID req) of
              Inl _ \<Rightarrow> (errJSON StatusBadRequest ''invalid job_id'', s)
            | Inr jobID \<Rightarrow>
              (if \<not> be_authenticator be \<or> \<not> be_jobs be then
                 (errJSON StatusServiceUnavailable ''service unavailable'', s)
               else case FindAgentByPublicKey (env_ctx e 0) pubKey s of
                 Inl err \<Rightarrow> (agent_lookup_error err, s)
               | Inr agentRec \<Rightarrow>
                 (case StartAgentJob (env_uuid_String e) (env_ctx e 1) (ar_ID agentRec) jobID
                    (js_Attempt req) (others e 1 s) of
                    (Inl err, s') \<Rightarrow> (job_report_error ''cannot start job'' err, s')
                  | (Inr _, s') \<Rightarrow> (no_content, s'))))))"

definition handleAgentJobComplete :: "env \<Rightarrow> backends \<Rightarrow> request \<Rightarrow> db \<Rightarrow> response \<times> db" where
  "handleAgentJobComplete e be r s =
     (case agent_request e ''POST'' 1024 True JobCompleteRequest_fields JobCompleteRequest_zero
        jc_ProtocolVersion r of
        Inl resp \<Rightarrow> (resp, s)
      | Inr (pubKey, req) \<Rightarrow>
        (case ValidateJobCompleteRequest (env_uuid_Parse e) (env_uuid_String e) (Some req) of
           Inl _ \<Rightarrow> (errJSON StatusBadRequest ''invalid job complete request'', s)
         | Inr _ \<Rightarrow>
           (case ValidateCanonicalUUID (env_uuid_Parse e) (env_uuid_String e) (jc_JobID req) of
              Inl _ \<Rightarrow> (errJSON StatusBadRequest ''invalid job_id'', s)
            | Inr jobID \<Rightarrow>
              (if \<not> be_authenticator be \<or> \<not> be_jobs be then
                 (errJSON StatusServiceUnavailable ''service unavailable'', s)
               else case FindAgentByPublicKey (env_ctx e 0) pubKey s of
                 Inl err \<Rightarrow> (agent_lookup_error err, s)
               | Inr agentRec \<Rightarrow>
                 (case CompleteAgentJob (env_uuid_String e) (env_ctx e 1) (ar_ID agentRec) jobID
                    (jc_Attempt req) (jc_Outcome req) (jc_FailureCode req) (others e 1 s) of
                    (Inl err, s') \<Rightarrow> (job_report_error ''cannot complete job'' err, s')
                  | (Inr _, s') \<Rightarrow> (no_content, s'))))))"

definition handleAgentSelf :: "env \<Rightarrow> backends \<Rightarrow> request \<Rightarrow> db \<Rightarrow> response \<times> db" where
  "handleAgentSelf e be r s =
     (if rq_TLS r = None then (errJSON StatusBadRequest ''tls required'', s)
      else if rq_Method r \<noteq> ''GET'' then (method_not_allowed ''GET'', s)
      else case extractAuthenticatedPeerPublicKey e r of
        Inl _ \<Rightarrow> (errJSON StatusUnauthorized ''agent authentication failed'', s)
      | Inr pubKey \<Rightarrow>
        (if \<not> be_authenticator be then (errJSON StatusServiceUnavailable ''service unavailable'', s)
         else case FindAgentByPublicKey (env_ctx e 0) pubKey s of
           Inl err \<Rightarrow> (agent_lookup_error err, s)
         | Inr record \<Rightarrow>
             (writeJSON StatusOK (JObject [(''agent_id'', JString (env_uuid_String e (ar_ID record)))]), s)))"

definition handleAgentHeartbeat :: "env \<Rightarrow> backends \<Rightarrow> request \<Rightarrow> db \<Rightarrow> response \<times> db" where
  "handleAgentHeartbeat e be r s =
     (case agent_request e ''POST'' 1024 False HeartbeatRequest_fields HeartbeatRequest_zero
        hb_ProtocolVersion r of
        Inl resp \<Rightarrow> (resp, s)
      | Inr (pubKey, req) \<Rightarrow>
        (if \<not> be_authenticator be then (errJSON StatusServiceUnavailable ''service unavailable'', s)
         else case RecordAgentHeartbeat (env_ctx e 0) pubKey (hb_ProtocolVersion req) s of
           (Inl err, s1) \<Rightarrow> (agent_lookup_error err, s1)
         | (Inr (agentRec, hasActiveJobs), s1) \<Rightarrow>
           (if hasActiveJobs \<and> be_jobs be then
              (case ClaimNextAgentJob (env_uuid_String e) (env_ctx e 1) (ar_ID agentRec)
                 (others e 1 s1) of
                 (Inr (Some assignment), s2) \<Rightarrow>
                   (writeJSON StatusOK (HeartbeatResponse_json
                      \<lparr>hr_ProtocolVersion = CurrentVersion, hr_Job = Some assignment\<rparr>), s2)
               | (_, s2) \<Rightarrow> (no_content, s2))
            else (no_content, s1))))"

definition handleAgentInventory :: "env \<Rightarrow> backends \<Rightarrow> request \<Rightarrow> db \<Rightarrow> response \<times> db" where
  "handleAgentInventory e be r s =
     (case agent_request e ''PUT'' 8192 True InventoryRequest_fields InventoryRequest_zero
        ir_ProtocolVersion r of
        Inl resp \<Rightarrow> (resp, s)
      | Inr (pubKey, req) \<Rightarrow>
        (case ValidateInventoryRequest (Some req) of
           Inl _ \<Rightarrow> (errJSON StatusBadRequest ''invalid inventory request'', s)
         | Inr _ \<Rightarrow>
           (if \<not> be_authenticator be then (errJSON StatusServiceUnavailable ''service unavailable'', s)
            else case RecordAgentInventory (env_ctx e 0) pubKey (Some req) s of
              (Inl err, s') \<Rightarrow> (agent_lookup_error err, s')
            | (Inr _, s') \<Rightarrow> (no_content, s'))))"

definition handleAgentTelemetry :: "env \<Rightarrow> backends \<Rightarrow> request \<Rightarrow> db \<Rightarrow> response \<times> db" where
  "handleAgentTelemetry e be r s =
     (case agent_request e ''PUT'' 4096 True TelemetryRequest_fields TelemetryRequest_zero
        tr_ProtocolVersion r of
        Inl resp \<Rightarrow> (resp, s)
      | Inr (pubKey, req) \<Rightarrow>
        (case ValidateTelemetryRequest (Some req) of
           Inl _ \<Rightarrow> (errJSON StatusBadRequest ''invalid telemetry request'', s)
         | Inr _ \<Rightarrow>
           (if \<not> be_authenticator be then (errJSON StatusServiceUnavailable ''service unavailable'', s)
            else case RecordAgentTelemetry (env_ctx e 0) pubKey (Some req) s of
              (Inl err, s') \<Rightarrow> (agent_lookup_error err, s')
            | (Inr _, s') \<Rightarrow> (no_content, s'))))"

section \<open>The remote listener\<close>

definition HeartbeatEndpointPath :: string where "HeartbeatEndpointPath = ''/api/v1/agent/heartbeat''"
definition InventoryEndpointPath :: string where "InventoryEndpointPath = ''/api/v1/agent/inventory''"
definition TelemetryEndpointPath :: string where "TelemetryEndpointPath = ''/api/v1/agent/telemetry''"
definition AgentJobStartEndpointPath :: string where
  "AgentJobStartEndpointPath = ''/api/v1/agent/job/start''"
definition AgentJobCompleteEndpointPath :: string where
  "AgentJobCompleteEndpointPath = ''/api/v1/agent/job/complete''"

text \<open>\<^const>\<open>None\<close>: no pattern matches, and the mux answers by itself.\<close>

definition newRemoteHandler :: "env \<Rightarrow> backends \<Rightarrow> request \<Rightarrow> db \<Rightarrow> (response \<times> db) option" where
  "newRemoteHandler e be r s =
     (if rq_Path r = ''/api/v1/agent/enroll'' then
        Some (if rq_TLS r = None then (errJSON StatusBadRequest ''tls required'', s)
              else handleEnroll e be r s)
      else if rq_Path r = ''/api/v1/agent/self'' then Some (handleAgentSelf e be r s)
      else if rq_Path r = HeartbeatEndpointPath then Some (handleAgentHeartbeat e be r s)
      else if rq_Path r = InventoryEndpointPath then Some (handleAgentInventory e be r s)
      else if rq_Path r = TelemetryEndpointPath then Some (handleAgentTelemetry e be r s)
      else if rq_Path r = AgentJobStartEndpointPath then Some (handleAgentJobStart e be r s)
      else if rq_Path r = AgentJobCompleteEndpointPath then Some (handleAgentJobComplete e be r s)
      else None)"

end
