(* ===== verification/Controller_Operator.thy ===== *)
theory Controller_Operator
  imports Controller_Agent
begin

text \<open>
  The operator-facing handlers of \<^verbatim>\<open>src/internal/controller/controller.go\<close>: login, session
  authentication, jobs and the audit log, and the routes of the local listener.
\<close>

section \<open>Login\<close>

record login_request =
  li_Username :: string
  li_Password :: string

definition login_fields :: "login_request field list" where
  "login_fields = [(''username'', set_string (\<lambda>s r. r\<lparr>li_Username := s\<rparr>)),
     (''password'', set_string (\<lambda>s r. r\<lparr>li_Password := s\<rparr>))]"

definition login_zero :: login_request where
  "login_zero = \<lparr>li_Username = [], li_Password = []\<rparr>"

text \<open>Go marshals a map with its keys in order.\<close>

definition login_response :: "env \<Rightarrow> string \<Rightarrow> SessionRecord \<Rightarrow> OperatorRow \<Rightarrow> json" where
  "login_response e rawToken sessionRec opr =
     JObject [(''expires_at'', JString (env_Format e (sr_ExpiresAt sessionRec))),
       (''operator'', JObject [(''id'', JString (env_uuid_String e (o_id opr))),
          (''role'', JString (o_role opr)), (''username'', JString (o_username opr))]),
       (''token'', JString rawToken)]"

text \<open>
  \<open>lim\<close> is the limiter at the moment of \<^verbatim>\<open>TryAcquire\<close>. The slot is released when the handler returns,
  so the call leaves the limiter as it was. The dummy derivation for an unknown user has no
  result that matters.
\<close>

definition handleOperatorLogin ::
  "env \<Rightarrow> backends \<Rightarrow> ConcurrencyLimiter \<Rightarrow> request \<Rightarrow> db \<Rightarrow> response \<times> db" where
  "handleOperatorLogin e be lim r s =
     (if rq_Method r \<noteq> ''POST'' then (method_not_allowed ''POST'', s)
      else if check_media e r \<noteq> MediaOk then
        (errJSON StatusUnsupportedMediaType ''unsupported media type'', s)
      else case read_limited 1025 r of
        None \<Rightarrow> (errJSON StatusBadRequest ''failed to read request body'', s)
      | Some bodyBytes \<Rightarrow>
        (if bodyBytes = [] then (errJSON StatusBadRequest ''empty request body'', s)
         else if length bodyBytes > 1024 then
           (errJSON StatusBadRequest ''request body too large'', s)
         else if \<not> ValidString bodyBytes then (errJSON StatusBadRequest ''invalid request body'', s)
         else case DecodeOne login_fields login_zero bodyBytes of
           Malformed \<Rightarrow> (errJSON StatusBadRequest ''malformed request'', s)
         | Trailing \<Rightarrow> (errJSON StatusBadRequest ''trailing data in request body'', s)
         | Decoded req \<Rightarrow>
           (if \<not> fst (TryAcquire lim) then
              (add_header ''Retry-After'' ''1'' (errJSON StatusTooManyRequests ''too many requests''), s)
            else if \<not> be_operators be then
              (errJSON StatusServiceUnavailable ''service unavailable'', s)
            else case GetOperatorByUsername (env_lower e) (env_ctx e 0)
                   (NormalizeUsername (env_lower e) (li_Username req)) s of
              Inl err \<Rightarrow>
                ((if errors_Is err ErrOperatorNotFound then
                    errJSON StatusUnauthorized ''invalid credentials''
                  else errJSON StatusInternalServerError ''internal server error''), s)
            | Inr opr \<Rightarrow>
              (if VerifyPassword (env_IDKey e) (o_password_hash opr) (li_Password req) \<noteq> Inr ()
                  \<or> o_disabled_at opr \<noteq> None then
                 (errJSON StatusUnauthorized ''invalid credentials'', s)
               else case GenerateSessionToken (env_entropy e) of
                 Inl _ \<Rightarrow> (errJSON StatusInternalServerError ''internal server error'', s)
               | Inr rawToken \<Rightarrow>
                 (case CreateOperatorSession (env_ctx e 1) (o_id opr) (HashSessionToken rawToken)
                    (others e 1 s) of
                    (Inl err, s') \<Rightarrow>
                      ((if errors_Is err ErrAuthenticationFailed then
                          errJSON StatusUnauthorized ''invalid credentials''
                        else errJSON StatusInternalServerError ''internal server error''), s')
                  | (Inr sessionRec, s') \<Rightarrow>
                      (writeJSON StatusOK (login_response e rawToken sessionRec opr), s'))))))"

section \<open>Sessions\<close>

text \<open>The Go function returns a principal, or a status and a message: here a sum.\<close>

definition authenticateOperator :: "env \<Rightarrow> backends \<Rightarrow> request \<Rightarrow> db \<Rightarrow> (nat \<times> string) + Principal" where
  "authenticateOperator e be r s =
     (if \<not> be_operators be then Inl (StatusServiceUnavailable, ''service unavailable'')
      else if Header_Get r ''Authorization'' = [] then
        Inl (StatusUnauthorized, ''authentication required'')
      else case Cut (CHR 0x20) (Header_Get r ''Authorization'') of
        None \<Rightarrow> Inl (StatusUnauthorized, ''authentication required'')
      | Some (scheme, rawToken) \<Rightarrow>
        (if scheme \<noteq> ''Bearer'' \<or> rawToken = [] then
           Inl (StatusUnauthorized, ''authentication required'')
         else case ValidateSessionToken rawToken of
           Inl _ \<Rightarrow> Inl (StatusUnauthorized, ''authentication required'')
         | Inr _ \<Rightarrow>
           (case FindOperatorSessionByTokenHash (env_ctx e 0) (HashSessionToken rawToken) s of
              Inl err \<Rightarrow>
                (if errors_Is err ErrAuthenticationFailed then
                   Inl (StatusUnauthorized, ''authentication required'')
                 else Inl (StatusInternalServerError, ''internal server error''))
            | Inr princ \<Rightarrow>
                (if \<not> Role_Valid (p_Role princ) then
                   Inl (StatusUnauthorized, ''authentication required'')
                 else Inr princ))))"

definition handleOperatorMe :: "env \<Rightarrow> backends \<Rightarrow> request \<Rightarrow> db \<Rightarrow> response \<times> db" where
  "handleOperatorMe e be r s =
     (if rq_Method r \<noteq> ''GET'' then (method_not_allowed ''GET'', s)
      else case authenticateOperator e be r s of
        Inl (status, errMsg) \<Rightarrow> (errJSON status errMsg, s)
      | Inr princ \<Rightarrow>
          (writeJSON StatusOK (JObject
            [(''id'', JString (env_uuid_String e (p_OperatorID princ))),
             (''role'', JString (p_Role princ)),
             (''session_expires_at'', JString (env_Format e (p_ExpiresAt princ))),
             (''username'', JString (p_Username princ))]), s))"

definition handleOperatorLogout :: "env \<Rightarrow> backends \<Rightarrow> request \<Rightarrow> db \<Rightarrow> response \<times> db" where
  "handleOperatorLogout e be r s =
     (if rq_Method r \<noteq> ''POST'' then (method_not_allowed ''POST'', s)
      else case authenticateOperator e be r s of
        Inl (status, errMsg) \<Rightarrow> (errJSON status errMsg, s)
      | Inr princ \<Rightarrow>
        (case RevokeOperatorSession (env_ctx e 1) (p_SessionID princ) (p_OperatorID princ)
           (p_Username princ) (others e 1 s) of
           (Inl err, s') \<Rightarrow>
             ((if errors_Is err ErrSessionNotFound then
                 errJSON StatusUnauthorized ''authentication required''
               else errJSON StatusInternalServerError ''internal server error''), s')
         | (Inr _, s') \<Rightarrow> (no_content, s')))"

section \<open>Query parameters\<close>

text \<open>
  The loop over the query map returns at the first parameter it dislikes; Go visits the map in an
  unspecified order, here the order of the list.
\<close>

fun check_query :: "string list \<Rightarrow> bool \<Rightarrow> (string \<times> string list) list \<Rightarrow> string option" where
  "check_query known unique [] = None"
| "check_query known unique ((k, vals) # rest) =
     (if k \<notin> set known then Some ''unknown query parameter''
      else if unique \<and> length vals > 1 then Some ''repeated query parameter''
      else check_query known unique rest)"

text \<open>\<^verbatim>\<open>strconv.Atoi\<close> on a 64-bit \<^verbatim>\<open>int\<close>.\<close>

definition query_limit :: "request \<Rightarrow> int option" where
  "query_limit r =
     (if \<not> Query_Has r ''limit'' then Some 100
      else case ParseInt (Query_Get r ''limit'') of
        None \<Rightarrow> None
      | Some limit \<Rightarrow> if limit < 1 \<or> limit > 200 then None else Some limit)"

definition opt_json :: "('a \<Rightarrow> string) \<Rightarrow> 'a option \<Rightarrow> json" where
  "opt_json f x = (case x of None \<Rightarrow> JNull | Some y \<Rightarrow> JString (f y))"

text \<open>An audit record with the JSON names of \<^verbatim>\<open>operator.AuditEventRecord\<close>.\<close>

definition audit_json :: "env \<Rightarrow> AuditRow \<Rightarrow> json" where
  "audit_json e a =
     JObject [(''id'', JString (env_uuid_String e (au_id a))),
       (''occurred_at'', JString (env_Format e (au_occurred_at a))),
       (''actor_operator_id'', opt_json (env_uuid_String e) (au_actor_operator_id a)),
       (''actor_username'', JString (au_actor_username a)),
       (''action'', JString (au_action a)),
       (''target_operator_id'', opt_json (env_uuid_String e) (au_target_operator_id a)),
       (''target_username'', opt_json id (au_target_username a)),
       (''target_job_id'', opt_json (env_uuid_String e) (au_target_job_id a)),
       (''outcome'', JString (au_outcome a))]"

definition handleOperatorAudit :: "env \<Rightarrow> backends \<Rightarrow> request \<Rightarrow> db \<Rightarrow> response \<times> db" where
  "handleOperatorAudit e be r s =
     (if rq_Method r \<noteq> ''GET'' then (method_not_allowed ''GET'', s)
      else case authenticateOperator e be r s of
        Inl (status, errMsg) \<Rightarrow> (errJSON status errMsg, s)
      | Inr princ \<Rightarrow>
        (if \<not> HasPermission (p_Role princ) PermissionAuditRead then
           (errJSON StatusForbidden ''forbidden'', s)
         else case check_query [''limit''] False (rq_Query r) of
           Some msg \<Rightarrow> (errJSON StatusBadRequest msg, s)
         | None \<Rightarrow>
           (case query_limit r of
              None \<Rightarrow> (errJSON StatusBadRequest ''invalid limit query parameter (must be 1..200)'', s)
            | Some limit \<Rightarrow>
              (case RecordAndListAuditEvents (env_ctx e 1) (p_OperatorID princ)
                 (p_Username princ) limit (others e 1 s) of
                 (Inl _, s') \<Rightarrow> (errJSON StatusInternalServerError ''internal server error'', s')
               | (Inr events, s') \<Rightarrow> (writeJSON StatusOK (JArray (map (audit_json e) events)), s')))))"

section \<open>Jobs\<close>

definition jobHTTPResponse :: "env \<Rightarrow> Job \<Rightarrow> json" where
  "jobHTTPResponse e j =
     JObject [(''id'', JString (env_uuid_String e (j_ID j))),
       (''agent_id'', JString (env_uuid_String e (j_AgentID j))),
       (''action'', JString (j_ActionType j)), (''state'', JString (j_State j)),
       (''attempt'', json_int (j_Attempt j)),
       (''created_by_username'', JString (j_CreatedByUsername j)),
       (''failure_code'', opt_json id (j_FailureCode j)),
       (''created_at'', JString (env_Format e (j_CreatedAt j))),
       (''updated_at'', JString (env_Format e (j_UpdatedAt j))),
       (''started_at'', opt_json (env_Format e) (j_StartedAt j)),
       (''finished_at'', opt_json (env_Format e) (j_FinishedAt j))]"

definition jobEventHTTPResponse :: "env \<Rightarrow> JobEvent \<Rightarrow> json" where
  "jobEventHTTPResponse e ev =
     JObject [(''id'', JString (env_uuid_String e (e_ID ev))),
       (''event_type'', JString (e_EventType ev)), (''attempt'', json_int (e_Attempt ev)),
       (''actor_type'', JString (e_ActorType ev)),
       (''actor_identifier'', JString (e_ActorIdentifier ev)),
       (''failure_code'', opt_json id (e_FailureCode ev)),
       (''occurred_at'', JString (env_Format e (e_OccurredAt ev)))]"

record create_request =
  cr_AgentID :: string
  cr_Action :: string

definition create_fields :: "create_request field list" where
  "create_fields = [(''agent_id'', set_string (\<lambda>s r. r\<lparr>cr_AgentID := s\<rparr>)),
     (''action'', set_string (\<lambda>s r. r\<lparr>cr_Action := s\<rparr>))]"

definition create_zero :: create_request where
  "create_zero = \<lparr>cr_AgentID = [], cr_Action = []\<rparr>"

definition create_error :: "go_error \<Rightarrow> response" where
  "create_error err =
     (if errors_Is err ErrOperatorAuthRequired then
        errJSON StatusUnauthorized ''authentication required''
      else if errors_Is err ErrPermissionDenied then errJSON StatusForbidden ''forbidden''
      else if errors_Is err ErrJobAgentNotFound then errJSON StatusNotFound ''agent not found''
      else if errors_Is err ErrJobIdempotencyConflict then
        errJSON StatusConflict ''idempotency key conflict''
      else if errors_Is err ErrQueueFull then
        add_header ''Retry-After'' ''5'' (errJSON StatusTooManyRequests ''agent job queue full'')
      else errJSON StatusInternalServerError ''internal server error'')"

definition handleOperatorCreateJob ::
  "env \<Rightarrow> backends \<Rightarrow> Principal \<Rightarrow> request \<Rightarrow> db \<Rightarrow> response \<times> db" where
  "handleOperatorCreateJob e be princ r s =
     (if \<not> HasPermission (p_Role princ) PermissionOperationsExecute then
        (errJSON StatusForbidden ''forbidden'', s)
      else if length (rq_Header r ''Idempotency-Key'') \<noteq> 1 then
        (errJSON StatusBadRequest ''missing or invalid Idempotency-Key header'', s)
      else case ValidateIdempotencyKey (hd (rq_Header r ''Idempotency-Key'')) of
        Inl _ \<Rightarrow> (errJSON StatusBadRequest ''invalid Idempotency-Key header'', s)
      | Inr _ \<Rightarrow>
        (let keyHash = HashIdempotencyKey (hd (rq_Header r ''Idempotency-Key'')) in
         case check_media e r of
           MediaBad \<Rightarrow> (errJSON StatusBadRequest ''invalid content type'', s)
         | CharsetBad \<Rightarrow> (errJSON StatusBadRequest ''unsupported charset'', s)
         | MediaOk \<Rightarrow>
           (case read_limited 1025 r of
              None \<Rightarrow> (errJSON StatusBadRequest ''failed to read request body'', s)
            | Some bodyBytes \<Rightarrow>
              (if length bodyBytes > 1024 then (errJSON StatusBadRequest ''request body too large'', s)
               else if \<not> ValidString bodyBytes then
                 (errJSON StatusBadRequest ''invalid request body'', s)
               else case DecodeOne create_fields create_zero bodyBytes of
                 Malformed \<Rightarrow> (errJSON StatusBadRequest ''invalid request body'', s)
               | Trailing \<Rightarrow> (errJSON StatusBadRequest ''trailing data in request body'', s)
               | Decoded req \<Rightarrow>
                 (case ValidateCanonicalUUID (env_uuid_Parse e) (env_uuid_String e) (cr_AgentID req) of
                    Inl _ \<Rightarrow> (errJSON StatusBadRequest ''invalid agent_id'', s)
                  | Inr agentUUID \<Rightarrow>
                    (case ValidateAction (cr_Action req) of
                       Inl _ \<Rightarrow> (errJSON StatusBadRequest ''invalid action'', s)
                     | Inr _ \<Rightarrow>
                       (if \<not> be_jobs be then
                          (errJSON StatusServiceUnavailable ''service unavailable'', s)
                        else case CreateJob (env_ctx e 1) (p_OperatorID princ) agentUUID (cr_Action req)
                               keyHash (others e 1 s) of
                          (Inl err, s') \<Rightarrow> (create_error err, s')
                        | (Inr (j, isNew), s') \<Rightarrow>
                            (writeJSON (if isNew then StatusCreated else StatusOK)
                              (jobHTTPResponse e j), s'))))))))"

definition handleOperatorListJobs ::
  "env \<Rightarrow> backends \<Rightarrow> Principal \<Rightarrow> request \<Rightarrow> db \<Rightarrow> response \<times> db" where
  "handleOperatorListJobs e be princ r s =
     (if \<not> HasPermission (p_Role princ) PermissionJobsRead then
        (errJSON StatusForbidden ''forbidden'', s)
      else case check_query [''limit'', ''agent_id'', ''state''] True (rq_Query r) of
        Some msg \<Rightarrow> (errJSON StatusBadRequest msg, s)
      | None \<Rightarrow>
        (case query_limit r of
           None \<Rightarrow> (errJSON StatusBadRequest ''invalid limit parameter'', s)
         | Some limit \<Rightarrow>
           (case (if Query_Has r ''agent_id'' then
                    map_sum id Some (ValidateCanonicalUUID (env_uuid_Parse e) (env_uuid_String e)
                      (Query_Get r ''agent_id''))
                  else Inr None) of
              Inl _ \<Rightarrow> (errJSON StatusBadRequest ''invalid agent_id parameter'', s)
            | Inr agentIDFilter \<Rightarrow>
              (if Query_Has r ''state'' \<and> \<not> State_Valid (Query_Get r ''state'') then
                 (errJSON StatusBadRequest ''invalid state parameter'', s)
               else let stateFilter = (if Query_Has r ''state'' then Some (Query_Get r ''state'') else None)
               in if \<not> be_jobs be then (errJSON StatusServiceUnavailable ''service unavailable'', s)
                  else case ListJobs (env_ctx e 1) (others e 2) limit agentIDFilter stateFilter
                         (others e 1 s) of
                    (Inl _, s') \<Rightarrow> (errJSON StatusInternalServerError ''internal server error'', s')
                  | (Inr js, s') \<Rightarrow>
                      (writeJSON StatusOK (JArray (map (jobHTTPResponse e) js)), s')))))"

definition job_read_error :: "go_error \<Rightarrow> response" where
  "job_read_error err =
     (if errors_Is err ErrJobNotFound then errJSON StatusNotFound ''job not found''
      else errJSON StatusInternalServerError ''internal server error'')"

definition handleOperatorGetJobByID ::
  "env \<Rightarrow> backends \<Rightarrow> string \<Rightarrow> Principal \<Rightarrow> request \<Rightarrow> db \<Rightarrow> response \<times> db" where
  "handleOperatorGetJobByID e be jobIDStr princ r s =
     (if rq_Method r \<noteq> ''GET'' then (method_not_allowed ''GET'', s)
      else if \<not> HasPermission (p_Role princ) PermissionJobsRead then
        (errJSON StatusForbidden ''forbidden'', s)
      else case ValidateCanonicalUUID (env_uuid_Parse e) (env_uuid_String e) jobIDStr of
        Inl _ \<Rightarrow> (errJSON StatusBadRequest ''invalid job_id'', s)
      | Inr jobID \<Rightarrow>
        (if \<not> be_jobs be then (errJSON StatusServiceUnavailable ''service unavailable'', s)
         else case GetJobByID (env_ctx e 1) (others e 2) jobID (others e 1 s) of
           (Inl err, s') \<Rightarrow> (job_read_error err, s')
         | (Inr j, s') \<Rightarrow> (writeJSON StatusOK (jobHTTPResponse e j), s')))"

definition handleOperatorJobEvents ::
  "env \<Rightarrow> backends \<Rightarrow> string \<Rightarrow> Principal \<Rightarrow> request \<Rightarrow> db \<Rightarrow> response \<times> db" where
  "handleOperatorJobEvents e be jobIDStr princ r s =
     (if rq_Method r \<noteq> ''GET'' then (method_not_allowed ''GET'', s)
      else if \<not> HasPermission (p_Role princ) PermissionJobsRead then
        (errJSON StatusForbidden ''forbidden'', s)
      else case ValidateCanonicalUUID (env_uuid_Parse e) (env_uuid_String e) jobIDStr of
        Inl _ \<Rightarrow> (errJSON StatusBadRequest ''invalid job_id'', s)
      | Inr jobID \<Rightarrow>
        (case check_query [''limit''] True (rq_Query r) of
           Some msg \<Rightarrow> (errJSON StatusBadRequest msg, s)
         | None \<Rightarrow>
           (case query_limit r of
              None \<Rightarrow> (errJSON StatusBadRequest ''invalid limit parameter'', s)
            | Some limit \<Rightarrow>
              (if \<not> be_jobs be then (errJSON StatusServiceUnavailable ''service unavailable'', s)
               else case ListJobEvents (env_ctx e 1) jobID limit (others e 1 s) of
                 Inl err \<Rightarrow> (job_read_error err, others e 1 s)
               | Inr events \<Rightarrow>
                   (writeJSON StatusOK (JArray (map (jobEventHTTPResponse e) events)),
                    others e 1 s)))))"

section \<open>The local listener\<close>

definition TextResponse :: "nat \<Rightarrow> string \<Rightarrow> response" where
  "TextResponse status txt =
     \<lparr>rs_Status = status, rs_Header = [(''Content-Type'', ''text/plain'')], rs_Body = TextBody txt\<rparr>"

definition handleHealthz :: "request \<Rightarrow> response" where
  "handleHealthz r =
     (if rq_Method r \<noteq> ''GET'' then method_not_allowed ''GET'' else TextResponse StatusOK ''OK'')"

text \<open>\<open>ping_ok\<close>: the database answered the ping within its second.\<close>

definition handleReadyz :: "backends \<Rightarrow> bool \<Rightarrow> request \<Rightarrow> response" where
  "handleReadyz be ping_ok r =
     (if rq_Method r \<noteq> ''GET'' then method_not_allowed ''GET''
      else if \<not> be_checker be \<or> \<not> ping_ok then TextResponse StatusServiceUnavailable ''NOT READY''
      else TextResponse StatusOK ''OK'')"

definition handleJobsRoute :: "env \<Rightarrow> backends \<Rightarrow> request \<Rightarrow> db \<Rightarrow> response \<times> db" where
  "handleJobsRoute e be r s =
     (case authenticateOperator e be r s of
        Inl (status, errMsg) \<Rightarrow> (errJSON status errMsg, s)
      | Inr princ \<Rightarrow>
        (if rq_Method r = ''POST'' then handleOperatorCreateJob e be princ r s
         else if rq_Method r = ''GET'' then handleOperatorListJobs e be princ r s
         else (method_not_allowed ''GET, POST'', s)))"

definition jobs_prefix :: string where "jobs_prefix = ''/api/v1/operator/jobs/''"

definition handleJobRoute :: "env \<Rightarrow> backends \<Rightarrow> request \<Rightarrow> db \<Rightarrow> response \<times> db" where
  "handleJobRoute e be r s =
     (let trimmed = drop (length jobs_prefix) (rq_Path r) in
      if trimmed = [] then (WriteHeader StatusNotFound [], s)
      else if rq_Method r \<noteq> ''GET'' then (method_not_allowed ''GET'', s)
      else case authenticateOperator e be r s of
        Inl (status, errMsg) \<Rightarrow> (errJSON status errMsg, s)
      | Inr princ \<Rightarrow>
        (if HasSuffix trimmed ''/events'' then
           (let jobIDStr = take (length trimmed - length ''/events'') trimmed in
            if CHR ''/'' \<in> set jobIDStr then (WriteHeader StatusNotFound [], s)
            else handleOperatorJobEvents e be jobIDStr princ r s)
         else if CHR ''/'' \<in> set trimmed then (WriteHeader StatusNotFound [], s)
         else handleOperatorGetJobByID e be trimmed princ r s))"

text \<open>
  The routes of \<^verbatim>\<open>newHandler\<close>; \<^const>\<open>None\<close>: no pattern matches, and the mux answers by itself.
\<close>

definition newHandler ::
  "env \<Rightarrow> backends \<Rightarrow> ConcurrencyLimiter \<Rightarrow> bool \<Rightarrow> request \<Rightarrow> db \<Rightarrow> (response \<times> db) option" where
  "newHandler e be lim ping_ok r s =
     (if rq_Path r = ''/healthz'' then Some (handleHealthz r, s)
      else if rq_Path r = ''/readyz'' then Some (handleReadyz be ping_ok r, s)
      else if rq_Path r = ''/api/v1/agent/enroll'' then Some (handleEnroll e be r s)
      else if rq_Path r = ''/api/v1/operator/login'' then Some (handleOperatorLogin e be lim r s)
      else if rq_Path r = ''/api/v1/operator/me'' then Some (handleOperatorMe e be r s)
      else if rq_Path r = ''/api/v1/operator/logout'' then Some (handleOperatorLogout e be r s)
      else if rq_Path r = ''/api/v1/operator/audit'' then Some (handleOperatorAudit e be r s)
      else if rq_Path r = ''/api/v1/operator/jobs'' then Some (handleJobsRoute e be r s)
      else if HasPrefix (rq_Path r) jobs_prefix then Some (handleJobRoute e be r s)
      else None)"

end
