(* ===== verification/Example_Http.thy ===== *)
theory Example_Http
  imports Http Example_Run
begin

text \<open>
  A concrete environment for evaluating the HTTP handlers: everything outside the program is
  instantiated by a concrete function, nothing fails and nobody interferes.
\<close>

definition ex_uuid_Parse :: "string \<Rightarrow> uuid option" where
  "ex_uuid_Parse s = (if s = ex_uuid (length s) then Some (length s) else None)"

definition ex_media :: "string \<Rightarrow> (string \<times> (string \<Rightarrow> string option)) option" where
  "ex_media s = (if s = ''application/json'' then Some (s, \<lambda>_. None) else None)"

text \<open>A key derivation with 32 bytes of output, from the password and the salt.\<close>

definition ex_kdf :: kdf where
  "ex_kdf pw salt time mem threads len = take len (pw @ salt @ replicate len (CHR 0x00))"

definition ex_env :: "time \<Rightarrow> uuid \<Rightarrow> env" where
  "ex_env t i =
     \<lparr>env_now = t, env_entropy = Some (replicate 32 (CHR 0x07)), env_ParseMediaType = ex_media,
      env_Format = FormatInt, env_lower = id, env_uuid_Parse = ex_uuid_Parse, env_uuid_String = ex_uuid,
      env_IDKey = ex_kdf, env_ctx = (\<lambda>_. quiet_ctx t i), env_others = (\<lambda>_. [])\<rparr>"

definition all_backends :: backends where
  "all_backends = \<lparr>be_checker = True, be_registrar = True, be_authenticator = True, be_operators = True,
     be_jobs = True\<rparr>"

lemma ex_env_simps [simp]:
  "env_now (ex_env t i) = t" "env_lower (ex_env t i) = id" "env_uuid_Parse (ex_env t i) = ex_uuid_Parse"
  "env_uuid_String (ex_env t i) = ex_uuid" "env_ctx (ex_env t i) k = quiet_ctx t i" "others (ex_env t i) k s = s"
  "env_entropy (ex_env t i) = Some (replicate 32 (CHR 0x07))" "env_IDKey (ex_env t i) = ex_kdf"
  by (simp_all add: ex_env_def others_def)

lemma all_backends_simps [simp]:
  "be_checker all_backends" "be_registrar all_backends" "be_authenticator all_backends"
  "be_operators all_backends" "be_jobs all_backends"
  by (simp_all add: all_backends_def)

lemma ex_uuid_valid: "ValidString (ex_uuid u)"
  by (rule ascii_valid) (simp add: is_ascii_def ex_uuid_def list_all_iff)

lemma ex_uuid_round_trip [simp]: "ex_uuid_Parse (ex_uuid u) = Some u"
  by (simp add: ex_uuid_Parse_def ex_uuid_def)

lemma check_media_ex: "Header_Get r ''Content-Type'' = ''application/json'' \<Longrightarrow> check_media (ex_env t i) r = MediaOk"
  by (simp add: check_media_def ex_env_def ex_media_def)

end
