(* ===== verification/Job_History.thy ===== *)
theory Job_History
  imports Job_Machine
begin

text \<open>
  What the job machine's runs can do to one job: the event log only grows, the life cycle only
  moves along the documented edges, a started job is never dispatched again, a finished row is
  never touched again, and the dispatch count is the attempt number.
\<close>

section \<open>The two shapes of a step\<close>

lemma job_step_shapes:
  assumes "job_step v w"
  obtains (Create) js es j e where "v = (js, es)" "w = (js @ [j], es @ [e])"
  | (Move) js es j f ev fc e where "v = (js, es)"
      "w = (update_where (\<lambda>y. j_ID y = j_ID j) f js, es @ [e])"
      "j \<in> set js" "row_edge j (f j) ev fc"
  using assms by (elim job_stepE) metis+

section \<open>The log only grows\<close>

lemma job_step_log: "job_step v w \<Longrightarrow> \<exists>e. snd w = snd v @ [e]"
  by (auto elim: job_stepE)

lemma job_steps_log: "job_step\<^sup>*\<^sup>* v w \<Longrightarrow> \<exists>fs. snd w = snd v @ fs"
proof (induction rule: rtranclp_induct)
  case (step v w)
  then show ?case by (auto dest!: job_step_log)
qed simp

section \<open>How one job's status evolves\<close>

text \<open>
  A step either leaves the status of job \<open>i\<close> alone or advances it by the event it appends.
\<close>

lemma job_step_status:
  assumes "machine_inv v" and "job_step v w"
  shows "status_of i (fst w) = status_of i (fst v)
    \<or> (\<exists>e. log_step (status_of i (fst v)) e = Some (status_of i (fst w)))"
proof -
  obtain e where e: "snd w = snd v @ [e]" using job_step_log [OF assms(2)] by blast
  have "replay (events_of i (snd v)) = Some (status_of i (fst v))"
    "replay (events_of i (snd w)) = Some (status_of i (fst w))"
    using assms job_step_inv [OF assms] by (auto simp: machine_inv_def log_ok_def)
  then show ?thesis by (auto simp: e split: if_splits)
qed

definition past_dispatch :: "status \<Rightarrow> bool" where
  "past_dispatch st \<longleftrightarrow>
     (case st of None \<Rightarrow> False | Some (q, _, _) \<Rightarrow> q \<noteq> StateQueued \<and> q \<noteq> StateDispatched)"

lemma log_step_past_dispatch:
  "log_step st e = Some st' \<Longrightarrow> past_dispatch st \<Longrightarrow> past_dispatch st'"
  by (cases "(st, e)" rule: log_step.cases) (auto simp: past_dispatch_def split: if_splits)

lemma job_step_past_dispatch:
  assumes "machine_inv v" and "job_step v w" and "past_dispatch (status_of i (fst v))"
  shows "past_dispatch (status_of i (fst w))"
  using job_step_status [OF assms(1,2), of i] assms(3) log_step_past_dispatch by auto

lemma job_steps_past_dispatch:
  assumes "job_step\<^sup>*\<^sup>* v w" and "machine_inv v" and "past_dispatch (status_of i (fst v))"
  shows "past_dispatch (status_of i (fst w))"
proof -
  have "machine_inv w \<and> past_dispatch (status_of i (fst w))"
    using assms(1)
    by (induction rule: rtranclp_induct)
      (use assms(2,3) in \<open>auto intro: job_step_inv job_step_past_dispatch\<close>)
  then show ?thesis ..
qed

section \<open>Rows\<close>

text \<open>A finished row stays in the table exactly as it is.\<close>

lemma job_step_frozen:
  assumes "job_step v w" and "machine_inv v" and "j \<in> set (fst v)" and "\<not> is_active j"
  shows "j \<in> set (fst w)"
  using assms(1)
proof (cases rule: job_step_shapes)
  case (Move js es k f ev fc e)
  have "j \<noteq> k" using row_edge_active [OF Move(4)] assms(4) by auto
  then have "j_ID j \<noteq> j_ID k"
    using distinct_key_eq [of j_ID js j k] assms(2,3) Move(1,3) machine_invD(1) by fastforce
  then show ?thesis
    using assms(3) Move(1,2) by (force simp: in_set_update_where)
qed (use assms(3) in auto)

lemma job_steps_frozen:
  assumes "job_step\<^sup>*\<^sup>* v w" and "machine_inv v" and "j \<in> set (fst v)" and "\<not> is_active j"
  shows "j \<in> set (fst w)"
proof -
  have "machine_inv w \<and> j \<in> set (fst w)"
    using assms(1) by (induction rule: rtranclp_induct)
      (use assms(2-4) in \<open>auto intro: job_step_inv job_step_frozen\<close>)
  then show ?thesis ..
qed

text \<open>Every row of the table stays, possibly moved along edges of \<^verbatim>\<open>ValidateTransition\<close>.\<close>

definition transition :: "string \<Rightarrow> string \<Rightarrow> bool" where
  "transition a b \<longleftrightarrow> ValidateTransition a b = Inr ()"

definition descends :: "Job \<Rightarrow> Job \<Rightarrow> bool" where
  "descends j k \<longleftrightarrow> j_ID k = j_ID j \<and> j_AgentID k = j_AgentID j
     \<and> j_CreatedByOperatorID k = j_CreatedByOperatorID j
     \<and> j_IdempotencyKeyHash k = j_IdempotencyKeyHash j \<and> j_ActionType k = j_ActionType j
     \<and> j_CreatedAt k = j_CreatedAt j \<and> transition\<^sup>*\<^sup>* (j_State j) (j_State k)"

lemma descends_refl [simp]: "descends j j"
  by (simp add: descends_def)

lemma descends_trans: "descends j k \<Longrightarrow> descends k l \<Longrightarrow> descends j l"
  by (auto simp: descends_def)

lemma row_edge_descends: "row_edge j k ev fc \<Longrightarrow> descends j k"
  using row_edge_same [of j k ev fc] row_edge_transition [of j k ev fc]
  by (auto simp: descends_def transition_def)

lemma job_step_descends:
  assumes "job_step v w" and "machine_inv v" and "j \<in> set (fst v)"
  shows "\<exists>k\<in>set (fst w). descends j k"
  using assms(1)
proof (cases rule: job_step_shapes)
  case (Create js es k e)
  show ?thesis by (rule bexI [of _ j]) (use Create assms(3) in auto)
next
  case (Move js es i f ev fc e)
  have "distinct (map j_ID js)" using assms(2) Move(1) machine_invD(1) by simp
  then have "j_ID j = j_ID i \<Longrightarrow> j = i"
    using distinct_key_eq [of j_ID js j i] assms(3) Move(1,3) by simp
  then have "descends j (if j_ID j = j_ID i then f j else j)"
    using row_edge_descends [OF Move(4)] by auto
  moreover have "(if j_ID j = j_ID i then f j else j) \<in> set (fst w)"
    using assms(3) Move(1,2) by (auto simp: in_set_update_where)
  ultimately show ?thesis by blast
qed

lemma job_steps_descends:
  assumes "job_step\<^sup>*\<^sup>* v w" and "machine_inv v" and "j \<in> set (fst v)"
  shows "\<exists>k\<in>set (fst w). descends j k"
proof -
  have "machine_inv w \<and> (\<exists>k\<in>set (fst w). descends j k)"
    using assms(1)
  proof (induction rule: rtranclp_induct)
    case base
    show ?case using assms(2,3) by (auto intro: bexI [of _ j])
  next
    case (step u t)
    then show ?case by (meson descends_trans job_step_descends job_step_inv)
  qed
  then show ?thesis ..
qed

section \<open>Attempts are dispatches\<close>

definition dispatches :: "JobEvent list \<Rightarrow> nat" where
  "dispatches es = count_where (\<lambda>e. e_EventType e = EventJobDispatched) es"

definition starts :: "JobEvent list \<Rightarrow> nat" where
  "starts es = count_where (\<lambda>e. e_EventType e = EventJobStarted) es"

definition attempt_of :: "status \<Rightarrow> int" where
  "attempt_of st = (case st of None \<Rightarrow> 0 | Some (_, n, _) \<Rightarrow> n)"

lemma log_step_counts:
  assumes "log_step st e = Some st'"
  shows "attempt_of st' = attempt_of st + (if e_EventType e = EventJobDispatched then 1 else 0)"
    and "e_EventType e = EventJobStarted \<longleftrightarrow> \<not> past_dispatch st \<and> past_dispatch st'
      \<and> (\<exists>n. st' = Some (StateRunning, n, None))"
  using assms
  by (cases "(st, e)" rule: log_step.cases;
      auto simp: attempt_of_def past_dispatch_def event_of_def split: if_splits)+

lemma replay_counts:
  "replay es = Some st \<Longrightarrow> int (dispatches es) = attempt_of st
     \<and> starts es \<le> (if past_dispatch st then 1 else 0)"
proof (induction es arbitrary: st rule: rev_induct)
  case Nil
  then show ?case by (auto simp: dispatches_def starts_def attempt_of_def)
next
  case (snoc e es)
  from snoc.prems obtain st0 where st0: "replay es = Some st0" "log_step st0 e = Some st"
    by (cases "replay es") auto
  note ih = snoc.IH [OF st0(1)]
  show ?case
    using ih log_step_counts [OF st0(2)] log_step_past_dispatch [OF st0(2)]
    by (auto simp: dispatches_def starts_def split: if_splits)
qed

section \<open>A finished job has no further events\<close>

definition finished :: "status \<Rightarrow> bool" where
  "finished st \<longleftrightarrow> (case st of None \<Rightarrow> False | Some (q, _, _) \<Rightarrow> IsTerminal q)"

lemma log_step_finished: "finished st \<Longrightarrow> log_step st e = None"
  by (cases "(st, e)" rule: log_step.cases) (auto simp: finished_def IsTerminal_def)

lemma job_step_finished:
  assumes "machine_inv v" and "job_step v w" and "finished (status_of i (fst v))"
  shows "events_of i (snd w) = events_of i (snd v) \<and> status_of i (fst w) = status_of i (fst v)"
proof -
  obtain e where e: "snd w = snd v @ [e]" using job_step_log [OF assms(2)] by blast
  have logs: "replay (events_of i (snd v)) = Some (status_of i (fst v))"
    "replay (events_of i (snd w)) = Some (status_of i (fst w))"
    using assms job_step_inv [OF assms(1,2)] by (auto simp: machine_inv_def log_ok_def)
  then show ?thesis
    using log_step_finished [OF assms(3)] by (auto simp: e split: if_splits)
qed

lemma job_steps_finished:
  assumes "job_step\<^sup>*\<^sup>* v w" and "machine_inv v" and "finished (status_of i (fst v))"
  shows "events_of i (snd w) = events_of i (snd v)"
proof -
  have "machine_inv w \<and> status_of i (fst w) = status_of i (fst v)
      \<and> events_of i (snd w) = events_of i (snd v)"
    using assms(1)
  proof (induction rule: rtranclp_induct)
    case (step u t)
    then show ?case using job_step_finished [of u t i] job_step_inv [of u t] assms(3) by auto
  qed (use assms(2) in simp)
  then show ?thesis by simp
qed

end
