(* ===== verification/Jobs_Properties.thy ===== *)
theory Jobs_Properties
  imports Example_Run Job_History
begin

text \<open>
  The properties of the job engine, over every database the store can reach and every
  interleaving of its operations.
\<close>

section \<open>The backend contract\<close>

text \<open>
  The controller and the agent rely on the job store through \<^verbatim>\<open>StartAgentJob\<close>: a start that
  returns without error moves a dispatched job to running, and no later step of the store
  undoes that. From this alone follows that a job is started at most once.
\<close>

locale job_backend = invariant_system step inv
  for step :: "'s \<Rightarrow> 's \<Rightarrow> bool" and inv :: "'s \<Rightarrow> bool" +
  fixes job_status :: "uuid \<Rightarrow> 's \<Rightarrow> status"
    and start_job :: "'c \<Rightarrow> uuid \<Rightarrow> uuid \<Rightarrow> int \<Rightarrow> 's \<Rightarrow> unit result \<times> 's"
  assumes start_step: "inv s \<Longrightarrow> step\<^sup>*\<^sup>* s (snd (start_job c a i n s))"
    and start_ok: "inv s \<Longrightarrow> start_job c a i n s = (Inr (), t)
      \<Longrightarrow> job_status i s = Some (StateDispatched, n, None)
        \<and> job_status i t = Some (StateRunning, n, None)"
    and started_stays: "inv s \<Longrightarrow> step s t \<Longrightarrow> past_dispatch (job_status i s)
      \<Longrightarrow> past_dispatch (job_status i t)"
begin

lemma start_past_dispatch:
  "inv s \<Longrightarrow> start_job c a i n s = (Inr (), t) \<Longrightarrow> past_dispatch (job_status i t)"
  using start_ok by (fastforce simp: past_dispatch_def)

lemma start_inv: "inv s \<Longrightarrow> start_job c a i n s = (r, t) \<Longrightarrow> inv t"
  using start_step [of s c a i n] run_inv by fastforce

lemma at_most_one_start:
  assumes "inv s" and "start_job c a i n s = (Inr (), t)" and "step\<^sup>*\<^sup>* t u"
    and "start_job c' a' i n' u = (r, v)"
  shows "r \<noteq> Inr ()"
proof
  assume "r = Inr ()"
  have "inv t" using assms(1,2) by (rule start_inv)
  then have "past_dispatch (job_status i u)"
    using run_keeps [OF assms(3), of "\<lambda>x. past_dispatch (job_status i x)"]
      start_past_dispatch [OF assms(1,2)] started_stays by blast
  moreover have "inv u" using run_inv [OF assms(3) \<open>inv t\<close>] .
  ultimately show False
    using start_ok [of u c' a' i n'] assms(4) \<open>r = Inr ()\<close> by (fastforce simp: past_dispatch_def)
qed

end

definition db_status :: "uuid \<Rightarrow> db \<Rightarrow> status" where
  "db_status i s = status_of i (jobs s)"

lemma db_status_row:
  assumes "db_inv s" and "j \<in> set (jobs s)"
  shows "db_status (j_ID j) s = Some (row_status j)"
  using assms find_unique_key [of j_ID "jobs s" j]
  by (simp add: db_status_def status_of_def db_inv_def machine_inv_def ids_unique_def)

lemma set_job_row:
  assumes "db_inv s" and "j \<in> set (jobs s)" and "j_ID (f j) = j_ID j"
  shows "db_status (j_ID j) (add_event c st i ev att actor ident fc (set_job (j_ID j) f s)) =
    Some (row_status (f j))"
  using assms status_of_update [of "jobs s" j f]
  by (simp add: db_status_def db_inv_def machine_inv_def ids_unique_def add_event_def set_job_def)

lemma job_row_ok: "db_inv s \<Longrightarrow> j \<in> set (jobs s) \<Longrightarrow> job_ok j"
  by (auto simp: db_inv_def machine_inv_def list_all_iff)

lemma db_inv_ids: "db_inv s \<Longrightarrow> distinct (map j_ID (jobs s))"
  by (simp add: db_inv_def machine_inv_def ids_unique_def)

lemma StartAgentJob_ok:
  assumes "db_inv s" and "StartAgentJob us c a i n s = (Inr (), t)"
  shows "db_status i s = Some (StateDispatched, n, None)"
    and "db_status i t = Some (StateRunning, n, None)"
proof -
  let ?ts = "clock_at c (''updateRunning'', 0) 0"
  obtain m where "StartAgentJob_tx us c a i n s = Commit m (Inr ()) t"
    using assms(2) run_tx_ok
    by (fastforce simp: StartAgentJob_def pool_error_def StartAgentJob_tx_def Let_def
        split: if_splits option.splits)
  then show "db_status i s = Some (StateDispatched, n, None)"
    and "db_status i t = Some (StateRunning, n, None)"
  proof (atomize (full), elim StartAgentJob_tx_commit [OF _ db_inv_ids [OF assms(1)]])
    fix j x
    assume j: "j \<in> set (jobs s)" "j_ID j = i" "j_State j = StateDispatched" "j_Attempt j = n"
      and t: "t = add_event c (''insertStartEvent'', 0) i EventJobStarted n ActorTypeAgent (us a)
         None (set_job i (row_start ?ts) s)"
    have fc: "j_FailureCode j = None"
      using job_row_ok [OF assms(1) j(1)] j(3) by (simp add: job_ok_def is_active_def)
    then show "db_status i s = Some (StateDispatched, n, None)
        \<and> db_status i t = Some (StateRunning, n, None)"
      using db_status_row [OF assms(1) j(1)] set_job_row [OF assms(1) j(1), of "row_start ?ts"] j t
      by (simp add: row_status_def row_start_def)
  qed
qed

lemma exec_past_dispatch:
  assumes "db_inv s" and "past_dispatch (db_status i s)"
  shows "past_dispatch (db_status i (exec us ul x s))"
proof -
  have inv: "machine_inv (view_of s)" using assms(1) by (simp add: db_inv_def)
  show ?thesis
    using job_steps_past_dispatch [OF exec_steps [OF inv] inv, of i] assms(2)
    by (simp add: db_status_def)
qed

interpretation backend: job_backend "store_step us ul" db_inv db_status "StartAgentJob us" for us ul
proof unfold_locales
  fix s c a i n
  assume "db_inv s"
  have "store_step us ul s (exec us ul (c, OpStartAgentJob a i n) s)"
    unfolding store_step_def by blast
  then show "(store_step us ul)\<^sup>*\<^sup>* s (snd (StartAgentJob us c a i n s))"
    by simp
qed (auto simp: store_step_def StartAgentJob_ok exec_past_dispatch)

section \<open>Runs of the store as runs of the machine\<close>

lemma reachable_machine: "reachable us ul s \<Longrightarrow> machine_inv (view_of s)"
  using reachable_inv by (auto simp: db_inv_def)

lemma reachable_run_steps:
  "reachable us ul s \<Longrightarrow> job_step\<^sup>*\<^sup>* (view_of s) (view_of (run_ops us ul ops s))"
  by (simp add: reachable_inv run_ops_job_steps)

lemma reachable_row:
  assumes "reachable us ul s" and "j \<in> set (jobs s)"
  shows "job_ok j" and "status_of (j_ID j) (jobs s) = Some (row_status j)"
  using job_row_ok [OF reachable_inv [OF assms(1)] assms(2)]
    db_status_row [OF reachable_inv [OF assms(1)] assms(2)] by (simp_all add: db_status_def)

lemma reachable_log:
  "reachable us ul s \<Longrightarrow> replay (events_of i (job_events s)) = Some (status_of i (jobs s))"
  using reachable_machine [of us ul s] by (simp add: machine_inv_def log_ok_def)

text \<open>
  C6. Refinement. Whatever operation the store runs, with whatever clock readings, statement
  failures and lost commits, its effect on the jobs and their events is a sequence of steps of
  the abstract job machine: it creates jobs and moves them along single edges of the life cycle,
  one event per change.
\<close>

theorem store_refines_machine:
  "reachable us ul s \<Longrightarrow> job_step\<^sup>*\<^sup>* (view_of s) (view_of (exec us ul x s))"
  by (rule exec_steps) (rule reachable_machine)

theorem store_refines_machine_witness:
  "job_step\<^sup>*\<^sup>* (view_of ex_dispatched) (view_of ex_running)"
  using store_refines_machine [OF ex_reachable(3), of "(quiet_ctx 4 6, OpStartAgentJob 3 4 1)"]
  by (simp add: ex_start)

text \<open>
  C3. The event log is the truth. In every reachable database, replaying the events recorded for
  a job, in the order they were written, is a legal history and ends in exactly the state,
  attempt and failure code of the job's row; a job without a row has no events.
\<close>

theorem event_log_replays_to_row:
  "reachable us ul s \<Longrightarrow> replay (events_of i (job_events s)) = Some (status_of i (jobs s))"
  by (rule reachable_log)

theorem event_log_replays_to_row_witness:
  "replay (events_of 4 (job_events ex_finished)) = Some (Some (StateSucceeded, 1, None))"
  using event_log_replays_to_row [OF ex_reachable(5), of 4]
  by (simp add: status_of_def row_status_def row_update_defs ex_job_def)

text \<open>
  C2. At most one start. After a \<^verbatim>\<open>StartAgentJob\<close> that returned without error, no later
  \<^verbatim>\<open>StartAgentJob\<close> for the same job succeeds, by any agent and for any attempt, whatever
  operations run in between.
\<close>

theorem start_at_most_once:
  assumes "reachable us ul s" and "StartAgentJob us c a i n s = (Inr (), t)"
    and "StartAgentJob us c' a' i n' (run_ops us ul ops t) = (r, v)"
  shows "r \<noteq> Inr ()"
  using backend.at_most_one_start [OF reachable_inv [OF assms(1)] assms(2) run_ops_steps assms(3)] .

theorem start_at_most_once_witness:
  "fst (StartAgentJob ex_uuid (quiet_ctx 9 11) 3 4 1 ex_running) \<noteq> Inr ()"
  using start_at_most_once [OF ex_reachable(3) ex_start, of "quiet_ctx 9 11" 3 1 "[]"]
  by (cases "StartAgentJob ex_uuid (quiet_ctx 9 11) 3 4 1 ex_running") simp

text \<open>
  C7. Load bounds. In every reachable database an agent has at most one job in flight (the
  partial unique index \<^verbatim>\<open>jobs_agent_inflight_idx\<close> never rejects a write) and at most
  \<^verbatim>\<open>MaxActiveJobsPerAgent\<close> queued, dispatched or running jobs.
\<close>

theorem agent_load_bounds:
  "reachable us ul s \<Longrightarrow> in_flight_count a (jobs s) \<le> 1
     \<and> int (active_count a (jobs s)) \<le> MaxActiveJobsPerAgent"
  using reachable_machine [of us ul s] by (simp add: machine_inv_def)

theorem agent_load_bounds_witness: "in_flight_count 3 (jobs ex_running) \<le> 1"
  using agent_load_bounds [OF ex_reachable(4), of 3] by simp

text \<open>
  C9. Finished jobs are immutable. A job in a terminal state keeps its whole row, and gets no
  further event, whatever operations follow.
\<close>

theorem finished_jobs_are_immutable:
  assumes "reachable us ul s" and "j \<in> set (jobs s)" and "IsTerminal (j_State j)"
  shows "j \<in> set (jobs (run_ops us ul ops s))
    \<and> events_of (j_ID j) (job_events (run_ops us ul ops s)) = events_of (j_ID j) (job_events s)"
proof -
  note steps = reachable_run_steps [OF assms(1), of ops] and inv = reachable_machine [OF assms(1)]
  have "finished (status_of (j_ID j) (jobs s))"
    using reachable_row(2) [OF assms(1,2)] assms(3) by (simp add: finished_def row_status_def)
  moreover have "\<not> is_active j" using assms(3) by (auto simp: is_active_def IsTerminal_def)
  ultimately show ?thesis
    using job_steps_frozen [OF steps inv, of j] job_steps_finished [OF steps inv, of "j_ID j"]
      assms(2) by simp
qed

theorem finished_jobs_are_immutable_witness:
  "row_succeed 5 (row_start 4 (row_dispatch 1 3 ex_job)) \<in>
     set (jobs (run_ops ex_uuid id [(quiet_ctx 90 12, OpClaimNextAgentJob 3)] ex_finished))"
  using finished_jobs_are_immutable [OF ex_reachable(5),
      of "row_succeed 5 (row_start 4 (row_dispatch 1 3 ex_job))"
         "[(quiet_ctx 90 12, OpClaimNextAgentJob 3)]"]
  by (simp add: row_succeed_def IsTerminal_def del: run_ops_simps)

text \<open>
  C10. Life cycle. No job is ever deleted; over any run it keeps its id, agent, creator,
  idempotency key, action and creation time, and its state moves only along the edges that
  \<^verbatim>\<open>ValidateTransition\<close> accepts.
\<close>

theorem jobs_follow_the_life_cycle:
  assumes "reachable us ul s" and "j \<in> set (jobs s)"
  shows "\<exists>k\<in>set (jobs (run_ops us ul ops s)). descends j k"
  using job_steps_descends [OF reachable_run_steps [OF assms(1)] reachable_machine [OF assms(1)], of j]
    assms(2) by simp

theorem jobs_follow_the_life_cycle_witness:
  "descends ex_job (row_dispatch 1 3 ex_job)"
  using jobs_follow_the_life_cycle [OF ex_reachable(2), of ex_job
      "[(quiet_ctx 3 5, OpClaimNextAgentJob 3)]"]
  by (simp add: ex_claim)

text \<open>
  C11. Attempts. The attempt column of a job is the number of \<^verbatim>\<open>job.dispatched\<close> events in its
  log, it never exceeds \<^verbatim>\<open>MaxDispatchAttempts\<close>, and the log holds at most one \<^verbatim>\<open>job.started\<close>.
\<close>

theorem attempts_are_dispatches:
  assumes "reachable us ul s" and "j \<in> set (jobs s)"
  shows "j_Attempt j = int (dispatches (events_of (j_ID j) (job_events s)))
    \<and> j_Attempt j \<le> MaxDispatchAttempts \<and> starts (events_of (j_ID j) (job_events s)) \<le> 1"
proof -
  have "replay (events_of (j_ID j) (job_events s)) = Some (Some (row_status j))"
    using reachable_log [OF assms(1), of "j_ID j"] reachable_row(2) [OF assms] by simp
  from replay_counts [OF this] show ?thesis
    using reachable_row(1) [OF assms]
    by (auto simp: attempt_of_def row_status_def job_ok_def split: if_splits)
qed

theorem attempts_are_dispatches_witness:
  "dispatches (events_of 4 (job_events ex_finished)) = 1"
  using attempts_are_dispatches [OF ex_reachable(5),
      of "row_succeed 5 (row_start 4 (row_dispatch 1 3 ex_job))"]
  by (simp add: row_update_defs ex_job_def)

section \<open>Creating jobs\<close>

text \<open>A context in which the pool is open, no statement fails and the commit goes through.\<close>

definition no_failures :: "txctx \<Rightarrow> bool" where
  "no_failures c \<longleftrightarrow> \<not> pool_nil c \<and> (\<forall>st. \<not> stmt_fails c st) \<and> commit_result c = Committed"

lemma no_failuresD [simp]:
  assumes "no_failures c"
  shows "\<not> pool_nil c" "\<not> stmt_fails c st" "commit_result c = Committed"
  using assms unfolding no_failures_def by blast+

lemma no_failures_quiet [simp]: "no_failures (quiet_ctx t i)"
  by (simp add: no_failures_def)

lemma run_tx_no_failures:
  "no_failures c \<Longrightarrow> run_tx c bm s body = (case body of Rollback r \<Rightarrow> (r, s) | Commit m r t \<Rightarrow> (r, t))"
  by (simp add: run_tx_def split: tx_end.splits)

definition key_row :: "uuid \<Rightarrow> bytes \<Rightarrow> db \<Rightarrow> Job option" where
  "key_row p h s =
     List.find (\<lambda>j. j_CreatedByOperatorID j = p \<and> j_IdempotencyKeyHash j = h) (jobs s)"

definition may_execute :: "uuid \<Rightarrow> db \<Rightarrow> bool" where
  "may_execute p s \<longleftrightarrow> (\<exists>opr\<in>set (operators s). o_id opr = p \<and> o_disabled_at opr = None
     \<and> o_role opr \<in> {RoleOperator, RoleAdmin})"

lemma CreateJob_insert_no_rollback: "CreateJob_insert c p a x h u s \<noteq> Rollback (Inr v)"
  by (auto simp: CreateJob_insert_def Let_def)

lemma CreateJob_tx_no_rollback: "CreateJob_tx c p a x h s \<noteq> Rollback (Inr v)"
proof
  assume "CreateJob_tx c p a x h s = Rollback (Inr v)"
  then show False
    using CreateJob_insert_no_rollback [of c p a x h _ s v]
    by (auto simp: CreateJob_tx_def split: if_splits option.splits sum.splits)
qed

lemma CreateJob_committed:
  assumes "CreateJob c p a x h s = (Inr v, t)"
  obtains m where "CreateJob_tx c p a x h s = Commit m (Inr v) t"
proof -
  have "\<not> pool_nil c" using assms by (auto simp: CreateJob_def pool_error_def)
  then show thesis
    using that assms CreateJob_tx_no_rollback [of c p a x h s v] run_tx_ok
    by (fastforce simp: CreateJob_def)
qed

lemma CreateJob_success:
  assumes "CreateJob c p a x h s = (Inr (j, created), t)"
  shows "may_execute p s"
    and "\<not> created \<Longrightarrow> key_row p h s = Some j \<and> j_AgentID j = a \<and> j_ActionType j = x \<and> t = s"
    and "created \<Longrightarrow> key_row p h s = None \<and> int (active_count a (jobs s)) < MaxActiveJobsPerAgent
      \<and> (\<exists>g\<in>set (agents s). a_id g = a)
      \<and> (\<exists>opr\<in>set (operators s). o_id opr = p
           \<and> CreateJob_insert c p a x h (o_username opr) s =
               Commit ''failed to commit job creation'' (Inr (j, created)) t)"
proof -
  obtain m where tx: "CreateJob_tx c p a x h s = Commit m (Inr (j, created)) t"
    by (rule CreateJob_committed [OF assms])
  obtain opr where opr: "List.find (\<lambda>r. o_id r = p) (operators s) = Some opr"
    and ok: "o_disabled_at opr = None" "HasPermission (o_role opr) PermissionOperationsExecute"
    using tx by (auto simp: CreateJob_tx_def ParseRole_ok split: if_splits option.splits sum.splits)
  note row = find_Some_D [OF opr]
  show "may_execute p s"
    using row ok by (auto simp: may_execute_def execute_roles)
  have shape: "(case key_row p h s of
      Some k \<Rightarrow> j = k \<and> \<not> created \<and> j_AgentID k = a \<and> j_ActionType k = x \<and> t = s
    | None \<Rightarrow> list_ex (\<lambda>g. a_id g = a) (agents s)
        \<and> \<not> int (active_count a (jobs s)) \<ge> MaxActiveJobsPerAgent
        \<and> CreateJob_insert c p a x h (o_username opr) s = Commit m (Inr (j, created)) t)"
    using tx opr by (auto simp: CreateJob_tx_def key_row_def split: if_splits option.splits sum.splits)
  have insert: "created \<and> m = ''failed to commit job creation''"
    if "CreateJob_insert c p a x h u s = Commit m (Inr (j, created)) t" for u
    using that by (auto simp: CreateJob_insert_def Let_def split: if_splits)
  show "\<not> created \<Longrightarrow> key_row p h s = Some j \<and> j_AgentID j = a \<and> j_ActionType j = x \<and> t = s"
    using shape insert by (auto split: option.splits)
  show "created \<Longrightarrow> key_row p h s = None \<and> int (active_count a (jobs s)) < MaxActiveJobsPerAgent
      \<and> (\<exists>g\<in>set (agents s). a_id g = a)
      \<and> (\<exists>opr\<in>set (operators s). o_id opr = p
           \<and> CreateJob_insert c p a x h (o_username opr) s =
               Commit ''failed to commit job creation'' (Inr (j, created)) t)"
    using shape insert row by (auto simp: list_ex_iff split: option.splits)
qed

lemma CreateJob_insert_effect:
  assumes "CreateJob_insert c p a x h u s = Commit m (Inr (j, created)) t"
  shows "fresh_row j \<and> j_AgentID j = a \<and> j_CreatedByOperatorID j = p
      \<and> j_CreatedByUsername j = u \<and> j_IdempotencyKeyHash j = h \<and> j_ActionType j = x"
    and "jobs t = jobs s @ [j]"
    and "\<exists>e. job_events t = job_events s @ [e] \<and> event_of (j_ID j) EventJobCreated 0 None e
      \<and> e_ActorType e = ActorTypeOperator \<and> e_ActorIdentifier e = u"
    and "\<exists>e. operator_audit_events t = operator_audit_events s @ [e] \<and> au_action e = ActionJobCreated
      \<and> au_actor_operator_id e = Some p \<and> au_actor_username e = u
      \<and> au_target_job_id e = Some (j_ID j)"
  using assms
  by (auto simp: CreateJob_insert_def Let_def add_event_def fresh_row_def event_of_def
      split: if_splits)

lemma key_row_unique:
  assumes "db_inv s" and "j \<in> set (jobs s)"
  shows "key_row (j_CreatedByOperatorID j) (j_IdempotencyKeyHash j) s = Some j"
  using find_unique_key [of "\<lambda>j. (j_CreatedByOperatorID j, j_IdempotencyKeyHash j)" "jobs s" j] assms
  by (simp add: key_row_def db_inv_def machine_inv_def keys_unique_def)

lemma CreateJob_row:
  assumes "CreateJob c p a x h s = (Inr (j, created), t)"
  shows "j \<in> set (jobs t) \<and> j_CreatedByOperatorID j = p \<and> j_IdempotencyKeyHash j = h
    \<and> j_AgentID j = a \<and> j_ActionType j = x"
proof (cases created)
  case True
  then obtain u m where "CreateJob_insert c p a x h u s = Commit m (Inr (j, created)) t"
    using CreateJob_success(3) [OF assms] by blast
  from CreateJob_insert_effect(1,2) [OF this] show ?thesis by simp
next
  case False
  with CreateJob_success(2) [OF assms] show ?thesis
    by (auto simp: key_row_def dest: find_Some_D)
qed

text \<open>
  Creation. \<^verbatim>\<open>CreateJob\<close> succeeds only for an existing, enabled operator whose role carries
  \<^verbatim>\<open>operations.execute\<close>. When it reports a new job, the target agent exists and had room, and the
  call appended exactly one queued row, one \<^verbatim>\<open>job.created\<close> event and one audit record, all naming
  that operator and job. When it reports a replay, nothing changed and the job returned is the
  one already stored for this operator and key, with the same agent and action.
\<close>

theorem CreateJob_spec:
  assumes "CreateJob c p a x h s = (Inr (j, created), t)"
  shows "may_execute p s \<and> j_AgentID j = a \<and> j_ActionType j = x
    \<and> (if created then
         (\<exists>g\<in>set (agents s). a_id g = a) \<and> int (active_count a (jobs s)) < MaxActiveJobsPerAgent
         \<and> key_row p h s = None \<and> fresh_row j \<and> jobs t = jobs s @ [j]
         \<and> (\<exists>e. job_events t = job_events s @ [e] \<and> event_of (j_ID j) EventJobCreated 0 None e)
         \<and> (\<exists>e. operator_audit_events t = operator_audit_events s @ [e]
              \<and> au_action e = ActionJobCreated \<and> au_actor_operator_id e = Some p
              \<and> au_target_job_id e = Some (j_ID j))
       else key_row p h s = Some j \<and> t = s)"
proof (cases created)
  case True
  then obtain u m where ins: "CreateJob_insert c p a x h u s = Commit m (Inr (j, created)) t"
    using CreateJob_success(3) [OF assms] by blast
  show ?thesis
    using True CreateJob_success(1,3) [OF assms] CreateJob_row [OF assms]
      CreateJob_insert_effect [OF ins] by auto
next
  case False
  then show ?thesis
    using CreateJob_success(1,2) [OF assms] by auto
qed

theorem CreateJob_spec_witness:
  "may_execute 8 ex_enrolled \<and> jobs ex_queued = jobs ex_enrolled @ [ex_job]"
  using CreateJob_spec [OF ex_create] by simp

text \<open>
  C8. Idempotency keys. Once a \<^verbatim>\<open>CreateJob\<close> has succeeded, a later call by the same operator with
  the same key, after any operations at all, can only return that same job: it never creates
  another one, never changes the database, and is refused when it asks for a different agent or
  action.
\<close>

theorem CreateJob_idempotent:
  assumes "reachable us ul s" and "CreateJob c p a x h s = (Inr (j, b), t)"
    and "CreateJob c' p a' x' h (run_ops us ul ops t) = (Inr (k, b'), v)"
  shows "j_ID k = j_ID j \<and> \<not> b' \<and> a' = a \<and> x' = x \<and> v = run_ops us ul ops t"
proof -
  have t: "reachable us ul t"
    using reachable.step [OF assms(1), of "(c, OpCreateJob p a x h)"] assms(2) by simp
  note row = CreateJob_row [OF assms(2)]
  obtain k' where k': "k' \<in> set (jobs (run_ops us ul ops t))" "descends j k'"
    using job_steps_descends [OF reachable_run_steps [OF t] reachable_machine [OF t], of j] row
    by auto
  have "key_row p h (run_ops us ul ops t) = Some k'"
    using key_row_unique [OF reachable_inv [OF reachable_run_ops [OF t]] k'(1)] k'(2) row
    by (simp add: descends_def)
  then show ?thesis
    using CreateJob_success(2,3) [OF assms(3)] k'(2) row by (cases b') (auto simp: descends_def)
qed

theorem CreateJob_idempotent_witness:
  "\<exists>k. CreateJob (quiet_ctx 50 60) 8 3 ActionAgentPing ex_idem ex_queued = (Inr (k, False), ex_queued)
     \<and> j_ID k = 4"
proof -
  have "CreateJob (quiet_ctx 50 60) 8 3 ActionAgentPing ex_idem (run_ops ex_uuid id [] ex_queued) =
      (Inr (ex_job, False), ex_queued)"
    by (simp add: CreateJob_def CreateJob_tx_def run_tx_def ParseRole_def HasPermission_def
        permission_consts validateJobRow_def State_Valid_def MaxDispatchAttempts_def
        ValidateStateFailureCode_def ex_operator_def ex_job_def)
  from CreateJob_idempotent [OF ex_reachable(1) ex_create this] this show ?thesis
    by (intro exI [of _ ex_job]) (simp add: ex_job_def)
qed

end
