(* ===== verification/Dispatch_Properties.thy ===== *)
theory Dispatch_Properties
  imports Jobs_Properties
begin

text \<open>
  Properties of reconciliation, claiming, completion and the reads: what the loops do to each
  row, which job a claim hands out and when it must hand out one, how late and repeated
  completions are treated, and what \<^verbatim>\<open>GetJobByID\<close> and \<^verbatim>\<open>ListJobs\<close> return.
\<close>

section \<open>The reconciliation loops, row by row\<close>

lemma rewritten_rows:
  assumes "k \<in> set (jobs (add_event c st i ev att actor ident fc (set_job i f s)))"
    and "\<And>j. j_ID (f j) = j_ID j" and "\<And>j. \<not> in_flight (f j)"
  shows "if j_ID k = i then \<not> in_flight k else k \<in> set (jobs s)"
proof -
  obtain x where x: "x \<in> set (jobs s)" "k = (if j_ID x = i then f x else x)"
    using assms(1) by (auto simp: add_event_def set_job_def in_set_update_where)
  then show ?thesis
    using assms(2) [of x] assms(3) [of x] by (cases "j_ID x = i") auto
qed

lemma row_updates_land:
  "j_ID (row_requeue t j) = j_ID j" "j_ID (row_exhaust t u j) = j_ID j"
  "j_ID (row_timeout t u j) = j_ID j" "\<not> in_flight (row_requeue t j)"
  "\<not> in_flight (row_exhaust t u j)" "\<not> in_flight (row_timeout t u j)"
  by (simp_all add: row_update_defs in_flight_def)

lemma reconcile_dispatched_rows:
  assumes "reconcile_dispatched c x s = Inr t" and "k \<in> set (jobs t)"
  shows "if j_ID k = fst x then \<not> in_flight k else k \<in> set (jobs s)"
proof -
  obtain st f ev att actor ident fc
    where t: "t = add_event c st (fst x) ev att actor ident fc (set_job (fst x) f s)"
    and f: "\<And>j. j_ID (f j) = j_ID j" "\<And>j. \<not> in_flight (f j)"
    using assms(1) row_updates_land
    by (auto simp: reconcile_dispatched_def expired_defs Let_def split: if_splits)
  show ?thesis using rewritten_rows [OF assms(2) [unfolded t] f] .
qed

lemma reconcile_running_rows:
  assumes "reconcile_running c x s = Inr t" and "k \<in> set (jobs t)"
  shows "if j_ID k = fst x then \<not> in_flight k else k \<in> set (jobs s)"
proof -
  obtain st f ev att actor ident fc
    where t: "t = add_event c st (fst x) ev att actor ident fc (set_job (fst x) f s)"
    and f: "\<And>j. j_ID (f j) = j_ID j" "\<And>j. \<not> in_flight (f j)"
    using assms(1) row_updates_land
    by (auto simp: reconcile_running_def expired_defs Let_def split: if_splits)
  show ?thesis using rewritten_rows [OF assms(2) [unfolded t] f] .
qed

lemma for_each_rows:
  assumes "for_each body xs s = Inr t" and "k \<in> set (jobs t)"
    and body: "\<And>x s t k. body x s = Inr t \<Longrightarrow> k \<in> set (jobs t) \<Longrightarrow>
      if j_ID k = fst x then \<not> in_flight k else k \<in> set (jobs s)"
  shows "if j_ID k \<in> fst ` set xs then \<not> in_flight k else k \<in> set (jobs s)"
  using assms(1)
proof (induction xs arbitrary: s)
  case Nil
  then show ?case using assms(2) by simp
next
  case (Cons x xs)
  from Cons.prems obtain u where u: "body x s = Inr u" "for_each body xs u = Inr t"
    by (auto split: sum.splits)
  show ?case
    using Cons.IH [OF u(2)] body [OF u(1), of k] by (auto split: if_splits)
qed

lemma for_each_other_rows:
  assumes "for_each body xs s = Inr t" and "k \<in> set (jobs s)" and "j_ID k \<notin> fst ` set xs"
    and body: "\<And>x s t k. body x s = Inr t \<Longrightarrow> k \<in> set (jobs s) \<Longrightarrow> j_ID k \<noteq> fst x \<Longrightarrow> k \<in> set (jobs t)"
  shows "k \<in> set (jobs t)"
  using assms(1-3)
proof (induction xs arbitrary: s)
  case (Cons x xs)
  from Cons.prems(1) obtain u where u: "body x s = Inr u" "for_each body xs u = Inr t"
    by (auto split: sum.splits)
  show ?case
    using Cons.IH [OF u(2)] body [OF u(1) Cons.prems(2)] Cons.prems(3) by simp
qed simp

lemma reconcile_other_rows:
  "reconcile_dispatched c x s = Inr t \<Longrightarrow> k \<in> set (jobs s) \<Longrightarrow> j_ID k \<noteq> fst x \<Longrightarrow> k \<in> set (jobs t)"
  "reconcile_running c x s = Inr t \<Longrightarrow> k \<in> set (jobs s) \<Longrightarrow> j_ID k \<noteq> fst x \<Longrightarrow> k \<in> set (jobs t)"
  by (auto simp: reconcile_dispatched_def reconcile_running_def expired_defs Let_def
      split: if_splits intro: other_rows_kept)

lemma loop_rows:
  "for_each (reconcile_dispatched c) xs s = Inr t \<Longrightarrow> k \<in> set (jobs t)
     \<Longrightarrow> if j_ID k \<in> fst ` set xs then \<not> in_flight k else k \<in> set (jobs s)"
  "for_each (reconcile_running c) xs s = Inr t \<Longrightarrow> k \<in> set (jobs t)
     \<Longrightarrow> if j_ID k \<in> fst ` set xs then \<not> in_flight k else k \<in> set (jobs s)"
  by (erule (1) for_each_rows, erule (1) reconcile_dispatched_rows,
      erule (1) for_each_rows, erule (1) reconcile_running_rows)

lemma loop_other_rows:
  "for_each (reconcile_dispatched c) xs s = Inr t \<Longrightarrow> k \<in> set (jobs s)
     \<Longrightarrow> j_ID k \<notin> fst ` set xs \<Longrightarrow> k \<in> set (jobs t)"
  "for_each (reconcile_running c) xs s = Inr t \<Longrightarrow> k \<in> set (jobs s)
     \<Longrightarrow> j_ID k \<notin> fst ` set xs \<Longrightarrow> k \<in> set (jobs t)"
  by (erule (2) for_each_other_rows, erule (2) reconcile_other_rows,
      erule (2) for_each_other_rows, erule (2) reconcile_other_rows)

lemma for_each_total:
  "(\<And>x s. \<exists>t. body x s = Inr t) \<Longrightarrow> \<exists>t. for_each body xs s = Inr t"
proof (induction xs arbitrary: s)
  case (Cons x xs)
  obtain u where "body x s = Inr u" using Cons.prems by blast
  then show ?case using Cons.IH [OF Cons.prems, of u] by simp
qed simp

lemma reconcile_total:
  assumes "no_failures c"
  shows "\<exists>t. reconcileExpiredJobsInTx c a n s = Inr t"
proof -
  have "\<exists>t. reconcile_dispatched c x s = Inr t" "\<exists>t. reconcile_running c x s = Inr t" for x s
    using assms by (auto simp: reconcile_dispatched_def reconcile_running_def expired_defs Let_def)
  then have "\<exists>t. for_each (reconcile_dispatched c) xs s = Inr t"
    "\<exists>t. for_each (reconcile_running c) xs s = Inr t" for xs s
    by (simp_all add: for_each_total)
  then show ?thesis
    using assms by (auto simp: reconcileExpiredJobsInTx_def Let_def split: sum.splits)
      (metis sum.distinct(1))+
qed

text \<open>
  After the per-agent reconciliation, a job of that agent that is still in flight was not
  expired, and queued jobs are where they were.
\<close>

lemma reconcile_agent_runs:
  assumes "reconcileExpiredJobsInTx c (Some a) n s = Inr t"
  obtains l m u where "for_each (reconcile_dispatched c) (queryDispatched c (Some a) l s) s = Inr u"
    and "for_each (reconcile_running c) (queryRunning c (Some a) m u) u = Inr t"
  using assms by (auto simp: reconcileExpiredJobsInTx_def Let_def split: if_splits sum.splits)

lemma reconcile_agent_clears:
  assumes "reconcileExpiredJobsInTx c (Some a) n s = Inr t"
    and "k \<in> set (jobs t)" and "j_AgentID k = a" and "in_flight k"
  shows "k \<in> set (jobs s)" and "\<not> dispatch_expired c k" and "\<not> execution_expired c k"
proof -
  obtain l m u where u: "for_each (reconcile_dispatched c) (queryDispatched c (Some a) l s) s = Inr u"
    and t: "for_each (reconcile_running c) (queryRunning c (Some a) m u) u = Inr t"
    using assms(1) by (rule reconcile_agent_runs)
  from loop_rows(2) [OF t assms(2)] assms(4)
  have ku: "k \<in> set (jobs u)" "j_ID k \<notin> fst ` set (queryRunning c (Some a) m u)"
    by (auto split: if_splits)
  from loop_rows(1) [OF u ku(1)] assms(4)
  have ks: "k \<in> set (jobs s)" "j_ID k \<notin> fst ` set (queryDispatched c (Some a) l s)"
    by (auto split: if_splits)
  show "k \<in> set (jobs s)" by (rule ks(1))
  show "\<not> dispatch_expired c k"
    using ks assms(3) by (auto simp: queryDispatched_def image_image)
  show "\<not> execution_expired c k"
    using ku assms(3) by (auto simp: queryRunning_def image_image)
qed

lemma reconcile_agent_keeps_queued:
  assumes "reconcileExpiredJobsInTx c (Some a) n s = Inr t" and "machine_inv (view_of s)"
    and "k \<in> set (jobs s)" and "j_State k = StateQueued"
  shows "k \<in> set (jobs t)"
proof -
  have notin: "j_ID k \<notin> fst ` set xs"
    if "k \<in> set (jobs v)" "distinct (map j_ID (jobs v))" "st \<noteq> StateQueued"
      "\<And>x. x \<in> set xs \<Longrightarrow> target st v x" for v st xs
  proof
    assume "j_ID k \<in> fst ` set xs"
    then obtain x where x: "x \<in> set xs" "fst x = j_ID k" by auto
    from that(4) [OF x(1)] obtain j where "j \<in> set (jobs v)" "x = (j_ID j, j_Attempt j)" "j_State j = st"
      by (rule targetE)
    then show False
      using distinct_key_eq [OF that(2) _ that(1)] x(2) that(3) assms(4) by auto
  qed
  obtain l m u where u: "for_each (reconcile_dispatched c) (queryDispatched c (Some a) l s) s = Inr u"
    and t: "for_each (reconcile_running c) (queryRunning c (Some a) m u) u = Inr t"
    using assms(1) by (rule reconcile_agent_runs)
  have ds: "distinct (map j_ID (jobs s))"
    using assms(2) by (simp add: machine_inv_def ids_unique_def)
  have ku: "k \<in> set (jobs u)"
    by (rule loop_other_rows(1) [OF u assms(3) notin [OF assms(3) ds, of StateDispatched]])
      (auto intro: queryDispatched_target)
  have "machine_inv (view_of u)"
    using job_steps_inv [OF reconcile_dispatched_loop [OF u ds] assms(2)] .
  then have du: "distinct (map j_ID (jobs u))"
    by (simp add: machine_inv_def ids_unique_def)
  show ?thesis
    by (rule loop_other_rows(2) [OF t ku notin [OF ku du, of StateRunning]])
      (auto intro: queryRunning_target)
qed

section \<open>Claiming\<close>

lemma claim_order_least:
  assumes "claim_order a s = j # js" and "k \<in> set (jobs s)" and "j_AgentID k = a"
    and "j_State k = StateQueued"
  shows "(j_CreatedAt j, j_ID j) \<le> (j_CreatedAt k, j_ID k)"
proof -
  have "sorted (map (\<lambda>j. (j_CreatedAt j, j_ID j)) (j # js))"
    unfolding assms(1) [symmetric] claim_order_def by (rule sorted_sort_key)
  moreover have "k \<in> set (j # js)"
    unfolding assms(1) [symmetric] using assms(2-4) by (simp add: claim_order_def)
  ultimately show ?thesis by auto
qed

lemma ClaimNextAgentJob_some:
  assumes "ClaimNextAgentJob us c a s = (Inr (Some ja), t)"
  obtains s1 j js where "reconcileExpiredJobsInTx c (Some a) 64 s = Inr s1"
    and "\<not> list_ex (\<lambda>j. j_AgentID j = a \<and> in_flight j) (jobs s1)"
    and "claim_order a s1 = j # js" and "0 \<le> j_Attempt j" and "j_Attempt j < MaxDispatchAttempts"
    and "ja = \<lparr>ja_JobID = us (j_ID j), ja_Attempt = j_Attempt j + 1, ja_Action = ActionAgentPing\<rparr>"
    and "t = add_event c (''insertDispatchedEvent'', 0) (j_ID j) EventJobDispatched (j_Attempt j + 1)
       ActorTypeController ''controller'' None
       (set_job (j_ID j)
         (row_dispatch (j_Attempt j + 1) (clock_at c (''updateDispatched'', 0) 0)) s1)"
proof -
  obtain m where "ClaimNextAgentJob_tx us c a s = Commit m (Inr (Some ja)) t"
    using assms run_tx_ok [of c "''failed to begin transaction''" s "ClaimNextAgentJob_tx us c a s"
        "Some ja" t]
    by (auto simp: ClaimNextAgentJob_def pool_error_def ClaimNextAgentJob_tx_def
        ClaimNextAgentJob_pick_def Let_def split: if_splits sum.splits list.splits)
  then obtain s1 where s1: "reconcileExpiredJobsInTx c (Some a) 64 s = Inr s1"
    "\<not> list_ex (\<lambda>j. j_AgentID j = a \<and> in_flight j) (jobs s1)"
    "ClaimNextAgentJob_pick us c a s1 = Commit m (Inr (Some ja)) t"
    by (auto simp: ClaimNextAgentJob_tx_def split: if_splits sum.splits)
  then obtain j js where "claim_order a s1 = j # js"
    by (auto simp: ClaimNextAgentJob_pick_def split: if_splits list.splits)
  with s1 that show thesis
    by (auto simp: ClaimNextAgentJob_pick_def Let_def split: if_splits)
qed

text \<open>
  C12. Claims are first in, first out. When \<^verbatim>\<open>ClaimNextAgentJob\<close> hands out a job, the agent's
  expired jobs have been reconciled and it has nothing in flight, the job is the agent's queued
  job with the least (creation time, id), and it leaves the call dispatched for the next attempt
  with a lease of \<^verbatim>\<open>DispatchLease\<close> from the clock read in the UPDATE.
\<close>

theorem claim_is_fifo:
  assumes "ClaimNextAgentJob us c a s = (Inr (Some ja), t)"
  shows "\<exists>s1 j now. reconcileExpiredJobsInTx c (Some a) 64 s = Inr s1
    \<and> in_flight_count a (jobs s1) = 0
    \<and> j \<in> set (jobs s1) \<and> j_AgentID j = a \<and> j_State j = StateQueued
    \<and> (\<forall>k\<in>set (jobs s1). j_AgentID k = a \<and> j_State k = StateQueued
         \<longrightarrow> (j_CreatedAt j, j_ID j) \<le> (j_CreatedAt k, j_ID k))
    \<and> ja = \<lparr>ja_JobID = us (j_ID j), ja_Attempt = j_Attempt j + 1, ja_Action = ActionAgentPing\<rparr>
    \<and> row_dispatch (j_Attempt j + 1) now j \<in> set (jobs t)
    \<and> j_DispatchExpiresAt (row_dispatch (j_Attempt j + 1) now j) = Some (now + DispatchLease)"
  using assms
proof (rule ClaimNextAgentJob_some)
  fix s1 j js
  assume s1: "reconcileExpiredJobsInTx c (Some a) 64 s = Inr s1"
    and idle: "\<not> list_ex (\<lambda>j. j_AgentID j = a \<and> in_flight j) (jobs s1)"
    and j: "claim_order a s1 = j # js"
    and ja: "ja = \<lparr>ja_JobID = us (j_ID j), ja_Attempt = j_Attempt j + 1, ja_Action = ActionAgentPing\<rparr>"
    and t: "t = add_event c (''insertDispatchedEvent'', 0) (j_ID j) EventJobDispatched
       (j_Attempt j + 1) ActorTypeController ''controller'' None
       (set_job (j_ID j)
         (row_dispatch (j_Attempt j + 1) (clock_at c (''updateDispatched'', 0) 0)) s1)"
  let ?now = "clock_at c (''updateDispatched'', 0) 0"
  note row = claim_order_D [OF j]
  have "row_dispatch (j_Attempt j + 1) ?now j \<in> set (jobs t)"
    using row by (auto simp: t add_event_def set_job_def in_set_update_where)
  moreover have "in_flight_count a (jobs s1) = 0"
    using idle by (auto simp: in_flight_count_def count_where_zero list_ex_iff)
  ultimately show ?thesis
    using s1 row ja claim_order_least [OF j]
    by (intro exI [of _ s1] exI [of _ j] exI [of _ ?now]) (auto simp: row_dispatch_def)
qed

theorem claim_is_fifo_witness:
  "\<exists>s1. reconcileExpiredJobsInTx (quiet_ctx 3 5) (Some 3) 64 ex_queued = Inr s1"
  using claim_is_fifo [OF ex_claim] by blast

text \<open>
  C13. Claims make progress. If the agent exists, has a queued job, and whatever it has in flight
  has expired by the clock of this call, then a claim in which nothing fails hands out a job.
\<close>

theorem claim_makes_progress:
  assumes "reachable us ul s" and "no_failures c" and "g \<in> set (agents s)" and "a_id g = a"
    and "k \<in> set (jobs s)" and "j_AgentID k = a" and "j_State k = StateQueued"
    and expired: "\<forall>j\<in>set (jobs s). j_AgentID j = a \<and> in_flight j
      \<longrightarrow> dispatch_expired c j \<or> execution_expired c j"
  shows "\<exists>ja t. ClaimNextAgentJob us c a s = (Inr (Some ja), t)"
proof -
  obtain s1 where s1: "reconcileExpiredJobsInTx c (Some a) 64 s = Inr s1"
    using reconcile_total [OF assms(2)] by blast
  have inv: "machine_inv (view_of s1)"
    using job_steps_inv [OF reconcileExpired_steps [OF s1] reachable_machine [OF assms(1)]]
      reachable_machine [OF assms(1)] by blast
  have idle: "\<not> list_ex (\<lambda>j. j_AgentID j = a \<and> in_flight j) (jobs s1)"
    using reconcile_agent_clears [OF s1] expired by (auto simp: list_ex_iff)
  have "k \<in> set (jobs s1)"
    using reconcile_agent_keeps_queued [OF s1 reachable_machine [OF assms(1)] assms(5,7)] .
  then have "k \<in> set (claim_order a s1)"
    using assms(6,7) by (simp add: claim_order_def)
  then obtain j js where j: "claim_order a s1 = j # js"
    by (cases "claim_order a s1") auto
  note row = claim_order_D [OF j]
  then have "job_ok j" using inv by (auto simp: machine_inv_def list_all_iff)
  then have "j_ActionType j = ActionAgentPing" "0 \<le> j_Attempt j" "j_Attempt j < MaxDispatchAttempts"
    using row by (auto simp: job_ok_def)
  moreover have "list_ex (\<lambda>g. a_id g = a) (agents s)"
    using assms(3,4) by (auto simp: list_ex_iff)
  ultimately show ?thesis
    using assms(2) s1 idle j
    by (simp add: ClaimNextAgentJob_def run_tx_no_failures ClaimNextAgentJob_tx_def
        ClaimNextAgentJob_pick_def Let_def)
qed

theorem claim_makes_progress_witness:
  "\<exists>ja t. ClaimNextAgentJob ex_uuid (quiet_ctx 3 5) 3 ex_queued = (Inr (Some ja), t)"
  using claim_makes_progress [OF ex_reachable(2) no_failures_quiet [of 3 5], of ex_agent 3 ex_job]
  by (simp add: ex_agent_def ex_job_def in_flight_def)

text \<open>
  Every assignment the store hands out names a row that is now dispatched to that agent, and
  passes the agent's \<^verbatim>\<open>ValidateJobAssignment\<close> if its identifier survives printing and parsing.
\<close>

lemma claimed_assignment:
  assumes "ClaimNextAgentJob us c a s = (Inr (Some ja), t)"
  obtains j where "j \<in> set (jobs t)" "ja_JobID ja = us (j_ID j)" "j_State j = StateDispatched"
    "j_Attempt j = ja_Attempt ja" "j_AgentID j = a"
    "1 \<le> ja_Attempt ja" "ja_Attempt ja \<le> MaxDispatchAttempts" "ja_Action ja = ActionAgentPing"
  using assms
proof (rule ClaimNextAgentJob_some)
  fix s1 j js
  let ?row = "row_dispatch (j_Attempt j + 1) (clock_at c (''updateDispatched'', 0) 0) j"
  assume j: "claim_order a s1 = j # js" and att: "0 \<le> j_Attempt j" "j_Attempt j < MaxDispatchAttempts"
    and ja: "ja = \<lparr>ja_JobID = us (j_ID j), ja_Attempt = j_Attempt j + 1, ja_Action = ActionAgentPing\<rparr>"
    and t: "t = add_event c (''insertDispatchedEvent'', 0) (j_ID j) EventJobDispatched
       (j_Attempt j + 1) ActorTypeController ''controller'' None
       (set_job (j_ID j)
         (row_dispatch (j_Attempt j + 1) (clock_at c (''updateDispatched'', 0) 0)) s1)"
  have "?row \<in> set (jobs t)"
    using claim_order_D [OF j] by (auto simp: t add_event_def set_job_def in_set_update_where)
  then show thesis
    using that [of ?row] claim_order_D [OF j] att by (simp add: ja row_dispatch_def)
qed

lemma claimed_assignment_valid:
  assumes "ClaimNextAgentJob us c a s = (Inr (Some ja), t)"
    and "\<And>j. j \<in> set (jobs t) \<Longrightarrow> uuid_Parse (us (j_ID j)) = Some (j_ID j)"
  shows "ValidateJobAssignment uuid_Parse us (Some ja) = Inr ()"
  using assms(1)
  by (rule claimed_assignment) (simp add: ValidateJobAssignment_def ValidateCanonicalUUID_def assms(2))

section \<open>Completing\<close>

lemma find_job_row: "db_inv s \<Longrightarrow> j \<in> set (jobs s) \<Longrightarrow> find_job (j_ID j) s = Some j"
  by (simp add: find_job_def find_unique_key db_inv_ids)

lemma row_in_update:
  "j \<in> set (jobs s) \<Longrightarrow> f j \<in> set (jobs (add_event c st i ev att actor ident fc (set_job (j_ID j) f s)))"
  by (auto simp: add_event_def set_job_def in_set_update_where)

text \<open>
  C14. Completion. For a running job reported by its agent for its current attempt, with a
  well-formed outcome and no failing statement: before the deadline the outcome is recorded with
  the clock reading as finish time; at or after it, the job becomes \<^verbatim>\<open>unknown\<close> with
  \<^verbatim>\<open>execution_timeout\<close> and the agent is told there is a conflict.
\<close>

theorem completion_respects_deadline:
  assumes "reachable us ul s" and "no_failures c" and "j \<in> set (jobs s)"
    and "j_State j = StateRunning" and "j_ExecutionDeadlineAt j = Some d"
    and "(outcome, fc) \<in> {(StateSucceeded, []), (StateFailed, FailureCodeExecutorError)}"
  shows "\<exists>t. CompleteAgentJob us c (j_AgentID j) (j_ID j) (j_Attempt j) outcome fc s =
      (if d \<le> clock_at c (''clock'', 0) 0 then Inl ErrJobConflict else Inr (), t)
    \<and> (if d \<le> clock_at c (''clock'', 0) 0
         then row_timeout (clock_at c (''clock'', 0) 0) (clock_at c (''clock'', 0) 0) j \<in> set (jobs t)
         else (if outcome = StateSucceeded then row_succeed (clock_at c (''clock'', 0) 0) j
               else row_fail (clock_at c (''clock'', 0) 0) j) \<in> set (jobs t))"
proof -
  have found: "find_job (j_ID j) s = Some j"
    using find_job_row [OF reachable_inv [OF assms(1)] assms(3)] .
  show ?thesis
    using assms(2,4,5,6) found row_in_update [OF assms(3)]
    by (auto simp: CompleteAgentJob_def CompleteAgentJob_tx_def complete_running_def
        run_tx_no_failures Let_def)
qed

theorem completion_respects_deadline_witness:
  "\<exists>t. CompleteAgentJob ex_uuid (quiet_ctx 5 7) 3 4 1 StateSucceeded [] ex_running = (Inr (), t)
     \<and> row_succeed 5 (row_start 4 (row_dispatch 1 3 ex_job)) \<in> set (jobs t)"
  using completion_respects_deadline [OF ex_reachable(4) no_failures_quiet [of 5 7],
      of "row_start 4 (row_dispatch 1 3 ex_job)" "4 + ExecutionResultDeadline" StateSucceeded "[]"]
  by (simp add: row_start_def row_dispatch_def ex_job_def ExecutionResultDeadline_def second_def)

definition recorded :: "uuid \<Rightarrow> uuid \<Rightarrow> int \<Rightarrow> string \<Rightarrow> string \<Rightarrow> Job \<Rightarrow> bool" where
  "recorded a i n outcome fc k \<longleftrightarrow> j_ID k = i \<and> j_AgentID k = a \<and> j_Attempt k = n
     \<and> j_State k = outcome
     \<and> (outcome = StateSucceeded \<and> fc = [] \<and> (j_FailureCode k = None \<or> j_FailureCode k = Some [])
        \<or> outcome = StateFailed \<and> fc = FailureCodeExecutorError
          \<and> j_FailureCode k = Some FailureCodeExecutorError)"

lemma complete_running_recorded:
  assumes "complete_running us c a (j_ID j) (j_Attempt j) outcome d s = Commit m (Inr ()) t"
    and "j \<in> set (jobs s)" and "j_AgentID j = a"
    and "(outcome, fc) \<in> {(StateSucceeded, []), (StateFailed, FailureCodeExecutorError)}"
  shows "\<exists>k\<in>set (jobs t). recorded a (j_ID j) (j_Attempt j) outcome fc k"
proof -
  let ?now = "clock_at c (''clock'', 0) 0"
  let ?k = "if outcome = StateSucceeded then row_succeed ?now j else row_fail ?now j"
  have "?k \<in> set (jobs t)"
    using assms(1,4) row_in_update [OF assms(2)]
    by (auto simp: complete_running_def Let_def split: if_splits)
  moreover have "recorded a (j_ID j) (j_Attempt j) outcome fc ?k"
    using assms(3,4) by (auto simp: recorded_def row_succeed_def row_fail_def)
  ultimately show ?thesis by blast
qed

lemma complete_running_no_rollback: "complete_running us c a i n outcome d s \<noteq> Rollback (Inr ())"
  by (simp add: complete_running_def Let_def)

lemma CompleteAgentJob_tx_no_rollback:
  "CompleteAgentJob_tx us c a i n outcome fc s \<noteq> Rollback (Inr ())"
proof
  assume "CompleteAgentJob_tx us c a i n outcome fc s = Rollback (Inr ())"
  then show False
    using complete_running_no_rollback [of us c a i n outcome _ s]
    by (auto simp: CompleteAgentJob_tx_def Let_def split: if_splits option.splits)
qed

lemma CompleteAgentJob_committed:
  assumes "CompleteAgentJob us c a i n outcome fc s = (Inr (), t)"
  obtains m where "CompleteAgentJob_tx us c a i n outcome fc s = Commit m (Inr ()) t"
    and "(outcome, fc) \<in> {(StateSucceeded, []), (StateFailed, FailureCodeExecutorError)}"
proof -
  have "run_tx c ''failed to begin transaction'' s
      (CompleteAgentJob_tx us c a i n outcome fc s) = (Inr (), t)"
    and valid: "(outcome, fc) \<in> {(StateSucceeded, []), (StateFailed, FailureCodeExecutorError)}"
    using assms by (auto simp: CompleteAgentJob_def pool_error_def split: if_splits)
  from run_tx_ok [OF this(1)] that valid CompleteAgentJob_tx_no_rollback show thesis by metis
qed

lemma CompleteAgentJob_recorded:
  assumes "CompleteAgentJob us c a i n outcome fc s = (Inr (), t)"
  shows "\<exists>k\<in>set (jobs t). recorded a i n outcome fc k"
proof -
  obtain m where tx: "CompleteAgentJob_tx us c a i n outcome fc s = Commit m (Inr ()) t"
    and valid: "(outcome, fc) \<in> {(StateSucceeded, []), (StateFailed, FailureCodeExecutorError)}"
    by (rule CompleteAgentJob_committed [OF assms])
  obtain j where j: "find_job i s = Some j" "j_AgentID j = a" "j_Attempt j = n"
    and cases: "t = s \<and> j_State j = outcome
        \<and> (outcome = StateSucceeded \<and> (j_FailureCode j = None \<or> j_FailureCode j = Some [])
           \<or> outcome = StateFailed \<and> j_FailureCode j = Some FailureCodeExecutorError)
      \<or> (\<exists>d. complete_running us c a i n outcome d s = Commit m (Inr ()) t)"
    using tx by (auto simp: CompleteAgentJob_tx_def Let_def split: if_splits option.splits)
  note row = find_job_D [OF j(1)]
  from cases show ?thesis
  proof (elim disjE conjE exE)
    fix d assume "complete_running us c a i n outcome d s = Commit m (Inr ()) t"
    then show ?thesis
      using complete_running_recorded [of us c a j outcome d s m t fc] row j valid by simp
  qed (use row j valid in \<open>auto simp: recorded_def\<close>)
qed

text \<open>
  C15. Completion can be retried. After a \<^verbatim>\<open>CompleteAgentJob\<close> that returned without error, the
  same report succeeds again at any later time, whatever ran in between, and changes nothing.
\<close>

theorem completion_is_idempotent:
  assumes "reachable us ul s" and "CompleteAgentJob us c a i n outcome fc s = (Inr (), t)"
    and "no_failures c'"
  shows "CompleteAgentJob us c' a i n outcome fc (run_ops us ul ops t) =
    (Inr (), run_ops us ul ops t)"
proof -
  let ?u = "run_ops us ul ops t"
  have t: "reachable us ul t"
    using reachable.step [OF assms(1), of "(c, OpCompleteAgentJob a i n outcome fc)"] assms(2) by simp
  obtain k where k: "k \<in> set (jobs t)" "recorded a i n outcome fc k"
    using CompleteAgentJob_recorded [OF assms(2)] by blast
  then have "k \<in> set (jobs ?u)"
    using job_steps_frozen [OF reachable_run_steps [OF t] reachable_machine [OF t], of k]
    by (auto simp: recorded_def is_active_def)
  then have "find_job i ?u = Some k"
    using find_job_row [OF reachable_inv [OF reachable_run_ops [OF t]], of k] k(2)
    by (simp add: recorded_def)
  then show ?thesis
    using k(2) unfolding recorded_def
    by (elim conjE disjE) (simp_all add: assms(3) CompleteAgentJob_def CompleteAgentJob_tx_def
        run_tx_no_failures)
qed

theorem completion_is_idempotent_witness:
  "CompleteAgentJob ex_uuid (quiet_ctx 900 70) 3 4 1 StateSucceeded [] ex_finished = (Inr (), ex_finished)"
  using completion_is_idempotent [OF ex_reachable(4) ex_complete no_failures_quiet [of 900 70],
      of "[]"]
  by simp

section \<open>Reading\<close>

text \<open>The row invariant is exactly what \<^verbatim>\<open>validateJobRow\<close> checks, and more.\<close>

lemma job_ok_failure_code:
  assumes "job_ok j"
  shows "ValidateStateFailureCode (j_State j) (j_FailureCode j) = Inr ()"
proof -
  have "State_Valid (j_State j)" using assms by (simp add: job_ok_def)
  then consider "is_active j \<or> j_State j = StateSucceeded" | "j_State j = StateFailed"
    | "j_State j = StateUnknown"
    by (auto simp: State_Valid_def is_active_def)
  then show ?thesis
  proof cases
    case 1
    then have "j_FailureCode j = None" using assms by (simp add: job_ok_def)
    with 1 show ?thesis by (auto simp: ValidateStateFailureCode_def is_active_def)
  next
    case 2
    then have "j_FailureCode j \<in> {Some FailureCodeExecutorError, Some FailureCodeDispatchExhausted}"
      using assms by (simp add: job_ok_def)
    with 2 show ?thesis by (auto simp: ValidateStateFailureCode_def)
  next
    case 3
    then have "j_FailureCode j = Some FailureCodeExecutionTimeout"
      using assms by (simp add: job_ok_def)
    with 3 show ?thesis by (simp add: ValidateStateFailureCode_def)
  qed
qed

lemma job_ok_validates: "job_ok j \<Longrightarrow> validateJobRow (scanned j) = Inr ()"
  using job_ok_failure_code [of j] by (simp add: validateJobRow_def job_ok_def)

lemma scan_jobs_ok: "list_all job_ok js \<Longrightarrow> scan_jobs js = Inr (map scanned js)"
  by (induction js) (simp_all add: job_ok_validates)

lemma reconcileSingle_total:
  assumes "no_failures c" and "find_job i s = Some j"
  shows "\<exists>t. reconcileSingleJobInTx c i s = Inr t"
  using assms by (simp add: reconcileSingleJobInTx_def expired_defs Let_def)

definition lease_over :: "time \<Rightarrow> Job \<Rightarrow> bool" where
  "lease_over now j \<longleftrightarrow> j_State j = StateDispatched \<and> at_or_before (j_DispatchExpiresAt j) now
     \<or> j_State j = StateRunning \<and> at_or_before (j_ExecutionDeadlineAt j) now"

lemma reconcileSingle_fresh:
  assumes "reconcileSingleJobInTx c (j_ID j) s = Inr t" and "find_job (j_ID j) s = Some j"
    and "k \<in> set (jobs t)" and "j_ID k = j_ID j" and ids: "distinct (map j_ID (jobs s))"
  shows "\<not> lease_over (clock_at c (''clock'', 0) 0) k"
proof (cases "lease_over (clock_at c (''clock'', 0) 0) j")
  case True
  then obtain st f ev att actor ident fc
    where t: "t = add_event c st (j_ID j) ev att actor ident fc (set_job (j_ID j) f s)"
    and f: "\<And>j. j_ID (f j) = j_ID j" "\<And>j. \<not> in_flight (f j)"
    using assms(1,2) row_updates_land
    by (auto simp: reconcileSingleJobInTx_def expired_defs lease_over_def Let_def split: if_splits)
  then have "\<not> in_flight k"
    using rewritten_rows [OF assms(3) [unfolded t] f] assms(4) by simp
  then show ?thesis by (auto simp: lease_over_def in_flight_def)
next
  case False
  then have "t = s"
    using assms(1,2) by (auto simp: reconcileSingleJobInTx_def lease_over_def Let_def split: if_splits)
  then have "k = j"
    using distinct_key_eq [OF ids, of k j] assms(2-4) find_job_D by blast
  with False show ?thesis by simp
qed

text \<open>
  Reading a job. For a job that exists, \<^verbatim>\<open>GetJobByID\<close> with no failing statement returns its
  row (never a corruption error), reconciled: the row it shows has not outlived its dispatch
  lease or execution deadline by the clock of the call, and it descends from the row found.
\<close>

theorem GetJobByID_returns_fresh_row:
  assumes "reachable us ul s" and "no_failures c" and "j \<in> set (jobs s)"
  shows "\<exists>k t. GetJobByID c id (j_ID j) s = (Inr (scanned k), t) \<and> k \<in> set (jobs t)
    \<and> descends j k \<and> \<not> lease_over (clock_at c (''clock'', 0) 0) k"
proof -
  note inv = reachable_inv [OF assms(1)]
  note found = find_job_row [OF inv assms(3)]
  obtain t where t: "reconcileSingleJobInTx c (j_ID j) s = Inr t"
    using reconcileSingle_total [OF assms(2) found] by blast
  note steps = reconcileSingle_steps [OF t]
  have mt: "machine_inv (view_of t)"
    using job_steps_inv [OF steps reachable_machine [OF assms(1)]] .
  obtain k where k: "k \<in> set (jobs t)" "descends j k"
    using job_steps_descends [OF steps reachable_machine [OF assms(1)], of j] assms(3) by auto
  have id: "j_ID k = j_ID j" using k(2) by (simp add: descends_def)
  have fk: "find_job (j_ID j) t = Some k"
    using find_unique_key [of j_ID "jobs t" k] k(1) id mt
    by (simp add: find_job_def machine_inv_def ids_unique_def)
  have "job_ok k" using mt k(1) by (auto simp: machine_inv_def list_all_iff)
  then have "GetJobByID c id (j_ID j) s = (Inr (scanned k), t)"
    using assms(2) t fk
    by (simp add: GetJobByID_def run_tx_no_failures GetJobByID_query_def job_ok_validates)
  moreover have "\<not> lease_over (clock_at c (''clock'', 0) 0) k"
    using reconcileSingle_fresh [OF t found k(1) id db_inv_ids [OF inv]] .
  ultimately show ?thesis using k by blast
qed

theorem GetJobByID_returns_fresh_row_witness:
  "\<exists>k t. GetJobByID (quiet_ctx (100 * second) 9) id 4 ex_running = (Inr (scanned k), t)
     \<and> k \<in> set (jobs t) \<and> \<not> lease_over (100 * second) k"
  using GetJobByID_returns_fresh_row [OF ex_reachable(4) no_failures_quiet [of "100 * second" 9],
      of "row_start 4 (row_dispatch 1 3 ex_job)"]
  by (auto simp: row_start_def row_dispatch_def ex_job_def)

lemma ListJobs_result:
  assumes "reachable us ul s" and "no_failures c"
  obtains t where "ListJobs c id n a st s =
      (Inr (map scanned (take (nat (if n \<le> 0 \<or> n > 200 then 100 else n))
        (order_by_desc (\<lambda>j. (j_CreatedAt j, j_ID j)) (filter (list_conditions a st) (jobs t))))), t)"
    and "machine_inv (view_of t)"
proof -
  obtain t where t: "reconcileExpiredJobsInTx c a 100 s = Inr t"
    using reconcile_total [OF assms(2)] by blast
  have mt: "machine_inv (view_of t)"
    using job_steps_inv [OF reconcileExpired_steps [OF t]] reachable_machine [OF assms(1)] by blast
  then have ok: "list_all job_ok (take m (order_by_desc (\<lambda>j. (j_CreatedAt j, j_ID j))
      (filter (list_conditions a st) (jobs t))))" for m
    by (auto simp: machine_inv_def list_all_iff dest!: in_set_takeD)
  show thesis
    by (rule that [OF _ mt])
      (simp add: assms(2) t ListJobs_def run_tx_no_failures ListJobs_query_def Let_def
        scan_jobs_ok [OF ok])
qed

text \<open>
  Listing. \<^verbatim>\<open>ListJobs\<close> with no failing statement never reports corruption. It returns rows of
  the reconciled table that match the filters, newest first by (creation time, id), no more than
  the clamped limit, and all of the matching rows when they fit.
\<close>

theorem ListJobs_spec:
  assumes "reachable us ul s" and "no_failures c"
  shows "\<exists>ks t. ListJobs c id n a st s = (Inr (map scanned ks), t)
    \<and> int (length ks) \<le> (if n \<le> 0 \<or> n > 200 then 100 else n)
    \<and> set ks \<subseteq> {j \<in> set (jobs t). list_conditions a st j}
    \<and> sorted (rev (map (\<lambda>j. (j_CreatedAt j, j_ID j)) ks))
    \<and> (int (count_where (list_conditions a st) (jobs t)) \<le> (if n \<le> 0 \<or> n > 200 then 100 else n)
       \<longrightarrow> set ks = {j \<in> set (jobs t). list_conditions a st j})"
proof -
  let ?n = "if n \<le> 0 \<or> n > 200 then 100 else n"
  obtain t where t: "ListJobs c id n a st s =
      (Inr (map scanned (take (nat ?n)
        (order_by_desc (\<lambda>j. (j_CreatedAt j, j_ID j)) (filter (list_conditions a st) (jobs t))))), t)"
    using ListJobs_result [OF assms] by blast
  let ?all = "order_by_desc (\<lambda>j. (j_CreatedAt j, j_ID j)) (filter (list_conditions a st) (jobs t))"
  let ?ks = "take (nat ?n) ?all"
  have "sorted (rev (map (\<lambda>j. (j_CreatedAt j, j_ID j)) ?all))"
    by (rule sorted_order_by_desc)
  then have "sorted (rev (map (\<lambda>j. (j_CreatedAt j, j_ID j)) ?ks))"
    by (simp add: take_map [symmetric] rev_take sorted_wrt_drop)
  moreover have "set ?ks \<subseteq> {j \<in> set (jobs t). list_conditions a st j}"
    by (auto dest: in_set_takeD)
  moreover have "int (count_where (list_conditions a st) (jobs t)) \<le> ?n \<Longrightarrow> ?ks = ?all"
    by (simp add: count_where_def split: if_splits)
  ultimately show ?thesis
    by (intro exI [of _ ?ks] exI [of _ t]) (auto simp: t)
qed

theorem ListJobs_spec_witness:
  "\<exists>ks t. ListJobs (quiet_ctx 9 9) id 0 (Some 3) None ex_running = (Inr (map scanned ks), t)
     \<and> length ks \<le> 100"
  using ListJobs_spec [OF ex_reachable(4) no_failures_quiet [of 9 9], of 0 "Some 3" None] by auto

section \<open>Bounded work\<close>

lemma for_each_events:
  assumes "for_each body xs s = Inr t"
    and "\<And>x s t. body x s = Inr t \<Longrightarrow> length (job_events t) = length (job_events s) + 1"
  shows "length (job_events t) = length (job_events s) + length xs"
  using assms(1)
proof (induction xs arbitrary: s)
  case (Cons x xs)
  from Cons.prems obtain u where u: "body x s = Inr u" "for_each body xs u = Inr t"
    by (auto split: sum.splits)
  then show ?case using assms(2) [OF u(1)] Cons.IH [OF u(2)] by simp
qed simp

lemma reconcile_one_event:
  "reconcile_dispatched c x s = Inr t \<Longrightarrow> length (job_events t) = length (job_events s) + 1"
  "reconcile_running c x s = Inr t \<Longrightarrow> length (job_events t) = length (job_events s) + 1"
  by (auto simp: reconcile_dispatched_def reconcile_running_def expired_defs add_event_def
      set_job_def Let_def split: if_splits)

text \<open>
  Bounded reconciliation. Run for all agents, a reconciliation changes at most \<^verbatim>\<open>limit\<close> jobs
  over its two passes together, a limit outside 1 to 100 meaning 100; every change is one event.
\<close>

theorem global_reconciliation_is_bounded:
  assumes "reconcileExpiredJobsInTx c None limit s = Inr t"
  shows "int (length (job_events t)) \<le> int (length (job_events s))
    + (if limit \<le> 0 \<or> limit > 100 then 100 else limit)"
proof -
  let ?n = "if limit \<le> 0 \<or> limit > 100 then 100 else limit"
  let ?xs = "queryDispatched c None ?n s"
  have xs: "int (length ?xs) \<le> ?n"
    by (auto simp: queryDispatched_def min_def)
  obtain u where u: "for_each (reconcile_dispatched c) ?xs s = Inr u"
    and t: "t = u \<or> for_each (reconcile_running c) (queryRunning c None (?n - int (length ?xs)) u) u = Inr t"
    using assms by (auto simp: reconcileExpiredJobsInTx_def Let_def split: if_splits sum.splits)
  have ys: "length (queryRunning c None (?n - int (length ?xs)) u) \<le> nat (?n - int (length ?xs))"
    by (simp add: queryRunning_def)
  have one: "length (job_events u) = length (job_events s) + length ?xs"
    using for_each_events [OF u] reconcile_one_event(1) by blast
  have "length (job_events t) \<le> length (job_events u) + nat (?n - int (length ?xs))"
    using t
  proof
    assume "for_each (reconcile_running c) (queryRunning c None (?n - int (length ?xs)) u) u = Inr t"
    from for_each_events [OF this] reconcile_one_event(2) ys show ?thesis by simp
  qed simp
  then show ?thesis using one xs by linarith
qed

theorem global_reconciliation_is_bounded_witness:
  "\<exists>t. reconcileExpiredJobsInTx (quiet_ctx (100 * second) 9) None 1 ex_running = Inr t
     \<and> length (job_events t) \<le> length (job_events ex_running) + 1"
proof -
  obtain t where t: "reconcileExpiredJobsInTx (quiet_ctx (100 * second) 9) None 1 ex_running = Inr t"
    using reconcile_total [OF no_failures_quiet] by blast
  from global_reconciliation_is_bounded [OF t] t show ?thesis by auto
qed

end
