(* ===== verification/Json_Text.thy ===== *)
theory Json_Text
  imports Json_Round_Trip
begin

text \<open>Rendered JSON is valid UTF-8, so it passes the \<^verbatim>\<open>utf8.Valid\<close> checks of its receivers.\<close>

lemma valid_segment:
  assumes "segment_ok seg" and "\<not> (fst seg = RuneError \<and> length (snd seg) = 1)"
  shows "rune_segments (snd seg @ t) = seg # rune_segments t"
  using assms(1)
proof (cases rule: segment_okE)
  case (ascii c)
  then show ?thesis using segments_ascii_Cons [of c t] by simp
qed (use assms(2) in auto)

lemma segments_append:
  assumes "ValidString a"
  shows "rune_segments (a @ b) = rune_segments a @ rune_segments b"
proof -
  have "rune_segments (concat (map snd segs) @ b) = segs @ rune_segments b"
    if "list_all segment_ok segs" "list_all (\<lambda>(r, b). \<not> (r = RuneError \<and> length b = 1)) segs" for segs
    using that
  proof (induction segs)
    case (Cons seg segs)
    then show ?case using valid_segment [of seg "concat (map snd segs) @ b"] by (simp add: case_prod_beta)
  qed simp
  from this [OF segments_ok, of a] assms show ?thesis
    by (simp add: ValidString_def rune_segments_concat)
qed

lemma valid_append: "ValidString a \<Longrightarrow> ValidString b \<Longrightarrow> ValidString (a @ b)"
  by (simp add: ValidString_def segments_append)

lemma valid_ascii_Cons: "of_char c < (128 :: nat) \<Longrightarrow> ValidString s \<Longrightarrow> ValidString (c # s)"
  using valid_append [of "[c]" s] ascii_valid [of "[c]"] by (simp add: is_ascii_def)

lemma valid_bracket:
  "of_char c < (128 :: nat) \<Longrightarrow> of_char d < (128 :: nat) \<Longrightarrow> ValidString s \<Longrightarrow> ValidString (c # s @ [d])"
  using valid_append [of s "[d]"] ascii_valid [of "[d]"] by (simp add: valid_ascii_Cons is_ascii_def)

lemma valid_quote_rune:
  assumes "segment_ok seg"
  shows "ValidString (quote_rune seg)"
  using assms
proof (cases rule: segment_okE)
  case (ascii c)
  from ascii(2) show ?thesis
  proof (cases rule: quote_ascii)
    case plain
    then show ?thesis using ascii by (simp add: ascii_valid is_ascii_def)
  next
    case (escape e)
    then have "is_ascii [CHR 0x5C, e]" by (auto simp: is_ascii_def simple_escapes_def)
    with escape ascii show ?thesis by (simp add: ascii_valid)
  next
    case hex
    then show ?thesis using ascii ascii_u_escape by (simp add: ascii_valid)
  qed
next
  case (bad b)
  then have "quote_rune seg = u_escape RuneError" by (simp add: quote_rune_def RuneError_def)
  then show ?thesis using ascii_u_escape by (simp add: ascii_valid)
next
  case (multi r)
  have "rune_segments (EncodeRune r) = [(r, EncodeRune r)]" using multi(5) [of "[]"] by simp
  then have "ValidString (EncodeRune r)" using multi(3) by (auto simp: ValidString_def)
  then show ?thesis using multi ascii_u_escape by (simp add: quote_multi ascii_valid)
qed

lemma valid_concat: "list_all ValidString xs \<Longrightarrow> ValidString (concat xs)"
  by (induction xs) (simp_all add: valid_append ascii_valid is_ascii_def)

lemma valid_Join: "of_char c < (128 :: nat) \<Longrightarrow> list_all ValidString xs \<Longrightarrow> ValidString (Join c xs)"
  by (induction c xs rule: Join.induct)
    (simp_all add: valid_append valid_ascii_Cons ascii_valid is_ascii_def)

lemma valid_quote: "ValidString (quote s)"
proof -
  have "list_all ValidString (map quote_rune (rune_segments s))"
    using segments_ok [of s] valid_quote_rune by (auto simp: list_all_iff)
  then show ?thesis
    by (simp add: quote_def valid_bracket valid_concat)
qed

lemma valid_render: "json_ok j \<Longrightarrow> ValidString (render j)"
proof (induction j rule: render.induct)
  case (3 t)
  have "of_char c < (128 :: nat)" if "number_char c" for c
    using that by (auto simp: number_char_def is_digit_def digit_value_def Let_def split: if_splits)
  with 3 show ?case by (auto intro!: ascii_valid simp: is_ascii_def list_all_iff)
next
  case (5 vs)
  then show ?case
    by (auto intro!: valid_bracket valid_Join simp: list_all_iff)
next
  case (6 ms)
  have "ValidString (render v)" if "(k, v) \<in> set ms" for k v
    using 6(1) [OF that refl] 6(2) that by (auto simp: list_all_iff)
  then have "list_all ValidString (map (\<lambda>(k, v). quote k @ CHR '':'' # render v) ms)"
    by (auto simp: list_all_iff intro!: valid_append valid_quote valid_ascii_Cons)
  then show ?case by (auto intro!: valid_bracket valid_Join)
qed (simp_all add: valid_quote ascii_valid is_ascii_def)

end
