(* ===== verification/Wire_Bounds.thy ===== *)
theory Wire_Bounds
  imports Wire_Codec Json_Text
begin

text \<open>
  How long the payloads get on the wire, and that a payload its validator accepts fits the
  receiver's limit. The longest form of a rune is a six-byte escape, the longest 64-bit number has
  twenty characters.
\<close>

section \<open>Lengths of rendered JSON\<close>

lemma quote_rune_length: "segment_ok seg \<Longrightarrow> length (quote_rune seg) \<le> 6"
  by (erule segment_okE)
    (auto simp: quote_rune_def u_escape_def EncodeRune_def Let_def)

lemma quote_length: "length (quote s) \<le> 2 + 6 * RuneCountInString s"
proof -
  have "length (concat (map quote_rune segs)) \<le> 6 * length segs" if "list_all segment_ok segs" for segs
    using that
  proof (induction segs)
    case (Cons seg segs)
    then show ?case using quote_rune_length [of seg] by simp
  qed simp
  from this [OF segments_ok, of s] show ?thesis by (simp add: quote_def RuneCountInString_def)
qed

lemma quote_key_length: "length (quote s) \<le> 2 + 6 * length s"
  using quote_length [of s] RuneCount_le [of s] by linarith

lemma Join_length: "length (Join c ws) \<le> (\<Sum>w\<leftarrow>ws. length w + 1)"
  by (induction c ws rule: Join.induct) auto

definition member_size :: "string \<times> json \<Rightarrow> nat" where
  "member_size kv = 4 + 6 * length (fst kv) + length (render (snd kv))"

lemma object_length: "length (render (JObject ms)) \<le> 2 + (\<Sum>kv\<leftarrow>ms. member_size kv)"
proof -
  have "(\<Sum>w\<leftarrow>map (\<lambda>(k, v). quote k @ CHR '':'' # render v) ms. length w + 1) \<le> (\<Sum>kv\<leftarrow>ms. member_size kv)"
  proof (induction ms)
    case (Cons kv ms)
    then show ?case using quote_key_length [of "fst kv"] by (cases kv) (simp add: member_size_def)
  qed simp
  with Join_length [of "CHR '',''" "map (\<lambda>(k, v). quote k @ CHR '':'' # render v) ms"] show ?thesis by simp
qed

lemma Itoa_length: "n < 10 ^ Suc k \<Longrightarrow> length (Itoa n) \<le> Suc k"
proof (induction k arbitrary: n)
  case (Suc k)
  show ?case
  proof (cases "n < 10")
    case False
    then have "n div 10 < 10 ^ Suc k" using Suc.prems by (simp add: div_less_iff_less_mult)
    with Suc.IH False show ?thesis by (subst Itoa.simps) simp
  qed (simp add: Itoa.simps)
qed (simp add: Itoa.simps)

lemma FormatInt_length:
  assumes "in_int64 i"
  shows "length (FormatInt i) \<le> 20"
proof -
  have "nat (- i) < 10 ^ Suc 18" "nat i < 10 ^ Suc 18"
    using assms by (auto simp: in_int64_def)
  from this [THEN Itoa_length] show ?thesis by (simp add: FormatInt_def)
qed

lemma text_member: "RuneCountInString s \<le> n \<Longrightarrow> member_size (k, JString s) \<le> 6 + 6 * length k + 6 * n"
  using quote_length [of s] by (simp add: member_size_def)

lemma int_member: "in_int64 i \<Longrightarrow> member_size (k, json_int i) \<le> 24 + 6 * length k"
  using FormatInt_length [of i] by (simp add: member_size_def)

section \<open>The payloads\<close>

lemma heartbeat_length:
  assumes "in_int64 (hb_ProtocolVersion r)"
  shows "length (render (HeartbeatRequest_json r)) \<le> 1024"
  using object_length [of "[(''protocol_version'', json_int (hb_ProtocolVersion r))]"]
    int_member [OF assms, of "''protocol_version''"]
  by (simp add: HeartbeatRequest_json_def)

lemma job_start_length:
  assumes "JobStartRequest_fits r" and "length (js_JobID r) \<le> 36"
  shows "length (render (JobStartRequest_json r)) \<le> 1024"
  using assms object_length [of "[(''protocol_version'', json_int (js_ProtocolVersion r)),
      (''job_id'', JString (js_JobID r)), (''attempt'', json_int (js_Attempt r))]"]
    int_member [of "js_ProtocolVersion r" "''protocol_version''"] int_member [of "js_Attempt r" "''attempt''"]
    text_member [of "js_JobID r" 36 "''job_id''"] RuneCount_le [of "js_JobID r"]
  by (simp add: JobStartRequest_json_def JobStartRequest_fits_def)

lemma job_complete_length:
  assumes "JobCompleteRequest_fits r" and "length (jc_JobID r) \<le> 36" and "length (jc_Outcome r) \<le> 9"
    and "length (jc_FailureCode r) \<le> 14"
  shows "length (render (JobCompleteRequest_json r)) \<le> 1024"
proof -
  let ?ms = "[(''protocol_version'', json_int (jc_ProtocolVersion r)), (''job_id'', JString (jc_JobID r)),
    (''attempt'', json_int (jc_Attempt r)), (''outcome'', JString (jc_Outcome r))]"
  let ?f = "if jc_FailureCode r = [] then [] else [(''failure_code'', JString (jc_FailureCode r))]"
  have runes: "RuneCountInString s \<le> n" if "length s \<le> n" for s n
    using RuneCount_le [of s] that by linarith
  have f: "(\<Sum>kv\<leftarrow>?f. member_size kv) \<le> 162"
    using text_member [OF runes [OF assms(4)], of "''failure_code''"] by simp
  have ms: "(\<Sum>kv\<leftarrow>?ms. member_size kv) \<le> 590"
    using assms(1) int_member [of "jc_ProtocolVersion r" "''protocol_version''"]
      int_member [of "jc_Attempt r" "''attempt''"] text_member [OF runes [OF assms(2)], of "''job_id''"]
      text_member [OF runes [OF assms(3)], of "''outcome''"]
    by (simp add: JobCompleteRequest_fits_def)
  have "length (render (JobCompleteRequest_json r)) \<le> 2 + (\<Sum>kv\<leftarrow>?ms @ ?f. member_size kv)"
    unfolding JobCompleteRequest_json_def by (rule object_length)
  then show ?thesis using f ms by (simp only: map_append sum_list_append)
qed

text \<open>A report is a list of members; a bound for each member bounds the whole.\<close>

lemma object_bound:
  "list_all2 (\<lambda>kv n. member_size kv \<le> n) ms ns \<Longrightarrow> length (render (JObject ms)) \<le> 2 + sum_list ns"
proof -
  assume a: "list_all2 (\<lambda>kv n. member_size kv \<le> n) ms ns"
  have "(\<Sum>kv\<leftarrow>ms. member_size kv) \<le> sum_list ns"
    using a by (induction rule: list_all2_induct) auto
  then show ?thesis using object_length [of ms] by linarith
qed

lemma ValidateInventoryString_runes: "ValidateInventoryString s lo hi = Inr () \<Longrightarrow> RuneCountInString s \<le> nat hi"
  using ValidateInventoryString_ok(3) [of s lo hi] by linarith

lemma int_bound: "in_int64 i \<Longrightarrow> 24 + 6 * length k \<le> m \<Longrightarrow> member_size (k, json_int i) \<le> m"
  using int_member by (rule order_trans)

lemma text_bound:
  "RuneCountInString s \<le> n \<Longrightarrow> 6 + 6 * length k + 6 * n \<le> m \<Longrightarrow> member_size (k, JString s) \<le> m"
  using text_member by (rule order_trans)

lemma inventory_length:
  assumes "ValidateInventoryRequest (Some r) = Inr ()" and "InventoryRequest_fits r"
  shows "length (render (InventoryRequest_json r)) \<le> 8192"
proof -
  have runes: "RuneCountInString (ir_Hostname r) \<le> 255" "RuneCountInString (ir_OSID r) \<le> 64"
    "RuneCountInString (ir_OSName r) \<le> 128" "RuneCountInString (ir_OSVersion r) \<le> 128"
    "RuneCountInString (ir_KernelRelease r) \<le> 128" "RuneCountInString (ir_Architecture r) \<le> 32"
    using assms(1) ValidateInventoryString_runes
    by (fastforce simp: ValidateInventoryRequest_def ValidateOSID_def split: if_splits sum.splits)+
  have "length (render (InventoryRequest_json r)) \<le> 2 + sum_list [120, 1584, 420, 816, 834, 858, 270, 126, 132]"
    unfolding InventoryRequest_json_def
    by (rule object_bound, unfold list_all2_Cons list_all2_Nil, intro conjI)
      (use assms(2) runes in \<open>auto simp: InventoryRequest_fits_def intro!: int_bound intro: text_bound\<close>)
  then show ?thesis by simp
qed

lemma telemetry_length:
  assumes "TelemetryRequest_fits r"
  shows "length (render (TelemetryRequest_json r)) \<le> 4096"
proof -
  have "length (render (TelemetryRequest_json r)) \<le> 2 + sum_list [120, 156, 132, 126, 156, 102, 102, 108, 186, 180, 210, 186, 192, 108, 120]"
    unfolding TelemetryRequest_json_def
    by (rule object_bound, unfold list_all2_Cons list_all2_Nil, intro conjI)
      (use assms in \<open>auto simp: TelemetryRequest_fits_def intro!: int_bound intro: text_bound\<close>)
  then show ?thesis by simp
qed

end
