(* ===== verification/Delivery.thy ===== *)
theory Delivery
  imports Agent_Presence Controller_Properties Dispatch_Properties Wire_Bounds
begin

text \<open>
  The agent's requests and the controller's answers as they cross the wire: what the agent
  marshals is what the controller's handlers work on, and the assignment the controller sends is
  the one the agent acts on.
\<close>

section \<open>Messages on the wire\<close>

fun msg_method :: "agent_msg \<Rightarrow> string" where
  "msg_method (MsgInventory _) = ''PUT''"
| "msg_method (MsgTelemetry _) = ''PUT''"
| "msg_method _ = ''POST''"

fun msg_path :: "agent_msg \<Rightarrow> string" where
  "msg_path (MsgHeartbeat _) = HeartbeatEndpointPath"
| "msg_path (MsgJobStart _) = AgentJobStartEndpointPath"
| "msg_path (MsgJobComplete _) = AgentJobCompleteEndpointPath"
| "msg_path (MsgInventory _) = InventoryEndpointPath"
| "msg_path (MsgTelemetry _) = TelemetryEndpointPath"

fun msg_json :: "agent_msg \<Rightarrow> json" where
  "msg_json (MsgHeartbeat r) = HeartbeatRequest_json r"
| "msg_json (MsgJobStart r) = JobStartRequest_json r"
| "msg_json (MsgJobComplete r) = JobCompleteRequest_json r"
| "msg_json (MsgInventory r) = InventoryRequest_json r"
| "msg_json (MsgTelemetry r) = TelemetryRequest_json r"

definition request_of :: "certificate \<Rightarrow> agent_msg \<Rightarrow> request" where
  "request_of cert m =
     \<lparr>rq_Method = msg_method m, rq_Path = msg_path m, rq_TLS = Some [cert],
      rq_Header = (\<lambda>k. if k = ''Content-Type'' then [''application/json''] else []),
      rq_Query = [], rq_Body = render (msg_json m), rq_BodyErr = False\<rparr>"

definition body_text :: "body \<Rightarrow> bytes" where
  "body_text b = (case b of NoBody \<Rightarrow> [] | TextBody t \<Rightarrow> t | JsonBody j \<Rightarrow> render j @ [CHR 0x0A])"

definition reply_of :: "response \<Rightarrow> outcome" where
  "reply_of resp = Reply (rs_Status resp) (body_text (rs_Body resp)) False"

lemmas endpoint_paths = HeartbeatEndpointPath_def InventoryEndpointPath_def TelemetryEndpointPath_def
  AgentJobStartEndpointPath_def AgentJobCompleteEndpointPath_def

lemma paths_distinct [simp]:
  "InventoryEndpointPath \<noteq> HeartbeatEndpointPath"
  "TelemetryEndpointPath \<noteq> HeartbeatEndpointPath" "TelemetryEndpointPath \<noteq> InventoryEndpointPath"
  "AgentJobStartEndpointPath \<noteq> HeartbeatEndpointPath" "AgentJobStartEndpointPath \<noteq> InventoryEndpointPath"
  "AgentJobStartEndpointPath \<noteq> TelemetryEndpointPath" "AgentJobStartEndpointPath \<noteq> ''/api/v1/agent/enroll''"
  "AgentJobStartEndpointPath \<noteq> ''/api/v1/agent/self''" "HeartbeatEndpointPath \<noteq> ''/api/v1/agent/enroll''"
  "HeartbeatEndpointPath \<noteq> ''/api/v1/agent/self''"
  "AgentJobCompleteEndpointPath \<noteq> HeartbeatEndpointPath" "AgentJobCompleteEndpointPath \<noteq> InventoryEndpointPath"
  "AgentJobCompleteEndpointPath \<noteq> TelemetryEndpointPath"
  "AgentJobCompleteEndpointPath \<noteq> AgentJobStartEndpointPath"
  by (simp_all add: endpoint_paths)

lemma request_of_simps [simp]:
  "rq_Method (request_of cert m) = msg_method m" "rq_Path (request_of cert m) = msg_path m"
  "rq_TLS (request_of cert m) = Some [cert]" "rq_Body (request_of cert m) = render (msg_json m)"
  "rq_BodyErr (request_of cert m) = False" "Header_Get (request_of cert m) ''Content-Type'' = ''application/json''"
  by (simp_all add: request_of_def Header_Get_def)

section \<open>From the agent to the controller\<close>

text \<open>What each handler of the remote listener decodes before it acts, by path.\<close>

definition decode_msg :: "env \<Rightarrow> request \<Rightarrow> (response + bytes \<times> agent_msg) option" where
  "decode_msg e r =
     (if rq_Path r = HeartbeatEndpointPath then
        Some (map_sum id (apsnd MsgHeartbeat)
          (agent_request e ''POST'' 1024 False HeartbeatRequest_fields HeartbeatRequest_zero hb_ProtocolVersion r))
      else if rq_Path r = InventoryEndpointPath then
        Some (map_sum id (apsnd MsgInventory)
          (agent_request e ''PUT'' 8192 True InventoryRequest_fields InventoryRequest_zero ir_ProtocolVersion r))
      else if rq_Path r = TelemetryEndpointPath then
        Some (map_sum id (apsnd MsgTelemetry)
          (agent_request e ''PUT'' 4096 True TelemetryRequest_fields TelemetryRequest_zero tr_ProtocolVersion r))
      else if rq_Path r = AgentJobStartEndpointPath then
        Some (map_sum id (apsnd MsgJobStart)
          (agent_request e ''POST'' 1024 True JobStartRequest_fields JobStartRequest_zero js_ProtocolVersion r))
      else if rq_Path r = AgentJobCompleteEndpointPath then
        Some (map_sum id (apsnd MsgJobComplete)
          (agent_request e ''POST'' 1024 True JobCompleteRequest_fields JobCompleteRequest_zero jc_ProtocolVersion r))
      else None)"

text \<open>
  A message whose payload the protocol's validator accepts, with the integers and strings of Go's
  types and an identifier no longer than a UUID.
\<close>

fun msg_ok :: "(string \<Rightarrow> uuid option) \<Rightarrow> (uuid \<Rightarrow> string) \<Rightarrow> agent_msg \<Rightarrow> bool" where
  "msg_ok up us (MsgHeartbeat r) = (hb_ProtocolVersion r = CurrentVersion)"
| "msg_ok up us (MsgJobStart r) = (ValidateJobStartRequest up us (Some r) = Inr ()
     \<and> ValidString (js_JobID r) \<and> length (js_JobID r) \<le> 36)"
| "msg_ok up us (MsgJobComplete r) = (ValidateJobCompleteRequest up us (Some r) = Inr ()
     \<and> ValidString (jc_JobID r) \<and> length (jc_JobID r) \<le> 36)"
| "msg_ok up us (MsgInventory r) = (ValidateInventoryRequest (Some r) = Inr ()
     \<and> ir_ProtocolVersion r = CurrentVersion \<and> InventoryRequest_fits r)"
| "msg_ok up us (MsgTelemetry r) = (ValidateTelemetryRequest (Some r) = Inr ()
     \<and> tr_ProtocolVersion r = CurrentVersion \<and> TelemetryRequest_fits r)"

lemma agent_request_ok:
  assumes "extractAuthenticatedPeerPublicKey e r = Inr k" and "check_media e r = MediaOk"
    and "rq_TLS r \<noteq> None" and "rq_Method r = meth" and "\<not> rq_BodyErr r" and "length (rq_Body r) \<le> limit"
    and "ValidString (rq_Body r)" and "DecodeOne fs zero (rq_Body r) = Decoded req"
    and "version req = CurrentVersion"
  shows "agent_request e meth limit utf8 fs zero version r = Inr (k, req)"
  using assms by (auto simp: agent_request_def read_limited_def CurrentVersion_def)

lemma CurrentVersion_int64 [simp]: "in_int64 CurrentVersion"
  by (simp add: in_int64_def CurrentVersion_def)

lemma start_fits: "msg_ok up us (MsgJobStart r) \<Longrightarrow> JobStartRequest_fits r \<and> js_ProtocolVersion r = CurrentVersion"
  by (auto simp: JobStartRequest_fits_def ValidateJobStartRequest_def MaxDispatchAttempts_def in_int64_def
      CurrentVersion_def split: if_splits sum.splits)

lemma complete_fits:
  assumes "msg_ok up us (MsgJobComplete r)"
  shows "JobCompleteRequest_fits r" "jc_ProtocolVersion r = CurrentVersion" "length (jc_Outcome r) \<le> 9"
    "length (jc_FailureCode r) \<le> 14"
proof -
  have att: "jc_ProtocolVersion r = CurrentVersion" "1 \<le> jc_Attempt r" "jc_Attempt r \<le> MaxDispatchAttempts"
    and out: "jc_Outcome r = StateSucceeded \<and> jc_FailureCode r = []
      \<or> jc_Outcome r = StateFailed \<and> jc_FailureCode r = FailureCodeExecutorError"
    using assms by (auto simp: ValidateJobCompleteRequest_def split: if_splits sum.splits)
  have "is_ascii (jc_Outcome r)" "is_ascii (jc_FailureCode r)"
    using out by (auto simp: is_ascii_def StateSucceeded_def StateFailed_def FailureCodeExecutorError_def)
  with att assms show "JobCompleteRequest_fits r"
    by (simp add: JobCompleteRequest_fits_def ascii_valid in_int64_def CurrentVersion_def MaxDispatchAttempts_def)
  show "jc_ProtocolVersion r = CurrentVersion" by (rule att)
  show "length (jc_Outcome r) \<le> 9" "length (jc_FailureCode r) \<le> 14"
    using out by (auto simp: StateSucceeded_def StateFailed_def FailureCodeExecutorError_def)
qed

lemma messages_render:
  assumes "msg_ok up us m"
  shows "json_ok (msg_json m)"
  using assms start_fits complete_fits(1)
  by (cases m) (auto intro: heartbeat_request.to_json_ok job_start.to_json_ok job_complete.to_json_ok
      inventory_request.to_json_ok telemetry_request.to_json_ok)


section \<open>A concrete agent\<close>

definition ex_cert :: certificate where
  "ex_cert = \<lparr>cert_NotBefore = 0, cert_NotAfter = 3600 * second, cert_ExtKeyUsage = [ExtKeyUsageClientAuth],
     cert_PublicKey = Some ex_key\<rparr>"

definition ex_assignment :: JobAssignment where
  "ex_assignment = \<lparr>ja_JobID = ex_uuid 4, ja_Attempt = 1, ja_Action = ActionAgentPing\<rparr>"

definition start_of :: "JobAssignment \<Rightarrow> JobStartRequest" where
  "start_of a = \<lparr>js_ProtocolVersion = CurrentVersion, js_JobID = ja_JobID a, js_Attempt = ja_Attempt a\<rparr>"

lemma ex_agent_authenticates [simp]:
  "0 \<le> t \<Longrightarrow> t \<le> 3600 * second
     \<Longrightarrow> extractAuthenticatedPeerPublicKey (ex_env t i) (request_of ex_cert m) = Inr ex_key"
  by (simp add: extractAuthenticatedPeerPublicKey_def ex_cert_def)

lemma ex_media_ok [simp]: "check_media (ex_env t i) (request_of cert m) = MediaOk"
  by (rule check_media_ex) simp

lemma ex_start_ok: "msg_ok ex_uuid_Parse ex_uuid (MsgJobStart (start_of ex_assignment))"
  by (simp add: start_of_def ex_assignment_def ValidateJobStartRequest_def ValidateCanonicalUUID_def
      CurrentVersion_def MaxDispatchAttempts_def ex_uuid_valid) (simp add: ex_uuid_def)


section \<open>From the controller to the agent\<close>

lemma response_length:
  assumes "JobAssignment_fits a" and "length (ja_JobID a) \<le> 36" and "length (ja_Action a) \<le> 10"
  shows "length (render (HeartbeatResponse_json \<lparr>hr_ProtocolVersion = CurrentVersion, hr_Job = Some a\<rparr>)) \<le> 1023"
proof -
  have runes: "RuneCountInString x \<le> n" if "length x \<le> n" for x n
    using RuneCount_le [of x] that by linarith
  have "length (render (JobAssignment_json a)) \<le> 2 + sum_list [258, 66, 102]"
    unfolding JobAssignment_json_def
    by (rule object_bound, unfold list_all2_Cons list_all2_Nil, intro conjI)
      (use assms(1) in \<open>auto simp: JobAssignment_fits_def intro!: int_bound
        intro: text_bound [OF runes [OF assms(2)]] text_bound [OF runes [OF assms(3)]]\<close>)
  then show ?thesis
    using object_bound [of "[(''protocol_version'', json_int CurrentVersion), (''job'', JobAssignment_json a)]" "[120, 450]"]
      int_bound [OF CurrentVersion_int64, of "''protocol_version''" 120]
    by (simp add: HeartbeatResponse_json_def member_size_def)
qed

lemma valid_line: "ValidString x \<Longrightarrow> ValidString (x @ [CHR 0x0A])"
  by (rule valid_append) (simp_all add: ascii_valid is_ascii_def)

lemma agent_reads_assignment:
  assumes "ValidateJobAssignment up us (Some a) = Inr ()" and "JobAssignment_fits a" and "length (ja_JobID a) \<le> 36"
  shows "sendHeartbeat up us (reply_of (writeJSON StatusOK
    (HeartbeatResponse_json \<lparr>hr_ProtocolVersion = CurrentVersion, hr_Job = Some a\<rparr>))) = Inr (Some a)"
proof -
  let ?r = "\<lparr>hr_ProtocolVersion = CurrentVersion, hr_Job = Some a\<rparr>"
  have fits: "HeartbeatResponse_fits ?r" using assms(2) by (simp add: HeartbeatResponse_fits_def)
  have "ja_Action a = ActionAgentPing"
    using assms(1) by (auto simp: ValidateJobAssignment_def split: sum.splits if_splits)
  then have "length (ja_Action a) \<le> 10" by (simp add: ActionAgentPing_def)
  note len = response_length [OF assms(2,3) this]
  have "ValidString (render (HeartbeatResponse_json ?r) @ [CHR 0x0A])"
    by (rule valid_line) (rule valid_render [OF heartbeat_response.to_json_ok [OF fits]])
  then show ?thesis
    using len heartbeat_response.decodes_line [OF fits] assms(1)
    by (simp add: sendHeartbeat_def reply_of_def body_text_def writeJSON_def StatusOK_def Let_def)
qed

lemma handleAgentHeartbeat_assigned:
  assumes "handleAgentHeartbeat e be r s = (resp, t)" and "rs_Status resp = StatusOK"
  obtains k g s1 a where "extractAuthenticatedPeerPublicKey e r = Inr k" "agent_by_key k s = Some g"
    "ClaimNextAgentJob (env_uuid_String e) (env_ctx e 1) (a_id g) s1 = (Inr (Some a), t)"
    "resp = writeJSON StatusOK (HeartbeatResponse_json \<lparr>hr_ProtocolVersion = CurrentVersion, hr_Job = Some a\<rparr>)"
proof -
  have refused: "rs_Status x \<noteq> StatusOK" if "agent_request e ''POST'' 1024 False HeartbeatRequest_fields
      HeartbeatRequest_zero hb_ProtocolVersion r = Inl x" for x
    using that by (auto simp: agent_request_def status_codes split: handler_splits)
  have "\<exists>k rec b s1 a req. agent_request e ''POST'' 1024 False HeartbeatRequest_fields HeartbeatRequest_zero
        hb_ProtocolVersion r = Inr (k, req)
      \<and> RecordAgentHeartbeat (env_ctx e 0) k (hb_ProtocolVersion req) s = (Inr (rec, b), s1)
      \<and> ClaimNextAgentJob (env_uuid_String e) (env_ctx e 1) (ar_ID rec) (others e 1 s1) = (Inr (Some a), t)
      \<and> resp = writeJSON StatusOK (HeartbeatResponse_json \<lparr>hr_ProtocolVersion = CurrentVersion, hr_Job = Some a\<rparr>)"
    using assms refused
    by (auto simp: handleAgentHeartbeat_def agent_lookup_error_def status_codes split: handler_splits)
  then obtain k rec b s1 a req where *: "agent_request e ''POST'' 1024 False HeartbeatRequest_fields
        HeartbeatRequest_zero hb_ProtocolVersion r = Inr (k, req)"
      "RecordAgentHeartbeat (env_ctx e 0) k (hb_ProtocolVersion req) s = (Inr (rec, b), s1)"
      "ClaimNextAgentJob (env_uuid_String e) (env_ctx e 1) (ar_ID rec) (others e 1 s1) = (Inr (Some a), t)"
      "resp = writeJSON StatusOK (HeartbeatResponse_json \<lparr>hr_ProtocolVersion = CurrentVersion, hr_Job = Some a\<rparr>)"
    by blast
  from *(1) have "extractAuthenticatedPeerPublicKey e r = Inr k"
    by (auto simp: agent_request_def split: handler_splits)
  moreover from *(2) obtain g where "agent_by_key k s = Some g" "ar_ID rec = a_id g"
    by (auto simp: RecordAgentHeartbeat_def run_auto_def pool_error_def
        split: if_splits option.splits commit_outcome.splits)
  ultimately show thesis using *(3,4) that by metis
qed

text \<open>The identifiers of the jobs survive \<^verbatim>\<open>UUID.String\<close> and \<^verbatim>\<open>uuid.Parse\<close>, as 36 bytes of UTF-8 at most.\<close>

definition ids_print :: "(string \<Rightarrow> uuid option) \<Rightarrow> (uuid \<Rightarrow> string) \<Rightarrow> db \<Rightarrow> bool" where
  "ids_print up us s \<longleftrightarrow> list_all (\<lambda>j. up (us (j_ID j)) = Some (j_ID j) \<and> ValidString (us (j_ID j))
     \<and> length (us (j_ID j)) \<le> 36) (jobs s)"

text \<open>
  C22. A dispatched job reaches its agent. When the controller answers a heartbeat with status 200,
  the agent that reads the answer accepts it, and the assignment it gets names a job of the
  authenticated agent that the database now has as dispatched, at the same attempt.
\<close>

theorem heartbeat_delivers_assignment:
  assumes "handleAgentHeartbeat e be r s = (resp, t)" and "rs_Status resp = StatusOK"
    and ids: "ids_print (env_uuid_Parse e) (env_uuid_String e) t"
  shows "\<exists>k g a j. extractAuthenticatedPeerPublicKey e r = Inr k \<and> agent_by_key k s = Some g
    \<and> sendHeartbeat (env_uuid_Parse e) (env_uuid_String e) (reply_of resp) = Inr (Some a)
    \<and> j \<in> set (jobs t) \<and> ja_JobID a = env_uuid_String e (j_ID j) \<and> j_AgentID j = a_id g
    \<and> j_State j = StateDispatched \<and> j_Attempt j = ja_Attempt a"
  using assms(1,2)
proof (rule handleAgentHeartbeat_assigned)
  fix k g s1 a
  assume k: "extractAuthenticatedPeerPublicKey e r = Inr k" "agent_by_key k s = Some g"
    and claim: "ClaimNextAgentJob (env_uuid_String e) (env_ctx e 1) (a_id g) s1 = (Inr (Some a), t)"
    and resp: "resp = writeJSON StatusOK
      (HeartbeatResponse_json \<lparr>hr_ProtocolVersion = CurrentVersion, hr_Job = Some a\<rparr>)"
  from claim obtain j where j: "j \<in> set (jobs t)" "ja_JobID a = env_uuid_String e (j_ID j)"
    "j_State j = StateDispatched" "j_Attempt j = ja_Attempt a" "j_AgentID j = a_id g"
    and att: "1 \<le> ja_Attempt a" "ja_Attempt a \<le> MaxDispatchAttempts" "ja_Action a = ActionAgentPing"
    by (rule claimed_assignment)
  have id: "ValidString (ja_JobID a)" "length (ja_JobID a) \<le> 36"
    using ids j(1,2) by (auto simp: ids_print_def list_all_iff)
  have "ValidateJobAssignment (env_uuid_Parse e) (env_uuid_String e) (Some a) = Inr ()"
    using claimed_assignment_valid [OF claim] ids by (auto simp: ids_print_def list_all_iff)
  moreover have "JobAssignment_fits a"
    using id att by (simp add: JobAssignment_fits_def in_int64_def MaxDispatchAttempts_def ActionAgentPing_def
        ascii_valid is_ascii_def)
  ultimately have "sendHeartbeat (env_uuid_Parse e) (env_uuid_String e) (reply_of resp) = Inr (Some a)"
    using id(2) unfolding resp by (rule agent_reads_assignment)
  with k j show ?thesis by blast
qed

text \<open>The agent of the example run, seen at its heartbeat.\<close>

definition seen :: "db \<Rightarrow> db" where
  "seen s = s\<lparr>agents := [ex_agent\<lparr>a_last_seen_at := Some 3, a_protocol_version := Some CurrentVersion\<rparr>]\<rparr>"

definition ex_beat :: agent_msg where
  "ex_beat = MsgHeartbeat \<lparr>hb_ProtocolVersion = CurrentVersion\<rparr>"

definition ex_answer :: response where
  "ex_answer = writeJSON StatusOK
     (HeartbeatResponse_json \<lparr>hr_ProtocolVersion = CurrentVersion, hr_Job = Some ex_assignment\<rparr>)"

lemma ex_claim_seen: "ClaimNextAgentJob ex_uuid (quiet_ctx 3 5) 3 (seen ex_queued) =
    (Inr (Some ex_assignment), seen ex_dispatched)"
  by (simp add: seen_def ex_assignment_def ClaimNextAgentJob_def ClaimNextAgentJob_tx_def
      ClaimNextAgentJob_pick_def run_tx_def Let_def reconcileExpiredJobsInTx_def queryDispatched_def
      queryRunning_def dispatch_expired_def execution_expired_def in_flight_def claim_order_def
      MaxDispatchAttempts_def add_event_def set_job_def ex_dispatched_def ex_row_defs)

lemma ex_record_seen:
  "\<exists>rec. RecordAgentHeartbeat (quiet_ctx 3 5) ex_key CurrentVersion ex_queued = (Inr (rec, True), seen ex_queued)
     \<and> ar_ID rec = 3"
  by (simp add: RecordAgentHeartbeat_def run_auto_def seen_def agent_by_key_def in_int32_def CurrentVersion_def
      is_active_def ex_row_defs)

lemma ex_beat_request:
  "agent_request (ex_env 3 5) ''POST'' 1024 False HeartbeatRequest_fields HeartbeatRequest_zero hb_ProtocolVersion
     (request_of ex_cert ex_beat) = Inr (ex_key, \<lparr>hb_ProtocolVersion = CurrentVersion\<rparr>)"
  by (rule agent_request_ok)
    (simp_all add: ex_beat_def second_def heartbeat_length heartbeat_request.decodes
      valid_render [OF heartbeat_request.to_json_ok])

lemma ex_heartbeat:
  "handleAgentHeartbeat (ex_env 3 5) all_backends (request_of ex_cert ex_beat) ex_queued = (ex_answer, seen ex_dispatched)"
  using ex_record_seen
  by (auto simp: handleAgentHeartbeat_def ex_beat_request ex_claim_seen ex_answer_def)

lemma ex_ids_print: "ids_print ex_uuid_Parse ex_uuid (seen ex_dispatched)"
  by (simp add: ids_print_def seen_def ex_uuid_valid row_dispatch_def) (simp add: ex_job_def ex_uuid_def)

theorem heartbeat_delivers_assignment_witness:
  "\<exists>a. sendHeartbeat ex_uuid_Parse ex_uuid (reply_of ex_answer) = Inr (Some a) \<and> ja_JobID a = ex_uuid 4"
  using heartbeat_delivers_assignment [OF ex_heartbeat] ex_ids_print
  by (auto simp: ex_answer_def seen_def row_dispatch_def ex_job_def)

end
