(* ===== verification/Agent_Transport.thy ===== *)
theory Agent_Transport
  imports Agent_Presence Controller_Agent Example_Http
begin

text \<open>
  The agent's client certificates: \<^verbatim>\<open>src/internal/agent/transport.go\<close>
  (\<^verbatim>\<open>buildEphemeralClientCertWithSource\<close>) and the \<^verbatim>\<open>certManager\<close> of \<^verbatim>\<open>presence.go\<close>, and that the controller
  accepts what they produce.
\<close>

definition DefaultCertLifetime :: time where "DefaultCertLifetime = 3600 * second"
definition DefaultCertRefreshMargin :: time where "DefaultCertRefreshMargin = 600 * second"

text \<open>X.509 stores instants in whole seconds; the parsed leaf has them truncated.\<close>

definition whole_seconds :: "time \<Rightarrow> time" where
  "whole_seconds t = t div second * second"

text \<open>
  \<open>pub\<close> is the public half of the private key (\<^const>\<open>None\<close>: the private key has not 64 bytes or no Ed25519
  public half). \<open>serial\<close>, \<open>created\<close> and \<open>parsed\<close>: drawing the serial number, signing, and parsing the
  result succeed.
\<close>

definition buildEphemeralClientCertWithSource ::
  "bytes option \<Rightarrow> bool \<Rightarrow> bool \<Rightarrow> bool \<Rightarrow> time \<Rightarrow> certificate result" where
  "buildEphemeralClientCertWithSource pub serial created parsed now =
     (case pub of
        None \<Rightarrow> Inl ErrInvalidPrivateKey
      | Some k \<Rightarrow>
        (if length k \<noteq> 32 then Inl ErrInvalidPrivateKey
         else if \<not> serial then Inl (ErrOther ''failed to generate certificate serial number'')
         else if \<not> created then Inl (ErrOther ''failed to create client certificate'')
         else if \<not> parsed then Inl (ErrOther ''failed to parse client certificate'')
         else Inr \<lparr>cert_NotBefore = whole_seconds (now - 5 * 60 * second),
                   cert_NotAfter = whole_seconds (now + DefaultCertLifetime),
                   cert_ExtKeyUsage = [ExtKeyUsageClientAuth], cert_PublicKey = Some k\<rparr>))"

section \<open>The certificate manager\<close>

text \<open>The HTTP client is known by the certificate it presents.\<close>

record certManager =
  cm_client :: "certificate option"
  cm_certExpiresAt :: time
  cm_refreshAt :: time
  cm_refreshMargin :: time

definition newCertManager :: "time \<Rightarrow> certManager" where
  "newCertManager refreshMargin =
     \<lparr>cm_client = None, cm_certExpiresAt = 0, cm_refreshAt = 0,
      cm_refreshMargin = positive_or refreshMargin DefaultCertRefreshMargin\<rparr>"

definition getClient ::
  "(time \<Rightarrow> certificate result) \<Rightarrow> time \<Rightarrow> certManager \<Rightarrow> certificate result \<times> certManager" where
  "getClient buildCert now cm =
     (if cm_client cm = None \<or> \<not> now < cm_refreshAt cm then
        (case buildCert now of
           Inl err \<Rightarrow> (Inl err, cm)
         | Inr cert \<Rightarrow>
             (Inr cert, cm\<lparr>cm_client := Some cert, cm_certExpiresAt := cert_NotAfter cert,
                cm_refreshAt := cert_NotAfter cert - cm_refreshMargin cm\<rparr>))
      else (Inr (the (cm_client cm)), cm))"

text \<open>
  Every client of the manager was built at some earlier reading of the clock, and its refresh time
  is its expiry less the margin.
\<close>

definition cm_inv :: "bytes \<Rightarrow> time \<Rightarrow> certManager \<Rightarrow> bool" where
  "cm_inv k now cm \<longleftrightarrow> 0 < cm_refreshMargin cm \<and>
     (case cm_client cm of
        None \<Rightarrow> True
      | Some cert \<Rightarrow> cm_refreshAt cm = cert_NotAfter cert - cm_refreshMargin cm
          \<and> (\<exists>t\<le>now. buildEphemeralClientCertWithSource (Some k) True True True t = Inr cert))"

lemma build_ok:
  "buildEphemeralClientCertWithSource (Some k) a b c t = Inr cert
     \<Longrightarrow> buildEphemeralClientCertWithSource (Some k) True True True t = Inr cert"
  by (auto simp: buildEphemeralClientCertWithSource_def split: if_splits)

lemma newCertManager_inv: "cm_inv k now (newCertManager m)"
  by (simp add: cm_inv_def newCertManager_def positive_or_def DefaultCertRefreshMargin_def second_def)

text \<open>What a successful call returns: a client built now, or the one it had, still before its refresh time.\<close>

lemma getClient_cases:
  assumes "cm_inv k t0 cm" and "t0 \<le> now"
    and "getClient (buildEphemeralClientCertWithSource (Some k) a b c) now cm = (Inr cert, cm')"
  obtains t where "t \<le> now" "buildEphemeralClientCertWithSource (Some k) True True True t = Inr cert"
    "t = now \<or> now < cert_NotAfter cert - cm_refreshMargin cm" "cm_inv k now cm'"
proof (cases "cm_client cm = None \<or> \<not> now < cm_refreshAt cm")
  case True
  then have built: "buildEphemeralClientCertWithSource (Some k) a b c now = Inr cert"
    and cm': "cm' = cm\<lparr>cm_client := Some cert, cm_certExpiresAt := cert_NotAfter cert,
      cm_refreshAt := cert_NotAfter cert - cm_refreshMargin cm\<rparr>"
    using assms(3) by (simp_all add: getClient_def split: sum.splits)
  have "cm_inv k now cm'"
    using assms(1) build_ok [OF built] by (auto simp: cm_inv_def cm')
  with that [OF order_refl build_ok [OF built]] show thesis by blast
next
  case False
  then obtain x where x: "cm_client cm = Some x" "now < cm_refreshAt cm" by auto
  then have eq: "cert = x" "cm' = cm" using assms(3) by (simp_all add: getClient_def)
  then obtain t where t: "t \<le> t0" "buildEphemeralClientCertWithSource (Some k) True True True t = Inr cert"
    and refresh: "cm_refreshAt cm = cert_NotAfter cert - cm_refreshMargin cm"
    using assms(1) x(1) by (auto simp: cm_inv_def)
  have "cm_inv k now cm'"
    using assms(1) t order_trans [OF t(1) assms(2)] x(1) eq by (auto simp: cm_inv_def)
  with that [OF order_trans [OF t(1) assms(2)] t(2)] x(2) refresh show thesis by simp
qed

lemma whole_seconds_bounds: "whole_seconds t \<le> t" "t < whole_seconds t + second"
proof -
  have "t mod second < second" "0 \<le> t mod second" by (simp_all add: second_def)
  moreover have "whole_seconds t + t mod second = t" by (simp add: whole_seconds_def)
  ultimately show "whole_seconds t \<le> t" "t < whole_seconds t + second" by linarith+
qed

definition present :: "certificate \<Rightarrow> request" where
  "present cert = \<lparr>rq_Method = ''GET'', rq_Path = ''/api/v1/agent/self'', rq_TLS = Some [cert],
     rq_Header = (\<lambda>_. []), rq_Query = [], rq_Body = [], rq_BodyErr = False\<rparr>"

lemma extract_present:
  assumes "buildEphemeralClientCertWithSource (Some k) True True True t = Inr cert"
    and "t - 5 * 60 * second \<le> env_now e" and "env_now e \<le> cert_NotAfter cert"
  shows "extractAuthenticatedPeerPublicKey e (present cert) = Inr k"
proof -
  have "length k = 32" and cert: "cert = \<lparr>cert_NotBefore = whole_seconds (t - 5 * 60 * second),
      cert_NotAfter = whole_seconds (t + DefaultCertLifetime), cert_ExtKeyUsage = [ExtKeyUsageClientAuth],
      cert_PublicKey = Some k\<rparr>"
    using assms(1) by (auto simp: buildEphemeralClientCertWithSource_def split: if_splits)
  then show ?thesis
    using assms(2,3) whole_seconds_bounds [of "t - 5 * 60 * second"]
    by (auto simp: extractAuthenticatedPeerPublicKey_def present_def)
qed

text \<open>
  C27. The controller accepts the agent's certificates. Whatever sequence of clock readings (never
  going back) the certificate manager saw, a certificate it hands out at \<open>now\<close> passes
  \<^verbatim>\<open>extractAuthenticatedPeerPublicKey\<close> with the agent's key, at every controller clock reading from five
  minutes before \<open>now\<close> up to \<open>now\<close> and, beyond it, for as long as the refresh margin lasts.
\<close>

theorem handed_out_certificates_are_accepted:
  assumes "cm_inv k t0 cm" and "t0 \<le> now"
    and "getClient (buildEphemeralClientCertWithSource (Some k) a b c) now cm = (Inr cert, cm')"
    and "cm_refreshMargin cm \<le> DefaultCertRefreshMargin"
    and "now - 5 * 60 * second \<le> env_now e" and "env_now e \<le> now + cm_refreshMargin cm"
  shows "extractAuthenticatedPeerPublicKey e (present cert) = Inr k \<and> cm_inv k now cm'"
proof -
  obtain t where t: "t \<le> now" "buildEphemeralClientCertWithSource (Some k) True True True t = Inr cert"
    "t = now \<or> now < cert_NotAfter cert - cm_refreshMargin cm" "cm_inv k now cm'"
    using assms(1-3) by (rule getClient_cases)
  have "env_now e \<le> cert_NotAfter cert"
  proof (cases "t = now")
    case True
    then have "cert_NotAfter cert = whole_seconds (now + DefaultCertLifetime)"
      using t(2) by (auto simp: buildEphemeralClientCertWithSource_def split: if_splits)
    then show ?thesis
      using assms(4,6) whole_seconds_bounds(2) [of "now + DefaultCertLifetime"]
      by (simp add: DefaultCertLifetime_def DefaultCertRefreshMargin_def second_def)
  qed (use t(3) assms(6) in simp)
  then show ?thesis using extract_present [OF t(2)] t(1,4) assms(5) by simp
qed

theorem handed_out_certificates_are_accepted_witness:
  "\<exists>cert cm'. getClient (buildEphemeralClientCertWithSource (Some (replicate 32 CHR ''k'')) True True True) 7
      (newCertManager 0) = (Inr cert, cm')
    \<and> extractAuthenticatedPeerPublicKey (ex_env 9 0) (present cert) = Inr (replicate 32 CHR ''k'')"
proof -
  let ?b = "buildEphemeralClientCertWithSource (Some (replicate 32 CHR ''k'')) True True True"
  have "\<exists>cert cm'. getClient ?b 7 (newCertManager 0) = (Inr cert, cm')"
    by (simp add: getClient_def newCertManager_def buildEphemeralClientCertWithSource_def)
  then obtain cert cm' where c: "getClient ?b 7 (newCertManager 0) = (Inr cert, cm')" by blast
  have "cm_refreshMargin (newCertManager 0) = DefaultCertRefreshMargin"
    by (simp add: newCertManager_def positive_or_def)
  then show ?thesis
    using c handed_out_certificates_are_accepted [OF newCertManager_inv order_refl c, of "ex_env 9 0"]
    by (simp add: second_def DefaultCertRefreshMargin_def)
qed

end
