(* ===== verification/Presence_Properties.thy ===== *)
theory Presence_Properties
  imports Agent_Presence
begin

text \<open>
  What the presence loop guarantees by itself, whatever the network, the clock and the collectors
  answer: bounded delays, iterations that end, errors that end the daemon only when they are
  permanent, and results of executed jobs that are never dropped.
\<close>

section \<open>Delays\<close>

lemma jitter_range:
  assumes "0 \<le> base" and "\<And>n. draw (2 * d + 1) = Some n \<Longrightarrow> 0 \<le> n \<and> n \<le> 2 * d"
  shows "0 \<le> defaultJitter (Some d) draw base" and "\<bar>defaultJitter (Some d) draw base - base\<bar> \<le> max 0 d"
  using assms by (auto simp: defaultJitter_def Let_def split: option.splits)

lemma backoff_base_range: "backoff_base n m \<le> m" "0 \<le> m \<Longrightarrow> 0 \<le> backoff_base n m"
  by (auto simp: backoff_base_def Let_def second_def)

text \<open>
  Retry delays are bounded. Whatever the jitter returns, the delay before the next heartbeat
  after any number of failures is neither negative nor above the configured maximum; without
  jitter it doubles from one second up to 32 seconds, capped at the maximum.
\<close>

theorem retry_delay_bounds:
  assumes "0 \<le> maxBackoff"
  shows "0 \<le> computeBackoff failCount maxBackoff jitterFunc \<and> computeBackoff failCount maxBackoff jitterFunc \<le> maxBackoff
    \<and> computeBackoff (int n + 1) maxBackoff None = min maxBackoff (2 ^ min n 5 * second)"
proof -
  have "nat (int n) = n" "nat 5 = (5 :: nat)" by simp_all
  then have base: "backoff_base (int n + 1) maxBackoff = min maxBackoff (2 ^ min n 5 * second)"
    by (cases "n \<le> 5") (auto simp: backoff_base_def Let_def min_def)
  moreover have "0 \<le> min maxBackoff (2 ^ min n 5 * second)" using assms by (simp add: second_def)
  ultimately show ?thesis
    using assms backoff_base_range [of failCount maxBackoff]
    by (auto simp: computeBackoff_def Let_def split: option.splits)
qed

theorem retry_delay_bounds_witness:
  "computeBackoff 7 DefaultMaxBackoff (Some (\<lambda>b. b + b)) \<le> 30 * second
     \<and> computeBackoff (int 2 + 1) DefaultMaxBackoff None = 4 * second"
  using retry_delay_bounds [of DefaultMaxBackoff 7 "Some (\<lambda>b. b + b)" 2]
  by (simp add: DefaultMaxBackoff_def second_def)

section \<open>Runs of a program\<close>

datatype event = EvSend agent_msg outcome | EvExecute JobAssignment "unit result" | EvOther

text \<open>
  \<open>runs p tr x\<close>: with some answers, \<open>p\<close> ends in \<open>x\<close> after the questions \<open>tr\<close>.
\<close>

inductive runs :: "prog \<Rightarrow> event list \<Rightarrow> loop_end \<Rightarrow> bool" where
  "runs (Ret x) [] x"
| "runs (k b) tr x \<Longrightarrow> runs (CtxErr k) (EvOther # tr) x"
| "runs (k c) tr x \<Longrightarrow> runs (GetClient k) (EvOther # tr) x"
| "runs (k out) tr x \<Longrightarrow> runs (Send m k) (EvSend m out # tr) x"
| "runs (k r) tr x \<Longrightarrow> runs (Execute a k) (EvExecute a r # tr) x"
| "runs (k t) tr x \<Longrightarrow> runs (Now k) (EvOther # tr) x"
| "runs (k i) tr x \<Longrightarrow> runs (Collect k) (EvOther # tr) x"
| "runs (k y) tr x \<Longrightarrow> runs (Sample t k) (EvOther # tr) x"
| "runs (k d) tr x \<Longrightarrow> runs (Jitter b k) (EvOther # tr) x"
| "runs (k b) tr x \<Longrightarrow> runs (Wait d k) (EvOther # tr) x"

inductive_simps runs_simps [simp]:
  "runs (Ret y) tr x" "runs (CtxErr k) tr x" "runs (GetClient k2) tr x" "runs (Send m k3) tr x"
  "runs (Execute a k4) tr x" "runs (Now k5) tr x" "runs (Collect k6) tr x" "runs (Sample t k7) tr x"
  "runs (Jitter d k8) tr x" "runs (Wait d k) tr x"

section \<open>Results that are owed\<close>

text \<open>
  A report is settled by an answer with success or conflict. \<open>owed ps tr\<close>: the reports not settled
  after \<open>tr\<close>, when \<open>ps\<close> were not settled before it.
\<close>

definition settled :: "outcome \<Rightarrow> bool" where
  "settled out = (case sendJobComplete out of Inr _ \<Rightarrow> True | Inl e \<Rightarrow> errors_Is e ErrJobConflict)"

fun owed :: "JobCompleteRequest list \<Rightarrow> event list \<Rightarrow> JobCompleteRequest list" where
  "owed ps [] = ps"
| "owed ps (EvExecute a r # tr) = owed (ps @ [completion_for a r]) tr"
| "owed ps (EvSend (MsgJobComplete c) out # tr) = owed (if settled out then remove1 c ps else ps) tr"
| "owed ps (_ # tr) = owed ps tr"

lemma owed_append: "owed ps (tr @ tr') = owed (owed ps tr) tr'"
  by (induction ps tr rule: owed.induct) auto

definition opt_list :: "'a option \<Rightarrow> 'a list" where
  "opt_list x = (case x of None \<Rightarrow> [] | Some y \<Rightarrow> [y])"

definition good_end :: "JobCompleteRequest list \<Rightarrow> loop_end \<Rightarrow> bool" where
  "good_end ps x = (case x of
     Exit None \<Rightarrow> True | Exit (Some e) \<Rightarrow> IsPermanentError e | Again st \<Rightarrow> ps = opt_list (ls_pendingCompletion st))"

text \<open>
  \<open>tracks n ps p\<close>: however \<open>p\<close> is answered, it asks at most \<open>n\<close> questions and ends well, with the
  reports owed at the end being the pending completion.
\<close>

definition tracks :: "nat \<Rightarrow> JobCompleteRequest list \<Rightarrow> prog \<Rightarrow> bool" where
  "tracks n ps p \<longleftrightarrow> (\<forall>tr x. runs p tr x \<longrightarrow> length tr \<le> n \<and> good_end (owed ps tr) x)"

lemma tracks_mono: "tracks n ps p \<Longrightarrow> n \<le> m \<Longrightarrow> tracks m ps p"
  by (fastforce simp: tracks_def)

lemma tracks_Ret: "good_end ps x \<Longrightarrow> tracks n ps (Ret x)"
  by (simp add: tracks_def)

lemma tracks_ask:
  "(\<And>b. tracks n ps (k1 b)) \<Longrightarrow> tracks (Suc n) ps (CtxErr k1)"
  "(\<And>c. tracks n ps (k2 c)) \<Longrightarrow> tracks (Suc n) ps (GetClient k2)"
  "(\<And>t. tracks n ps (k3 t)) \<Longrightarrow> tracks (Suc n) ps (Now k3)"
  "(\<And>i. tracks n ps (k4 i)) \<Longrightarrow> tracks (Suc n) ps (Collect k4)"
  "(\<And>y. tracks n ps (k5 y)) \<Longrightarrow> tracks (Suc n) ps (Sample t k5)"
  "(\<And>j. tracks n ps (k6 j)) \<Longrightarrow> tracks (Suc n) ps (Jitter d k6)"
  "(\<And>b. tracks n ps (k7 b)) \<Longrightarrow> tracks (Suc n) ps (Wait d k7)"
  by (fastforce simp: tracks_def)+

lemma tracks_Send:
  "(\<And>out. tracks n ps (k out)) \<Longrightarrow> (\<And>c. m \<noteq> MsgJobComplete c) \<Longrightarrow> tracks (Suc n) ps (Send m k)"
  by (cases m) (fastforce simp: tracks_def)+

lemma tracks_report:
  "(\<And>out. tracks n (if settled out then remove1 c ps else ps) (k out)) \<Longrightarrow> tracks (Suc n) ps (Send (MsgJobComplete c) k)"
  by (fastforce simp: tracks_def)

lemma tracks_Execute:
  "(\<And>r. tracks n (ps @ [completion_for a r]) (k r)) \<Longrightarrow> tracks (Suc n) ps (Execute a k)"
  by (fastforce simp: tracks_def)

lemma tracks_jittered: "(\<And>j. tracks n ps (k j)) \<Longrightarrow> tracks (Suc n) ps (jittered cfg d k)"
  by (auto simp: jittered_def intro: tracks_ask tracks_mono [where n = n])

lemma permanent_end [simp]: "good_end ps (Exit None)" "good_end ps (Exit (Some e)) = IsPermanentError e"
  "good_end ps (Again st) = (ps = opt_list (ls_pendingCompletion st))"
  by (simp_all add: good_end_def)

lemma permanent_is_permanent [simp]: "IsPermanentError (permanent m)"
  by (simp add: IsPermanentError_def permanent_def)

lemma wait_tracks: "ls_pendingCompletion st = p \<Longrightarrow> tracks 2 (opt_list p) (wait_phase cfg st)"
  unfolding wait_phase_def numeral_2_eq_2 by (intro tracks_jittered tracks_ask tracks_Ret) simp

lemma telemetry_tracks:
  assumes "ls_pendingCompletion st = p"
  shows "tracks 6 (opt_list p) (telemetry_phase cfg st)"
proof -
  have w: "tracks (Suc (Suc n)) (opt_list p) (wait_phase cfg st')" if "ls_pendingCompletion st' = p" for n st'
    using wait_tracks [OF that] by (rule tracks_mono) simp
  have "tracks (Suc (Suc (Suc (Suc (Suc (Suc 0)))))) (opt_list p) (telemetry_phase cfg st)"
    unfolding telemetry_phase_def
    by (intro tracks_ask) (auto intro!: tracks_Send tracks_ask tracks_Ret w assms
        split: sum.splits prod.splits option.splits bool.splits)
  then show ?thesis by (simp add: eval_nat_numeral)
qed

lemma inventory_tracks:
  assumes "ls_pendingCompletion st = p"
  shows "tracks 11 (opt_list p) (inventory_phase cfg st)"
proof -
  have t: "tracks (Suc (Suc (Suc (Suc (Suc (Suc n)))))) (opt_list p) (telemetry_phase cfg st')"
    if "ls_pendingCompletion st' = p" for n st'
    using telemetry_tracks [OF that] by (rule tracks_mono) simp
  have r: "tracks (Suc (Suc (Suc (Suc (Suc (Suc (Suc n))))))) (opt_list p) (inventory_retry cfg now st)" for n now
    unfolding inventory_retry_def by (intro tracks_jittered t) (simp add: assms)
  have "tracks (Suc (Suc (Suc (Suc (Suc (Suc (Suc (Suc (Suc (Suc (Suc 0))))))))))) (opt_list p) (inventory_phase cfg st)"
    unfolding inventory_phase_def
    by (intro tracks_ask) (auto intro!: tracks_Send tracks_ask tracks_jittered tracks_Ret r t assms split: sum.splits)
  then show ?thesis by (simp add: eval_nat_numeral)
qed

lemma settled_simps:
  "sendJobComplete out = Inr u \<Longrightarrow> settled out"
  "sendJobComplete out = Inl e \<Longrightarrow> settled out = errors_Is e ErrJobConflict"
  by (simp_all add: settled_def)

lemma execute_tracks:
  assumes "ls_pendingCompletion st = None"
  shows "tracks 13 [] (execute_phase cfg a st)"
proof -
  have i: "tracks 11 (opt_list p) (inventory_phase cfg st')" if "ls_pendingCompletion st' = p" for p st'
    using inventory_tracks that by blast
  have "tracks (Suc (Suc 11)) [] (execute_phase cfg a st)"
    unfolding execute_phase_def Let_def
    using i [of st None] i [OF refl, of "st\<lparr>ls_pendingCompletion := Some c\<rparr>" for c] assms
    by (intro tracks_Execute tracks_report)
      (auto simp: settled_simps opt_list_def intro: tracks_Ret split: sum.splits)
  then show ?thesis by simp
qed

lemma assignment_tracks: "tracks 14 (opt_list (ls_pendingCompletion st)) (assignment_phase up us cfg x st)"
proof -
  have i: "tracks n (opt_list p) (inventory_phase cfg st)" if "ls_pendingCompletion st = p" "11 \<le> n" for n p
    using inventory_tracks [OF that(1)] that(2) by (rule tracks_mono)
  have e: "tracks 13 (opt_list None) (execute_phase cfg a st)" if "ls_pendingCompletion st = None" for a
    using execute_tracks [OF that] by (simp add: opt_list_def)
  have "tracks (Suc 13) (opt_list (ls_pendingCompletion st)) (assignment_phase up us cfg x st)"
    unfolding assignment_phase_def
    by (auto intro!: tracks_Send [where n = 13, simplified] tracks_Ret i e split: option.splits sum.splits)
  then show ?thesis by simp
qed

lemma pending_tracks: "tracks 15 (opt_list (ls_pendingCompletion st)) (pending_phase up us cfg x st)"
proof -
  have a: "tracks n (opt_list p) (assignment_phase up us cfg x st')" if "ls_pendingCompletion st' = p" "14 \<le> n" for n p st'
    using tracks_mono [OF assignment_tracks [of st'] that(2)] that(1) by simp
  have "tracks (Suc 14) (opt_list (ls_pendingCompletion st)) (pending_phase up us cfg x st)"
  proof (cases "ls_pendingCompletion st")
    case (Some c)
    have "tracks (Suc 14) [c] (pending_phase up us cfg x st)"
      unfolding pending_phase_def Some option.case
      using a [of "st\<lparr>ls_pendingCompletion := None\<rparr>" None 14] a [OF Some, of 14]
      by (intro tracks_report) (auto simp: settled_simps opt_list_def intro: tracks_Ret split: sum.splits)
    then show ?thesis by (simp add: Some opt_list_def)
  qed (simp add: pending_phase_def a)
  then show ?thesis by simp
qed

lemma iteration_tracks: "tracks 18 (opt_list (ls_pendingCompletion st)) (iteration up us cfg st)"
proof -
  have f: "tracks (Suc (Suc (Suc n))) (opt_list (ls_pendingCompletion st)) (failure_phase cfg e st)" for n e
    unfolding failure_phase_def Let_def
    by (intro tracks_ask) (auto intro!: tracks_jittered tracks_ask tracks_Ret)
  have p: "tracks 15 (opt_list (ls_pendingCompletion st)) (pending_phase up us cfg x
      (st\<lparr>ls_loggedFailure := False, ls_consecutiveFailures := 0\<rparr>))" for x
    using pending_tracks [of "st\<lparr>ls_loggedFailure := False, ls_consecutiveFailures := 0\<rparr>"] by simp
  have "tracks (Suc (Suc (Suc 15))) (opt_list (ls_pendingCompletion st)) (iteration up us cfg st)"
    unfolding iteration_def
    using f [of 12] by (intro tracks_ask) (auto intro!: tracks_ask(2) [where n = 16, simplified] tracks_Send [where n = 15, simplified]
        tracks_Ret p split: sum.splits)
  then show ?thesis by simp
qed

section \<open>The loop\<close>

lemma runs_total: "\<exists>tr x. runs p tr x"
  by (induction p) (simp_all, (metis rangeI)+)

text \<open>
  C28. Iterations end. However the network, the clock, the collectors and the executor answer, an
  iteration of the presence loop is never stuck and asks at most 18 questions; it ends in the next
  iteration, in a clean exit, or in an error, and then the error is a permanent one.
\<close>

theorem iterations_end:
  "(\<exists>tr x. runs (iteration up us cfg st) tr x)
    \<and> (runs (iteration up us cfg st) tr x \<longrightarrow> length tr \<le> 18
       \<and> (case x of Exit (Some e) \<Rightarrow> IsPermanentError e | _ \<Rightarrow> True))"
  using runs_total iteration_tracks [of st up us cfg]
  by (auto simp: tracks_def good_end_def split: loop_end.splits option.splits)

text \<open>A cancelled context ends the loop at the first question.\<close>

lemma ex_cancelled: "runs (iteration up us cfg st) [EvOther] (Exit None)"
  unfolding iteration_def by (rule runs.intros(2) [of _ True]) simp

theorem iterations_end_witness:
  "runs (iteration (\<lambda>_. None) (\<lambda>_. []) defaultPresenceConfig initial_loop) [EvOther] (Exit None)
     \<and> length [EvOther] \<le> (18 :: nat)"
  using iterations_end [of "\<lambda>_. None" "\<lambda>_. []" defaultPresenceConfig initial_loop "[EvOther]" "Exit None"] ex_cancelled
  by blast

inductive loop_runs ::
  "(string \<Rightarrow> uuid option) \<Rightarrow> (uuid \<Rightarrow> string) \<Rightarrow> presenceConfig \<Rightarrow> loop_state \<Rightarrow> event list \<Rightarrow> loop_state \<Rightarrow> bool"
  for up us cfg where
  no_iteration: "loop_runs up us cfg st [] st"
| one_more: "loop_runs up us cfg st tr st1 \<Longrightarrow> runs (iteration up us cfg st1) tr' (Again st2)
    \<Longrightarrow> loop_runs up us cfg st (tr @ tr') st2"

lemma loop_owed:
  assumes "loop_runs up us cfg st tr st'"
  shows "owed (opt_list (ls_pendingCompletion st)) tr = opt_list (ls_pendingCompletion st')"
  using assms
proof induction
  case (one_more st tr st1 tr' st2)
  have "good_end (owed (opt_list (ls_pendingCompletion st1)) tr') (Again st2)"
    using iteration_tracks one_more.hyps(2) unfolding tracks_def by blast
  then show ?case using one_more.IH by (simp add: owed_append)
qed simp

text \<open>
  C21. Results are not lost. After any number of iterations, under any answers, the results of
  executed jobs that the controller has neither accepted nor refused as a conflict are exactly what
  the loop keeps for resending. So there is never more than one, and none is forgotten.
\<close>

theorem results_are_not_lost:
  assumes "loop_runs up us cfg initial_loop tr st"
  shows "owed [] tr = opt_list (ls_pendingCompletion st) \<and> length (owed [] tr) \<le> 1"
  using loop_owed [OF assms] by (simp add: initial_loop_def opt_list_def split: option.splits)

section \<open>A run that keeps a result\<close>

lemma inventory_continues:
  "\<exists>tr st'. runs (inventory_phase defaultPresenceConfig st) tr (Again st')
     \<and> ls_pendingCompletion st' = ls_pendingCompletion st"
proof -
  let ?j = "\<lambda>d k. jittered defaultPresenceConfig d k"
  have j: "\<exists>tr. runs (?j d k) tr x" if "\<exists>tr. runs (k d) tr x" for d k x
    using that by (auto simp: jittered_def defaultPresenceConfig_def)
  have w: "\<exists>tr. runs (wait_phase defaultPresenceConfig st1) tr (Again st1)" for st1
    unfolding wait_phase_def by (rule j) auto
  have t: "\<exists>tr. runs (telemetry_phase defaultPresenceConfig st1) tr (Again (st1\<lparr>ls_telemetryFailureLogged := True\<rparr>))" for st1
    unfolding telemetry_phase_def runs_simps
    using w [of "st1\<lparr>ls_telemetryFailureLogged := True\<rparr>"] by (fastforce intro: exI [of _ "Inl (ErrOther [])"])
  have r: "\<exists>tr st'. runs (inventory_retry defaultPresenceConfig now st) tr (Again st')
      \<and> ls_pendingCompletion st' = ls_pendingCompletion st" for now
    unfolding inventory_retry_def using j [OF t] by fastforce
  show ?thesis
  proof (cases "case ls_nextInventoryAt st of None \<Rightarrow> True | Some t \<Rightarrow> \<not> 0 < t")
    case True
    obtain tr st' where "runs (inventory_retry defaultPresenceConfig 0 st) tr (Again st')"
      "ls_pendingCompletion st' = ls_pendingCompletion st" using r by blast
    then have "runs (inventory_phase defaultPresenceConfig st) (EvOther # EvOther # tr) (Again st')"
      unfolding inventory_phase_def using True
      by (intro runs.intros(6) [where t = 0]) (auto intro!: exI [of _ "Inl (ErrOther [])"])
    with \<open>ls_pendingCompletion st' = _\<close> show ?thesis by blast
  next
    case False
    obtain tr where "runs (telemetry_phase defaultPresenceConfig st) tr (Again (st\<lparr>ls_telemetryFailureLogged := True\<rparr>))"
      using t by blast
    then have "runs (inventory_phase defaultPresenceConfig st) (EvOther # tr) (Again (st\<lparr>ls_telemetryFailureLogged := True\<rparr>))"
      unfolding inventory_phase_def using False by (intro runs.intros(6) [where t = 0]) simp
    then show ?thesis by fastforce
  qed
qed

end
