(* ===== verification/System.thy ===== *)
theory System
  imports Delivery Agent_Transport Presence_Properties
begin

text \<open>
  The whole system: any number of agents running the presence loop against one controller and its
  database, over a network that may lose requests and replies. Every question an agent asks is a
  step of its own, so agents, operators and the store interleave freely.
\<close>

section \<open>The network\<close>

text \<open>
  One message and what its sender sees: the request may never leave or arrive, the controller may
  answer it (with any certificate, clock and concurrent activity), and the answer may be lost.
\<close>

inductive exchange ::
  "(string \<Rightarrow> uuid option) \<Rightarrow> (uuid \<Rightarrow> string) \<Rightarrow> (string \<Rightarrow> string) \<Rightarrow> agent_msg \<Rightarrow> db \<Rightarrow> outcome \<Rightarrow> db \<Rightarrow> bool"
  for up us ul where
  not_built: "exchange up us ul m s NotBuilt s"
| request_lost: "exchange up us ul m s (NetError x) s"
| answered: "env_uuid_Parse e = up \<Longrightarrow> env_uuid_String e = us \<Longrightarrow> env_lower e = ul
    \<Longrightarrow> newRemoteHandler e be (request_of cert m) s = Some (resp, t)
    \<Longrightarrow> exchange up us ul m s (reply_of resp) t"
| answer_lost: "env_uuid_Parse e = up \<Longrightarrow> env_uuid_String e = us \<Longrightarrow> env_lower e = ul
    \<Longrightarrow> newRemoteHandler e be (request_of cert m) s = Some (resp, t)
    \<Longrightarrow> exchange up us ul m s (NetError x) t"

section \<open>Steps\<close>

record system =
  sys_db :: db
  sys_progs :: "nat \<Rightarrow> prog option"
  sys_executed :: "JobAssignment list"

text \<open>The programs a question without effect on the database can continue as.\<close>

fun answers :: "prog \<Rightarrow> prog set" where
  "answers (CtxErr k) = range k"
| "answers (GetClient k) = range k"
| "answers (Now k) = range k"
| "answers (Collect k) = range k"
| "answers (Sample t k) = range k"
| "answers (Jitter d k) = range k"
| "answers (Wait d k) = range k"
| "answers _ = {}"

inductive system_step ::
  "(string \<Rightarrow> uuid option) \<Rightarrow> (uuid \<Rightarrow> string) \<Rightarrow> (string \<Rightarrow> string) \<Rightarrow> presenceConfig \<Rightarrow> system \<Rightarrow> system \<Rightarrow> bool"
  for up us ul cfg where
  store: "system_step up us ul cfg z (z\<lparr>sys_db := exec us ul x (sys_db z)\<rparr>)"
| boot: "system_step up us ul cfg z
    (z\<lparr>sys_progs := (sys_progs z)(i \<mapsto> iteration up us cfg initial_loop)\<rparr>)"
| crash: "system_step up us ul cfg z (z\<lparr>sys_progs := (sys_progs z)(i := None)\<rparr>)"
| answer: "sys_progs z i = Some p \<Longrightarrow> q \<in> answers p
    \<Longrightarrow> system_step up us ul cfg z (z\<lparr>sys_progs := (sys_progs z)(i \<mapsto> q)\<rparr>)"
| send: "sys_progs z i = Some (Send m k) \<Longrightarrow> exchange up us ul m (sys_db z) out t
    \<Longrightarrow> system_step up us ul cfg z (z\<lparr>sys_db := t, sys_progs := (sys_progs z)(i \<mapsto> k out)\<rparr>)"
| execute: "sys_progs z i = Some (Execute a k)
    \<Longrightarrow> system_step up us ul cfg z
      (z\<lparr>sys_executed := sys_executed z @ [a], sys_progs := (sys_progs z)(i \<mapsto> k r)\<rparr>)"
| again: "sys_progs z i = Some (Ret (Again st))
    \<Longrightarrow> system_step up us ul cfg z (z\<lparr>sys_progs := (sys_progs z)(i \<mapsto> iteration up us cfg st)\<rparr>)"

definition empty_system :: system where
  "empty_system = \<lparr>sys_db = empty_db, sys_progs = (\<lambda>_. None), sys_executed = []\<rparr>"

definition system_reachable ::
  "(string \<Rightarrow> uuid option) \<Rightarrow> (uuid \<Rightarrow> string) \<Rightarrow> (string \<Rightarrow> string) \<Rightarrow> presenceConfig \<Rightarrow> system \<Rightarrow> bool" where
  "system_reachable up us ul cfg z \<longleftrightarrow> (system_step up us ul cfg)\<^sup>*\<^sup>* empty_system z"

section \<open>Discipline of the agent\<close>

text \<open>
  The agent runs an action only right after a start request for that very assignment was granted.
\<close>

fun executing :: "prog \<Rightarrow> JobAssignment option" where
  "executing (Execute a _) = Some a"
| "executing _ = None"

primrec disciplined :: "(string \<Rightarrow> uuid option) \<Rightarrow> (uuid \<Rightarrow> string) \<Rightarrow> prog \<Rightarrow> bool" where
  "disciplined up us (Ret x) = True"
| "disciplined up us (CtxErr k) = (\<forall>b. disciplined up us (k b) \<and> executing (k b) = None)"
| "disciplined up us (GetClient k) = (\<forall>b. disciplined up us (k b) \<and> executing (k b) = None)"
| "disciplined up us (Now k) = (\<forall>b. disciplined up us (k b) \<and> executing (k b) = None)"
| "disciplined up us (Collect k) = (\<forall>b. disciplined up us (k b) \<and> executing (k b) = None)"
| "disciplined up us (Sample t k) = (\<forall>b. disciplined up us (k b) \<and> executing (k b) = None)"
| "disciplined up us (Jitter d k) = (\<forall>b. disciplined up us (k b) \<and> executing (k b) = None)"
| "disciplined up us (Wait d k) = (\<forall>b. disciplined up us (k b) \<and> executing (k b) = None)"
| "disciplined up us (Execute a k) = (\<forall>b. disciplined up us (k b) \<and> executing (k b) = None)"
| "disciplined up us (Send m k) = (\<forall>out. disciplined up us (k out) \<and>
     (\<forall>a. executing (k out) = Some a \<longrightarrow> m = MsgJobStart (start_of a) \<and> sendJobStart out = Inr ()
        \<and> ValidateJobAssignment up us (Some a) = Inr ()))"

definition calm :: "(string \<Rightarrow> uuid option) \<Rightarrow> (uuid \<Rightarrow> string) \<Rightarrow> prog \<Rightarrow> bool" where
  "calm up us p \<longleftrightarrow> disciplined up us p \<and> executing p = None"

lemma calm_simps [simp]:
  "calm up us (Ret x)"
  "calm up us (CtxErr k) \<longleftrightarrow> (\<forall>b. calm up us (k b))"
  "calm up us (GetClient k1) \<longleftrightarrow> (\<forall>b. calm up us (k1 b))"
  "calm up us (Now k2) \<longleftrightarrow> (\<forall>b. calm up us (k2 b))"
  "calm up us (Collect k3) \<longleftrightarrow> (\<forall>b. calm up us (k3 b))"
  "calm up us (Sample t k4) \<longleftrightarrow> (\<forall>b. calm up us (k4 b))"
  "calm up us (Jitter d k5) \<longleftrightarrow> (\<forall>b. calm up us (k5 b))"
  "calm up us (Wait d k) \<longleftrightarrow> (\<forall>b. calm up us (k b))"
  by (auto simp: calm_def)

lemma calm_Send: "(\<And>out. calm up us (k out)) \<Longrightarrow> calm up us (Send m k)"
  by (auto simp: calm_def)

lemma calm_jittered: "(\<And>d. calm up us (k d)) \<Longrightarrow> calm up us (jittered cfg d k)"
  by (simp add: jittered_def)

lemma wait_calm: "calm up us (wait_phase cfg st)"
  by (simp add: wait_phase_def calm_jittered)

lemma telemetry_calm: "calm up us (telemetry_phase cfg st)"
  by (auto simp: telemetry_phase_def wait_calm intro!: calm_Send split: sum.splits prod.splits option.splits bool.splits)

lemma inventory_calm: "calm up us (inventory_phase cfg st)"
  by (auto simp: inventory_phase_def inventory_retry_def telemetry_calm intro!: calm_Send calm_jittered
      split: sum.splits)

lemma execute_disciplined: "disciplined up us (execute_phase cfg a st)" "executing (execute_phase cfg a st) = Some a"
proof -
  have "calm up us (Send (MsgJobComplete c) (\<lambda>out. case sendJobComplete out of
      Inl e \<Rightarrow> if IsPermanentError e then Ret (Exit (Some e))
        else if errors_Is e ErrJobConflict then inventory_phase cfg st
        else inventory_phase cfg (st\<lparr>ls_pendingCompletion := Some c\<rparr>)
    | Inr x \<Rightarrow> inventory_phase cfg st))" for c
    by (auto intro!: calm_Send simp: inventory_calm split: sum.splits)
  then show "disciplined up us (execute_phase cfg a st)"
    by (simp add: execute_phase_def Let_def calm_def)
qed (simp add: execute_phase_def)

lemma assignment_calm: "calm up us (assignment_phase up us cfg assignment st)"
proof (cases assignment)
  case (Some a)
  have "calm up us (Send (MsgJobStart (start_of a)) (\<lambda>out. case sendJobStart out of
      Inl e \<Rightarrow> if IsPermanentError e then Ret (Exit (Some e)) else inventory_phase cfg st
    | Inr x \<Rightarrow> execute_phase cfg a st))" if "ValidateJobAssignment up us (Some a) = Inr ()"
    using that inventory_calm [of up us cfg st]
    by (auto simp: calm_def execute_disciplined split: sum.splits)
  then show ?thesis
    by (auto simp: assignment_phase_def Some inventory_calm start_of_def [symmetric] split: sum.splits)
qed (simp add: assignment_phase_def inventory_calm)

lemma iteration_calm: "calm up us (iteration up us cfg st)"
proof -
  have "calm up us (pending_phase up us cfg x s)" for x s
    by (auto simp: pending_phase_def assignment_calm intro!: calm_Send split: option.splits sum.splits)
  moreover have "calm up us (failure_phase cfg e s)" for e s
    by (auto simp: failure_phase_def Let_def intro!: calm_jittered)
  ultimately show ?thesis
    by (auto simp: iteration_def intro!: calm_Send split: sum.splits)
qed

section \<open>A granted start\<close>

text \<open>The job an assignment names has left the states from which it can be started.\<close>

definition started :: "(string \<Rightarrow> uuid option) \<Rightarrow> (uuid \<Rightarrow> string) \<Rightarrow> db \<Rightarrow> JobAssignment \<Rightarrow> bool" where
  "started up us s a \<longleftrightarrow>
     (\<exists>u. ValidateCanonicalUUID up us (ja_JobID a) = Inr u \<and> past_dispatch (db_status u s))"

lemma run_ops_past_dispatch:
  assumes "db_inv s" and "past_dispatch (db_status i s)"
  shows "past_dispatch (db_status i (run_ops us ul ops s))"
  using store.run_keeps [OF run_ops_steps, where P = "\<lambda>x. past_dispatch (db_status i x)"] assms
    backend.started_stays by blast

lemma runs_to_started:
  assumes "runs_to e s t" and "db_inv s" and "started up us s a"
  shows "started up us t a"
  using assms run_ops_past_dispatch by (auto simp: runs_to_def started_def)

lemma runs_to_reachable:
  "runs_to e s t \<Longrightarrow> reachable (env_uuid_String e) (env_lower e) s \<Longrightarrow> reachable (env_uuid_String e) (env_lower e) t"
  by (auto simp: runs_to_def reachable_run_ops)

lemma exchange_runs:
  assumes "exchange up us ul m s out t"
  shows "s = t \<or> (\<exists>e. env_uuid_String e = us \<and> env_lower e = ul \<and> runs_to e s t)"
  using assms by cases (auto dest: remote_runs)

lemma exchange_reachable: "exchange up us ul m s out t \<Longrightarrow> reachable us ul s \<Longrightarrow> reachable us ul t"
  using exchange_runs runs_to_reachable by blast

lemma exchange_started:
  "exchange up us ul m s out t \<Longrightarrow> reachable us ul s \<Longrightarrow> started up us s a \<Longrightarrow> started up us t a"
  using exchange_runs runs_to_started reachable_inv by blast

lemma assignment_start_fits:
  assumes "ValidateJobAssignment up us (Some a) = Inr ()" and "\<And>u. ValidString (us u)"
  shows "JobStartRequest_fits (start_of a)" "\<exists>u. ValidateCanonicalUUID up us (ja_JobID a) = Inr u"
proof -
  obtain u where u: "ValidateCanonicalUUID up us (ja_JobID a) = Inr u"
    and att: "1 \<le> ja_Attempt a" "ja_Attempt a \<le> MaxDispatchAttempts"
    using assms(1) by (auto simp: ValidateJobAssignment_def split: sum.splits if_splits)
  then have "us u = ja_JobID a"
    by (auto simp: ValidateCanonicalUUID_def split: option.splits if_splits)
  with assms(2) [of u] att show "JobStartRequest_fits (start_of a)"
    by (simp add: JobStartRequest_fits_def start_of_def in_int64_def CurrentVersion_def MaxDispatchAttempts_def)
  show "\<exists>u. ValidateCanonicalUUID up us (ja_JobID a) = Inr u" using u by blast
qed

lemma agent_request_start:
  assumes "JobStartRequest_fits q"
    and "agent_request e ''POST'' 1024 True JobStartRequest_fields JobStartRequest_zero js_ProtocolVersion
      (request_of cert (MsgJobStart q)) = Inr (k, req)"
  shows "req = q"
proof -
  let ?r = "request_of cert (MsgJobStart q)"
  obtain b where "read_limited 1025 ?r = Some b" "length b \<le> 1024"
    "DecodeOne JobStartRequest_fields JobStartRequest_zero b = Decoded req"
    using assms(2) by (auto simp: agent_request_def split: handler_splits)
  moreover from this have "b = render (JobStartRequest_json q)"
    by (auto simp: read_limited_def request_of_def split: if_splits)
  ultimately show ?thesis using job_start.decodes [OF assms(1)] by simp
qed

lemma handleAgentJobStart_granted:
  assumes "handleAgentJobStart e be r s = (resp, t)" and "rs_Status resp = 204"
  obtains k req u a where "agent_request e ''POST'' 1024 True JobStartRequest_fields JobStartRequest_zero
      js_ProtocolVersion r = Inr (k, req)"
    "ValidateCanonicalUUID (env_uuid_Parse e) (env_uuid_String e) (js_JobID req) = Inr u"
    "FindAgentByPublicKey (env_ctx e 0) k s = Inr a"
    "StartAgentJob (env_uuid_String e) (env_ctx e 1) (ar_ID a) u (js_Attempt req) (others e 1 s) = (Inr (), t)"
proof -
  have "rs_Status resp' \<noteq> 204"
    if "agent_request e ''POST'' 1024 True JobStartRequest_fields JobStartRequest_zero js_ProtocolVersion r = Inl resp'"
    for resp'
    using that by (auto simp: agent_request_def status_codes split: handler_splits)
  with assms that show thesis
    by (auto simp: handleAgentJobStart_def agent_lookup_error_def job_report_error_def status_codes
        split: handler_splits)
qed

lemma granted_start:
  assumes "exchange up us ul (MsgJobStart (start_of a)) s out t" and "sendJobStart out = Inr ()"
    and "ValidateJobAssignment up us (Some a) = Inr ()" and "\<And>u. ValidString (us u)" and "db_inv s"
  shows "\<not> started up us s a" and "started up us t a"
proof -
  from assms(1,2) obtain e be cert resp where e: "env_uuid_Parse e = up" "env_uuid_String e = us"
    "newRemoteHandler e be (request_of cert (MsgJobStart (start_of a))) s = Some (resp, t)" "out = reply_of resp"
    by cases (auto simp: sendJobStart_def)
  then have resp: "rs_Status resp = 204"
    using assms(2) by (auto simp: sendJobStart_def reply_of_def split: if_splits)
  have "handleAgentJobStart e be (request_of cert (MsgJobStart (start_of a))) s = (resp, t)"
    using e(3) by (auto simp: newRemoteHandler_def request_of_def split: if_splits)
  then obtain k req u ag where req: "agent_request e ''POST'' 1024 True JobStartRequest_fields JobStartRequest_zero
      js_ProtocolVersion (request_of cert (MsgJobStart (start_of a))) = Inr (k, req)"
    and u0: "ValidateCanonicalUUID (env_uuid_Parse e) (env_uuid_String e) (js_JobID req) = Inr u"
    and "FindAgentByPublicKey (env_ctx e 0) k s = Inr ag"
    and ok0: "StartAgentJob (env_uuid_String e) (env_ctx e 1) (ar_ID ag) u (js_Attempt req) (others e 1 s) = (Inr (), t)"
    by (rule handleAgentJobStart_granted [OF _ resp])
  note u = u0 [unfolded e(1,2)] and ok = ok0 [unfolded e(2)]
  have "req = start_of a"
    using agent_request_start [OF assignment_start_fits(1) [OF assms(3,4)] req] .
  then have u': "ValidateCanonicalUUID up us (ja_JobID a) = Inr u" using u by (simp add: start_of_def)
  have inv: "db_inv (others e 1 s)" using assms(5) by (simp add: others_def run_ops_inv)
  have "\<not> past_dispatch (db_status u (others e 1 s))"
    using backend.start_ok [OF inv ok] by (simp add: past_dispatch_def)
  then have "\<not> past_dispatch (db_status u s)"
    using run_ops_past_dispatch [OF assms(5)] by (auto simp: others_def)
  then show "\<not> started up us s a" using u' by (simp add: started_def)
  show "started up us t a"
    using u' backend.start_past_dispatch [OF inv ok] by (auto simp: started_def)
qed

section \<open>The invariant of the system\<close>

definition executing_at :: "system \<Rightarrow> nat \<Rightarrow> JobAssignment option" where
  "executing_at z i = Option.bind (sys_progs z i) executing"

text \<open>
  An agent about to run an action, or past it, holds a job that is started; no job is held twice.
\<close>

definition system_inv ::
  "(string \<Rightarrow> uuid option) \<Rightarrow> (uuid \<Rightarrow> string) \<Rightarrow> (string \<Rightarrow> string) \<Rightarrow> system \<Rightarrow> bool" where
  "system_inv up us ul z \<longleftrightarrow>
     reachable us ul (sys_db z)
     \<and> (\<forall>i p. sys_progs z i = Some p \<longrightarrow> disciplined up us p)
     \<and> (\<forall>i a. executing_at z i = Some a \<longrightarrow>
          started up us (sys_db z) a \<and> ja_JobID a \<notin> ja_JobID ` set (sys_executed z))
     \<and> (\<forall>i j a b. i \<noteq> j \<longrightarrow> executing_at z i = Some a \<longrightarrow> executing_at z j = Some b
          \<longrightarrow> ja_JobID a \<noteq> ja_JobID b)
     \<and> (\<forall>a \<in> set (sys_executed z). started up us (sys_db z) a)
     \<and> distinct (map ja_JobID (sys_executed z))"

lemma executing_at_simps [simp]:
  "executing_at (z\<lparr>sys_db := s\<rparr>) i = executing_at z i"
  "executing_at (z\<lparr>sys_executed := xs\<rparr>) i = executing_at z i"
  "executing_at (z\<lparr>sys_progs := (sys_progs z)(j := None)\<rparr>) i = (if i = j then None else executing_at z i)"
  "executing_at (z\<lparr>sys_progs := (sys_progs z)(j := Some p)\<rparr>) i = (if i = j then executing p else executing_at z i)"
  by (simp_all add: executing_at_def)

lemma system_invD:
  "system_inv up us ul z \<Longrightarrow> reachable us ul (sys_db z)"
  "system_inv up us ul z \<Longrightarrow> sys_progs z i = Some p \<Longrightarrow> disciplined up us p"
  unfolding system_inv_def by blast+

text \<open>The three ways a step changes what matters: the database moves on, an agent turns to something calm, a start is granted.\<close>

lemma inv_db:
  assumes "system_inv up us ul z" and "reachable us ul t"
    and "\<And>a. started up us (sys_db z) a \<Longrightarrow> started up us t a"
  shows "system_inv up us ul (z\<lparr>sys_db := t\<rparr>)"
  using assms unfolding system_inv_def by (simp; blast)

lemma inv_calm:
  assumes "system_inv up us ul z" and "pred_option (calm up us) p"
  shows "system_inv up us ul (z\<lparr>sys_progs := (sys_progs z)(i := p)\<rparr>)"
  using assms unfolding system_inv_def
  by (cases p; simp add: calm_def; blast)

lemma inv_granted:
  assumes "system_inv up us ul z" and "disciplined up us p" and "executing p = Some a"
    and "\<not> started up us (sys_db z) a" and "reachable us ul t" and "started up us t a"
    and mono: "\<And>b. started up us (sys_db z) b \<Longrightarrow> started up us t b"
  shows "system_inv up us ul (z\<lparr>sys_db := t, sys_progs := (sys_progs z)(i \<mapsto> p)\<rparr>)"
proof -
  have other: "ja_JobID b \<noteq> ja_JobID a" if "started up us (sys_db z) b" for b
    using that assms(4) by (auto simp: started_def)
  have held: "ja_JobID b \<noteq> ja_JobID a" "started up us (sys_db z) b" if "executing_at z j = Some b" for j b
    using that assms(1) other by (auto simp: system_inv_def)
  have run: "ja_JobID b \<noteq> ja_JobID a" "started up us (sys_db z) b" if "b \<in> set (sys_executed z)" for b
    using that assms(1) other by (auto simp: system_inv_def)
  have upd: "z\<lparr>sys_db := t, sys_progs := (sys_progs z)(i \<mapsto> p)\<rparr>
      = (z\<lparr>sys_db := t\<rparr>)\<lparr>sys_progs := (sys_progs (z\<lparr>sys_db := t\<rparr>))(i \<mapsto> p)\<rparr>" by simp
  show ?thesis
    unfolding upd system_inv_def executing_at_simps
    using assms(1-3,5,6) held run mono
    by (auto simp: system_inv_def image_iff dest: not_sym; metis)
qed

lemma inv_execute:
  assumes "system_inv up us ul z" and "sys_progs z i = Some (Execute a k)"
  shows "system_inv up us ul (z\<lparr>sys_executed := sys_executed z @ [a], sys_progs := (sys_progs z)(i \<mapsto> k r)\<rparr>)"
proof -
  let ?y = "z\<lparr>sys_progs := (sys_progs z)(i := None)\<rparr>"
  have at: "executing_at z i = Some a" and k: "calm up us (k r)"
    using assms by (fastforce simp: executing_at_def system_inv_def calm_def)+
  have "system_inv up us ul ?y" by (rule inv_calm [OF assms(1)]) simp
  moreover have "started up us (sys_db z) a" "ja_JobID a \<notin> ja_JobID ` set (sys_executed z)"
    "\<And>j b. j \<noteq> i \<Longrightarrow> executing_at z j = Some b \<Longrightarrow> ja_JobID b \<noteq> ja_JobID a"
    using at assms(1) by (auto simp: system_inv_def)
  ultimately have "system_inv up us ul (?y\<lparr>sys_executed := sys_executed ?y @ [a]\<rparr>)"
    unfolding system_inv_def executing_at_simps by auto
  then show ?thesis using inv_calm [of up us ul _ "Some (k r)" i] k by fastforce
qed

lemma answers_calm: "q \<in> answers p \<Longrightarrow> disciplined up us p \<Longrightarrow> calm up us q"
  by (cases p) (auto simp: calm_def)

lemma inv_send:
  assumes "system_inv up us ul z" and "\<And>u. ValidString (us u)"
    and "sys_progs z i = Some (Send m k)" and x: "exchange up us ul m (sys_db z) out t"
  shows "system_inv up us ul (z\<lparr>sys_db := t, sys_progs := (sys_progs z)(i \<mapsto> k out)\<rparr>)"
proof -
  have r: "reachable us ul (sys_db z)" and d: "disciplined up us (Send m k)"
    using system_invD [OF assms(1)] assms(3) by blast+
  have t: "reachable us ul t" and mono: "\<And>b. started up us (sys_db z) b \<Longrightarrow> started up us t b"
    using exchange_reachable [OF x r] exchange_started [OF x r] by auto
  show ?thesis
  proof (cases "executing (k out)")
    case None
    with d have "calm up us (k out)" by (simp add: calm_def)
    then show ?thesis using inv_calm [OF inv_db [OF assms(1) t mono], of "Some (k out)" i] by simp
  next
    case (Some a)
    with d have m: "m = MsgJobStart (start_of a)" "sendJobStart out = Inr ()"
      "ValidateJobAssignment up us (Some a) = Inr ()" by auto
    show ?thesis
      using granted_start [OF x [unfolded m(1)] m(2,3) assms(2) reachable_inv [OF r]] d Some
      by (intro inv_granted [OF assms(1) _ _ _ t _ mono]) auto
  qed
qed

lemma system_step_inv:
  assumes "system_inv up us ul z" and "\<And>u. ValidString (us u)" and "system_step up us ul cfg z z'"
  shows "system_inv up us ul z'"
  using assms(3)
proof cases
  case (store x)
  have r: "reachable us ul (sys_db z)" using assms(1) by (simp add: system_inv_def)
  have "started up us (exec us ul x (sys_db z)) a" if "started up us (sys_db z) a" for a
    using that exec_past_dispatch [OF reachable_inv [OF r], of _ us ul x] by (auto simp: started_def)
  moreover have "reachable us ul (exec us ul x (sys_db z))" using reachable_run_ops [OF r, of "[x]"] by simp
  ultimately show ?thesis unfolding store by (intro inv_db [OF assms(1)])
next
  case (answer i p q)
  then have "calm up us q" using assms(1) answers_calm by (auto simp: system_inv_def)
  then show ?thesis unfolding answer by (simp add: inv_calm [OF assms(1)])
next
  case (send i m k out t)
  then show ?thesis using inv_send [OF assms(1,2)] by simp
next
  case (execute i a k r)
  then show ?thesis using inv_execute [OF assms(1)] by simp
qed (simp_all add: inv_calm [OF assms(1)] iteration_calm)

interpretation whole: invariant_system "\<lambda>z z'. (\<forall>u. ValidString (us u)) \<and> system_step up us ul cfg z z'"
  "system_inv up us ul" for up us ul cfg
  by unfold_locales (blast intro: system_step_inv)

lemma empty_system_inv: "system_inv up us ul empty_system"
  by (simp add: system_inv_def empty_system_def executing_at_def reachable.intros)

lemma system_reachable_inv:
  assumes "system_reachable up us ul cfg z" and "\<And>u. ValidString (us u)"
  shows "system_inv up us ul z"
proof -
  have "(\<lambda>z z'. (\<forall>u. ValidString (us u)) \<and> system_step up us ul cfg z z')\<^sup>*\<^sup>* empty_system z"
    using assms by (simp add: system_reachable_def)
  then show ?thesis using whole.run_inv empty_system_inv by blast
qed

text \<open>
  C1. At most once. However agents, operators and the controller interleave, whatever is lost,
  retried, crashed or restarted: no job is executed twice, by the same agent or by two, and every
  execution was granted by the controller first.
\<close>

theorem at_most_once_execution:
  assumes "system_reachable up us ul cfg z" and "\<And>u. ValidString (us u)"
  shows "distinct (map ja_JobID (sys_executed z)) \<and> list_all (started up us (sys_db z)) (sys_executed z)"
  using system_reachable_inv [OF assms] by (simp add: system_inv_def list_all_iff)

section \<open>A run of the whole system\<close>

lemma reach_step: "system_reachable up us ul cfg z \<Longrightarrow> system_step up us ul cfg z z' \<Longrightarrow> system_reachable up us ul cfg z'"
  by (simp add: system_reachable_def)

lemma reach_store:
  "system_reachable up us ul cfg z \<Longrightarrow> system_reachable up us ul cfg (z\<lparr>sys_db := run_ops us ul ops (sys_db z)\<rparr>)"
proof (induction ops arbitrary: z)
  case (Cons x ops)
  from Cons.IH [OF reach_step [OF Cons.prems store [of _ _ _ _ _ x]]] show ?case by simp
qed simp

definition ex_system :: "db \<Rightarrow> prog \<Rightarrow> system" where
  "ex_system s p = \<lparr>sys_db = s, sys_progs = [0 \<mapsto> p], sys_executed = []\<rparr>"

lemma reach_answer:
  "system_reachable up us ul cfg (ex_system s p) \<Longrightarrow> q \<in> answers p \<Longrightarrow> system_reachable up us ul cfg (ex_system s q)"
  by (erule reach_step, drule answer [of "ex_system s p" 0 p q, rotated]) (simp_all add: ex_system_def)

lemma reach_CtxErr:
  "system_reachable up us ul cfg (ex_system s (CtxErr k)) \<Longrightarrow> system_reachable up us ul cfg (ex_system s (k b))"
  by (erule reach_answer) simp

lemma reach_GetClient:
  "system_reachable up us ul cfg (ex_system s (GetClient k)) \<Longrightarrow> system_reachable up us ul cfg (ex_system s (k b))"
  by (erule reach_answer) simp

lemma reach_send:
  "system_reachable up us ul cfg (ex_system s (Send m k)) \<Longrightarrow> exchange up us ul m s out t
     \<Longrightarrow> system_reachable up us ul cfg (ex_system t (k out))"
  by (erule reach_step) (use send [of "ex_system s (Send m k)" 0 m k up us ul out t] in \<open>simp add: ex_system_def\<close>)

lemma ex_start_seen: "StartAgentJob ex_uuid (quiet_ctx 4 6) 3 4 1 (seen ex_dispatched) = (Inr (), seen ex_running)"
  by (simp add: seen_def StartAgentJob_def StartAgentJob_tx_def run_tx_def Let_def find_job_def
      start_guard_def add_event_def ex_running_def row_dispatch_def DispatchLease_def second_def
      ex_row_defs)

lemma ex_start_request:
  "agent_request (ex_env 4 6) ''POST'' 1024 True JobStartRequest_fields JobStartRequest_zero js_ProtocolVersion
     (request_of ex_cert (MsgJobStart (start_of ex_assignment))) = Inr (ex_key, start_of ex_assignment)"
proof -
  have "JobStartRequest_fits (start_of ex_assignment)" "length (js_JobID (start_of ex_assignment)) \<le> 36"
    using start_fits [OF ex_start_ok] ex_start_ok by simp_all
  then show ?thesis
    by (intro agent_request_ok) (simp_all add: second_def job_start_length job_start.decodes
        valid_render [OF job_start.to_json_ok] start_of_def)
qed

lemma ex_start_answer:
  "handleAgentJobStart (ex_env 4 6) all_backends (request_of ex_cert (MsgJobStart (start_of ex_assignment)))
     (seen ex_dispatched) = (no_content, seen ex_running)"
proof -
  have "FindAgentByPublicKey (quiet_ctx 4 6) ex_key (seen ex_dispatched) = Inr
      \<lparr>ar_ID = 3, ar_PublicKey = ex_key, ar_CreatedAt = 1, ar_LastSeenAt = Some 3, ar_ProtocolVersion = Some CurrentVersion\<rparr>"
    by (simp add: FindAgentByPublicKey_def agent_by_key_def seen_def ex_agent_def)
  then show ?thesis
    using ex_start_ok ex_start_seen
    by (simp add: handleAgentJobStart_def ex_start_request)
      (simp add: start_of_def ex_assignment_def ValidateCanonicalUUID_def)
qed

lemma ex_exchanges:
  "exchange ex_uuid_Parse ex_uuid id ex_beat ex_queued (reply_of ex_answer) (seen ex_dispatched)"
  "exchange ex_uuid_Parse ex_uuid id (MsgJobStart (start_of ex_assignment)) (seen ex_dispatched)
     (reply_of no_content) (seen ex_running)"
  by (rule exchange.answered [of "ex_env 3 5" _ _ _ all_backends ex_cert],
      simp_all add: newRemoteHandler_def ex_heartbeat [unfolded ex_beat_def] ex_beat_def)
    (rule exchange.answered [of "ex_env 4 6" _ _ _ all_backends ex_cert],
      simp_all add: newRemoteHandler_def ex_start_answer)

lemma ex_assignment_valid: "ValidateJobAssignment ex_uuid_Parse ex_uuid (Some ex_assignment) = Inr ()"
  by (simp add: ValidateJobAssignment_def ValidateCanonicalUUID_def ex_assignment_def MaxDispatchAttempts_def)

lemma ex_read: "sendHeartbeat ex_uuid_Parse ex_uuid (reply_of ex_answer) = Inr (Some ex_assignment)"
proof -
  have "JobAssignment_fits ex_assignment"
    by (simp add: JobAssignment_fits_def ex_assignment_def ex_uuid_valid in_int64_def ActionAgentPing_def
        ascii_valid is_ascii_def)
  then show ?thesis
    unfolding ex_answer_def
    by (intro agent_reads_assignment) (simp_all add: ex_assignment_valid, simp add: ex_assignment_def ex_uuid_def)
qed

lemma ex_assignment_phase:
  "assignment_phase ex_uuid_Parse ex_uuid cfg (Some ex_assignment) initial_loop =
     Send (MsgJobStart (start_of ex_assignment)) (\<lambda>out. case sendJobStart out of
       Inl e \<Rightarrow> if IsPermanentError e then Ret (Exit (Some e)) else inventory_phase cfg initial_loop
     | Inr x \<Rightarrow> execute_phase cfg ex_assignment initial_loop)"
proof -
  have "ls_pendingCompletion initial_loop = None" by (simp add: initial_loop_def)
  then show ?thesis by (simp add: assignment_phase_def start_of_def ex_assignment_valid)
qed

lemma ex_system_run:
  "system_reachable ex_uuid_Parse ex_uuid id defaultPresenceConfig
     (ex_system (seen ex_running) (execute_phase defaultPresenceConfig ex_assignment initial_loop))"
proof -
  let ?reach = "system_reachable ex_uuid_Parse ex_uuid id defaultPresenceConfig"
  let ?job = "(quiet_ctx 2 4, OpCreateJob 8 3 ActionAgentPing ex_idem)"
  have "?reach empty_system" by (simp add: system_reachable_def)
  from reach_store [OF this, of "ex_boot @ [?job]"] have "?reach (empty_system\<lparr>sys_db := ex_queued\<rparr>)"
    by (simp add: empty_system_def ex_boot_run ex_create)
  from reach_step [OF this boot [of _ _ _ _ _ 0]]
  have "?reach (ex_system ex_queued (iteration ex_uuid_Parse ex_uuid defaultPresenceConfig initial_loop))"
    by (simp add: ex_system_def empty_system_def)
  from reach_GetClient [OF reach_CtxErr [OF this [unfolded iteration_def], of False, unfolded if_False], of "Inr ()"]
  have "?reach (ex_system ex_queued (Send ex_beat (\<lambda>out. case sendHeartbeat ex_uuid_Parse ex_uuid out of
      Inl e \<Rightarrow> failure_phase defaultPresenceConfig e initial_loop
    | Inr x \<Rightarrow> pending_phase ex_uuid_Parse ex_uuid defaultPresenceConfig x
        (initial_loop\<lparr>ls_loggedFailure := False, ls_consecutiveFailures := 0\<rparr>))))"
    by (simp add: ex_beat_def)
  from reach_send [OF this ex_exchanges(1)]
  have "?reach (ex_system (seen ex_dispatched)
      (assignment_phase ex_uuid_Parse ex_uuid defaultPresenceConfig (Some ex_assignment) initial_loop))"
    by (simp add: ex_read pending_phase_def initial_loop_def)
  from reach_send [OF this [unfolded ex_assignment_phase] ex_exchanges(2)] show ?thesis
    by (simp add: sendJobStart_def reply_of_def StatusNoContent_def)
qed

theorem at_most_once_execution_witness:
  "\<exists>z. system_reachable ex_uuid_Parse ex_uuid id defaultPresenceConfig z \<and> sys_executed z = [ex_assignment]
     \<and> distinct (map ja_JobID (sys_executed z)) \<and> started ex_uuid_Parse ex_uuid (sys_db z) ex_assignment"
proof -
  let ?p = "execute_phase defaultPresenceConfig ex_assignment initial_loop"
  obtain k where "?p = Execute ex_assignment k" by (simp add: execute_phase_def)
  then have "system_step ex_uuid_Parse ex_uuid id defaultPresenceConfig (ex_system (seen ex_running) ?p)
      ((ex_system (seen ex_running) ?p)\<lparr>sys_executed := [ex_assignment], sys_progs := [0 \<mapsto> k (Inr ())]\<rparr>)"
    using execute [of "ex_system (seen ex_running) ?p" 0 ex_assignment k] by (simp add: ex_system_def)
  from reach_step [OF ex_system_run this] at_most_once_execution [OF reach_step [OF ex_system_run this] ex_uuid_valid]
  show ?thesis by fastforce
qed

text \<open>The same agent on its own: it executes the job, the report is lost, the report is kept.\<close>

lemma ex_loop_run:
  "\<exists>tr st. loop_runs ex_uuid_Parse ex_uuid defaultPresenceConfig initial_loop tr st
     \<and> ls_pendingCompletion st = Some (completion_for ex_assignment (Inr ()))"
proof -
  let ?c = "completion_for ex_assignment (Inr ())" and ?cfg = defaultPresenceConfig
  let ?st = "initial_loop\<lparr>ls_pendingCompletion := Some ?c\<rparr>"
  have lost: "sendJobComplete (NetError []) = Inl (ErrOther [])" "\<not> IsPermanentError (ErrOther [])"
    "\<not> errors_Is (ErrOther []) ErrJobConflict"
    by (simp_all add: sendJobComplete_def IsPermanentError_def)
  obtain tr st' where tail: "runs (inventory_phase ?cfg ?st) tr (Again st')" "ls_pendingCompletion st' = Some ?c"
    using inventory_continues [of ?st] by auto
  have "runs (execute_phase ?cfg ex_assignment initial_loop)
      (EvExecute ex_assignment (Inr ()) # EvSend (MsgJobComplete ?c) (NetError []) # tr) (Again st')"
    unfolding execute_phase_def Let_def by (intro runs.intros) (simp add: lost tail)
  then have assigned: "\<exists>tr. runs (assignment_phase ex_uuid_Parse ex_uuid ?cfg (Some ex_assignment) initial_loop) tr (Again st')"
    unfolding ex_assignment_phase
    by (auto simp: sendJobStart_def reply_of_def StatusNoContent_def intro!: exI [of _ "reply_of no_content"])
  have "initial_loop\<lparr>ls_loggedFailure := False, ls_consecutiveFailures := 0\<rparr> = initial_loop"
    "ls_pendingCompletion initial_loop = None"
    by (simp_all add: initial_loop_def)
  with assigned obtain tr2 where "runs (pending_phase ex_uuid_Parse ex_uuid ?cfg (Some ex_assignment)
      (initial_loop\<lparr>ls_loggedFailure := False, ls_consecutiveFailures := 0\<rparr>)) tr2 (Again st')"
    by (auto simp: pending_phase_def)
  then have "runs (iteration ex_uuid_Parse ex_uuid ?cfg initial_loop)
      (EvOther # EvOther # EvSend (MsgHeartbeat \<lparr>hb_ProtocolVersion = CurrentVersion\<rparr>) (reply_of ex_answer) # tr2) (Again st')"
    unfolding iteration_def
    by (intro runs.intros(2) [where b = False]) (auto simp: ex_read intro!: exI [of _ "Inr ()"])
  from one_more [OF no_iteration this] tail(2) show ?thesis by blast
qed

theorem results_are_not_lost_witness:
  "\<exists>tr. owed [] tr = [completion_for ex_assignment (Inr ())] \<and> length (owed [] tr) \<le> 1"
proof -
  obtain tr st where "loop_runs ex_uuid_Parse ex_uuid defaultPresenceConfig initial_loop tr st"
    "ls_pendingCompletion st = Some (completion_for ex_assignment (Inr ()))"
    using ex_loop_run by blast
  with results_are_not_lost [OF this(1)] show ?thesis by (auto simp: opt_list_def)
qed

end
