(* ===== verification/Operator_Api.thy ===== *)
theory Operator_Api
  imports Controller_Properties Identity_Properties Wire_Bounds
begin

text \<open>
  What the operator-facing endpoints guarantee: nothing useful without a live session, and a login
  whose token is good for the whole session lifetime.
\<close>

section \<open>Failing closed\<close>

lemma authenticateOperator_row:
  assumes "authenticateOperator e be r s = Inr p"
  obtains tok row opr where "Header_Get r ''Authorization'' = ''Bearer '' @ tok"
    "ValidateSessionToken tok = Inr ()"
    "row \<in> set (operator_sessions s)" "s_token_hash row = HashSessionToken tok"
    "tx_now (env_ctx e 0) < s_expires_at row" "opr \<in> set (operators s)" "o_id opr = s_operator_id row"
    "o_disabled_at opr = None" "Role_Valid (o_role opr)" "p_OperatorID p = o_id opr" "p_Role p = o_role opr"
proof -
  obtain scheme tok where cut: "Cut (CHR 0x20) (Header_Get r ''Authorization'') = Some (scheme, tok)"
    and b: "scheme = ''Bearer''" "ValidateSessionToken tok = Inr ()"
    and found: "FindOperatorSessionByTokenHash (env_ctx e 0) (HashSessionToken tok) s = Inr p"
    using assms by (auto simp: authenticateOperator_def split: if_splits option.splits sum.splits)
  have "Header_Get r ''Authorization'' = ''Bearer '' @ tok"
    using Cut_Some [OF cut] b(1) by simp
  with found that b(2) show thesis by (auto elim!: FindOperatorSession_row)
qed

lemma authenticateOperator_status: "authenticateOperator e be r s = Inl (st, msg) \<Longrightarrow> 400 \<le> st"
  by (auto simp: authenticateOperator_def status_codes split: if_splits option.splits sum.splits)

lemma operator_route_authenticates:
  assumes "newHandler e be lim ping_ok r s = Some (resp, t)"
    and "HasPrefix (rq_Path r) ''/api/v1/operator/''" and "rq_Path r \<noteq> ''/api/v1/operator/login''"
    and "rs_Status resp < 400 \<or> t \<noteq> s"
  obtains p where "authenticateOperator e be r s = Inr p"
proof (cases "authenticateOperator e be r s")
  case (Inl x)
  obtain st msg where x: "x = (st, msg)" by (cases x)
  have "400 \<le> st" using authenticateOperator_status Inl x by simp
  moreover have "\<not> HasPrefix ''/healthz'' ''/api/v1/operator/''" "\<not> HasPrefix ''/readyz'' ''/api/v1/operator/''"
    "\<not> HasPrefix ''/api/v1/agent/enroll'' ''/api/v1/operator/''"
    by (simp_all add: HasPrefix_def)
  ultimately have "400 \<le> rs_Status resp \<and> t = s"
    using assms(1-3) Inl x
    by (auto simp: newHandler_def handleOperatorMe_def handleOperatorLogout_def handleOperatorAudit_def
        handleJobsRoute_def handleJobRoute_def Let_def status_codes split: if_splits)
  with assms(4) show thesis by simp
qed (use that in blast)

text \<open>
  C25. The operator API fails closed. A request to any operator endpoint but the login that gets
  a success status, or that changes the database, carries a bearer token whose hash is that of a
  session row in the database, not expired at the statement's \<^verbatim>\<open>now()\<close>, of an operator that is not
  disabled and has one of the three roles.
\<close>

theorem operator_endpoints_fail_closed:
  assumes "newHandler e be lim ping_ok r s = Some (resp, t)"
    and "HasPrefix (rq_Path r) ''/api/v1/operator/''" and "rq_Path r \<noteq> ''/api/v1/operator/login''"
    and "rs_Status resp < 400 \<or> t \<noteq> s"
  shows "\<exists>tok row opr. Header_Get r ''Authorization'' = ''Bearer '' @ tok
    \<and> row \<in> set (operator_sessions s) \<and> s_token_hash row = HashSessionToken tok
    \<and> tx_now (env_ctx e 0) < s_expires_at row
    \<and> opr \<in> set (operators s) \<and> o_id opr = s_operator_id row \<and> o_disabled_at opr = None
    \<and> Role_Valid (o_role opr)"
proof -
  obtain p where "authenticateOperator e be r s = Inr p"
    using assms by (rule operator_route_authenticates)
  then show ?thesis by (rule authenticateOperator_row) blast
qed

section \<open>Logging in\<close>

definition login_token :: "response \<Rightarrow> string option" where
  "login_token resp =
     (case rs_Body resp of
        JsonBody (JObject ms) \<Rightarrow> (case map_of ms ''token'' of Some (JString tok) \<Rightarrow> Some tok | _ \<Rightarrow> None)
      | _ \<Rightarrow> None)"

lemma handleOperatorLogin_ok:
  assumes "handleOperatorLogin e be lim r s = (resp, t)" and "login_token resp = Some tok"
  obtains req opr rec where "DecodeOne login_fields login_zero (rq_Body r) = Decoded req"
    "GetOperatorByUsername (env_lower e) (env_ctx e 0) (NormalizeUsername (env_lower e) (li_Username req)) s = Inr opr"
    "VerifyPassword (env_IDKey e) (o_password_hash opr) (li_Password req) = Inr ()" "o_disabled_at opr = None"
    "GenerateSessionToken (env_entropy e) = Inr tok"
    "CreateOperatorSession (env_ctx e 1) (o_id opr) (HashSessionToken tok) (others e 1 s) = (Inr rec, t)"
proof -
  have err: "login_token (errJSON n m) = None" "login_token (add_header k v x) = login_token x"
    "login_token (method_not_allowed a) = None" for n m k v x a
    by (simp_all add: login_token_def errJSON_def writeJSON_def add_header_def method_not_allowed_def WriteHeader_def)
  have ok: "login_token (writeJSON n (login_response e u rec opr)) = Some u" for n u rec opr
    by (simp add: login_token_def writeJSON_def login_response_def)
  have body: "b = rq_Body r" if "read_limited 1025 r = Some b" "\<not> 1024 < length b" for b
    using that by (auto simp: read_limited_def split: if_splits)
  show thesis
    using assms that body
    by (auto simp: handleOperatorLogin_def err ok split: if_splits option.splits sum.splits decoded.splits prod.splits)
qed

lemma generated_session_token:
  assumes "GenerateSessionToken (Some b) = Inr tok" and "length b = SessionEntropyBytes"
  shows "ValidateSessionToken tok = Inr ()" and "tok \<noteq> []"
  using assms raw_url_strict.token_round_trip [of b] prefix_has_no_padding
  by (auto simp: GenerateSessionToken_def ValidateSessionToken_def SessionTokenTotalLength_def
      SessionTokenRandomLength_def SessionEntropyBytes_def SessionTokenPrefix_def HasPrefix_def)

lemma Bearer_cut: "Cut (CHR 0x20) (''Bearer '' @ tok) = Some (''Bearer'', tok)"
  by (simp add: Cut_def)

lemma authenticateOperator_token:
  assumes "be_operators be" and "Header_Get r ''Authorization'' = ''Bearer '' @ tok" and "tok \<noteq> []"
    and "ValidateSessionToken tok = Inr ()" and "Role_Valid (p_Role p)"
    and "FindOperatorSessionByTokenHash (env_ctx e 0) (HashSessionToken tok) s = Inr p"
  shows "authenticateOperator e be r s = Inr p"
  using assms(1-6) Bearer_cut [of tok] by (simp add: authenticateOperator_def)

lemma GetOperatorByUsername_row:
  assumes "GetOperatorByUsername ul c u s = Inr opr"
  obtains row where "row \<in> set (operators s)" "o_username row = NormalizeUsername ul u" "o_id opr = o_id row"
    "o_password_hash opr = o_password_hash row"
  using assms
  by (auto simp: GetOperatorByUsername_def pool_error_def Let_def split: if_splits option.splits sum.splits
      dest!: find_Some_D intro: that)


section \<open>A concrete login\<close>

definition login_json :: "login_request \<Rightarrow> json" where
  "login_json q = JObject [(''username'', JString (li_Username q)), (''password'', JString (li_Password q))]"

interpretation login_format: wire_format login_fields login_zero login_json
  "\<lambda>q. ValidString (li_Username q) \<and> ValidString (li_Password q)"
  by unfold_locales
    (simp_all add: login_json_def login_fields_def login_zero_def ascii_valid is_ascii_def set_struct_def find_field_def)

definition ex_login_request :: login_request where
  "ex_login_request = \<lparr>li_Username = ex_name, li_Password = ''correct horse''\<rparr>"

definition ex_phc_text :: string where
  "ex_phc_text = phc_text (replicate 16 CHR ''s'') (derive ex_kdf ''correct horse'' (replicate 16 CHR ''s''))"

definition ex_op_db :: db where
  "ex_op_db = empty_db\<lparr>operators := [ex_operator\<lparr>o_password_hash := ex_phc_text\<rparr>], operator_audit_events := ex_audit\<rparr>"

definition api_request :: "string \<Rightarrow> string \<Rightarrow> string \<Rightarrow> bytes \<Rightarrow> request" where
  "api_request meth path auth b = \<lparr>rq_Method = meth, rq_Path = path, rq_TLS = None,
     rq_Header = (\<lambda>k. if k = ''Content-Type'' then [''application/json''] else if k = ''Authorization'' then [auth] else []),
     rq_Query = [], rq_Body = b, rq_BodyErr = False\<rparr>"

definition ex_login_http :: request where
  "ex_login_http = api_request ''POST'' ''/api/v1/operator/login'' [] (render (login_json ex_login_request))"

definition ex_session_token :: string where
  "ex_session_token = SessionTokenPrefix @ EncodeToString True (replicate 32 (CHR 0x07))"

definition ex_session_db :: db where
  "ex_session_db = snd (CreateOperatorSession (quiet_ctx 10 50) 8 (HashSessionToken ex_session_token) ex_op_db)"

lemma api_request_simps [simp]:
  "rq_Method (api_request m p a b) = m" "rq_Path (api_request m p a b) = p" "rq_Body (api_request m p a b) = b"
  "rq_BodyErr (api_request m p a b) = False" "Header_Get (api_request m p a b) ''Content-Type'' = ''application/json''"
  "Header_Get (api_request m p a b) ''Authorization'' = a"
  by (simp_all add: api_request_def Header_Get_def)

lemma ex_key_length: "length (derive ex_kdf p x) = 32"
  by (simp add: derive_def ex_kdf_def Argon2KeyLength_def)

lemma encode_no_nul: "CHR 0x00 \<notin> set (EncodeToString url b)"
proof -
  have "enc6 url n \<in> set (alphabet url)" if "n < 64" for n
    using that alphabet_facts(2) [of url] by (simp add: enc6_def)
  moreover have "CHR 0x00 \<notin> set (alphabet url)"
    by (simp add: alphabet_def common_alphabet_def)
  ultimately have "enc6 url n \<noteq> CHR 0x00" if "n < 64" for n using that by metis
  then show ?thesis
    using enc_sextets_range [OF byte_values_range, of b] by (simp add: EncodeToString_def list_all_iff image_iff) metis
qed

lemma ex_phc_text_ok: "is_ascii ex_phc_text" "length ex_phc_text = 97"
proof -
  have "is_ascii (EncodeToString False b)" for b
    using encode_clean [of False b] by (simp add: is_ascii_def list_all_iff)
  then show "is_ascii ex_phc_text"
    by (simp add: ex_phc_text_def phc_text_def parameters_text is_ascii_def)
  show "length ex_phc_text = 97"
    by (simp add: ex_phc_text_def length_phc_text ex_key_length)
qed

lemma ex_op_db_reachable: "reachable ex_uuid id ex_op_db"
proof -
  have "pg_text ex_phc_text" "char_length ex_phc_text = 97"
    using ex_phc_text_ok by (auto simp: pg_text_def char_length_def ascii_valid ascii_rune_count is_ascii_def
        ex_phc_text_def phc_text_def parameters_text encode_no_nul)
  then have "run_ops ex_uuid id [(quiet_ctx 0 8, OpCreateOperator ex_name ex_phc_text RoleOperator)] empty_db = ex_op_db"
    by (simp add: ex_op_db_def empty_db_def CreateOperator_def CreateOperator_tx_def Role_Valid_def run_tx_def
        add_audit_def ex_row_defs Let_def)
  then show ?thesis by (metis reachable_iff_run)
qed

lemma ex_password: "VerifyPassword ex_kdf ex_phc_text ''correct horse'' = Inr ()"
  by (simp add: VerifyPassword_def ex_phc_text_def phc_text_parts decode_encode ex_key_length
      Argon2SaltLength_def Argon2KeyLength_def)

lemma ex_session:
  "CreateOperatorSession (quiet_ctx 10 50) 8 (HashSessionToken ex_session_token) ex_op_db =
     (Inr \<lparr>sr_ID = 50, sr_OperatorID = 8, sr_CreatedAt = 10, sr_ExpiresAt = 10 + SessionLifetime\<rparr>, ex_session_db)"
  unfolding ex_session_db_def
  by (simp add: CreateOperatorSession_def CreateOperatorSession_tx_def run_tx_def Let_def HashSessionToken_def
      ex_operator_def SessionLifetime_def second_def prune_excess_def prune_expired_def delete_where_def ex_op_db_def
      empty_db_def)

lemma ex_login_body:
  "ValidString (li_Username ex_login_request) \<and> ValidString (li_Password ex_login_request)"
  by (simp add: ex_login_request_def ex_name_def ascii_valid is_ascii_def)

lemma ex_login_body_length: "length (render (login_json ex_login_request)) \<le> 1024"
proof -
  have "length (render (login_json ex_login_request)) \<le> 2 + sum_list [84, 132]"
    unfolding login_json_def
    by (rule object_bound, unfold list_all2_Cons list_all2_Nil, intro conjI)
      (auto simp: ex_login_request_def ex_name_def intro!: text_bound RuneCount_le)
  then show ?thesis by simp
qed

lemma ex_login_answer:
  "\<exists>rec opr. handleOperatorLogin (ex_env 10 50) all_backends (NewConcurrencyLimiter 2) ex_login_http ex_op_db =
     (writeJSON StatusOK (login_response (ex_env 10 50) ex_session_token rec opr), ex_session_db)"
proof -
  have name: "pg_text ex_name" by (simp add: pg_text_def ex_name_def ascii_valid is_ascii_def)
  have get: "GetOperatorByUsername id (quiet_ctx 10 50) ex_name ex_op_db =
      Inr (ex_operator\<lparr>o_password_hash := ex_phc_text\<rparr>)"
    by (simp add: GetOperatorByUsername_def ex_op_db_def name Let_def ex_operator_def ParseRole_def)
  have read: "read_limited 1025 ex_login_http = Some (render (login_json ex_login_request))"
    using ex_login_body_length by (simp add: read_limited_def ex_login_http_def)
  have "render (login_json ex_login_request) \<noteq> []" by (simp add: login_json_def)
  moreover have "check_media (ex_env 10 50) ex_login_http = MediaOk"
    by (rule check_media_ex) (simp add: ex_login_http_def)
  moreover have "rq_Method ex_login_http = ''POST''" by (simp add: ex_login_http_def)
  ultimately show ?thesis
    using ex_login_body ex_login_body_length read get ex_session
    by (simp add: handleOperatorLogin_def login_format.decodes valid_render [OF login_format.to_json_ok]
        TryAcquire_def NewConcurrencyLimiter_def GenerateSessionToken_def ex_session_token_def)
      (simp add: ex_login_request_def ex_operator_def ex_password GenerateSessionToken_def ex_session_token_def, blast)
qed

lemma ex_login_token: "login_token (writeJSON n (login_response e tok rec opr)) = Some tok"
  by (simp add: login_token_def writeJSON_def login_response_def)

definition ex_me :: request where
  "ex_me = api_request ''GET'' ''/api/v1/operator/me'' (''Bearer '' @ ex_session_token) []"

lemma SessionLifetime_pos: "0 < SessionLifetime"
  by (simp add: SessionLifetime_def second_def)


lemma ex_me_answer:
  "\<exists>resp. newHandler (ex_env 10 51) all_backends (NewConcurrencyLimiter 2) True ex_me ex_session_db = Some (resp, ex_session_db)
     \<and> rs_Status resp = 200"
proof -
  have "\<exists>p. authenticateOperator (ex_env 10 51) all_backends ex_me ex_session_db = Inr p"
    using created_session_found [OF ex_op_db_reachable ex_session, of "quiet_ctx 10 51"] SessionLifetime_pos
      generated_session_token [of "replicate 32 (CHR 0x07)" ex_session_token]
    by (auto simp: ex_op_db_def ex_operator_def GenerateSessionToken_def ex_session_token_def SessionEntropyBytes_def
        ex_me_def Role_Valid_def intro!: exI authenticateOperator_token)
  then show ?thesis
    by (auto simp: newHandler_def ex_me_def handleOperatorMe_def StatusOK_def)
qed

theorem operator_endpoints_fail_closed_witness:
  "\<exists>row \<in> set (operator_sessions ex_session_db). s_token_hash row = HashSessionToken ex_session_token"
proof -
  obtain resp where "newHandler (ex_env 10 51) all_backends (NewConcurrencyLimiter 2) True ex_me ex_session_db
      = Some (resp, ex_session_db)" "rs_Status resp = 200"
    using ex_me_answer by blast
  from operator_endpoints_fail_closed [OF this(1)] this(2) show ?thesis
    by (auto simp: ex_me_def HasPrefix_def)
qed

section \<open>Requests and the job machine\<close>



end
