(* ===== verification/Agent_Collectors.thy ===== *)
theory Agent_Collectors
  imports Complex_Main "HOL-Library.Word" "HOL-Library.Signed_Division" Wire_Protocol Go_Text Operator_Domain
begin

text \<open>
  The agent's collectors: \<^verbatim>\<open>src/internal/agent/telemetry_linux.go\<close> and the inventory parsers of
  \<^verbatim>\<open>src/internal/agent/inventory.go\<close>. Counters of the kernel are unsigned 64-bit words, with the wrap
  around and the overflow checks of the code; byte totals are \<^verbatim>\<open>int64\<close>, as in the wire protocol.
\<close>

type_synonym u64 = "64 word"

definition MaxInt64 :: int where "MaxInt64 = 2 ^ 63 - 1"

text \<open>\<^verbatim>\<open>if err != nil { return err }\<close>, then the rest with the value.\<close>

definition result_bind :: "'a result \<Rightarrow> ('a \<Rightarrow> 'b result) \<Rightarrow> 'b result" where
  "result_bind r f = (case r of Inl e \<Rightarrow> Inl e | Inr x \<Rightarrow> f x)"

lemma result_bind_simps [simp]: "result_bind (Inl e) f = Inl e" "result_bind (Inr x) f = f x"
  by (simp_all add: result_bind_def)

lemma result_bind_ok [simp]: "result_bind r f = Inr y \<longleftrightarrow> (\<exists>x. r = Inr x \<and> f x = Inr y)"
  by (cases r) auto

definition with_msg :: "string \<Rightarrow> 'a result \<Rightarrow> 'a result" where
  "with_msg msg r = (case r of Inl e \<Rightarrow> Inl (ErrWrap msg e) | Inr x \<Rightarrow> Inr x)"

lemma with_msg_ok [simp]: "with_msg msg r = Inr y \<longleftrightarrow> r = Inr y"
  by (cases r) (auto simp: with_msg_def)

definition Contains :: "string \<Rightarrow> string \<Rightarrow> bool" where
  "Contains s p \<longleftrightarrow> list_ex (\<lambda>i. HasPrefix (drop i s) p) [0..<Suc (length s)]"

section \<open>Files\<close>

text \<open>
  A file as \<^verbatim>\<open>os.Open\<close> and reading it turn out: missing, not to be opened, or its bytes, after which
  reading may fail.
\<close>

datatype proc_file = NoFile | OpenFails | File bytes bool

definition readBoundedFile :: "proc_file \<Rightarrow> nat \<Rightarrow> bytes result" where
  "readBoundedFile f maxBytes =
     (case f of
        NoFile \<Rightarrow> Inl ErrNotExist
      | OpenFails \<Rightarrow> Inl (ErrOther ''open failed'')
      | File content broken \<Rightarrow>
        (if length content > maxBytes then Inl (ErrOther ''file exceeds maximum allowed size'')
         else if broken then Inl (ErrOther ''read failed'') else Inr content))"

section \<open>CPU counters\<close>

definition maxCPUStatLineBytes :: nat where "maxCPUStatLineBytes = 4 * 1024"
definition maxLoadavgBytes :: nat where "maxLoadavgBytes = 4 * 1024"
definition maxUptimeBytes :: nat where "maxUptimeBytes = 4 * 1024"
definition maxNetDevBytes :: nat where "maxNetDevBytes = 256 * 1024"
definition maxMeminfoBytes :: nat where "maxMeminfoBytes = 128 * 1024"

definition readCPUStatFirstLine :: "proc_file \<Rightarrow> nat \<Rightarrow> string result" where
  "readCPUStatFirstLine f maxLineBytes =
     (case f of
        NoFile \<Rightarrow> Inl ErrNotExist
      | OpenFails \<Rightarrow> Inl (ErrOther ''open failed'')
      | File content broken \<Rightarrow>
        (let limited = take (maxLineBytes + 1) content;
             found = CHR 0x0A \<in> set limited;
             line = takeWhile (\<lambda>c. c \<noteq> CHR 0x0A) limited @ (if found then [CHR 0x0A] else [])
         in if \<not> found \<and> broken \<and> length content \<le> maxLineBytes then Inl (ErrOther ''read failed'')
            else if length line > maxLineBytes then
              Inl (ErrOther ''aggregate cpu line exceeds maximum allowed size'')
            else let trimmed = trim_right [CHR 0x0D, CHR 0x0A] line in
              if trimmed = [] then Inl (ErrOther ''empty /proc/stat file'') else Inr trimmed))"

definition parse_counter :: "string \<Rightarrow> string \<Rightarrow> u64 result" where
  "parse_counter msg s =
     (case ParseUint s of None \<Rightarrow> Inl (ErrOther msg) | Some n \<Rightarrow> Inr (word_of_nat n))"

definition optional_counter :: "string \<Rightarrow> nat \<Rightarrow> string list \<Rightarrow> u64 result" where
  "optional_counter msg i fs = (if length fs > i then parse_counter msg (fs ! i) else Inr 0)"

text \<open>The sum and the operand the code compares it with.\<close>

definition checked_sum :: "string \<Rightarrow> u64 \<Rightarrow> u64 \<Rightarrow> u64 result" where
  "checked_sum msg s operand = (if s < operand then Inl (ErrOther msg) else Inr s)"

definition cpu_totals :: "u64 \<Rightarrow> u64 \<Rightarrow> u64 \<Rightarrow> u64 \<Rightarrow> u64 \<Rightarrow> u64 \<Rightarrow> u64 \<Rightarrow> u64 \<Rightarrow> (u64 \<times> u64) result" where
  "cpu_totals user nice system idleVal iowait irq softirq steal =
     result_bind (checked_sum ''cpu idle counter overflow'' (idleVal + iowait) idleVal) (\<lambda>idleAll.
     result_bind (checked_sum ''cpu user/nice counter overflow'' (user + nice) user) (\<lambda>n1.
     result_bind (checked_sum ''cpu system counter overflow'' (n1 + system) system) (\<lambda>n2.
     result_bind (checked_sum ''cpu irq counter overflow'' (n2 + irq) irq) (\<lambda>n3.
     result_bind (checked_sum ''cpu softirq counter overflow'' (n3 + softirq) softirq) (\<lambda>n4.
     result_bind (checked_sum ''cpu steal counter overflow'' (n4 + steal) steal) (\<lambda>nonIdle.
     result_bind (checked_sum ''cpu total counter overflow'' (idleAll + nonIdle) idleAll) (\<lambda>totalVal.
       Inr (totalVal, idleAll))))))))"

definition readProcStatCPU :: "proc_file \<Rightarrow> (u64 \<times> u64) result" where
  "readProcStatCPU f =
     result_bind (readCPUStatFirstLine f maxCPUStatLineBytes) (\<lambda>line.
       if \<not> HasPrefix line ''cpu '' then Inl (ErrOther ''aggregate cpu line not found in /proc/stat'')
       else let fs = Fields line in
         if length fs < 5 then Inl (ErrOther ''malformed cpu line in /proc/stat: insufficient fields'')
         else
           result_bind (parse_counter ''invalid cpu user counter'' (fs ! 1)) (\<lambda>user.
           result_bind (parse_counter ''invalid cpu nice counter'' (fs ! 2)) (\<lambda>nice.
           result_bind (parse_counter ''invalid cpu system counter'' (fs ! 3)) (\<lambda>system.
           result_bind (parse_counter ''invalid cpu idle counter'' (fs ! 4)) (\<lambda>idleVal.
           result_bind (optional_counter ''invalid cpu iowait counter'' 5 fs) (\<lambda>iowait.
           result_bind (optional_counter ''invalid cpu irq counter'' 6 fs) (\<lambda>irq.
           result_bind (optional_counter ''invalid cpu softirq counter'' 7 fs) (\<lambda>softirq.
           result_bind (optional_counter ''invalid cpu steal counter'' 8 fs) (\<lambda>steal.
             cpu_totals user nice system idleVal iowait irq softirq steal)))))))))"

section \<open>Memory\<close>

text \<open>One \<^verbatim>\<open>Name: n kB\<close> line; \<open>least\<close> is the smallest value accepted.\<close>

definition meminfo_line :: "string \<Rightarrow> int \<Rightarrow> string \<Rightarrow> int result" where
  "meminfo_line name least line =
     (let fs = Fields line in
      if length fs \<noteq> 3 \<or> fs ! 0 \<noteq> name \<or> fs ! 2 \<noteq> ''kB'' then Inl (ErrOther ''malformed line in /proc/meminfo'')
      else case ParseInt (fs ! 1) of
        None \<Rightarrow> Inl (ErrOther ''invalid integer'')
      | Some kb \<Rightarrow>
        (if kb < least then Inl (ErrOther ''invalid value'')
         else if kb > MaxInt64 div 1024 then Inl (ErrOther ''value causes int64 overflow'')
         else Inr (wrap64 (kb * 1024))))"

definition meminfo_step :: "string \<Rightarrow> int option \<times> int option \<Rightarrow> go_error + int option \<times> int option" where
  "meminfo_step line acc =
     (if HasPrefix line ''MemTotal:'' then
        result_bind (meminfo_line ''MemTotal:'' 1 line) (\<lambda>b. Inr (Some b, snd acc))
      else if HasPrefix line ''MemAvailable:'' then
        result_bind (meminfo_line ''MemAvailable:'' 0 line) (\<lambda>b. Inr (fst acc, Some b))
      else Inr acc)"

definition readProcMeminfo :: "proc_file \<Rightarrow> (int \<times> int \<times> int) result" where
  "readProcMeminfo f =
     result_bind (readBoundedFile f maxMeminfoBytes) (\<lambda>content.
     result_bind (for_each meminfo_step (fst (scan_lines content)) (None, None)) (\<lambda>acc.
       if snd (scan_lines content) then Inl (ErrOther ''token too long'')
       else case fst acc of
         None \<Rightarrow> Inl (ErrOther ''MemTotal not found in /proc/meminfo'')
       | Some totalBytes \<Rightarrow>
         (case snd acc of
            None \<Rightarrow> Inl (ErrOther ''MemAvailable not found in /proc/meminfo'')
          | Some availBytes \<Rightarrow>
            (if availBytes > totalBytes then Inl (ErrOther ''MemAvailable exceeds MemTotal in /proc/meminfo'')
             else Inr (totalBytes, wrap64 (totalBytes - availBytes), availBytes)))))"

section \<open>Load and uptime\<close>

text \<open>
  A \<^verbatim>\<open>float64\<close> is not a number, infinite, or a rational. \<open>parse_float\<close> is \<^verbatim>\<open>strconv.ParseFloat\<close> and \<open>round_float\<close> rounds a
  product to the nearest \<^verbatim>\<open>float64\<close>; the unsigned tokens that get that far have no negative value.
\<close>

datatype float64 = NaN | Infinite | Finite rat

definition unsigned_float ::
  "(string \<Rightarrow> string) \<Rightarrow> (string \<Rightarrow> float64 option) \<Rightarrow> rat \<Rightarrow> string \<Rightarrow> string \<Rightarrow> rat result" where
  "unsigned_float lower parse_float bound what s =
     (if Contains s ''-'' \<or> Contains s ''+'' then Inl (ErrOther (''signed '' @ what))
      else if Contains (strings_ToLower lower s) ''nan'' \<or> Contains (strings_ToLower lower s) ''inf'' then
        Inl (ErrOther (''non-finite '' @ what))
      else case parse_float s of
        None \<Rightarrow> Inl (ErrOther (''invalid format: '' @ what))
      | Some (Finite f) \<Rightarrow>
          if f < 0 \<or> f > bound then Inl (ErrOther (what @ '' out of bounds'')) else Inr f
      | Some _ \<Rightarrow> Inl (ErrOther (what @ '' out of bounds'')))"

text \<open>\<^verbatim>\<open>math.Round\<close> rounds halves away from zero; the argument is not negative here.\<close>

definition parseLoadMilli ::
  "(string \<Rightarrow> string) \<Rightarrow> (string \<Rightarrow> float64 option) \<Rightarrow> (rat \<Rightarrow> rat) \<Rightarrow> string \<Rightarrow> int result" where
  "parseLoadMilli lower parse_float round_float s =
     result_bind (unsigned_float lower parse_float 9223372036854000 ''load average'' s) (\<lambda>f.
       let milli = wrap64 \<lfloor>round_float (f * 1000) + 1 / 2\<rfloor>
       in if milli < 0 then Inl (ErrOther ''negative load average'') else Inr milli)"

definition readProcLoadavg ::
  "(string \<Rightarrow> string) \<Rightarrow> (string \<Rightarrow> float64 option) \<Rightarrow> (rat \<Rightarrow> rat) \<Rightarrow> proc_file \<Rightarrow> (int \<times> int \<times> int) result" where
  "readProcLoadavg lower parse_float round_float f =
     result_bind (readBoundedFile f maxLoadavgBytes) (\<lambda>content.
       let fs = Fields content in
       if length fs < 3 then Inl (ErrOther ''insufficient fields in /proc/loadavg'')
       else
         result_bind (with_msg ''invalid load 1m'' (parseLoadMilli lower parse_float round_float (fs ! 0))) (\<lambda>l1.
         result_bind (with_msg ''invalid load 5m'' (parseLoadMilli lower parse_float round_float (fs ! 1))) (\<lambda>l5.
         result_bind (with_msg ''invalid load 15m'' (parseLoadMilli lower parse_float round_float (fs ! 2))) (\<lambda>l15.
           Inr (l1, l5, l15)))))"

definition readProcUptime ::
  "(string \<Rightarrow> string) \<Rightarrow> (string \<Rightarrow> float64 option) \<Rightarrow> proc_file \<Rightarrow> int result" where
  "readProcUptime lower parse_float f =
     result_bind (readBoundedFile f maxUptimeBytes) (\<lambda>content.
       case Fields content of
         [] \<Rightarrow> Inl (ErrOther ''empty /proc/uptime'')
       | token # _ \<Rightarrow>
         result_bind (unsigned_float lower parse_float 9223372036854774784 ''uptime'' token) (\<lambda>v.
           let sec = wrap64 \<lfloor>v\<rfloor> in if sec < 0 then Inl (ErrOther ''negative uptime'') else Inr sec))"

section \<open>The root file system\<close>

text \<open>The answer of \<^verbatim>\<open>statfs\<close>: blocks, free, available, block size.\<close>

definition readRootFS :: "(u64 \<times> u64 \<times> u64 \<times> u64) result \<Rightarrow> (int \<times> int \<times> int) result" where
  "readRootFS statfs =
     result_bind (with_msg ''statfs failed'' statfs) (\<lambda>(blocks, bfree, bavail, bsize).
       if bsize = 0 then Inl (ErrOther ''statfs returned zero block size'')
       else if blocks = 0 then Inl (ErrOther ''statfs returned zero total blocks'')
       else if blocks > word_of_int MaxInt64 div bsize then Inl (ErrOther ''statfs total blocks overflow'')
       else if bfree > blocks then Inl (ErrOther ''statfs free blocks exceed total blocks'')
       else if bavail > bfree then Inl (ErrOther ''statfs available blocks exceed free blocks'')
       else let totalBytes = sint (blocks * bsize);
                freeBytes = sint (bfree * bsize);
                availableBytes = sint (bavail * bsize);
                usedBytes = wrap64 (totalBytes - freeBytes)
         in if totalBytes \<le> 0 \<or> usedBytes < 0 \<or> usedBytes > totalBytes \<or> availableBytes < 0
               \<or> availableBytes > wrap64 (totalBytes - usedBytes) then
              Inl (ErrOther ''invalid filesystem byte calculations'')
            else Inr (totalBytes, usedBytes, availableBytes))"

section \<open>Network counters\<close>

definition netdev_step :: "string \<Rightarrow> u64 \<times> u64 \<Rightarrow> go_error + u64 \<times> u64" where
  "netdev_step line acc =
     (case Cut (CHR '':'') line of
        None \<Rightarrow> Inr acc
      | Some (name, after) \<Rightarrow>
        (if TrimSpace name = ''lo'' then Inr acc
         else let fs = Fields (TrimSpace after) in
           if length fs < 9 then Inl (ErrOther ''malformed network statistics line'')
           else
             result_bind (parse_counter ''invalid network receive counter'' (fs ! 0)) (\<lambda>rx.
             result_bind (parse_counter ''invalid network transmit counter'' (fs ! 8)) (\<lambda>tx.
               if rx > word_of_int MaxInt64 - fst acc \<or> tx > word_of_int MaxInt64 - snd acc then
                 Inl (ErrOther ''network byte counter overflow'')
               else Inr (fst acc + rx, snd acc + tx)))))"

definition readProcNetDev :: "proc_file \<Rightarrow> (int \<times> int) result" where
  "readProcNetDev f =
     result_bind (readBoundedFile f maxNetDevBytes) (\<lambda>content.
     result_bind (for_each netdev_step (fst (scan_lines content)) (0, 0)) (\<lambda>acc.
       if snd (scan_lines content) then Inl (ErrOther ''token too long'')
       else Inr (sint (fst acc), sint (snd acc))))"

section \<open>The sampler\<close>

record linuxSampler =
  hasCPUBaseline :: bool
  lastCPUTotal :: u64
  lastCPUIdle :: u64
  lastCPUTime :: time

definition newLinuxSampler :: linuxSampler where
  "newLinuxSampler = \<lparr>hasCPUBaseline = False, lastCPUTotal = 0, lastCPUIdle = 0, lastCPUTime = 0\<rparr>"

text \<open>Divided in 64 bits while the product fits, in unbounded integers otherwise.\<close>

definition cpuBasisPoints :: "u64 \<Rightarrow> u64 \<Rightarrow> int" where
  "cpuBasisPoints busyDelta totalDelta =
     (let raw = (if busyDelta > (- 1) div 10000
          then wrap64 (uint busyDelta * 10000 div uint totalDelta)
          else sint ((busyDelta * 10000) div totalDelta));
          low = (if raw < 0 then 0 else raw)
      in if low > 10000 then 10000 else low)"

text \<open>What the readers of the other files return when the sampler gets to them.\<close>

record readings =
  rd_meminfo :: "(int \<times> int \<times> int) result"
  rd_loadavg :: "(int \<times> int \<times> int) result"
  rd_rootfs :: "(int \<times> int \<times> int) result"
  rd_netdev :: "(int \<times> int) result"
  rd_uptime :: "int result"

definition telemetry_report :: "int \<Rightarrow> int \<Rightarrow> readings \<Rightarrow> TelemetryRequest result" where
  "telemetry_report cpu window rd =
     result_bind (rd_meminfo rd) (\<lambda>(memTotal, memUsed, memAvail).
     result_bind (rd_loadavg rd) (\<lambda>(load1, load5, load15).
     result_bind (rd_rootfs rd) (\<lambda>(fsTotal, fsUsed, fsAvail).
     result_bind (rd_netdev rd) (\<lambda>(netRX, netTX).
     result_bind (rd_uptime rd) (\<lambda>uptimeSec.
       let req = \<lparr>tr_ProtocolVersion = CurrentVersion, tr_CPUUsageBasisPoints = cpu,
             tr_MemoryTotalBytes = memTotal, tr_MemoryUsedBytes = memUsed, tr_MemoryAvailableBytes = memAvail,
             tr_Load1mMilli = load1, tr_Load5mMilli = load5, tr_Load15mMilli = load15,
             tr_RootFilesystemTotalBytes = fsTotal, tr_RootFilesystemUsedBytes = fsUsed,
             tr_RootFilesystemAvailableBytes = fsAvail, tr_NetworkReceiveBytesTotal = netRX,
             tr_NetworkTransmitBytesTotal = netTX, tr_UptimeSeconds = uptimeSec, tr_SampleWindowMS = window\<rparr>
       in case ValidateTelemetryRequest (Some req) of
            Inl err \<Rightarrow> Inl (ErrWrap ''local telemetry validation failed'' err)
          | Inr _ \<Rightarrow> Inr req)))))"

text \<open>\<^verbatim>\<open>now.Sub\<close> saturates; a saturated difference is outside the window as the exact one is.\<close>

definition linuxSampler_Sample ::
  "(u64 \<times> u64) result \<Rightarrow> readings \<Rightarrow> time \<Rightarrow> linuxSampler
     \<Rightarrow> (TelemetryRequest option \<times> bool) result \<times> linuxSampler" where
  "linuxSampler_Sample stat rd now s =
     (case stat of
        Inl err \<Rightarrow> (Inl err, s)
      | Inr (curTotal, curIdle) \<Rightarrow>
        (let rebased = s\<lparr>lastCPUTotal := curTotal, lastCPUIdle := curIdle, lastCPUTime := now\<rparr> in
         if \<not> hasCPUBaseline s then (Inr (None, False), rebased\<lparr>hasCPUBaseline := True\<rparr>)
         else let sampleWindowMS = (now - lastCPUTime s) sdiv 1000000 in
           if sampleWindowMS < 1 \<or> sampleWindowMS > 300000 \<or> curTotal < lastCPUTotal s
             \<or> curIdle < lastCPUIdle s \<or> curTotal = lastCPUTotal s then (Inr (None, False), rebased)
           else let totalDelta = curTotal - lastCPUTotal s; idleDelta = curIdle - lastCPUIdle s in
             if idleDelta > totalDelta then (Inr (None, False), rebased)
             else
               (case telemetry_report (cpuBasisPoints (totalDelta - idleDelta) totalDelta) sampleWindowMS rd of
                  Inl err \<Rightarrow> (Inl err, rebased)
                | Inr req \<Rightarrow> (Inr (Some req, True), rebased))))"

end
