(* ===== verification/Agent_Inventory.thy ===== *)
theory Agent_Inventory
  imports Agent_Collectors
begin

text \<open>
  The inventory collector of \<^verbatim>\<open>src/internal/agent/inventory.go\<close>: the os-release format, the kernel
  release, the memory total, and the report made of them.
\<close>

definition maxOSReleaseBytes :: nat where "maxOSReleaseBytes = 64 * 1024"
definition maxKernelReleaseBytes :: nat where "maxKernelReleaseBytes = 4 * 1024"

section \<open>os-release\<close>

text \<open>What may follow a closing quote: nothing, or a comment.\<close>

definition comment_only :: "string \<Rightarrow> bool" where
  "comment_only rest \<longleftrightarrow> TrimSpace rest = [] \<or> HasPrefix (TrimSpace rest) ''#''"

definition unclosed :: "string \<Rightarrow> go_error" where
  "unclosed q = ErrOther (''unclosed '' @ q @ '' quote in os-release value'')"

definition trailing :: go_error where
  "trailing = ErrOther ''trailing characters after closing quote in os-release value''"

text \<open>The loop over the bytes after an opening double quote: what was written so far, and whether the last byte was a backslash.\<close>

fun double_quoted :: "string \<Rightarrow> bool \<Rightarrow> string \<Rightarrow> string result" where
  "double_quoted sb escaped [] = Inl (unclosed ''double'')"
| "double_quoted sb escaped (b # rest) =
     (if escaped then
        double_quoted (sb @ (if b = CHR 0x22 then [CHR 0x22] else if b = CHR 0x5C then [CHR 0x5C] else [CHR 0x5C, b]))
          False rest
      else if b = CHR 0x5C then double_quoted sb True rest
      else if b = CHR 0x22 then (if comment_only rest then Inr sb else Inl trailing)
      else double_quoted (sb @ [b]) False rest)"

definition parseOSReleaseValue :: "string \<Rightarrow> string result" where
  "parseOSReleaseValue raw0 =
     (let raw = TrimSpace raw0 in
      if raw = [] then Inr []
      else if HasPrefix raw [CHR 0x22] then
        (if length raw < 2 then Inl (unclosed ''double'') else double_quoted [] False (tl raw))
      else if HasPrefix raw [CHR 0x27] then
        (if length raw < 2 then Inl (unclosed ''single'')
         else case Cut (CHR 0x27) (tl raw) of
           None \<Rightarrow> Inl (unclosed ''single'')
         | Some (content, rest) \<Rightarrow> if comment_only rest then Inr content else Inl trailing)
      else case Cut (CHR ''#'') raw of
        None \<Rightarrow> Inr raw
      | Some (before, _) \<Rightarrow> Inr (TrimSpace before))"

record os_release =
  osID :: string
  osName :: string
  osVersion :: string
  versionFallback :: string

definition os_release_step :: "(string \<Rightarrow> string) \<Rightarrow> string \<Rightarrow> os_release \<Rightarrow> go_error + os_release" where
  "os_release_step lower text acc =
     (let line = TrimSpace text in
      if line = [] \<or> HasPrefix line ''#'' then Inr acc
      else case Cut (CHR ''='') line of
        None \<Rightarrow> Inr acc
      | Some (key0, val) \<Rightarrow>
        (let key = TrimSpace key0 in
         result_bind (with_msg ''failed to parse os-release key'' (parseOSReleaseValue val)) (\<lambda>parsedVal.
           Inr (if key = ''ID'' then acc\<lparr>osID := strings_ToLower lower (TrimSpace parsedVal)\<rparr>
             else if key = ''NAME'' then acc\<lparr>osName := TrimSpace parsedVal\<rparr>
             else if key = ''VERSION_ID'' then acc\<lparr>osVersion := TrimSpace parsedVal\<rparr>
             else if key = ''VERSION'' then acc\<lparr>versionFallback := TrimSpace parsedVal\<rparr>
             else acc))))"

definition parseOSRelease :: "(string \<Rightarrow> string) \<Rightarrow> bytes \<Rightarrow> (string \<times> string \<times> string) result" where
  "parseOSRelease lower content =
     result_bind (for_each (os_release_step lower) (fst (scan_lines content))
         \<lparr>osID = [], osName = [], osVersion = [], versionFallback = []\<rparr>) (\<lambda>acc.
       if snd (scan_lines content) then Inl (ErrOther ''token too long'')
       else let version = (if osVersion acc = [] then versionFallback acc else osVersion acc) in
         if osID acc = [] then Inl (ErrOther ''os-release missing ID field'')
         else if osName acc = [] then Inl (ErrOther ''os-release missing NAME field'')
         else Inr (osID acc, osName acc, version))"

text \<open>The files in the order of the paths; a missing one is skipped, any other error ends the search.\<close>

fun readOSRelease :: "(string \<Rightarrow> string) \<Rightarrow> proc_file list \<Rightarrow> (string \<times> string \<times> string) result" where
  "readOSRelease lower [] = Inl (ErrOther ''neither /etc/os-release nor fallback found'')"
| "readOSRelease lower (f # fs) =
     (case readBoundedFile f maxOSReleaseBytes of
        Inr content \<Rightarrow> parseOSRelease lower content
      | Inl err \<Rightarrow> if errors_Is err ErrNotExist then readOSRelease lower fs else Inl err)"

section \<open>Kernel and memory\<close>

definition readKernelRelease :: "proc_file \<Rightarrow> string result" where
  "readKernelRelease f =
     result_bind (readBoundedFile f maxKernelReleaseBytes) (\<lambda>content.
       let release = TrimSpace content in
       if release = [] then Inl (ErrOther ''kernel release is empty'') else Inr release)"

text \<open>The loop returns at the first \<^verbatim>\<open>MemTotal:\<close> line; \<open>too_long\<close> is what \<^verbatim>\<open>Scanner.Err\<close> reports after the last line.\<close>

fun first_MemTotal :: "bool \<Rightarrow> string list \<Rightarrow> int result" where
  "first_MemTotal too_long [] =
     Inl (ErrOther (if too_long then ''token too long'' else ''MemTotal not found in meminfo''))"
| "first_MemTotal too_long (text # rest) =
     (let line = TrimSpace text in
      if HasPrefix line ''MemTotal:'' then
        (let fs = Fields line in
         if length fs \<noteq> 3 then Inl (ErrOther ''invalid MemTotal line format'')
         else if fs ! 2 \<noteq> ''kB'' then Inl (ErrOther ''invalid MemTotal unit'')
         else case ParseInt (fs ! 1) of
           None \<Rightarrow> Inl (ErrOther ''invalid MemTotal integer'')
         | Some kb \<Rightarrow>
           (if kb \<le> 0 then Inl (ErrOther ''invalid MemTotal value: must be positive'')
            else if kb > MaxInt64 div 1024 then Inl (ErrOther ''MemTotal value causes int64 overflow'')
            else Inr (wrap64 (kb * 1024))))
      else first_MemTotal too_long rest)"

definition parseMeminfoTotal :: "bytes \<Rightarrow> int result" where
  "parseMeminfoTotal content = first_MemTotal (snd (scan_lines content)) (fst (scan_lines content))"

definition readMeminfoTotal :: "proc_file \<Rightarrow> int result" where
  "readMeminfoTotal f = result_bind (readBoundedFile f maxMeminfoBytes) parseMeminfoTotal"

section \<open>The report\<close>

record inventoryCollectorConfig =
  ic_osRelease :: "proc_file list"
  ic_kernelRelease :: proc_file
  ic_meminfo :: proc_file
  ic_hostname :: "string result"
  ic_numCPU :: int
  ic_arch :: string

definition collectInventoryWithConfig ::
  "(string \<Rightarrow> string) \<Rightarrow> inventoryCollectorConfig \<Rightarrow> InventoryRequest result" where
  "collectInventoryWithConfig lower cfg =
     result_bind (with_msg ''failed to collect hostname'' (ic_hostname cfg)) (\<lambda>hostname0.
       if TrimSpace hostname0 = [] then Inl (ErrOther ''hostname is empty'')
       else let hostname = TrimSpace hostname0 in
         result_bind (with_msg ''failed to read os-release'' (readOSRelease lower (ic_osRelease cfg)))
           (\<lambda>(osID, osName, osVersion).
         result_bind (with_msg ''failed to read kernel release'' (readKernelRelease (ic_kernelRelease cfg)))
           (\<lambda>kernelRelease.
         result_bind (with_msg ''failed to read memory total'' (readMeminfoTotal (ic_meminfo cfg))) (\<lambda>memBytes.
           if ic_numCPU cfg \<le> 0 then Inl (ErrOther ''invalid cpu count: <= 0'')
           else let arch = TrimSpace (ic_arch cfg) in
             if arch = [] then Inl (ErrOther ''architecture is empty'')
             else let req = \<lparr>ir_ProtocolVersion = CurrentVersion, ir_Hostname = hostname, ir_OSID = osID,
                 ir_OSName = osName, ir_OSVersion = osVersion, ir_KernelRelease = kernelRelease,
                 ir_Architecture = arch, ir_CPULogicalCores = ic_numCPU cfg, ir_MemoryTotalBytes = memBytes\<rparr>
               in case ValidateInventoryRequest (Some req) of
                    Inl err \<Rightarrow> Inl (ErrWrap ''collected inventory violates wire invariants'' err)
                  | Inr _ \<Rightarrow> Inr req))))"

end
