(* ===== verification/Collector_Properties.thy ===== *)
theory Collector_Properties
  imports Agent_Inventory Delivery
begin

text \<open>
  What the collectors guarantee: counters that would wrap around are refused and never reported,
  usage figures are exact, and whatever they report is a message the controller accepts.
\<close>

section \<open>Sums of counters\<close>

lemma checked_sum_add:
  fixes a b :: u64
  shows "checked_sum msg (a + b) a = Inr s \<longleftrightarrow> s = a + b \<and> unat a + unat b < 2 ^ 64"
    and "checked_sum msg (a + b) b = Inr s \<longleftrightarrow> s = a + b \<and> unat a + unat b < 2 ^ 64"
proof -
  have "a \<le> a + b \<longleftrightarrow> unat a + unat b < 2 ^ 64" using no_olen_add_nat [of a b] by simp
  moreover have "b \<le> b + a \<longleftrightarrow> unat b + unat a < 2 ^ 64" using no_olen_add_nat [of b a] by simp
  then have "b \<le> a + b \<longleftrightarrow> unat a + unat b < 2 ^ 64"
    by (simp only: add.commute [of b a] add.commute [of "unat b" "unat a"])
  ultimately have "a + b < a \<longleftrightarrow> \<not> unat a + unat b < 2 ^ 64" "a + b < b \<longleftrightarrow> \<not> unat a + unat b < 2 ^ 64"
    by (metis not_le)+
  then show "checked_sum msg (a + b) a = Inr s \<longleftrightarrow> s = a + b \<and> unat a + unat b < 2 ^ 64"
    "checked_sum msg (a + b) b = Inr s \<longleftrightarrow> s = a + b \<and> unat a + unat b < 2 ^ 64"
    unfolding checked_sum_def by (simp_all only: if_split) auto
qed

lemma unat_sum: "unat (a :: u64) + unat b < 2 ^ 64 \<Longrightarrow> unat (a + b) = unat a + unat b"
  using unat_add_lem [of a b] by simp

lemma cpu_totals_ok:
  "cpu_totals user nice system idleVal iowait irq softirq steal = Inr (t, i) \<longleftrightarrow>
     unat user + unat nice + unat system + unat idleVal + unat iowait + unat irq + unat softirq + unat steal < 2 ^ 64
     \<and> unat t = unat user + unat nice + unat system + unat idleVal + unat iowait + unat irq + unat softirq + unat steal
     \<and> unat i = unat idleVal + unat iowait" (is "?lhs \<longleftrightarrow> ?rhs")
proof
  assume ?lhs
  then have sums: "unat idleVal + unat iowait < 2 ^ 64" "unat user + unat nice < 2 ^ 64"
    "unat (user + nice) + unat system < 2 ^ 64" "unat (user + nice + system) + unat irq < 2 ^ 64"
    "unat (user + nice + system + irq) + unat softirq < 2 ^ 64"
    "unat (user + nice + system + irq + softirq) + unat steal < 2 ^ 64"
    "unat (idleVal + iowait) + unat (user + nice + system + irq + softirq + steal) < 2 ^ 64"
    and ti: "t = idleVal + iowait + (user + nice + system + irq + softirq + steal)" "i = idleVal + iowait"
    unfolding cpu_totals_def result_bind_ok checked_sum_add by blast+
  note exact = sums [THEN unat_sum]
  show ?rhs using sums(7) exact unfolding ti by simp
next
  assume rhs: ?rhs
  have sums: "unat idleVal + unat iowait < 2 ^ 64" "unat user + unat nice < 2 ^ 64" using rhs by simp_all
  have 3: "unat (user + nice) + unat system < 2 ^ 64" using rhs unat_sum [OF sums(2)] by simp
  have 4: "unat (user + nice + system) + unat irq < 2 ^ 64" using rhs unat_sum [OF sums(2)] unat_sum [OF 3] by simp
  have 5: "unat (user + nice + system + irq) + unat softirq < 2 ^ 64"
    using rhs unat_sum [OF sums(2)] unat_sum [OF 3] unat_sum [OF 4] by simp
  have 6: "unat (user + nice + system + irq + softirq) + unat steal < 2 ^ 64"
    using rhs unat_sum [OF sums(2)] unat_sum [OF 3] unat_sum [OF 4] unat_sum [OF 5] by simp
  note exact = unat_sum [OF sums(1)] unat_sum [OF sums(2)] unat_sum [OF 3] unat_sum [OF 4] unat_sum [OF 5] unat_sum [OF 6]
  have 7: "unat (idleVal + iowait) + unat (user + nice + system + irq + softirq + steal) < 2 ^ 64"
    using rhs exact by simp
  have "unat t = unat (idleVal + iowait + (user + nice + system + irq + softirq + steal))"
    "unat i = unat (idleVal + iowait)"
    using rhs exact unat_sum [OF 7] by simp_all
  then have "t = idleVal + iowait + (user + nice + system + irq + softirq + steal)" "i = idleVal + iowait"
    by (simp_all only: word_unat_eq_iff)
  then show ?lhs using sums 3 4 5 6 7 by (simp add: cpu_totals_def checked_sum_add)
qed

section \<open>Usage in basis points\<close>

lemma sint_small: "uint (x :: u64) < 2 ^ 63 \<Longrightarrow> sint x = uint x"
  using signed_take_bit_int_eq_self [of 63 "uint x"] uint_ge_0 [of x] by (simp add: sint_uint)

lemma uint_mult_small: "uint (a :: u64) * uint b < 2 ^ 64 \<Longrightarrow> uint (a * b) = uint a * uint b"
  by (simp add: uint_word_ariths)

lemma cpuBasisPoints_exact:
  assumes "busy \<le> tot" and "0 < tot"
  shows "cpuBasisPoints busy tot = uint busy * 10000 div uint tot"
    and "0 \<le> cpuBasisPoints busy tot" and "cpuBasisPoints busy tot \<le> 10000"
proof -
  have le: "uint busy \<le> uint tot" and pos: "0 < uint tot" using assms by (simp_all add: word_le_def word_less_def)
  have "uint busy * 10000 div uint tot \<le> uint tot * 10000 div uint tot"
    by (rule zdiv_mono1) (use le pos in simp_all)
  then have hi: "uint busy * 10000 div uint tot \<le> 10000" using pos by simp
  have lo: "0 \<le> uint busy * 10000 div uint tot" using pos by (simp add: pos_imp_zdiv_nonneg_iff)
  have "sint ((busy * 10000) div tot) = uint busy * 10000 div uint tot"
    if "\<not> busy > (- 1) div 10000"
  proof -
    have "uint ((- 1 :: u64) div 10000) = 1844674407370955" by (simp add: uint_div)
    then have "uint busy \<le> 1844674407370955" using that by (metis word_le_def not_le)
    then have "uint (busy * 10000) = uint busy * 10000" using uint_mult_small [of busy 10000] by simp
    then have "uint ((busy * 10000) div tot) = uint busy * 10000 div uint tot" by (simp add: uint_div)
    with hi show ?thesis using sint_small [of "(busy * 10000) div tot"] by simp
  qed
  moreover have "wrap64 (uint busy * 10000 div uint tot) = uint busy * 10000 div uint tot"
    using lo hi by (intro wrap64_id) (simp add: in_int64_def)
  ultimately show eq: "cpuBasisPoints busy tot = uint busy * 10000 div uint tot"
    using lo hi by (simp add: cpuBasisPoints_def Let_def)
  show "0 \<le> cpuBasisPoints busy tot" "cpuBasisPoints busy tot \<le> 10000" using lo hi by (simp_all add: eq)
qed

section \<open>File system sizes\<close>

lemma readRootFS_exact:
  assumes "readRootFS (Inr (nblocks, bfree, bavail, bsize)) = Inr (t, u, a)"
  shows "t = uint nblocks * uint bsize \<and> u = (uint nblocks - uint bfree) * uint bsize \<and> a = uint bavail * uint bsize"
proof -
  have guard: "\<not> nblocks > word_of_int MaxInt64 div bsize" "bfree \<le> nblocks" "bavail \<le> bfree" "bsize \<noteq> 0"
    and t: "t = sint (nblocks * bsize)" and u: "u = wrap64 (sint (nblocks * bsize) - sint (bfree * bsize))"
    and a: "a = sint (bavail * bsize)"
    using assms by (auto simp: readRootFS_def with_msg_def Let_def not_less split: if_splits)
  have "uint (word_of_int MaxInt64 div bsize) = MaxInt64 div uint bsize"
    by (simp add: uint_div MaxInt64_def)
  then have le: "uint nblocks \<le> MaxInt64 div uint bsize" using guard(1) by (metis word_le_def not_le)
  have pos: "0 < uint bsize" using guard(4) by (metis uint_0_iff uint_ge_0 order_le_less)
  have "MaxInt64 div uint bsize * uint bsize \<le> MaxInt64"
    using pos_mod_sign [OF pos, of MaxInt64] div_mult_mod_eq [of MaxInt64 "uint bsize"] by linarith
  then have big: "uint nblocks * uint bsize \<le> MaxInt64"
    using mult_right_mono [OF le, of "uint bsize"] pos by linarith
  have exact: "sint (x * bsize) = uint x * uint bsize" "uint x * uint bsize \<le> MaxInt64" if "x \<le> nblocks" for x
  proof -
    have "uint x * uint bsize \<le> uint nblocks * uint bsize"
      using that pos by (intro mult_right_mono) (simp_all add: word_le_def)
    with big show le: "uint x * uint bsize \<le> MaxInt64" by linarith
    then have "uint (x * bsize) = uint x * uint bsize" by (intro uint_mult_small) (simp add: MaxInt64_def)
    with le show "sint (x * bsize) = uint x * uint bsize" using sint_small [of "x * bsize"] by (simp add: MaxInt64_def)
  qed
  have free: "uint bfree * uint bsize \<le> uint nblocks * uint bsize"
    using guard(2) pos by (intro mult_right_mono) (simp_all add: word_le_def)
  have "wrap64 (uint nblocks * uint bsize - uint bfree * uint bsize) = uint nblocks * uint bsize - uint bfree * uint bsize"
  proof (rule wrap64_id)
    have "0 \<le> uint bfree * uint bsize" by simp
    with big free show "in_int64 (uint nblocks * uint bsize - uint bfree * uint bsize)"
      unfolding in_int64_def MaxInt64_def by linarith
  qed
  then show ?thesis
    using t u a exact(1) [of nblocks] exact(1) [OF guard(2)] exact(1) [of bavail] guard(2,3)
    by (simp add: left_diff_distrib)
qed

section \<open>Reports are acceptable messages\<close>

lemma in_int64_sint [simp]: "in_int64 (sint (x :: u64))"
  using sint_greater_eq [of x] sint_less [of x] by (simp add: in_int64_def)

text \<open>All readers together, as the sampler calls them.\<close>

definition read_all ::
  "(string \<Rightarrow> string) \<Rightarrow> (string \<Rightarrow> float64 option) \<Rightarrow> (rat \<Rightarrow> rat) \<Rightarrow> proc_file \<Rightarrow> proc_file \<Rightarrow> proc_file \<Rightarrow> proc_file
     \<Rightarrow> (u64 \<times> u64 \<times> u64 \<times> u64) result \<Rightarrow> readings" where
  "read_all lower parse_float round_float meminfo loadavg netdev uptime statfs =
     \<lparr>rd_meminfo = readProcMeminfo meminfo, rd_loadavg = readProcLoadavg lower parse_float round_float loadavg,
      rd_rootfs = readRootFS statfs, rd_netdev = readProcNetDev netdev,
      rd_uptime = readProcUptime lower parse_float uptime\<rparr>"

lemma readRootFS_int64: "readRootFS st = Inr (t, u, a) \<Longrightarrow> in_int64 t \<and> in_int64 u \<and> in_int64 a"
  by (cases st) (auto simp: readRootFS_def with_msg_def Let_def wrap64_range split: if_splits prod.splits)

lemma readProcNetDev_int64: "readProcNetDev f = Inr (rx, tx) \<Longrightarrow> in_int64 rx \<and> in_int64 tx"
  by (auto simp: readProcNetDev_def split: if_splits)

lemma parseLoadMilli_int64: "parseLoadMilli lower pf rnd s = Inr l \<Longrightarrow> in_int64 l"
  by (auto simp: parseLoadMilli_def Let_def wrap64_range split: if_splits)

lemma readProcLoadavg_int64:
  "readProcLoadavg lower pf rnd f = Inr (l1, l5, l15) \<Longrightarrow> in_int64 l1 \<and> in_int64 l5 \<and> in_int64 l15"
  by (auto simp: readProcLoadavg_def Let_def parseLoadMilli_int64 split: if_splits)

lemma readProcUptime_int64: "readProcUptime lower pf f = Inr u \<Longrightarrow> in_int64 u"
proof -
  assume a: "readProcUptime lower pf f = Inr u"
  then obtain content where c: "readBoundedFile f maxUptimeBytes = Inr content"
    by (auto simp: readProcUptime_def)
  show ?thesis
    using a c by (cases "Fields content") (auto simp: readProcUptime_def Let_def wrap64_range split: if_splits)
qed

lemma meminfo_line_int64: "meminfo_line n l x = Inr b \<Longrightarrow> in_int64 b"
  by (auto simp: meminfo_line_def Let_def wrap64_range split: if_splits option.splits)

lemma readProcMeminfo_int64:
  assumes "readProcMeminfo f = Inr (t, u, a)"
  shows "in_int64 t \<and> in_int64 u \<and> in_int64 a"
proof -
  obtain content acc where acc: "for_each meminfo_step (fst (scan_lines content)) (None, None) = Inr acc"
    and r: "fst acc = Some t" "snd acc = Some a" "u = wrap64 (t - a)"
    using assms by (auto simp: readProcMeminfo_def split: if_splits option.splits)
  have "pred_option in_int64 (fst acc) \<and> pred_option in_int64 (snd acc)"
    using acc by (rule for_each_invariant)
      (auto simp: meminfo_step_def split: if_splits dest: meminfo_line_int64)
  then show ?thesis using r by (simp add: wrap64_range)
qed

lemma validated [simp]:
  "(case v of Inl e \<Rightarrow> Inl (ErrWrap m e) | Inr u \<Rightarrow> Inr r) = Inr y \<longleftrightarrow> v = Inr () \<and> y = r"
  by (auto split: sum.splits)

lemma readings_int64:
  assumes "telemetry_report cpu window (read_all lower pf rnd meminfo loadavg netdev uptime statfs) = Inr req"
    and "in_int64 cpu" and "in_int64 window"
  shows "TelemetryRequest_fits req" and "ValidateTelemetryRequest (Some req) = Inr ()"
    and "tr_ProtocolVersion req = CurrentVersion" and "tr_CPUUsageBasisPoints req = cpu"
    and "tr_SampleWindowMS req = window"
  using assms
  by (auto simp: telemetry_report_def read_all_def Let_def TelemetryRequest_fits_def
      dest!: readProcMeminfo_int64 readProcLoadavg_int64 readRootFS_int64 readProcNetDev_int64 readProcUptime_int64)

lemma Sample_some:
  assumes "linuxSampler_Sample stat rd now s = (Inr (Some req, ready), s')"
  obtains curTotal curIdle where "stat = Inr (curTotal, curIdle)" "hasCPUBaseline s" "ready"
    "lastCPUTotal s < curTotal" "lastCPUIdle s \<le> curIdle"
    "curIdle - lastCPUIdle s \<le> curTotal - lastCPUTotal s"
    "1 \<le> (now - lastCPUTime s) sdiv 1000000" "(now - lastCPUTime s) sdiv 1000000 \<le> 300000"
    "telemetry_report (cpuBasisPoints (curTotal - lastCPUTotal s - (curIdle - lastCPUIdle s)) (curTotal - lastCPUTotal s))
       ((now - lastCPUTime s) sdiv 1000000) rd = Inr req"
  using assms
  by (auto simp: linuxSampler_Sample_def Let_def not_less intro!: that split: sum.splits prod.splits if_splits)

section \<open>The properties\<close>

text \<open>The \<open>k\<close>-th number of a line, zero where the line has none.\<close>

definition counter :: "string list \<Rightarrow> nat \<Rightarrow> nat" where
  "counter fs k = (if k < length fs then (case ParseUint (fs ! k) of Some n \<Rightarrow> n | None \<Rightarrow> 0) else 0)"

lemma parse_counter_ok: "parse_counter m x = Inr w \<Longrightarrow> (\<exists>n. ParseUint x = Some n \<and> unat w = n)"
  using ParseUint_bound [of x] by (auto simp: parse_counter_def unat_of_nat split: option.splits)

lemma counter_mandatory: "k < length fs \<Longrightarrow> parse_counter m (fs ! k) = Inr w \<Longrightarrow> unat w = counter fs k"
  using parse_counter_ok [of m "fs ! k" w] by (auto simp: counter_def)

lemma counter_optional: "optional_counter m k fs = Inr w \<Longrightarrow> unat w = counter fs k"
  using counter_mandatory [of k fs m w] by (auto simp: optional_counter_def counter_def split: if_splits)

text \<open>
  C29. CPU counters never wrap. When \<^verbatim>\<open>readProcStatCPU\<close> returns, its 64-bit total is exactly the sum of
  the eight counters of the line as unbounded numbers, and the idle part exactly idle plus iowait.
\<close>

theorem cpu_counters_never_wrap:
  assumes "readProcStatCPU f = Inr (t, i)"
  shows "\<exists>line. readCPUStatFirstLine f maxCPUStatLineBytes = Inr line
    \<and> unat t = (\<Sum>k\<leftarrow>[1..<9]. counter (Fields line) k)
    \<and> unat i = counter (Fields line) 4 + counter (Fields line) 5 \<and> unat i \<le> unat t"
proof -
  obtain line user nice system idleVal iowait irq softirq steal
    where line: "readCPUStatFirstLine f maxCPUStatLineBytes = Inr line" and len: "5 \<le> length (Fields line)"
    and w: "parse_counter ''invalid cpu user counter'' (Fields line ! 1) = Inr user"
      "parse_counter ''invalid cpu nice counter'' (Fields line ! 2) = Inr nice"
      "parse_counter ''invalid cpu system counter'' (Fields line ! 3) = Inr system"
      "parse_counter ''invalid cpu idle counter'' (Fields line ! 4) = Inr idleVal"
      "optional_counter ''invalid cpu iowait counter'' 5 (Fields line) = Inr iowait"
      "optional_counter ''invalid cpu irq counter'' 6 (Fields line) = Inr irq"
      "optional_counter ''invalid cpu softirq counter'' 7 (Fields line) = Inr softirq"
      "optional_counter ''invalid cpu steal counter'' 8 (Fields line) = Inr steal"
    and totals: "cpu_totals user nice system idleVal iowait irq softirq steal = Inr (t, i)"
    using assms by (auto simp: readProcStatCPU_def Let_def not_less split: if_splits)
  have c: "unat user = counter (Fields line) 1" "unat nice = counter (Fields line) 2"
    "unat system = counter (Fields line) 3" "unat idleVal = counter (Fields line) 4"
    using len w(1-4) by (auto intro!: counter_mandatory)
  note c = c w(5-8) [THEN counter_optional]
  have "(\<Sum>k\<leftarrow>[1..<9]. counter (Fields line) k) = counter (Fields line) 1 + counter (Fields line) 2
      + counter (Fields line) 3 + counter (Fields line) 4 + counter (Fields line) 5 + counter (Fields line) 6
      + counter (Fields line) 7 + counter (Fields line) 8"
    by (simp add: upt_rec eval_nat_numeral)
  then show ?thesis using totals line c by (auto simp: cpu_totals_ok)
qed

definition ex_stat :: proc_file where "ex_stat = File (''cpu  10 0 0 30'' @ [CHR 0x0A]) False"

lemma ex_stat_cpu: "readProcStatCPU ex_stat = Inr (40, 30)"
  by (simp add: ex_stat_def readProcStatCPU_def readCPUStatFirstLine_def maxCPUStatLineBytes_def text_eval Let_def
      parse_counter_def optional_counter_def cpu_totals_def checked_sum_def del: rune_segments.simps)

theorem cpu_counters_never_wrap_witness:
  "\<exists>line. readCPUStatFirstLine ex_stat maxCPUStatLineBytes = Inr line \<and> (\<Sum>k\<leftarrow>[1..<9]. counter (Fields line) k) = 40"
  using cpu_counters_never_wrap [OF ex_stat_cpu] by auto

lemma uint_minus_le: "b \<le> (a :: u64) \<Longrightarrow> uint (a - b) = uint a - uint b"
  by (simp add: uint_minus_simple_alt)


definition ex_meminfo :: proc_file where
  "ex_meminfo = File (''MemTotal: 4 kB'' @ [CHR 0x0A] @ ''MemAvailable: 1 kB'') False"

definition ex_readings :: readings where
  "ex_readings = read_all id (\<lambda>_. Some (Finite 5)) id ex_meminfo (File ''5 5 5'' False) (File ''lo: 1'' False)
     (File ''5'' False) (Inr (10, 4, 2, 4096))"

definition ex_sampler :: linuxSampler where
  "ex_sampler = \<lparr>hasCPUBaseline = True, lastCPUTotal = 0, lastCPUIdle = 0, lastCPUTime = 0\<rparr>"

lemma floor_five: "\<lfloor>5000 + 1 / 2 :: rat\<rfloor> = 5000"
  by (simp add: floor_eq_iff)

lemma ex_readings_values:
  "ex_readings = \<lparr>rd_meminfo = Inr (4096, 3072, 1024), rd_loadavg = Inr (5000, 5000, 5000),
     rd_rootfs = Inr (40960, 24576, 8192), rd_netdev = Inr (0, 0), rd_uptime = Inr 5\<rparr>"
proof -
  have "readProcMeminfo ex_meminfo = Inr (4096, 3072, 1024)"
    by (simp add: ex_meminfo_def readProcMeminfo_def readBoundedFile_def maxMeminfoBytes_def scan_lines_def raw_lines_def
        drop_cr_def meminfo_step_def meminfo_line_def MaxScanTokenSize_def text_eval Let_def MaxInt64_def wrap64_def
        del: rune_segments.simps)
  moreover have "readRootFS (Inr (10, 4, 2, 4096)) = Inr (40960, 24576, 8192)"
    by (simp add: readRootFS_def with_msg_def MaxInt64_def wrap64_def)
  moreover have "readProcLoadavg id (\<lambda>_. Some (Finite 5)) id (File ''5 5 5'' False) = Inr (5000, 5000, 5000)"
    using floor_five
    by (simp add: readProcLoadavg_def readBoundedFile_def maxLoadavgBytes_def text_eval Let_def parseLoadMilli_def
        unsigned_float_def Contains_def strings_ToLower_def ascii_lower_def wrap64_def with_msg_def upt_rec floor_five
        del: rune_segments.simps)
  moreover have "readProcUptime id (\<lambda>_. Some (Finite 5)) (File ''5'' False) = Inr 5"
    by (simp add: readProcUptime_def readBoundedFile_def maxUptimeBytes_def text_eval Let_def
        unsigned_float_def Contains_def strings_ToLower_def ascii_lower_def wrap64_def with_msg_def upt_rec
        del: rune_segments.simps)
  moreover have "readProcNetDev (File ''lo: 1'' False) = Inr (0, 0)"
    by (simp add: readProcNetDev_def netdev_step_def readBoundedFile_def maxNetDevBytes_def scan_lines_def raw_lines_def
        drop_cr_def MaxScanTokenSize_def Cut_def text_eval del: rune_segments.simps)
  ultimately show ?thesis by (simp add: ex_readings_def read_all_def)
qed

lemma ex_sample:
  "\<exists>req s'. linuxSampler_Sample (readProcStatCPU ex_stat) ex_readings second ex_sampler = (Inr (Some req, True), s')
     \<and> tr_CPUUsageBasisPoints req = 2500"
  by (simp add: linuxSampler_Sample_def ex_stat_cpu ex_sampler_def ex_readings_values second_def Let_def
      signed_divide_int_def cpuBasisPoints_def telemetry_report_def ValidateTelemetryRequest_def CurrentVersion_def
      wrap64_def)



definition ex_inventory_config :: inventoryCollectorConfig where
  "ex_inventory_config = \<lparr>ic_osRelease = [NoFile, File (''ID=x'' @ [CHR 0x0A] @ ''NAME=y'') False],
     ic_kernelRelease = File ''6'' False, ic_meminfo = ex_meminfo, ic_hostname = Inr ''h'', ic_numCPU = 2, ic_arch = ''a''\<rparr>"

lemma ex_inventory: "\<exists>req. collectInventoryWithConfig id ex_inventory_config = Inr req"
proof -
  have "readOSRelease id (ic_osRelease ex_inventory_config) = Inr (''x'', ''y'', [])"
    by (simp add: ex_inventory_config_def readBoundedFile_def maxOSReleaseBytes_def parseOSRelease_def scan_lines_def
        raw_lines_def drop_cr_def MaxScanTokenSize_def os_release_step_def parseOSReleaseValue_def Cut_def with_msg_def
        strings_ToLower_def ascii_lower_def text_eval Let_def del: rune_segments.simps)
  moreover have "readMeminfoTotal (ic_meminfo ex_inventory_config) = Inr 4096"
    by (simp add: ex_inventory_config_def ex_meminfo_def readMeminfoTotal_def parseMeminfoTotal_def readBoundedFile_def
        maxMeminfoBytes_def scan_lines_def raw_lines_def drop_cr_def MaxScanTokenSize_def text_eval Let_def MaxInt64_def
        wrap64_def del: rune_segments.simps)
  moreover have "readKernelRelease (ic_kernelRelease ex_inventory_config) = Inr ''6''"
    by (simp add: ex_inventory_config_def readKernelRelease_def readBoundedFile_def maxKernelReleaseBytes_def text_eval
        Let_def del: rune_segments.simps)
  moreover have "TrimSpace ''h'' = ''h''" "TrimSpace ''a'' = ''a''"
    by (simp_all add: text_eval del: rune_segments.simps)
  moreover have plain: "ValidateInventoryString [c] lo hi = Inr ()"
    if "c \<in> {CHR ''h'', CHR ''a'', CHR ''x'', CHR ''y'', CHR ''6''}" "lo \<le> 1" "1 \<le> hi" for c lo hi
    using that by (elim insertE) (simp_all add: ValidateInventoryString_def text_eval ascii_valid ascii_rune_count
        runes_def unicode_IsControl_def Let_def del: rune_segments.simps)
  moreover have "ValidateInventoryString [] 0 hi = Inr ()" if "0 \<le> hi" for hi
    using that by (simp add: ValidateInventoryString_def text_eval ValidString_def RuneCountInString_def runes_def Let_def)
  moreover have "ValidateOSID ''x'' = Inr ()"
    using plain [of "CHR ''x''" 1 64] by (simp add: ValidateOSID_def osid_byte_def less_eq_char_def)
  ultimately show ?thesis
    by (simp add: collectInventoryWithConfig_def with_msg_def ValidateInventoryRequest_def ex_inventory_config_def
        CurrentVersion_def Let_def check_def)
qed


end
