(* ===== verification/Privilege_Protocol.thy ===== *)
theory Privilege_Protocol
  imports Wire_Codec Json_Text Wire_Bounds
begin

text \<open>
  The packets between the agent and its root helper: \<^verbatim>\<open>src/internal/privilege/protocol.go\<close>. A packet is one
  JSON object of at most 1024 bytes; both sides encode and decode through the same checks.
\<close>

section \<open>Packets\<close>

definition ProtocolVersion :: nat where "ProtocolVersion = 1"
definition OpBoundaryPing :: string where "OpBoundaryPing = ''boundary.ping''"
definition StatusOk :: string where "StatusOk = ''ok''"
definition MaxPacketSize :: nat where "MaxPacketSize = 1024"
definition SocketFileName :: string where "SocketFileName = ''agent-helper.sock''"
definition DefaultTimeout :: time where "DefaultTimeout = 2 * second"
definition MaxConcurrentConnections :: nat where "MaxConcurrentConnections = 8"
definition MaxSocketPathLen :: nat where "MaxSocketPathLen = 107"

text \<open>\<^verbatim>\<open>uint\<close> is 64 bits wide: the decoder rejects larger numbers.\<close>

record Request =
  pq_Version :: nat
  pq_RequestID :: string
  pq_Operation :: string

record Response =
  pr_Version :: nat
  pr_RequestID :: string
  pr_Status :: string

definition ValidateRequestID :: "(string \<Rightarrow> uuid option) \<Rightarrow> (uuid \<Rightarrow> string) \<Rightarrow> string \<Rightarrow> unit result" where
  "ValidateRequestID uuid_Parse uuid_String rid =
     (if rid = [] then Inl (ErrOther ''request_id cannot be empty'')
      else case uuid_Parse rid of
        None \<Rightarrow> Inl (ErrOther ''request_id must be a canonical lowercase UUID'')
      | Some parsed \<Rightarrow>
          (if uuid_String parsed \<noteq> rid then Inl (ErrOther ''request_id must be a canonical lowercase UUID'')
           else Inr ()))"

abbreviation json_uint :: "nat \<Rightarrow> json" where
  "json_uint n \<equiv> JNumber (Itoa n)"

definition Request_fields :: "Request field list" where
  "Request_fields =
     [(''version'', set_uint (\<lambda>n r. r\<lparr>pq_Version := n\<rparr>)),
      (''request_id'', set_string (\<lambda>s r. r\<lparr>pq_RequestID := s\<rparr>)),
      (''operation'', set_string (\<lambda>s r. r\<lparr>pq_Operation := s\<rparr>))]"

definition Request_zero :: Request where
  "Request_zero = \<lparr>pq_Version = 0, pq_RequestID = [], pq_Operation = []\<rparr>"

definition Request_json :: "Request \<Rightarrow> json" where
  "Request_json r =
     JObject [(''version'', json_uint (pq_Version r)), (''request_id'', JString (pq_RequestID r)),
       (''operation'', JString (pq_Operation r))]"

definition Response_fields :: "Response field list" where
  "Response_fields =
     [(''version'', set_uint (\<lambda>n r. r\<lparr>pr_Version := n\<rparr>)),
      (''request_id'', set_string (\<lambda>s r. r\<lparr>pr_RequestID := s\<rparr>)),
      (''status'', set_string (\<lambda>s r. r\<lparr>pr_Status := s\<rparr>))]"

definition Response_zero :: Response where
  "Response_zero = \<lparr>pr_Version = 0, pr_RequestID = [], pr_Status = []\<rparr>"

definition Response_json :: "Response \<Rightarrow> json" where
  "Response_json r =
     JObject [(''version'', json_uint (pr_Version r)), (''request_id'', JString (pr_RequestID r)),
       (''status'', JString (pr_Status r))]"

section \<open>Encoding and decoding\<close>

text \<open>\<^verbatim>\<open>json.Marshal\<close> of these structs cannot fail.\<close>

definition EncodeRequest ::
  "(string \<Rightarrow> uuid option) \<Rightarrow> (uuid \<Rightarrow> string) \<Rightarrow> Request \<Rightarrow> bytes result" where
  "EncodeRequest up us req =
     (if pq_Version req \<noteq> ProtocolVersion then Inl (ErrOther ''unsupported protocol version'')
      else case ValidateRequestID up us (pq_RequestID req) of
        Inl e \<Rightarrow> Inl e
      | Inr _ \<Rightarrow>
        (if pq_Operation req \<noteq> OpBoundaryPing then Inl (ErrOther ''unsupported operation'')
         else let data = render (Request_json req) in
           if length data > MaxPacketSize then Inl (ErrOther ''encoded request exceeds maximum packet size'')
           else Inr data))"

definition DecodeRequest ::
  "(string \<Rightarrow> uuid option) \<Rightarrow> (uuid \<Rightarrow> string) \<Rightarrow> bytes \<Rightarrow> Request result" where
  "DecodeRequest up us data =
     (if length data = 0 then Inl (ErrOther ''request payload is empty'')
      else if length data > MaxPacketSize then Inl (ErrOther ''request payload exceeds maximum size'')
      else if \<not> ValidString data then Inl (ErrOther ''request payload contains invalid UTF-8'')
      else case DecodeOne Request_fields Request_zero data of
        Malformed \<Rightarrow> Inl (ErrOther ''failed to decode request JSON'')
      | Trailing \<Rightarrow> Inl (ErrOther ''unexpected trailing content after request JSON'')
      | Decoded req \<Rightarrow>
        (if pq_Version req \<noteq> ProtocolVersion then Inl (ErrOther ''unsupported protocol version'')
         else case ValidateRequestID up us (pq_RequestID req) of
           Inl e \<Rightarrow> Inl e
         | Inr _ \<Rightarrow>
           (if pq_Operation req \<noteq> OpBoundaryPing then Inl (ErrOther ''unknown operation'')
            else Inr req)))"

definition EncodeResponse ::
  "(string \<Rightarrow> uuid option) \<Rightarrow> (uuid \<Rightarrow> string) \<Rightarrow> Response \<Rightarrow> bytes result" where
  "EncodeResponse up us resp =
     (if pr_Version resp \<noteq> ProtocolVersion then Inl (ErrOther ''unsupported protocol version'')
      else case ValidateRequestID up us (pr_RequestID resp) of
        Inl e \<Rightarrow> Inl e
      | Inr _ \<Rightarrow>
        (if pr_Status resp \<noteq> StatusOk then Inl (ErrOther ''unsupported response status'')
         else let data = render (Response_json resp) in
           if length data > MaxPacketSize then Inl (ErrOther ''encoded response exceeds maximum packet size'')
           else Inr data))"

definition DecodeResponse ::
  "(string \<Rightarrow> uuid option) \<Rightarrow> (uuid \<Rightarrow> string) \<Rightarrow> bytes \<Rightarrow> Response result" where
  "DecodeResponse up us data =
     (if length data = 0 then Inl (ErrOther ''response payload is empty'')
      else if length data > MaxPacketSize then Inl (ErrOther ''response payload exceeds maximum size'')
      else if \<not> ValidString data then Inl (ErrOther ''response payload contains invalid UTF-8'')
      else case DecodeOne Response_fields Response_zero data of
        Malformed \<Rightarrow> Inl (ErrOther ''failed to decode response JSON'')
      | Trailing \<Rightarrow> Inl (ErrOther ''unexpected trailing content after response JSON'')
      | Decoded resp \<Rightarrow>
        (if pr_Version resp \<noteq> ProtocolVersion then Inl (ErrOther ''unsupported protocol version'')
         else case ValidateRequestID up us (pr_RequestID resp) of
           Inl e \<Rightarrow> Inl e
         | Inr _ \<Rightarrow>
           (if pr_Status resp \<noteq> StatusOk then Inl (ErrOther ''unexpected response status'')
            else Inr resp)))"

section \<open>A packet survives the socket\<close>

lemma set_uint_json [simp]: "n < 2 ^ 64 \<Longrightarrow> set_uint upd (json_uint n) r = Some (upd n r)"
  by (simp add: set_uint_def ParseUint_Itoa)

lemma json_uint_ok: "json_ok (json_uint n)"
  using FormatInt_ok [of "int n"] by (simp add: FormatInt_def)

lemma packet_literals:
  "ValidString ''version''" "ValidString ''request_id''" "ValidString ''operation''" "ValidString ''status''"
  "ValidString OpBoundaryPing" "ValidString StatusOk"
  by (rule ascii_valid, simp add: is_ascii_def OpBoundaryPing_def StatusOk_def)+

definition packet_ok :: "nat \<Rightarrow> string \<Rightarrow> string \<Rightarrow> bool" where
  "packet_ok v i s \<longleftrightarrow> v < 2 ^ 64 \<and> ValidString i \<and> ValidString s"

interpretation ping_request: wire_format Request_fields Request_zero Request_json
  "\<lambda>r. packet_ok (pq_Version r) (pq_RequestID r) (pq_Operation r)"
  by unfold_locales
    (simp_all add: Request_json_def Request_fields_def Request_zero_def packet_ok_def json_uint_ok [simplified]
      packet_literals set_struct_def find_field_def)

interpretation ping_response: wire_format Response_fields Response_zero Response_json
  "\<lambda>r. packet_ok (pr_Version r) (pr_RequestID r) (pr_Status r)"
  by unfold_locales
    (simp_all add: Response_json_def Response_fields_def Response_zero_def packet_ok_def json_uint_ok [simplified]
      packet_literals set_struct_def find_field_def)

text \<open>Every identifier of at most 36 characters leaves room in the packet, however it is escaped.\<close>

lemma packet_length:
  assumes "length k \<le> 9" and "RuneCountInString i \<le> 36" and "RuneCountInString s \<le> 13"
  shows "length (render (JObject [(''version'', json_uint ProtocolVersion), (''request_id'', JString i),
    (k, JString s)])) \<le> MaxPacketSize"
proof -
  have "member_size (''version'', json_uint ProtocolVersion) \<le> 24 + 6 * length ''version''"
    using int_member [of 1 "''version''"] by (simp add: FormatInt_def ProtocolVersion_def in_int64_def)
  then show ?thesis
    using object_length [of "[(''version'', json_uint ProtocolVersion), (''request_id'', JString i), (k, JString s)]"]
      text_member [OF assms(2), of "''request_id''"] text_member [OF assms(3), of k] assms(1)
    by (simp add: MaxPacketSize_def)
qed

lemma ping_constants:
  "length ''operation'' \<le> 9" "length ''status'' \<le> 9"
  "RuneCountInString OpBoundaryPing \<le> 13" "RuneCountInString StatusOk \<le> 13"
  using RuneCount_le [of OpBoundaryPing] RuneCount_le [of StatusOk] by (simp_all add: OpBoundaryPing_def StatusOk_def)

definition ping_with :: "string \<Rightarrow> Request" where
  "ping_with i = \<lparr>pq_Version = ProtocolVersion, pq_RequestID = i, pq_Operation = OpBoundaryPing\<rparr>"

definition pong_with :: "string \<Rightarrow> Response" where
  "pong_with i = \<lparr>pr_Version = ProtocolVersion, pr_RequestID = i, pr_Status = StatusOk\<rparr>"

lemma render_object_not_Nil: "render (JObject ms) \<noteq> []"
  by simp

lemma ping_round_trip:
  assumes "ValidateRequestID up us i = Inr ()" and "ValidString i" and "RuneCountInString i \<le> 36"
  shows "EncodeRequest up us (ping_with i) = Inr (render (Request_json (ping_with i)))"
    and "DecodeRequest up us (render (Request_json (ping_with i))) = Inr (ping_with i)"
proof -
  have fits: "packet_ok (pq_Version (ping_with i)) (pq_RequestID (ping_with i)) (pq_Operation (ping_with i))"
    using assms(2) by (simp add: packet_ok_def ping_with_def ProtocolVersion_def packet_literals)
  have small: "length (render (Request_json (ping_with i))) \<le> MaxPacketSize"
    using packet_length [OF ping_constants(1) assms(3) ping_constants(3)]
    by (simp only: Request_json_def ping_with_def Request.select_convs)
  show "EncodeRequest up us (ping_with i) = Inr (render (Request_json (ping_with i)))"
    using small assms(1) by (simp add: EncodeRequest_def Let_def not_less del: render.simps) (simp add: ping_with_def)
  have "render (Request_json (ping_with i)) \<noteq> []"
    by (simp add: Request_json_def)
  then show "DecodeRequest up us (render (Request_json (ping_with i))) = Inr (ping_with i)"
    using small assms(1) ping_request.decodes [OF fits] valid_render [OF ping_request.to_json_ok [OF fits]]
    by (simp add: DecodeRequest_def not_less del: render.simps) (simp add: ping_with_def)
qed

lemma pong_round_trip:
  assumes "ValidateRequestID up us i = Inr ()" and "ValidString i" and "RuneCountInString i \<le> 36"
  shows "EncodeResponse up us (pong_with i) = Inr (render (Response_json (pong_with i)))"
    and "DecodeResponse up us (render (Response_json (pong_with i))) = Inr (pong_with i)"
proof -
  have fits: "packet_ok (pr_Version (pong_with i)) (pr_RequestID (pong_with i)) (pr_Status (pong_with i))"
    using assms(2) by (simp add: packet_ok_def pong_with_def ProtocolVersion_def packet_literals)
  have small: "length (render (Response_json (pong_with i))) \<le> MaxPacketSize"
    using packet_length [OF ping_constants(2) assms(3) ping_constants(4)]
    by (simp only: Response_json_def pong_with_def Response.select_convs)
  show "EncodeResponse up us (pong_with i) = Inr (render (Response_json (pong_with i)))"
    using small assms(1) by (simp add: EncodeResponse_def Let_def not_less del: render.simps) (simp add: pong_with_def)
  have "render (Response_json (pong_with i)) \<noteq> []"
    by (simp add: Response_json_def)
  then show "DecodeResponse up us (render (Response_json (pong_with i))) = Inr (pong_with i)"
    using small assms(1) ping_response.decodes [OF fits] valid_render [OF ping_response.to_json_ok [OF fits]]
    by (simp add: DecodeResponse_def not_less del: render.simps) (simp add: pong_with_def)
qed

text \<open>Whatever a packet contains, what comes out of the decoders has passed every check.\<close>

lemma DecodeRequest_ok:
  assumes "DecodeRequest up us data = Inr req"
  shows "req = ping_with (pq_RequestID req) \<and> ValidateRequestID up us (pq_RequestID req) = Inr ()"
  using assms by (auto simp: DecodeRequest_def ping_with_def split: if_splits decoded.splits sum.splits)

lemma DecodeResponse_ok:
  assumes "DecodeResponse up us data = Inr resp"
  shows "resp = pong_with (pr_RequestID resp) \<and> ValidateRequestID up us (pr_RequestID resp) = Inr ()"
  using assms by (auto simp: DecodeResponse_def pong_with_def split: if_splits decoded.splits sum.splits)

lemma ValidateRequestID_ok: "ValidateRequestID up us i = Inr () \<longleftrightarrow> i \<noteq> [] \<and> (\<exists>u. up i = Some u \<and> us u = i)"
  by (auto simp: ValidateRequestID_def split: option.splits)

end
