(* ===== verification/Go_Files.thy ===== *)
theory Go_Files
  imports Go_Text
begin

text \<open>
  What the program uses of \<^verbatim>\<open>path/filepath\<close> and of \<^verbatim>\<open>os.FileInfo\<close>, and the helpers of
  \<^verbatim>\<open>src/internal/privilege/stat_linux.go\<close>. Paths are those of a Unix system.
\<close>

section \<open>Paths\<close>

abbreviation slash :: char where "slash \<equiv> CHR ''/''"

definition filepath_IsAbs :: "string \<Rightarrow> bool" where
  "filepath_IsAbs p = HasPrefix p [slash]"

text \<open>The elements that stay, last one first; \<^verbatim>\<open>..\<close> cancels the element before it.\<close>

fun clean_elems :: "bool \<Rightarrow> string list \<Rightarrow> string list \<Rightarrow> string list" where
  "clean_elems rooted [] out = rev out"
| "clean_elems rooted (e # es) out =
     (if e = [] \<or> e = ''.'' then clean_elems rooted es out
      else if e = ''..'' then
        (if out \<noteq> [] \<and> hd out \<noteq> ''..'' then clean_elems rooted es (tl out)
         else if rooted then clean_elems rooted es out
         else clean_elems rooted es (''..'' # out))
      else clean_elems rooted es (e # out))"

definition filepath_Clean :: "string \<Rightarrow> string" where
  "filepath_Clean p =
     (if p = [] then ''.''
      else let rooted = filepath_IsAbs p; out = Join slash (clean_elems rooted (Split slash p) [])
        in if rooted then slash # out else if out = [] then ''.'' else out)"

text \<open>Join of two elements: empty ones are left out, the rest is cleaned.\<close>

definition filepath_Join :: "string \<Rightarrow> string \<Rightarrow> string" where
  "filepath_Join a b =
     (if a = [] \<and> b = [] then [] else if a = [] then filepath_Clean b else if b = [] then filepath_Clean a
      else filepath_Clean (a @ slash # b))"

definition plain_name :: "string \<Rightarrow> bool" where
  "plain_name n \<longleftrightarrow> n \<noteq> [] \<and> n \<noteq> ''.'' \<and> n \<noteq> ''..'' \<and> slash \<notin> set n"

lemma Split_slash_append: "Split c (a @ c # b) = Split c a @ Split c b"
  by (induction c a rule: Split.induct) (auto split: list.splits)

lemma Split_Cons_sep: "Split c (c # s) = [] # Split c s"
  by simp

lemma Join_snoc: "ws \<noteq> [] \<Longrightarrow> Join c (ws @ [w]) = Join c ws @ c # w"
proof (induction ws)
  case (Cons a ws)
  then show ?case by (cases "ws = []") (auto simp: Join_Cons)
qed simp

lemma clean_elems_append:
  "clean_elems rooted (es @ fs) out = clean_elems rooted fs (rev (clean_elems rooted es out))"
  by (induction rooted es out rule: clean_elems.induct) auto

text \<open>A name below a clean absolute directory is the directory, a slash and the name.\<close>

lemma Join_below_clean:
  assumes "filepath_IsAbs d" and "filepath_Clean d = d" and "plain_name n"
  shows "filepath_Join d n = (if d = [slash] then slash # n else d @ slash # n)"
proof -
  let ?out = "clean_elems True (Split slash d) []"
  have d: "d = slash # Join slash ?out"
    using assms(1,2) by (auto simp: filepath_Clean_def Let_def HasPrefix_def filepath_IsAbs_def split: if_splits)
  have n: "Split slash n = [n]" "n \<noteq> []" "n \<noteq> ''.''" "n \<noteq> ''..''"
    using assms(3) by (auto simp: plain_name_def Split_word)
  have "clean_elems True (Split slash (d @ slash # n)) [] = ?out @ [n]"
    by (simp add: Split_slash_append clean_elems_append n)
  moreover have "filepath_IsAbs (d @ slash # n)" "d @ slash # n \<noteq> []"
    using assms(1) by (cases d; simp add: filepath_IsAbs_def HasPrefix_def)+
  ultimately have "filepath_Join d n = slash # Join slash (?out @ [n])"
    using n assms(1) by (auto simp: filepath_Join_def filepath_Clean_def Let_def filepath_IsAbs_def HasPrefix_def)
  moreover have "?out = [] \<longleftrightarrow> d = [slash]"
  proof
    assume "d = [slash]"
    then show "?out = []" by (simp only: Split.simps) simp
  next
    assume "?out = []"
    then show "d = [slash]" using d by simp
  qed
  ultimately show ?thesis
    using d by (cases "?out = []") (simp_all add: Join_snoc)
qed

section \<open>File attributes\<close>

datatype node_kind = Directory | Regular | Symlink | Socket | Special

record stat_t =
  st_uid :: nat
  st_gid :: nat
  st_dev :: nat
  st_ino :: nat

text \<open>\<^verbatim>\<open>fi.Sys()\<close> is the \<^verbatim>\<open>stat\<close> structure of a file of the operating system, and nothing otherwise.\<close>

record FileInfo =
  fi_kind :: node_kind
  fi_Perm :: nat
  fi_Sys :: "stat_t option"

definition getFileOwnership :: "FileInfo \<Rightarrow> (nat \<times> nat) result" where
  "getFileOwnership fi =
     (case fi_Sys fi of
        None \<Rightarrow> Inl (ErrOther ''failed to retrieve stat structure'')
      | Some st \<Rightarrow> Inr (st_uid st, st_gid st))"

definition verifyOwnership :: "FileInfo \<Rightarrow> nat \<Rightarrow> nat \<Rightarrow> unit result" where
  "verifyOwnership fi expectedUID expectedGID =
     (case getFileOwnership fi of
        Inl e \<Rightarrow> Inl e
      | Inr (uid, gid) \<Rightarrow>
        (if uid \<noteq> expectedUID then
           (if expectedUID = 0 then Inl (ErrOther ''owner is not root'') else Inl (ErrOther ''owner mismatch''))
         else if gid \<noteq> expectedGID then Inl (ErrOther ''group mismatch'')
         else Inr ()))"

text \<open>\<^verbatim>\<open>os.SameFile\<close> compares device and inode of two files of the operating system.\<close>

definition os_SameFile :: "FileInfo \<Rightarrow> FileInfo \<Rightarrow> bool" where
  "os_SameFile fi1 fi2 =
     (case (fi_Sys fi1, fi_Sys fi2) of
        (Some s1, Some s2) \<Rightarrow> st_dev s1 = st_dev s2 \<and> st_ino s1 = st_ino s2
      | _ \<Rightarrow> False)"

definition SameFile :: "FileInfo option \<Rightarrow> FileInfo option \<Rightarrow> bool" where
  "SameFile fi1 fi2 =
     (case (fi1, fi2) of
        (Some a, Some b) \<Rightarrow>
          (if os_SameFile a b then True
           else case (fi_Sys a, fi_Sys b) of
             (Some s1, Some s2) \<Rightarrow>
               st_dev s1 \<noteq> 0 \<and> st_ino s1 \<noteq> 0 \<and> st_dev s1 = st_dev s2 \<and> st_ino s1 = st_ino s2
           | _ \<Rightarrow> False)
      | _ \<Rightarrow> False)"

definition owned_by :: "FileInfo \<Rightarrow> nat \<Rightarrow> nat \<Rightarrow> bool" where
  "owned_by fi u g \<longleftrightarrow> (\<exists>st. fi_Sys fi = Some st \<and> st_uid st = u \<and> st_gid st = g)"

lemma verifyOwnership_ok: "verifyOwnership fi u g = Inr () \<longleftrightarrow> owned_by fi u g"
  by (auto simp: verifyOwnership_def getFileOwnership_def owned_by_def split: option.splits)

text \<open>The fallback of \<^verbatim>\<open>SameFile\<close> adds nothing for files of the operating system.\<close>

lemma SameFile_os: "SameFile (Some a) (Some b) = os_SameFile a b"
  by (auto simp: SameFile_def os_SameFile_def split: option.splits)

end
