(* ===== verification/Privilege_Server.thy ===== *)
theory Privilege_Server
  imports Privilege_Protocol Go_Files
begin

text \<open>
  The root helper: \<^verbatim>\<open>src/internal/privilege/server.go\<close> and \<^verbatim>\<open>hardening_linux.go\<close>. The calls \<^verbatim>\<open>Serve\<close> makes of
  its surroundings (the functions of \<^verbatim>\<open>serverDeps\<close>, the listener) are the steps of an interaction
  program whose answers are arbitrary: any other process may change the files at any moment.
\<close>

section \<open>Configuration\<close>

record ServerConfig =
  sv_RuntimeDir :: string
  sv_AllowedUID :: nat
  sv_AllowedGID :: nat
  sv_Timeout :: time

definition ValidateServerConfig :: "ServerConfig \<Rightarrow> unit result" where
  "ValidateServerConfig cfg =
     (if sv_RuntimeDir cfg = [] then Inl (ErrOther ''runtime directory is required'')
      else if \<not> filepath_IsAbs (sv_RuntimeDir cfg) then
        Inl (ErrOther ''runtime directory must be an absolute path'')
      else if filepath_Clean (sv_RuntimeDir cfg) \<noteq> sv_RuntimeDir cfg then
        Inl (ErrOther ''runtime directory must be a canonical clean path'')
      else if CHR 0x00 \<in> set (sv_RuntimeDir cfg) then
        Inl (ErrOther ''runtime directory path cannot contain NUL bytes'')
      else if sv_AllowedUID cfg = 0 then Inl (ErrOther ''allowed UID must be non-root (non-zero)'')
      else if length (filepath_Join (sv_RuntimeDir cfg) SocketFileName) > MaxSocketPathLen then
        Inl (ErrOther ''socket path exceeds maximum safe Unix domain path length'')
      else Inr ())"

definition validateRuntimeDirFi :: "FileInfo \<Rightarrow> nat \<Rightarrow> unit result" where
  "validateRuntimeDirFi fi allowedGID =
     (if fi_kind fi = Symlink then Inl (ErrOther ''runtime directory is a symlink (must be regular directory)'')
      else if fi_kind fi \<noteq> Directory then Inl (ErrOther ''runtime directory is not a directory'')
      else if fi_Perm fi \<noteq> 0x1E8 then
        Inl (ErrOther ''runtime directory permissions must be exactly 0750'')
      else case verifyOwnership fi 0 allowedGID of
        Inl e \<Rightarrow> Inl (ErrWrap ''runtime directory ownership invalid'' e)
      | Inr _ \<Rightarrow> Inr ())"

record Server =
  srv_cfg :: ServerConfig
  srv_socketPath :: string

definition newServerWithDeps :: "ServerConfig \<Rightarrow> Server result" where
  "newServerWithDeps cfg =
     (case ValidateServerConfig cfg of
        Inl e \<Rightarrow> Inl e
      | Inr _ \<Rightarrow>
          Inr \<lparr>srv_cfg = (if sv_Timeout cfg \<le> 0 then cfg\<lparr>sv_Timeout := DefaultTimeout\<rparr> else cfg),
               srv_socketPath = filepath_Join (sv_RuntimeDir cfg) SocketFileName\<rparr>)"

section \<open>Hardening\<close>

datatype errno = ENOTSUP | OtherErrno nat

text \<open>The answers of the two system calls: \<^verbatim>\<open>PR_SET_NO_NEW_PRIVS\<close> on all threads, then \<^verbatim>\<open>PR_SET_DUMPABLE\<close>.\<close>

definition hardenProcessWithInvokers :: "errno option \<Rightarrow> unit result \<Rightarrow> unit result" where
  "hardenProcessWithInvokers noNewPrivs dumpable =
     (case noNewPrivs of
        Some ENOTSUP \<Rightarrow> Inl (ErrOther ''process-wide hardening unsupported (cgo-linked runtime)'')
      | Some (OtherErrno _) \<Rightarrow> Inl (ErrOther ''failed to set PR_SET_NO_NEW_PRIVS on all runtime threads'')
      | None \<Rightarrow>
        (case dumpable of
           Inl e \<Rightarrow> Inl (ErrWrap ''failed to set PR_SET_DUMPABLE'' e)
         | Inr _ \<Rightarrow> Inr ()))"

definition ValidateHelperEUID :: "int \<Rightarrow> unit result" where
  "ValidateHelperEUID euid =
     (if euid \<noteq> 0 then Inl (ErrOther ''stackpilot-agent-helper must be run as root (effective UID 0)'')
      else Inr ())"

section \<open>Serving\<close>

text \<open>
  The errors \<^verbatim>\<open>Serve\<close> returns are those \<^verbatim>\<open>errors.Join\<close> collects: none of them is \<^verbatim>\<open>nil\<close>. \<open>AcceptLoop\<close> stands
  for the loop and its handlers (below); its answer is the error the loop ends with.
\<close>

datatype server_prog =
    Finish "go_error list"
  | Geteuid "int \<Rightarrow> server_prog"
  | Lstat string "FileInfo result \<Rightarrow> server_prog"
  | Mkdir string nat "unit result \<Rightarrow> server_prog"
  | Chown string nat nat "unit result \<Rightarrow> server_prog"
  | Chmod string nat "unit result \<Rightarrow> server_prog"
  | Remove string "unit result \<Rightarrow> server_prog"
  | ListenUnix string "unit result \<Rightarrow> server_prog"
  | CloseListener server_prog
  | Harden "unit result \<Rightarrow> server_prog"
  | AcceptLoop "go_error option \<Rightarrow> server_prog"
  | WaitHandlers server_prog

text \<open>\<^verbatim>\<open>cleanupSocket\<close>, joining its error to those the body returned.\<close>

definition cleanupSocket :: "Server \<Rightarrow> FileInfo \<Rightarrow> go_error list \<Rightarrow> server_prog" where
  "cleanupSocket s createdFi errs =
     Lstat (sv_RuntimeDir (srv_cfg s)) (\<lambda>d.
       case d of
         Inl e \<Rightarrow> Finish (errs @ [ErrWrap ''runtime directory cleanup verification failed'' e])
       | Inr dirFi \<Rightarrow>
         (case validateRuntimeDirFi dirFi (sv_AllowedGID (srv_cfg s)) of
            Inl e \<Rightarrow> Finish (errs @ [ErrWrap ''runtime directory invariant changed before cleanup'' e])
          | Inr _ \<Rightarrow>
            Lstat (srv_socketPath s) (\<lambda>c.
              case c of
                Inl e \<Rightarrow> Finish (errs @ [ErrWrap ''failed to inspect socket path before cleanup'' e])
              | Inr currFi \<Rightarrow>
                (if fi_kind currFi \<noteq> Socket then
                   Finish (errs @ [ErrOther ''socket path before cleanup is not a Unix domain socket''])
                 else if \<not> SameFile (Some createdFi) (Some currFi) then
                   Finish (errs @ [ErrOther ''socket file changed or was replaced before cleanup; refusing to unlink''])
                 else Remove (srv_socketPath s) (\<lambda>r.
                   case r of
                     Inl e \<Rightarrow> Finish (errs @ [ErrWrap ''failed to remove socket file'' e])
                   | Inr _ \<Rightarrow> Finish errs)))))"

text \<open>The deferred function, with the listener still open or already closed.\<close>

definition deferred :: "Server \<Rightarrow> FileInfo \<Rightarrow> bool \<Rightarrow> go_error list \<Rightarrow> server_prog" where
  "deferred s createdFi listenerClosed errs =
     (if listenerClosed then WaitHandlers (cleanupSocket s createdFi errs)
      else CloseListener (WaitHandlers (cleanupSocket s createdFi errs)))"

definition serve_loop :: "Server \<Rightarrow> FileInfo \<Rightarrow> server_prog" where
  "serve_loop s createdFi =
     AcceptLoop (\<lambda>retErr.
       CloseListener (WaitHandlers (deferred s createdFi True (case retErr of None \<Rightarrow> [] | Some e \<Rightarrow> [e]))))"

definition serve_socket :: "Server \<Rightarrow> FileInfo \<Rightarrow> server_prog" where
  "serve_socket s createdFi =
     (let fail = (\<lambda>e. deferred s createdFi False [e]); gid = sv_AllowedGID (srv_cfg s); sock = srv_socketPath s in
      Chown sock 0 gid (\<lambda>r. case r of
        Inl e \<Rightarrow> fail (ErrWrap ''failed to set socket ownership'' e)
      | Inr _ \<Rightarrow>
        Chmod sock 0x1B0 (\<lambda>r. case r of
          Inl e \<Rightarrow> fail (ErrWrap ''failed to set socket permissions'' e)
        | Inr _ \<Rightarrow>
          Lstat sock (\<lambda>r. case r of
            Inl e \<Rightarrow> fail (ErrWrap ''failed to verify created socket'' e)
          | Inr sockFi \<Rightarrow>
            (if fi_kind sockFi \<noteq> Socket then fail (ErrOther ''created path is not a Unix domain socket'')
             else if fi_Perm sockFi \<noteq> 0x1B0 then fail (ErrOther ''created socket permissions must be exactly 0660'')
             else case verifyOwnership sockFi 0 gid of
               Inl e \<Rightarrow> fail (ErrWrap ''created socket ownership invalid'' e)
             | Inr _ \<Rightarrow>
               Harden (\<lambda>r. case r of
                 Inl e \<Rightarrow> fail (ErrWrap ''failed to harden helper process'' e)
               | Inr _ \<Rightarrow> serve_loop s createdFi))))))"

definition serve_listen :: "Server \<Rightarrow> server_prog" where
  "serve_listen s =
     (let sock = srv_socketPath s in
      Lstat sock (\<lambda>r. case r of
        Inr _ \<Rightarrow> Finish [ErrOther ''helper socket already exists; refusing to start or unlink existing socket'']
      | Inl e \<Rightarrow>
        (if \<not> errors_Is e ErrNotExist then Finish [ErrWrap ''failed to inspect socket path'' e]
         else ListenUnix sock (\<lambda>r. case r of
           Inl e \<Rightarrow> Finish [ErrWrap ''failed to bind unixpacket listener'' e]
         | Inr _ \<Rightarrow>
           Lstat sock (\<lambda>r. case r of
             Inl e \<Rightarrow> CloseListener (Finish [ErrWrap ''failed to stat created socket instance'' e])
           | Inr createdFi \<Rightarrow> serve_socket s createdFi)))))"

definition Serve :: "Server \<Rightarrow> server_prog" where
  "Serve s =
     (let dir = sv_RuntimeDir (srv_cfg s); gid = sv_AllowedGID (srv_cfg s) in
      Geteuid (\<lambda>euid. case ValidateHelperEUID euid of
        Inl e \<Rightarrow> Finish [e]
      | Inr _ \<Rightarrow>
        Lstat dir (\<lambda>r. case r of
          Inl err \<Rightarrow>
            (if errors_Is err ErrNotExist then
               Mkdir dir 0x1E8 (\<lambda>r. case r of
                 Inl e \<Rightarrow> Finish [ErrWrap ''failed to create runtime directory'' e]
               | Inr _ \<Rightarrow>
                 Chown dir 0 gid (\<lambda>r. case r of
                   Inl e \<Rightarrow> Finish [ErrWrap ''failed to set runtime directory ownership'' e]
                 | Inr _ \<Rightarrow>
                   Chmod dir 0x1E8 (\<lambda>r. case r of
                     Inl e \<Rightarrow> Finish [ErrWrap ''failed to set runtime directory permissions'' e]
                   | Inr _ \<Rightarrow>
                     Lstat dir (\<lambda>r. case r of
                       Inl e \<Rightarrow> Finish [ErrWrap ''failed to inspect newly created runtime directory'' e]
                     | Inr createdDirFi \<Rightarrow>
                       (case validateRuntimeDirFi createdDirFi gid of
                          Inl e \<Rightarrow> Finish [ErrWrap ''newly created runtime directory verification failed'' e]
                        | Inr _ \<Rightarrow> serve_listen s)))))
             else Finish [ErrWrap ''failed to inspect runtime directory'' err])
        | Inr fi \<Rightarrow>
          (case validateRuntimeDirFi fi gid of
             Inl e \<Rightarrow> Finish [ErrWrap ''runtime directory invalid'' e]
           | Inr _ \<Rightarrow> serve_listen s))))"

section \<open>Handling one connection\<close>

text \<open>What the connection answers: setting its deadline, the credentials of the peer, and the packet
  read into a buffer one byte larger than the limit.\<close>

record conn =
  cn_setDeadline :: "time \<Rightarrow> unit result"
  cn_peer :: "nat result"
  cn_packet :: "bytes result"

definition conn_deadline :: "time \<Rightarrow> time \<Rightarrow> time option \<Rightarrow> time" where
  "conn_deadline now timeout ctxDeadline =
     (let deadline = now + timeout in
      case ctxDeadline of None \<Rightarrow> deadline | Some d \<Rightarrow> if d < deadline then d else deadline)"

text \<open>The packet written back, if any.\<close>

definition handleConn ::
  "(string \<Rightarrow> uuid option) \<Rightarrow> (uuid \<Rightarrow> string) \<Rightarrow> Server \<Rightarrow> time \<Rightarrow> time option \<Rightarrow> conn \<Rightarrow> bytes option" where
  "handleConn up us s now ctxDeadline c =
     (case cn_setDeadline c (conn_deadline now (sv_Timeout (srv_cfg s)) ctxDeadline) of
        Inl _ \<Rightarrow> None
      | Inr _ \<Rightarrow>
        (case cn_peer c of
           Inl _ \<Rightarrow> None
         | Inr peerUID \<Rightarrow>
           (if peerUID \<noteq> sv_AllowedUID (srv_cfg s) then None
            else case cn_packet c of
              Inl _ \<Rightarrow> None
            | Inr packet \<Rightarrow>
              (let buf = take (MaxPacketSize + 1) packet in
               if length buf = 0 \<or> length buf > MaxPacketSize then None
               else case DecodeRequest up us buf of
                 Inl _ \<Rightarrow> None
               | Inr req \<Rightarrow>
                 (if pq_Operation req \<noteq> OpBoundaryPing then None
                  else case EncodeResponse up us \<lparr>pr_Version = ProtocolVersion, pr_RequestID = pq_RequestID req,
                         pr_Status = StatusOk\<rparr> of
                    Inl _ \<Rightarrow> None
                  | Inr respBytes \<Rightarrow> Some respBytes)))))"

section \<open>The accept loop\<close>

text \<open>
  The semaphore \<^verbatim>\<open>sem\<close>, the wait group and the connections being handled. The loop ends with an error
  of \<^verbatim>\<open>Accept\<close>; \<^verbatim>\<open>Serve\<close> goes on once the wait group is empty.
\<close>

record loop =
  lp_sem :: nat
  lp_wg :: nat
  lp_handling :: "nat list"
  lp_refused :: "nat list"
  lp_ended :: "go_error option option"

definition loop_start :: loop where
  "loop_start = \<lparr>lp_sem = 0, lp_wg = 0, lp_handling = [], lp_refused = [], lp_ended = None\<rparr>"

datatype accepted = AcceptError go_error bool | OtherConn nat | UnixConn nat

definition accept_step :: "accepted \<Rightarrow> loop \<Rightarrow> loop" where
  "accept_step a l =
     (case a of
        AcceptError e ctxDone \<Rightarrow>
          l\<lparr>lp_ended := Some (if ctxDone \<or> errors_Is e ErrClosed then None else Some (ErrWrap ''accept error'' e))\<rparr>
      | OtherConn c \<Rightarrow> l\<lparr>lp_refused := c # lp_refused l\<rparr>
      | UnixConn c \<Rightarrow>
          (if lp_sem l < MaxConcurrentConnections then
             l\<lparr>lp_sem := lp_sem l + 1, lp_wg := lp_wg l + 1, lp_handling := c # lp_handling l\<rparr>
           else l\<lparr>lp_refused := c # lp_refused l\<rparr>))"

inductive loop_step :: "loop \<Rightarrow> loop \<Rightarrow> bool" where
  accept: "lp_ended l = None \<Longrightarrow> loop_step l (accept_step a l)"
| handled: "c \<in> set (lp_handling l) \<Longrightarrow>
    loop_step l (l\<lparr>lp_sem := lp_sem l - 1, lp_wg := lp_wg l - 1, lp_handling := remove1 c (lp_handling l)\<rparr>)"

definition loop_done :: "loop \<Rightarrow> bool" where
  "loop_done l \<longleftrightarrow> lp_ended l \<noteq> None \<and> lp_wg l = 0"

end
