(* ===== verification/Privilege_Server_Runs.thy ===== *)
theory Privilege_Server_Runs
  imports Privilege_Server
begin

text \<open>
  Runs of the root helper: the history of calls and answers of \<^const>\<open>Serve\<close>, for every behaviour of the
  file system, and the reachable states of its accept loop.
\<close>

section \<open>Histories\<close>

datatype server_event =
    DidGeteuid int
  | DidLstat string "FileInfo result"
  | DidMkdir string nat "unit result"
  | DidChown string nat nat "unit result"
  | DidChmod string nat "unit result"
  | DidRemove string "unit result"
  | DidListen string "unit result"
  | DidCloseListener
  | DidHarden "unit result"
  | DidAcceptLoop "go_error option"
  | DidWaitHandlers

text \<open>The program after an answer; an event that is not an answer to its next call does not fit.\<close>

definition server_next :: "server_prog \<Rightarrow> server_event \<Rightarrow> server_prog option" where
  "server_next p e =
     (case p of
        Finish es \<Rightarrow> None
      | Geteuid k \<Rightarrow> (case e of DidGeteuid i \<Rightarrow> Some (k i) | _ \<Rightarrow> None)
      | Lstat f k \<Rightarrow> (case e of DidLstat g r \<Rightarrow> if f = g then Some (k r) else None | _ \<Rightarrow> None)
      | Mkdir f m k \<Rightarrow> (case e of DidMkdir g n r \<Rightarrow> if f = g \<and> m = n then Some (k r) else None | _ \<Rightarrow> None)
      | Chown f u h k \<Rightarrow>
          (case e of DidChown g v i r \<Rightarrow> if f = g \<and> u = v \<and> h = i then Some (k r) else None | _ \<Rightarrow> None)
      | Chmod f m k \<Rightarrow> (case e of DidChmod g n r \<Rightarrow> if f = g \<and> m = n then Some (k r) else None | _ \<Rightarrow> None)
      | Remove f k \<Rightarrow> (case e of DidRemove g r \<Rightarrow> if f = g then Some (k r) else None | _ \<Rightarrow> None)
      | ListenUnix f k \<Rightarrow> (case e of DidListen g r \<Rightarrow> if f = g then Some (k r) else None | _ \<Rightarrow> None)
      | CloseListener q \<Rightarrow> (case e of DidCloseListener \<Rightarrow> Some q | _ \<Rightarrow> None)
      | Harden k \<Rightarrow> (case e of DidHarden r \<Rightarrow> Some (k r) | _ \<Rightarrow> None)
      | AcceptLoop k \<Rightarrow> (case e of DidAcceptLoop r \<Rightarrow> Some (k r) | _ \<Rightarrow> None)
      | WaitHandlers q \<Rightarrow> (case e of DidWaitHandlers \<Rightarrow> Some q | _ \<Rightarrow> None))"

fun server_after :: "server_prog \<Rightarrow> server_event list \<Rightarrow> server_prog option" where
  "server_after p [] = Some p"
| "server_after p (e # es) = (case server_next p e of None \<Rightarrow> None | Some q \<Rightarrow> server_after q es)"

text \<open>\<open>P\<close> holds of the history and of what is left to do, now and after every further answer.\<close>

primrec always :: "(server_event list \<Rightarrow> server_prog \<Rightarrow> bool) \<Rightarrow> server_prog \<Rightarrow> server_event list \<Rightarrow> bool" where
  "always P (Finish es) tr = P tr (Finish es)"
| "always P (Geteuid k) tr = (P tr (Geteuid k) \<and> (\<forall>r. always P (k r) (tr @ [DidGeteuid r])))"
| "always P (Lstat p k) tr = (P tr (Lstat p k) \<and> (\<forall>r. always P (k r) (tr @ [DidLstat p r])))"
| "always P (Mkdir p m k) tr = (P tr (Mkdir p m k) \<and> (\<forall>r. always P (k r) (tr @ [DidMkdir p m r])))"
| "always P (Chown p u g k) tr = (P tr (Chown p u g k) \<and> (\<forall>r. always P (k r) (tr @ [DidChown p u g r])))"
| "always P (Chmod p m k) tr = (P tr (Chmod p m k) \<and> (\<forall>r. always P (k r) (tr @ [DidChmod p m r])))"
| "always P (Remove p k) tr = (P tr (Remove p k) \<and> (\<forall>r. always P (k r) (tr @ [DidRemove p r])))"
| "always P (ListenUnix p k) tr = (P tr (ListenUnix p k) \<and> (\<forall>r. always P (k r) (tr @ [DidListen p r])))"
| "always P (CloseListener k) tr = (P tr (CloseListener k) \<and> always P k (tr @ [DidCloseListener]))"
| "always P (Harden k) tr = (P tr (Harden k) \<and> (\<forall>r. always P (k r) (tr @ [DidHarden r])))"
| "always P (AcceptLoop k) tr = (P tr (AcceptLoop k) \<and> (\<forall>r. always P (k r) (tr @ [DidAcceptLoop r])))"
| "always P (WaitHandlers k) tr = (P tr (WaitHandlers k) \<and> always P k (tr @ [DidWaitHandlers]))"

lemma always_now: "always P p tr \<Longrightarrow> P tr p"
  by (cases p) auto

lemma always_next: "always P p tr \<Longrightarrow> server_next p e = Some q \<Longrightarrow> always P q (tr @ [e])"
  by (cases p; cases e) (auto simp: server_next_def split: if_splits)

lemma always_after: "always P p tr \<Longrightarrow> server_after p es = Some q \<Longrightarrow> P (tr @ es) q"
proof (induction es arbitrary: p tr)
  case Nil
  then show ?case using always_now by simp
next
  case (Cons e es)
  then obtain p' where "server_next p e = Some p'" "server_after p' es = Some q"
    by (auto split: option.splits)
  then show ?case using Cons.IH [of p' "tr @ [e]"] always_next [OF Cons.prems(1)] by simp
qed

section \<open>What must have happened before the helper accepts\<close>

definition runtime_dir_ok :: "Server \<Rightarrow> FileInfo \<Rightarrow> bool" where
  "runtime_dir_ok s fi \<longleftrightarrow> fi_kind fi = Directory \<and> fi_Perm fi = 0x1E8 \<and> owned_by fi 0 (sv_AllowedGID (srv_cfg s))"

definition socket_ok :: "Server \<Rightarrow> FileInfo \<Rightarrow> bool" where
  "socket_ok s fi \<longleftrightarrow> fi_kind fi = Socket \<and> fi_Perm fi = 0x1B0 \<and> owned_by fi 0 (sv_AllowedGID (srv_cfg s))"

lemma validateRuntimeDirFi_ok:
  "validateRuntimeDirFi fi (sv_AllowedGID (srv_cfg s)) = Inr () \<longleftrightarrow> runtime_dir_ok s fi"
  using verifyOwnership_ok [of fi 0 "sv_AllowedGID (srv_cfg s)"]
  by (auto simp: validateRuntimeDirFi_def runtime_dir_ok_def split: sum.splits)

text \<open>The directory is there, or was made and handed over to the group; either way it was verified.\<close>

definition dir_history :: "Server \<Rightarrow> server_event list \<Rightarrow> bool" where
  "dir_history s tr \<longleftrightarrow> (\<exists>fi. runtime_dir_ok s fi \<and>
     (let dir = sv_RuntimeDir (srv_cfg s); gid = sv_AllowedGID (srv_cfg s) in
      tr = [DidGeteuid 0, DidLstat dir (Inr fi)]
      \<or> (\<exists>e. errors_Is e ErrNotExist \<and>
           tr = [DidGeteuid 0, DidLstat dir (Inl e), DidMkdir dir 0x1E8 (Inr ()), DidChown dir 0 gid (Inr ()),
             DidChmod dir 0x1E8 (Inr ()), DidLstat dir (Inr fi)])))"

definition listen_history :: "Server \<Rightarrow> FileInfo \<Rightarrow> server_event list \<Rightarrow> bool" where
  "listen_history s created tr \<longleftrightarrow> (\<exists>pre e. dir_history s pre \<and> errors_Is e ErrNotExist \<and>
     tr = pre @ [DidLstat (srv_socketPath s) (Inl e), DidListen (srv_socketPath s) (Inr ()),
       DidLstat (srv_socketPath s) (Inr created)])"

definition ready_history :: "Server \<Rightarrow> FileInfo \<Rightarrow> server_event list \<Rightarrow> bool" where
  "ready_history s created tr \<longleftrightarrow> (\<exists>pre fi. listen_history s created pre \<and> socket_ok s fi \<and>
     (let sock = srv_socketPath s; gid = sv_AllowedGID (srv_cfg s) in
      tr = pre @ [DidChown sock 0 gid (Inr ()), DidChmod sock 0x1B0 (Inr ()), DidLstat sock (Inr fi),
        DidHarden (Inr ())]))"

text \<open>The three things that hold of every history.\<close>

definition accepts_when_ready :: "Server \<Rightarrow> server_event list \<Rightarrow> server_prog \<Rightarrow> bool" where
  "accepts_when_ready s tr p \<longleftrightarrow> (\<forall>k. p = AcceptLoop k \<longrightarrow> (\<exists>created. ready_history s created tr))"

text \<open>An unlink hits the socket file this process created, checked in a verified directory just before.\<close>

definition unlinks_its_own :: "Server \<Rightarrow> server_event list \<Rightarrow> server_prog \<Rightarrow> bool" where
  "unlinks_its_own s tr p \<longleftrightarrow> (\<forall>q k. p = Remove q k \<longrightarrow> q = srv_socketPath s \<and>
     (\<exists>pre mid post created d x. listen_history s created pre \<and> runtime_dir_ok s d \<and> fi_kind x = Socket
        \<and> os_SameFile created x
        \<and> tr = pre @ mid @ [DidCloseListener] @ post
            @ [DidLstat (sv_RuntimeDir (srv_cfg s)) (Inr d), DidLstat (srv_socketPath s) (Inr x)]))"

text \<open>A listener that was opened is closed, and no error means that the socket file is gone.\<close>

definition finishes_clean :: "Server \<Rightarrow> server_event list \<Rightarrow> server_prog \<Rightarrow> bool" where
  "finishes_clean s tr p \<longleftrightarrow> (\<forall>es. p = Finish es \<longrightarrow>
     (DidListen (srv_socketPath s) (Inr ()) \<in> set tr \<longrightarrow> DidCloseListener \<in> set tr)
     \<and> (es = [] \<longrightarrow> (\<exists>pre. tr = pre @ [DidRemove (srv_socketPath s) (Inr ())])))"

definition server_ok :: "Server \<Rightarrow> server_event list \<Rightarrow> server_prog \<Rightarrow> bool" where
  "server_ok s tr p \<longleftrightarrow> accepts_when_ready s tr p \<and> unlinks_its_own s tr p \<and> finishes_clean s tr p"

lemma server_ok_plain [simp]:
  "server_ok s tr (Geteuid k1)" "server_ok s tr (Lstat f k2)" "server_ok s tr (Mkdir f m k3)"
  "server_ok s tr (Chown f u g k4)" "server_ok s tr (Chmod f m k5)" "server_ok s tr (ListenUnix f k6)"
  "server_ok s tr (CloseListener q)" "server_ok s tr (Harden k7)" "server_ok s tr (WaitHandlers q)"
  by (simp_all add: server_ok_def accepts_when_ready_def unlinks_its_own_def finishes_clean_def)

lemma server_ok_Finish:
  "server_ok s tr (Finish es) \<longleftrightarrow>
     (DidListen (srv_socketPath s) (Inr ()) \<in> set tr \<longrightarrow> DidCloseListener \<in> set tr)
     \<and> (es = [] \<longrightarrow> (\<exists>pre. tr = pre @ [DidRemove (srv_socketPath s) (Inr ())]))"
  by (simp add: server_ok_def accepts_when_ready_def unlinks_its_own_def finishes_clean_def)

lemma server_ok_AcceptLoop: "server_ok s tr (AcceptLoop k) \<longleftrightarrow> (\<exists>created. ready_history s created tr)"
  by (simp add: server_ok_def accepts_when_ready_def unlinks_its_own_def finishes_clean_def)

lemma cleanup_ok:
  assumes "listen_history s created pre"
  shows "always (server_ok s) (cleanupSocket s created errs) (pre @ mid @ [DidCloseListener] @ post)"
proof -
  have "server_ok s ((pre @ mid @ [DidCloseListener] @ post)
      @ [DidLstat (sv_RuntimeDir (srv_cfg s)) (Inr d), DidLstat (srv_socketPath s) (Inr x)])
      (Remove (srv_socketPath s) k)"
    if "runtime_dir_ok s d" "fi_kind x = Socket" "os_SameFile created x" for d x k
    using assms that unfolding server_ok_def accepts_when_ready_def unlinks_its_own_def finishes_clean_def by auto
  then show ?thesis
    by (auto simp: cleanupSocket_def validateRuntimeDirFi_ok SameFile_os server_ok_Finish split: sum.splits)
qed

lemma deferred_ok:
  assumes "listen_history s created pre"
  shows "always (server_ok s) (deferred s created False errs) (pre @ mid)"
    and "always (server_ok s) (deferred s created True errs) (pre @ mid @ [DidCloseListener] @ post)"
  using cleanup_ok [OF assms, of errs mid "[DidWaitHandlers]"]
    cleanup_ok [OF assms, of errs mid "post @ [DidWaitHandlers]"]
  by (simp_all add: deferred_def)

lemma serve_loop_ok:
  assumes "ready_history s created tr"
  shows "always (server_ok s) (serve_loop s created) tr"
proof -
  obtain pre mid where tr: "tr = pre @ mid" "listen_history s created pre"
    using assms by (auto simp: ready_history_def Let_def)
  have "always (server_ok s) (deferred s created True errs)
      (tr @ [DidAcceptLoop r] @ [DidCloseListener] @ [DidWaitHandlers])" for errs r
    using deferred_ok(2) [OF tr(2), of errs "mid @ [DidAcceptLoop r]" "[DidWaitHandlers]"] tr(1) by simp
  then show ?thesis
    using assms by (auto simp: serve_loop_def server_ok_AcceptLoop)
qed

lemma serve_socket_ok:
  assumes "listen_history s created pre"
  shows "always (server_ok s) (serve_socket s created) pre"
proof -
  have ready: "ready_history s created (pre @ [DidChown (srv_socketPath s) 0 (sv_AllowedGID (srv_cfg s)) (Inr ()),
      DidChmod (srv_socketPath s) 0x1B0 (Inr ()), DidLstat (srv_socketPath s) (Inr fi), DidHarden (Inr ())])"
    if "fi_kind fi = Socket" "fi_Perm fi = 0x1B0" "owned_by fi 0 (sv_AllowedGID (srv_cfg s))" for fi
    using assms that by (auto simp: ready_history_def socket_ok_def Let_def)
  have fail: "always (server_ok s) (deferred s created False errs) (pre @ mid)" for errs mid
    by (rule deferred_ok(1) [OF assms])
  show ?thesis
    using fail serve_loop_ok [OF ready] verifyOwnership_ok [of _ 0 "sv_AllowedGID (srv_cfg s)"]
    by (auto simp: serve_socket_def Let_def split: sum.splits)
qed

lemma serve_listen_ok:
  assumes "dir_history s pre"
  shows "always (server_ok s) (serve_listen s) pre"
proof -
  have quiet: "DidListen (srv_socketPath s) (Inr ()) \<notin> set pre"
    using assms by (auto simp: dir_history_def Let_def)
  have "listen_history s created (pre @ [DidLstat (srv_socketPath s) (Inl e), DidListen (srv_socketPath s) (Inr ()),
      DidLstat (srv_socketPath s) (Inr created)])" if "errors_Is e ErrNotExist" for created e
    using assms that by (auto simp: listen_history_def)
  from serve_socket_ok [OF this] quiet show ?thesis
    by (auto simp: serve_listen_def server_ok_Finish Let_def split: sum.splits)
qed

lemma Serve_ok: "always (server_ok s) (Serve s) []"
proof -
  let ?dir = "sv_RuntimeDir (srv_cfg s)" and ?gid = "sv_AllowedGID (srv_cfg s)"
  have "dir_history s [DidGeteuid 0, DidLstat ?dir (Inr fi)]" if "runtime_dir_ok s fi" for fi
    using that by (auto simp: dir_history_def Let_def)
  from serve_listen_ok [OF this]
  have found: "always (server_ok s) (serve_listen s) [DidGeteuid 0, DidLstat ?dir (Inr fi)]"
    if "runtime_dir_ok s fi" for fi using that by simp
  have "dir_history s [DidGeteuid 0, DidLstat ?dir (Inl e), DidMkdir ?dir 0x1E8 (Inr ()),
      DidChown ?dir 0 ?gid (Inr ()), DidChmod ?dir 0x1E8 (Inr ()), DidLstat ?dir (Inr fi)]"
    if "runtime_dir_ok s fi" "errors_Is e ErrNotExist" for fi e
    using that by (auto simp: dir_history_def Let_def)
  from serve_listen_ok [OF this] found show ?thesis
    by (auto simp: Serve_def ValidateHelperEUID_def validateRuntimeDirFi_ok server_ok_Finish Let_def split: sum.splits)
qed

section \<open>The accept loop\<close>

definition loop_inv :: "loop \<Rightarrow> bool" where
  "loop_inv l \<longleftrightarrow> lp_sem l = length (lp_handling l) \<and> lp_wg l = length (lp_handling l)
     \<and> length (lp_handling l) \<le> MaxConcurrentConnections"

inductive_cases loop_stepE: "loop_step l l'"

lemma loop_inv_step: "loop_step l l' \<Longrightarrow> loop_inv l \<Longrightarrow> loop_inv l'"
  by (erule loop_stepE) (auto simp: loop_inv_def accept_step_def length_remove1 split: accepted.splits)

lemma loop_inv_reachable: "loop_step\<^sup>*\<^sup>* loop_start l \<Longrightarrow> loop_inv l"
  by (erule rtranclp_invariant) (auto simp: loop_inv_step, simp add: loop_inv_def loop_start_def)

end
