(* ===== verification/Privilege_Client.thy ===== *)
theory Privilege_Client
  imports Privilege_Server
begin

text \<open>
  The agent's side of the privilege boundary: \<^verbatim>\<open>src/internal/privilege/client.go\<close>. What \<^verbatim>\<open>Ping\<close> learns from its
  surroundings is a record of answers: the context, the attributes of the two files, the connection.
\<close>

record ClientConfig =
  cc_RuntimeDir :: string
  cc_Timeout :: time

record client =
  cl_runtimeDir :: string
  cl_socketPath :: string
  cl_timeout :: time

definition newClientWithDeps :: "ClientConfig \<Rightarrow> client result" where
  "newClientWithDeps cfg =
     (if cc_RuntimeDir cfg = [] then Inl (ErrOther ''runtime directory is required'')
      else if \<not> filepath_IsAbs (cc_RuntimeDir cfg) then
        Inl (ErrOther ''runtime directory must be an absolute path'')
      else if filepath_Clean (cc_RuntimeDir cfg) \<noteq> cc_RuntimeDir cfg then
        Inl (ErrOther ''runtime directory must be a canonical clean path'')
      else if CHR 0x00 \<in> set (cc_RuntimeDir cfg) then
        Inl (ErrOther ''runtime directory path cannot contain NUL bytes'')
      else let sockPath = filepath_Join (cc_RuntimeDir cfg) SocketFileName in
        if length sockPath > MaxSocketPathLen then
          Inl (ErrOther ''socket path exceeds maximum safe Unix domain path length'')
        else Inr \<lparr>cl_runtimeDir = cc_RuntimeDir cfg, cl_socketPath = sockPath,
          cl_timeout = (if cc_Timeout cfg \<le> 0 then DefaultTimeout else cc_Timeout cfg)\<rparr>)"

text \<open>
  \<open>pw_ctxErr k\<close> is what the \<open>k\<close>-th look at the context gives, \<open>pw_read\<close> the packet that comes back when the
  given one was written.
\<close>

record ping_world =
  pw_ctxErr :: "nat \<Rightarrow> go_error option"
  pw_lstat :: "string \<Rightarrow> FileInfo result"
  pw_now :: time
  pw_ctxDeadline :: "time option"
  pw_dial :: "time \<Rightarrow> unit result"
  pw_isUnix :: bool
  pw_peer :: "nat result"
  pw_newID :: string
  pw_setWriteDeadline :: "time \<Rightarrow> unit result"
  pw_write :: "bytes \<Rightarrow> unit result"
  pw_setReadDeadline :: "time \<Rightarrow> unit result"
  pw_read :: "bytes \<Rightarrow> bytes result"

text \<open>An error met while the context is done is reported as the error of the context.\<close>

definition ctx_or :: "ping_world \<Rightarrow> nat \<Rightarrow> go_error \<Rightarrow> unit result" where
  "ctx_or w k e = (case pw_ctxErr w k of Some c \<Rightarrow> Inl c | None \<Rightarrow> Inl e)"

definition ping_exchange ::
  "(string \<Rightarrow> uuid option) \<Rightarrow> (uuid \<Rightarrow> string) \<Rightarrow> ping_world \<Rightarrow> time \<Rightarrow> unit result" where
  "ping_exchange up us w deadline =
     (let reqID = pw_newID w in
      case EncodeRequest up us \<lparr>pq_Version = ProtocolVersion, pq_RequestID = reqID, pq_Operation = OpBoundaryPing\<rparr> of
        Inl e \<Rightarrow> Inl (ErrWrap ''failed to encode ping request'' e)
      | Inr reqData \<Rightarrow>
        (case pw_setWriteDeadline w deadline of
           Inl e \<Rightarrow> Inl (ErrWrap ''failed to set write deadline'' e)
         | Inr _ \<Rightarrow>
           (case pw_write w reqData of
              Inl e \<Rightarrow> ctx_or w 4 (ErrWrap ''failed to send ping request'' e)
            | Inr _ \<Rightarrow>
              (case pw_setReadDeadline w deadline of
                 Inl e \<Rightarrow> Inl (ErrWrap ''failed to set read deadline'' e)
               | Inr _ \<Rightarrow>
                 (case pw_read w reqData of
                    Inl e \<Rightarrow> ctx_or w 5 (ErrWrap ''failed to read response from helper'' e)
                  | Inr packet \<Rightarrow>
                    (let respBuf = take (MaxPacketSize + 1) packet in
                     if length respBuf > MaxPacketSize then Inl (ErrOther ''response packet exceeds maximum size'')
                     else case DecodeResponse up us respBuf of
                       Inl e \<Rightarrow> Inl (ErrWrap ''failed to parse helper response'' e)
                     | Inr resp \<Rightarrow>
                       (if pr_RequestID resp \<noteq> reqID then Inl (ErrOther ''helper response request_id mismatch'')
                        else Inr ())))))))"

definition ping_connect ::
  "(string \<Rightarrow> uuid option) \<Rightarrow> (uuid \<Rightarrow> string) \<Rightarrow> client \<Rightarrow> ping_world \<Rightarrow> unit result" where
  "ping_connect up us c w =
     (let deadline = conn_deadline (pw_now w) (cl_timeout c) (pw_ctxDeadline w) in
      case pw_dial w deadline of
        Inl e \<Rightarrow> ctx_or w 1 (ErrWrap ''failed to connect to privilege helper socket'' e)
      | Inr _ \<Rightarrow>
        (if \<not> pw_isUnix w then Inl (ErrOther ''unexpected connection type'')
         else case pw_ctxErr w 2 of
           Some e \<Rightarrow> Inl e
         | None \<Rightarrow>
           (case pw_peer w of
              Inl e \<Rightarrow> ctx_or w 3 (ErrWrap ''failed to verify helper peer credentials'' e)
            | Inr peerUID \<Rightarrow>
              (if peerUID \<noteq> 0 then Inl (ErrOther ''privilege helper peer is not root; connection rejected'')
               else ping_exchange up us w deadline))))"

definition Ping ::
  "(string \<Rightarrow> uuid option) \<Rightarrow> (uuid \<Rightarrow> string) \<Rightarrow> client \<Rightarrow> ping_world \<Rightarrow> unit result" where
  "Ping up us c w =
     (case pw_ctxErr w 0 of
        Some e \<Rightarrow> Inl e
      | None \<Rightarrow>
        (case pw_lstat w (cl_runtimeDir c) of
           Inl e \<Rightarrow> Inl (ErrWrap ''cannot access runtime directory'' e)
         | Inr dirFi \<Rightarrow>
           (if fi_kind dirFi = Symlink then Inl (ErrOther ''runtime directory is a symlink'')
            else if fi_kind dirFi \<noteq> Directory then Inl (ErrOther ''runtime directory is not a directory'')
            else if fi_Perm dirFi \<noteq> 0x1E8 then Inl (ErrOther ''runtime directory permissions must be exactly 0750'')
            else case getFileOwnership dirFi of
              Inl e \<Rightarrow> Inl (ErrWrap ''failed to inspect runtime directory ownership'' e)
            | Inr (dirUID, dirGID) \<Rightarrow>
              (if dirUID \<noteq> 0 then Inl (ErrOther ''runtime directory owner is not root'')
               else case pw_lstat w (cl_socketPath c) of
                 Inl e \<Rightarrow> Inl (ErrWrap ''cannot access privilege helper socket'' e)
               | Inr sockFi \<Rightarrow>
                 (if fi_kind sockFi \<noteq> Socket then Inl (ErrOther ''helper path is not a Unix domain socket'')
                  else if fi_Perm sockFi \<noteq> 0x1B0 then
                    Inl (ErrOther ''helper socket permissions must be exactly 0660'')
                  else case getFileOwnership sockFi of
                    Inl e \<Rightarrow> Inl (ErrWrap ''failed to inspect helper socket ownership'' e)
                  | Inr (sockUID, sockGID) \<Rightarrow>
                    (if sockUID \<noteq> 0 then Inl (ErrOther ''helper socket owner is not root'')
                     else if sockGID \<noteq> dirGID then
                       Inl (ErrOther ''helper socket group does not match runtime directory group'')
                     else ping_connect up us c w))))))"

end
