(* ===== verification/Privilege_Properties.thy ===== *)
theory Privilege_Properties
  imports Privilege_Server_Runs Privilege_Client Example_Http
begin

text \<open>
  What the privilege boundary guarantees: the helper's start and shutdown on a hostile file system,
  its load, and that a ping succeeds exactly between the two right processes.
\<close>

section \<open>The helper\<close>

text \<open>
  C36. In every run of the helper, whatever the file system answers and other processes do: it accepts
  connections only after it ran as root, verified its directory (root, the agent's group, 0750) and
  the socket it made there (root, the agent's group, 0660) and hardened itself, in this order; it
  removes a file only if that is, just before, the socket it created, in a directory that is still
  right; a listener it opened is closed; and it returns without an error only when its socket was
  removed.
\<close>

theorem helper_start_and_shutdown:
  assumes "server_after (Serve s) tr = Some p"
  shows "(\<forall>k. p = AcceptLoop k \<longrightarrow> (\<exists>created. ready_history s created tr))
    \<and> (\<forall>q k. p = Remove q k \<longrightarrow> q = srv_socketPath s \<and>
         (\<exists>pre mid post created d x. listen_history s created pre \<and> runtime_dir_ok s d \<and> fi_kind x = Socket
            \<and> os_SameFile created x
            \<and> tr = pre @ mid @ [DidCloseListener] @ post
                @ [DidLstat (sv_RuntimeDir (srv_cfg s)) (Inr d), DidLstat (srv_socketPath s) (Inr x)]))
    \<and> (\<forall>es. p = Finish es \<longrightarrow>
         (DidListen (srv_socketPath s) (Inr ()) \<in> set tr \<longrightarrow> DidCloseListener \<in> set tr)
         \<and> (es = [] \<longrightarrow> (\<exists>pre. tr = pre @ [DidRemove (srv_socketPath s) (Inr ())])))"
  using always_after [OF Serve_ok assms]
  unfolding server_ok_def accepts_when_ready_def unlinks_its_own_def finishes_clean_def append_Nil .

definition ex_helper_stat :: "nat \<Rightarrow> stat_t" where
  "ex_helper_stat ino = \<lparr>st_uid = 0, st_gid = 7, st_dev = 1, st_ino = ino\<rparr>"

definition ex_dir :: FileInfo where
  "ex_dir = \<lparr>fi_kind = Directory, fi_Perm = 0x1E8, fi_Sys = Some (ex_helper_stat 2)\<rparr>"

definition ex_sock :: FileInfo where
  "ex_sock = \<lparr>fi_kind = Socket, fi_Perm = 0x1B0, fi_Sys = Some (ex_helper_stat 3)\<rparr>"

definition ex_server :: Server where
  "ex_server = \<lparr>srv_cfg = \<lparr>sv_RuntimeDir = ''/run/sp'', sv_AllowedUID = 1000, sv_AllowedGID = 7, sv_Timeout = DefaultTimeout\<rparr>,
     srv_socketPath = ''/run/sp/agent-helper.sock''\<rparr>"

definition ex_history :: "server_event list" where
  "ex_history =
     [DidGeteuid 0, DidLstat ''/run/sp'' (Inr ex_dir), DidLstat ''/run/sp/agent-helper.sock'' (Inl ErrNotExist),
      DidListen ''/run/sp/agent-helper.sock'' (Inr ()), DidLstat ''/run/sp/agent-helper.sock'' (Inr ex_sock),
      DidChown ''/run/sp/agent-helper.sock'' 0 7 (Inr ()), DidChmod ''/run/sp/agent-helper.sock'' 0x1B0 (Inr ()),
      DidLstat ''/run/sp/agent-helper.sock'' (Inr ex_sock), DidHarden (Inr ()), DidAcceptLoop None,
      DidCloseListener, DidWaitHandlers, DidWaitHandlers, DidLstat ''/run/sp'' (Inr ex_dir),
      DidLstat ''/run/sp/agent-helper.sock'' (Inr ex_sock), DidRemove ''/run/sp/agent-helper.sock'' (Inr ())]"

lemmas ex_helper_defs = ex_server_def ex_history_def ex_dir_def ex_sock_def ex_helper_stat_def

lemma ex_run: "server_after (Serve ex_server) ex_history = Some (Finish [])"
  by (simp add: ex_helper_defs Serve_def serve_listen_def serve_socket_def serve_loop_def deferred_def cleanupSocket_def
      server_next_def ValidateHelperEUID_def validateRuntimeDirFi_def verifyOwnership_def getFileOwnership_def
      SameFile_def os_SameFile_def Let_def)

theorem helper_start_and_shutdown_witness:
  "newServerWithDeps \<lparr>sv_RuntimeDir = ''/run/sp'', sv_AllowedUID = 1000, sv_AllowedGID = 7, sv_Timeout = 0\<rparr> = Inr ex_server
   \<and> server_after (Serve ex_server) ex_history = Some (Finish []) \<and> DidCloseListener \<in> set ex_history"
proof -
  have "newServerWithDeps \<lparr>sv_RuntimeDir = ''/run/sp'', sv_AllowedUID = 1000, sv_AllowedGID = 7, sv_Timeout = 0\<rparr>
    = Inr ex_server"
    by (simp add: newServerWithDeps_def ValidateServerConfig_def ex_server_def filepath_IsAbs_def filepath_Clean_def
        filepath_Join_def HasPrefix_def SocketFileName_def MaxSocketPathLen_def Let_def)
  moreover have "DidListen (srv_socketPath ex_server) (Inr ()) \<in> set ex_history"
    by (simp add: ex_server_def ex_history_def)
  ultimately show ?thesis
    using helper_start_and_shutdown [OF ex_run] ex_run by blast
qed

text \<open>
  C37. In every reachable state of the accept loop at most eight connections are being handled, a
  connection is turned away only while eight are, and when the helper goes on to clean up no handler
  is left running.
\<close>

theorem helper_load_bounds:
  assumes "loop_step\<^sup>*\<^sup>* loop_start l"
  shows "length (lp_handling l) \<le> 8
    \<and> (lp_handling (accept_step (UnixConn c) l) = c # lp_handling l \<or> length (lp_handling l) = 8)
    \<and> (loop_done l \<longrightarrow> lp_handling l = [])"
  using loop_inv_reachable [OF assms]
  by (auto simp: loop_inv_def MaxConcurrentConnections_def accept_step_def loop_done_def)

theorem helper_load_bounds_witness:
  "\<exists>l. loop_step\<^sup>*\<^sup>* loop_start l \<and> loop_done l \<and> lp_handling l = [] \<and> lp_refused l = []"
proof -
  let ?a = "accept_step (UnixConn 1) loop_start"
  let ?b = "?a\<lparr>lp_sem := lp_sem ?a - 1, lp_wg := lp_wg ?a - 1, lp_handling := remove1 1 (lp_handling ?a)\<rparr>"
  let ?c = "accept_step (AcceptError ErrClosed True) ?b"
  have a: "loop_step loop_start ?a" by (rule loop_step.accept) (simp add: loop_start_def)
  have b: "loop_step ?a ?b"
    by (rule loop_step.handled) (simp add: accept_step_def loop_start_def MaxConcurrentConnections_def)
  have c: "loop_step ?b ?c"
    by (rule loop_step.accept) (simp add: accept_step_def loop_start_def MaxConcurrentConnections_def)
  have "loop_step\<^sup>*\<^sup>* loop_start ?c" 
    using rtranclp_two [of loop_step, OF a b] c by (rule rtranclp.rtrancl_into_rtrancl)
  moreover have "loop_done ?c" "lp_refused ?c = []"
    by (simp_all add: loop_done_def accept_step_def loop_start_def MaxConcurrentConnections_def)
  ultimately show ?thesis using helper_load_bounds [of ?c 0] by blast
qed

section \<open>The boundary\<close>

text \<open>What the helper answers: the encoded pong to a ping of the allowed user, and nothing else.\<close>

lemma handleConn_answer:
  assumes "handleConn up us s now d c = Some resp"
  shows "cn_peer c = Inr (sv_AllowedUID (srv_cfg s))
    \<and> (\<exists>packet i. cn_packet c = Inr packet \<and> DecodeRequest up us packet = Inr (ping_with i)
         \<and> EncodeResponse up us (pong_with i) = Inr resp)"
proof -
  obtain packet req where packet: "cn_peer c = Inr (sv_AllowedUID (srv_cfg s))" "cn_packet c = Inr packet"
      "length (take (MaxPacketSize + 1) packet) \<le> MaxPacketSize"
      "DecodeRequest up us (take (MaxPacketSize + 1) packet) = Inr req"
      "EncodeResponse up us (pong_with (pq_RequestID req)) = Inr resp"
    using assms by (auto simp: handleConn_def Let_def pong_with_def not_less split: sum.splits if_splits)
  have "take (MaxPacketSize + 1) packet = packet" using packet(3) by auto
  then show ?thesis using packet DecodeRequest_ok [OF packet(4)] by metis
qed

definition links :: "(string \<Rightarrow> uuid option) \<Rightarrow> (uuid \<Rightarrow> string) \<Rightarrow> Server \<Rightarrow> nat \<Rightarrow> client \<Rightarrow> ping_world \<Rightarrow> bool" where
  "links up us s uid c w \<longleftrightarrow> (\<forall>k. pw_ctxErr w k = None) \<and> (\<forall>t. pw_dial w t = Inr ()) \<and> pw_isUnix w
     \<and> (\<forall>t. pw_setWriteDeadline w t = Inr ()) \<and> (\<forall>t. pw_setReadDeadline w t = Inr ()) \<and> (\<forall>b. pw_write w b = Inr ())
     \<and> (\<forall>b. pw_read w b =
         (case handleConn up us s (pw_now w) None \<lparr>cn_setDeadline = (\<lambda>_. Inr ()), cn_peer = Inr uid, cn_packet = Inr b\<rparr> of
            None \<Rightarrow> Inl (ErrOther ''EOF'')
          | Some resp \<Rightarrow> Inr resp))"

definition boundary_files :: "client \<Rightarrow> ping_world \<Rightarrow> bool" where
  "boundary_files c w \<longleftrightarrow> (\<exists>d x g. pw_lstat w (cl_runtimeDir c) = Inr d \<and> pw_lstat w (cl_socketPath c) = Inr x
     \<and> fi_kind d = Directory \<and> fi_Perm d = 0x1E8 \<and> owned_by d 0 g
     \<and> fi_kind x = Socket \<and> fi_Perm x = 0x1B0 \<and> owned_by x 0 g)"

lemma Ping_files:
  assumes "pw_ctxErr w 0 = None"
  shows "Ping up us c w = Inr () \<longleftrightarrow> boundary_files c w \<and> ping_connect up us c w = Inr ()"
  using assms
  by (auto simp: Ping_def boundary_files_def owned_by_def getFileOwnership_def split: sum.splits if_splits option.splits)


text \<open>
  C38. With the client and the helper connected and no call failing, a ping succeeds exactly when the
  directory and the socket belong to root with the right modes and the same group, the process that
  listens runs as root, and the helper was configured for the user the agent runs as.
\<close>

theorem ping_succeeds_iff:
  assumes "links up us s uid c w" and "ValidateRequestID up us (pw_newID w) = Inr ()"
    and "ValidString (pw_newID w)" and "RuneCountInString (pw_newID w) \<le> 36"
  shows "Ping up us c w = Inr () \<longleftrightarrow> boundary_files c w \<and> pw_peer w = Inr 0 \<and> uid = sv_AllowedUID (srv_cfg s)"
proof -
  let ?i = "pw_newID w"
  let ?req = "render (Request_json (ping_with (pw_newID w)))"
  let ?cn = "\<lparr>cn_setDeadline = (\<lambda>_. Inr ()), cn_peer = Inr uid, cn_packet = Inr ?req\<rparr>"
  note ping = ping_round_trip [OF assms(2-4)]
  note pong = pong_round_trip [OF assms(2-4)]
  have size: "?req \<noteq> [] \<and> length ?req \<le> MaxPacketSize"
    using ping(2) by (auto simp: DecodeRequest_def split: if_splits)
  have pong_size: "length (render (Response_json (pong_with ?i))) \<le> MaxPacketSize"
    using pong(2) by (auto simp: DecodeResponse_def split: if_splits)
  have answer: "handleConn up us s (pw_now w) None ?cn =
      (if uid = sv_AllowedUID (srv_cfg s) then Some (render (Response_json (pong_with ?i))) else None)"
    using size ping(2) pong(1)
    by (simp add: handleConn_def Let_def del: render.simps) (simp add: ping_with_def pong_with_def del: render.simps)
  have "ping_exchange up us w t = Inr () \<longleftrightarrow> uid = sv_AllowedUID (srv_cfg s)" for t
    using assms(1) answer pong_size ping(1) pong(2)
    by (simp add: ping_exchange_def links_def Let_def ctx_or_def ping_with_def pong_with_def del: render.simps)
  then have "ping_connect up us c w = Inr () \<longleftrightarrow> pw_peer w = Inr 0 \<and> uid = sv_AllowedUID (srv_cfg s)"
    using assms(1) by (auto simp: ping_connect_def links_def Let_def ctx_or_def split: sum.splits)
  then show ?thesis
    using Ping_files [of w up us c] assms(1) by (auto simp: links_def)
qed

definition ex_client :: client where
  "ex_client = \<lparr>cl_runtimeDir = ''/run/sp'', cl_socketPath = ''/run/sp/agent-helper.sock'', cl_timeout = DefaultTimeout\<rparr>"

definition ex_ping :: ping_world where
  "ex_ping =
     \<lparr>pw_ctxErr = (\<lambda>_. None), pw_lstat = (\<lambda>p. if p = ''/run/sp'' then Inr ex_dir else Inr ex_sock), pw_now = 0,
      pw_ctxDeadline = None, pw_dial = (\<lambda>_. Inr ()), pw_isUnix = True, pw_peer = Inr 0, pw_newID = ex_uuid 5,
      pw_setWriteDeadline = (\<lambda>_. Inr ()), pw_write = (\<lambda>_. Inr ()), pw_setReadDeadline = (\<lambda>_. Inr ()),
      pw_read = (\<lambda>b. case handleConn ex_uuid_Parse ex_uuid ex_server 0 None
          \<lparr>cn_setDeadline = (\<lambda>_. Inr ()), cn_peer = Inr 1000, cn_packet = Inr b\<rparr> of
        None \<Rightarrow> Inl (ErrOther ''EOF'') | Some resp \<Rightarrow> Inr resp)\<rparr>"

theorem ping_succeeds_iff_witness:
  "newClientWithDeps \<lparr>cc_RuntimeDir = ''/run/sp'', cc_Timeout = 0\<rparr> = Inr ex_client
   \<and> Ping ex_uuid_Parse ex_uuid ex_client ex_ping = Inr ()"
proof -
  have "newClientWithDeps \<lparr>cc_RuntimeDir = ''/run/sp'', cc_Timeout = 0\<rparr> = Inr ex_client"
    by (simp add: newClientWithDeps_def ex_client_def filepath_IsAbs_def filepath_Clean_def filepath_Join_def
        HasPrefix_def SocketFileName_def MaxSocketPathLen_def Let_def)
  moreover have "links ex_uuid_Parse ex_uuid ex_server 1000 ex_client ex_ping"
    by (simp add: links_def ex_ping_def)
  moreover have "ValidateRequestID ex_uuid_Parse ex_uuid (pw_newID ex_ping) = Inr ()"
    by (simp add: ValidateRequestID_ok ex_ping_def) (simp add: ex_uuid_def)
  moreover have "RuneCountInString (ex_uuid 5) \<le> 36"
    using RuneCount_le [of "ex_uuid 5"] by (simp add: ex_uuid_def)
  moreover have "boundary_files ex_client ex_ping"
    by (simp add: boundary_files_def ex_client_def ex_ping_def ex_helper_defs owned_by_def)
  moreover have "pw_peer ex_ping = Inr 0" "sv_AllowedUID (srv_cfg ex_server) = 1000" "pw_newID ex_ping = ex_uuid 5"
    by (simp_all add: ex_ping_def ex_server_def)
  ultimately show ?thesis
    using ping_succeeds_iff [of ex_uuid_Parse ex_uuid ex_server 1000 ex_client ex_ping] ex_uuid_valid by simp
qed

end
