(* ===== verification/Agent_Privilege.thy ===== *)
theory Agent_Privilege
  imports Agent_Collectors Privilege_Server
begin

text \<open>
  The agent daemon's check of its own privileges: \<^verbatim>\<open>src/internal/agent/privilege_linux.go\<close> and
  \<^verbatim>\<open>agent.go\<close>. The daemon starts only without root, without capabilities on any thread, and hardened.
\<close>

section \<open>Capabilities of a thread\<close>

record CapabilitySet =
  cap_Inh :: u64
  cap_Prm :: u64
  cap_Eff :: u64
  cap_Bnd :: u64
  cap_Amb :: u64

fun hex_digits_value :: "nat \<Rightarrow> string \<Rightarrow> nat option" where
  "hex_digits_value acc [] = Some acc"
| "hex_digits_value acc (c # cs) =
     (case hex_value c of None \<Rightarrow> None | Some d \<Rightarrow> hex_digits_value (acc * 16 + d) cs)"

text \<open>\<^verbatim>\<open>strconv.ParseUint(s, 16, 64)\<close>.\<close>

definition ParseUint16 :: "string \<Rightarrow> u64 option" where
  "ParseUint16 s = (if s = [] then None
     else case hex_digits_value 0 s of
       None \<Rightarrow> None | Some n \<Rightarrow> if n < 2 ^ 64 then Some (of_nat n) else None)"

definition capability_keys :: "string list" where
  "capability_keys = [''CapInh'', ''CapPrm'', ''CapEff'', ''CapBnd'', ''CapAmb'']"

text \<open>A line \<^verbatim>\<open>key: value\<close>.\<close>

definition status_line :: "string \<Rightarrow> (string \<times> string) option" where
  "status_line text =
     (case Cut (CHR '':'') (TrimSpace text) of
        None \<Rightarrow> None
      | Some (key, val) \<Rightarrow> Some (TrimSpace key, TrimSpace val))"

text \<open>
  The five cases of the \<^verbatim>\<open>switch\<close> are alike; the \<^verbatim>\<open>seen\<close> flag and the value of a field are one entry of
  the map.
\<close>

definition capability_step :: "string \<Rightarrow> (string \<rightharpoonup> u64) \<Rightarrow> go_error + (string \<rightharpoonup> u64)" where
  "capability_step text seen =
     (case status_line text of
        None \<Rightarrow> Inr seen
      | Some (key, val) \<Rightarrow>
        (if key \<in> set capability_keys then
           (case ParseUint16 val of
              None \<Rightarrow> Inl (ErrOther ''malformed capability field'')
            | Some v \<Rightarrow> Inr (seen(key \<mapsto> v)))
         else Inr seen))"

definition parseCapabilities :: "string \<Rightarrow> CapabilitySet result" where
  "parseCapabilities content =
     result_bind (for_each capability_step (fst (scan_lines content)) Map.empty) (\<lambda>seen.
       if snd (scan_lines content) then Inl (ErrOther ''error reading status lines'')
       else case (seen ''CapInh'', seen ''CapPrm'', seen ''CapEff'', seen ''CapBnd'', seen ''CapAmb'') of
         (Some inh, Some prm, Some eff, Some bnd, Some amb) \<Rightarrow>
           (if inh \<noteq> 0 \<or> prm \<noteq> 0 \<or> eff \<noteq> 0 \<or> amb \<noteq> 0 then
              Inl (ErrOther ''thread retains unauthorized Linux capabilities'')
            else Inr \<lparr>cap_Inh = inh, cap_Prm = prm, cap_Eff = eff, cap_Bnd = bnd, cap_Amb = amb\<rparr>)
       | _ \<Rightarrow> Inl (ErrOther ''missing required Linux capability fields in thread status''))"

section \<open>All threads\<close>

text \<open>\<open>threads\<close> is the listing of the task directory, each entry with what reading its status file gives; the
  count is that of the threads verified so far.\<close>

definition thread_step :: "string \<times> bytes result \<Rightarrow> nat \<Rightarrow> go_error + nat" where
  "thread_step thread verifiedThreads =
     (case snd thread of
        Inl err \<Rightarrow>
          (if errors_Is err ErrNotExist then Inr verifiedThreads
           else Inl (ErrWrap ''failed to read thread status'' err))
      | Inr content \<Rightarrow>
        (case parseCapabilities content of
           Inl err \<Rightarrow> Inl (ErrWrap ''capability check failed on thread'' err)
         | Inr _ \<Rightarrow> Inr (verifiedThreads + 1)))"

definition checkAllThreadsCapabilities :: "(string \<times> bytes result) list result \<Rightarrow> unit result" where
  "checkAllThreadsCapabilities entries =
     (case entries of
        Inl err \<Rightarrow> Inl (ErrWrap ''failed to enumerate task directory'' err)
      | Inr threads \<Rightarrow>
        result_bind (for_each thread_step threads 0) (\<lambda>verifiedThreads.
          if verifiedThreads = 0 then Inl (ErrOther ''no active threads found to validate'') else Inr ()))"

definition validateAgentEUID :: "int \<Rightarrow> unit result" where
  "validateAgentEUID euid =
     (if euid = 0 then Inl (ErrOther ''stackpilot-agent daemon must not run as root (effective UID 0)'') else Inr ())"

definition EnforceDaemonSecurity ::
  "int \<Rightarrow> (string \<times> bytes result) list result \<Rightarrow> errno option \<Rightarrow> unit result \<Rightarrow> unit result" where
  "EnforceDaemonSecurity euid entries noNewPrivs dumpable =
     (case validateAgentEUID euid of
        Inl e \<Rightarrow> Inl e
      | Inr _ \<Rightarrow>
        (case checkAllThreadsCapabilities entries of
           Inl e \<Rightarrow> Inl (ErrWrap ''capability boundary violation'' e)
         | Inr _ \<Rightarrow>
           (case hardenProcessWithInvokers noNewPrivs dumpable of
              Inl e \<Rightarrow> Inl (ErrWrap ''process hardening failed'' e)
            | Inr _ \<Rightarrow> Inr ())))"

text \<open>The daemon proper runs only when the check passes.\<close>

definition runWithSecurity :: "unit result \<Rightarrow> (unit \<Rightarrow> 'a result) \<Rightarrow> 'a result" where
  "runWithSecurity enforce runPresence =
     (case enforce of Inl e \<Rightarrow> Inl e | Inr _ \<Rightarrow> runPresence ())"

section \<open>What passes the check\<close>

text \<open>The values given to a key by the lines of a status file, in order.\<close>

definition status_values :: "string \<Rightarrow> string list \<Rightarrow> string list" where
  "status_values key ls = [v. Some (k, v) \<leftarrow> map status_line ls, k = key]"

lemma status_values_simps [simp]:
  "status_values key [] = []"
  "status_values key (l # ls) =
     (case status_line l of
        None \<Rightarrow> status_values key ls
      | Some (k, v) \<Rightarrow> if k = key then v # status_values key ls else status_values key ls)"
  by (auto simp: status_values_def split: option.splits)

lemma capability_scan:
  "for_each capability_step ls seen = Inr seen' \<longleftrightarrow>
     (\<forall>key\<in>set capability_keys. \<forall>v\<in>set (status_values key ls). ParseUint16 v \<noteq> None)
     \<and> seen' = (\<lambda>key. if key \<in> set capability_keys \<and> status_values key ls \<noteq> []
                then ParseUint16 (last (status_values key ls)) else seen key)"
proof (induction ls arbitrary: seen)
  case Nil
  then show ?case by auto
next
  case (Cons l ls)
  show ?case
  proof (cases "status_line l")
    case None
    then have "capability_step l seen = Inr seen" "status_values key (l # ls) = status_values key ls" for key
      by (simp_all add: capability_step_def)
    then show ?thesis using Cons.IH [of seen] by (simp del: status_values_simps cong: if_cong)
  next
    case (Some kv)
    obtain k v where kv: "kv = (k, v)" by (cases kv)
    show ?thesis
    proof (cases "k \<in> set capability_keys")
      case False
      then have "capability_step l seen = Inr seen" "\<And>key. key \<in> set capability_keys \<Longrightarrow> k \<noteq> key"
        using Some kv by (auto simp: capability_step_def)
      then show ?thesis using Cons.IH [of seen] Some kv by (auto simp: fun_eq_iff)
    next
      case key: True
      show ?thesis
      proof (cases "ParseUint16 v")
        case None
        then show ?thesis using key Some kv by (auto simp: capability_step_def)
      next
        case (Some x)
        note line = \<open>status_line l = Some kv\<close> [unfolded kv]
        have step: "capability_step l seen = Inr (seen(k \<mapsto> x))"
          using key line Some by (simp add: capability_step_def)
        have "(\<forall>key\<in>set capability_keys. \<forall>v\<in>set (status_values key (l # ls)). ParseUint16 v \<noteq> None) \<longleftrightarrow>
            (\<forall>key\<in>set capability_keys. \<forall>v\<in>set (status_values key ls). ParseUint16 v \<noteq> None)"
          using line Some by auto
        moreover have "(\<lambda>key. if key \<in> set capability_keys \<and> status_values key (l # ls) \<noteq> []
              then ParseUint16 (last (status_values key (l # ls))) else seen key) =
            (\<lambda>key. if key \<in> set capability_keys \<and> status_values key ls \<noteq> []
              then ParseUint16 (last (status_values key ls)) else (seen(k \<mapsto> x)) key)"
          using line Some key by (auto simp: fun_eq_iff)
        ultimately show ?thesis
          using Cons.IH [of "seen(k \<mapsto> x)"] step by (simp only: for_each.simps sum.case)
      qed
    qed
  qed
qed

text \<open>Every value of a capability field reads as a number, every field is there, and the last value of
  each but the bounding set is zero.\<close>

definition unprivileged_status :: "string \<Rightarrow> bool" where
  "unprivileged_status content \<longleftrightarrow> \<not> snd (scan_lines content)
     \<and> (\<forall>key\<in>set capability_keys. let vs = status_values key (fst (scan_lines content)) in
          vs \<noteq> [] \<and> (\<forall>v\<in>set vs. ParseUint16 v \<noteq> None) \<and> (key \<noteq> ''CapBnd'' \<longrightarrow> ParseUint16 (last vs) = Some 0))"

lemma parseCapabilities_ok: "(\<exists>caps. parseCapabilities content = Inr caps) \<longleftrightarrow> unprivileged_status content"
proof -
  let ?vs = "\<lambda>key. status_values key (fst (scan_lines content))"
  let ?final = "\<lambda>key. if key \<in> set capability_keys \<and> ?vs key \<noteq> [] then ParseUint16 (last (?vs key)) else None"
  let ?parses = "\<forall>key\<in>set capability_keys. \<forall>v\<in>set (?vs key). ParseUint16 v \<noteq> None"
  show ?thesis
  proof (cases ?parses)
    case True
    then have scan: "for_each capability_step (fst (scan_lines content)) Map.empty = Inr ?final"
      by (simp add: capability_scan)
    have bnd: "?vs ''CapBnd'' = [] \<or> ParseUint16 (last (?vs ''CapBnd'')) \<noteq> None"
    proof -
      have "''CapBnd'' \<in> set capability_keys" by (simp add: capability_keys_def)
      then show ?thesis using True last_in_set by blast
    qed
    show ?thesis
      using True
      by (simp add: parseCapabilities_def scan result_bind_def unprivileged_status_def capability_keys_def Let_def
          split: option.splits if_splits) (use bnd in auto)
  next
    case False
    then have "for_each capability_step (fst (scan_lines content)) Map.empty \<noteq> Inr m" for m
      by (auto simp: capability_scan)
    then have "\<nexists>caps. parseCapabilities content = Inr caps"
      by (cases "for_each capability_step (fst (scan_lines content)) Map.empty")
        (auto simp: parseCapabilities_def result_bind_def)
    then show ?thesis using False by (auto simp: unprivileged_status_def Let_def)
  qed
qed

definition unprivileged_thread :: "string \<times> bytes result \<Rightarrow> bool" where
  "unprivileged_thread thread \<longleftrightarrow>
     (case snd thread of Inl e \<Rightarrow> errors_Is e ErrNotExist | Inr content \<Rightarrow> unprivileged_status content)"

lemma thread_scan:
  "for_each thread_step threads n = Inr m \<longleftrightarrow>
     (\<forall>t\<in>set threads. unprivileged_thread t) \<and> m = n + count_where (\<lambda>t. isl (snd t) = False) threads"
proof (induction threads arbitrary: n)
  case (Cons t ts)
  then show ?case
    using parseCapabilities_ok [of "projr (snd t)"]
    by (auto simp: thread_step_def unprivileged_thread_def split: sum.splits)
qed auto

text \<open>
  C39. The daemon's own check passes exactly when the process is not root, at least one of its threads
  could be read and every thread that still exists reports all five capability sets with nothing
  inheritable, permitted, effective or ambient, and both hardening calls succeed; in every other case
  the daemon ends with the error of the check and the presence loop is not entered.
\<close>

theorem daemon_runs_unprivileged:
  "if euid \<noteq> 0 \<and> noNewPrivs = None \<and> dumpable = Inr ()
      \<and> (\<exists>threads. entries = Inr threads \<and> (\<exists>t c. (t, Inr c) \<in> set threads) \<and> list_all unprivileged_thread threads)
   then runWithSecurity (EnforceDaemonSecurity euid entries noNewPrivs dumpable) run = run ()
   else \<exists>e. EnforceDaemonSecurity euid entries noNewPrivs dumpable = Inl e
          \<and> runWithSecurity (EnforceDaemonSecurity euid entries noNewPrivs dumpable) run = Inl e"
proof -
  have active: "count_where (\<lambda>t. isl (snd t) = False) ts = 0 \<longleftrightarrow> \<not> (\<exists>t c. (t, Inr c) \<in> set ts)"
    for ts :: "(string \<times> bytes result) list"
    unfolding count_where_zero by (metis isl_def obj_sumE prod.collapse snd_conv sum.disc(2))
  have threads: "checkAllThreadsCapabilities entries = Inr () \<longleftrightarrow>
      (\<exists>threads. entries = Inr threads \<and> (\<exists>t c. (t, Inr c) \<in> set threads) \<and> list_all unprivileged_thread threads)"
  proof (cases entries)
    case (Inr ts)
    have "for_each thread_step ts 0 = Inr n \<longleftrightarrow>
        list_all unprivileged_thread ts \<and> n = count_where (\<lambda>t. isl (snd t) = False) ts" for n
      using thread_scan [of ts 0 n] by (simp add: list_all_iff)
    with Inr active [of ts] show ?thesis
      by (cases "for_each thread_step ts 0") (auto simp: checkAllThreadsCapabilities_def result_bind_def)
  qed (simp add: checkAllThreadsCapabilities_def)
  have "hardenProcessWithInvokers noNewPrivs dumpable = Inr () \<longleftrightarrow> noNewPrivs = None \<and> dumpable = Inr ()"
    by (auto simp: hardenProcessWithInvokers_def split: option.splits errno.splits sum.splits)
  then have "EnforceDaemonSecurity euid entries noNewPrivs dumpable = Inr () \<longleftrightarrow>
      euid \<noteq> 0 \<and> noNewPrivs = None \<and> dumpable = Inr () \<and> checkAllThreadsCapabilities entries = Inr ()"
    by (auto simp: EnforceDaemonSecurity_def validateAgentEUID_def split: sum.splits)
  note passes = this [unfolded threads]
  show ?thesis
  proof (cases "EnforceDaemonSecurity euid entries noNewPrivs dumpable")
    case (Inl e)
    then show ?thesis using passes unfolding runWithSecurity_def by (simp only: sum.case sum.distinct if_False) simp
  next
    case (Inr u)
    then show ?thesis using passes unfolding runWithSecurity_def by (cases u) (simp only: sum.case simp_thms if_True)
  qed
qed

definition ex_status :: string where
  "ex_status = ''CapInh:0'' @ [CHR 0x0A] @ ''CapPrm:0'' @ [CHR 0x0A] @ ''CapEff:0'' @ [CHR 0x0A] @ ''CapBnd:ff''
     @ [CHR 0x0A] @ ''CapAmb:0'' @ [CHR 0x0A]"

lemma ex_status_ok: "unprivileged_status ex_status"
  by (simp add: ex_status_def unprivileged_status_def scan_lines_def raw_lines_def drop_cr_def MaxScanTokenSize_def
      status_line_def Cut_def capability_keys_def ParseUint16_def hex_value_def text_eval Let_def
      del: rune_segments.simps)

end
