(* ===== verification/Go_Net.thy ===== *)
theory Go_Net
  imports Json
begin

text \<open>
  What the program uses of \<^verbatim>\<open>net\<close>, \<^verbatim>\<open>net/netip\<close> and \<^verbatim>\<open>net/url\<close>: splitting a host from its port and parsing
  literal IP addresses. \<^verbatim>\<open>url.Parse\<close> itself is a parameter of the definitions that call it; the host and
  port of a parsed URL are computed here.
\<close>

section \<open>Host and port\<close>

text \<open>The part before and after the last occurrence.\<close>

definition cut_last :: "char \<Rightarrow> string \<Rightarrow> (string \<times> string) option" where
  "cut_last c s = map_option (\<lambda>(a, b). (rev b, rev a)) (Cut c (rev s))"

definition SplitHostPort :: "string \<Rightarrow> (string \<times> string) option" where
  "SplitHostPort hostport =
     (case cut_last (CHR '':'') hostport of
        None \<Rightarrow> None
      | Some (before, port) \<Rightarrow>
        (if hd hostport = CHR ''['' then
           (case Cut (CHR '']'') hostport of
              None \<Rightarrow> None
            | Some (bracketed, rest) \<Rightarrow>
              (if rest \<noteq> CHR '':'' # port then None
               else if CHR ''['' \<in> set (tl hostport) \<or> CHR '']'' \<in> set rest then None
               else Some (tl bracketed, port)))
         else if CHR '':'' \<in> set before then None
         else if CHR ''['' \<in> set hostport \<or> CHR '']'' \<in> set hostport then None
         else Some (before, port)))"

section \<open>IP addresses\<close>

text \<open>Sixteen bytes and a zone for IPv6.\<close>

datatype addr = IPv4 "nat list" | IPv6 "nat list" string

definition ipv4_field :: "string \<Rightarrow> nat option" where
  "ipv4_field s =
     (if s = [] \<or> (hd s = CHR ''0'' \<and> tl s \<noteq> []) then None
      else case digits_value 0 s of None \<Rightarrow> None | Some n \<Rightarrow> if n \<le> 255 then Some n else None)"

definition parseIPv4Fields :: "string \<Rightarrow> nat list option" where
  "parseIPv4Fields s =
     (let fs = Split (CHR ''.'') s in
      if length fs \<noteq> 4 then None else those (map ipv4_field fs))"

text \<open>
  The loop of \<^verbatim>\<open>parseIPv6\<close>: \<open>ip\<close> are the bytes so far, \<open>ellipsis\<close> the position of \<^verbatim>\<open>::\<close>. A round reads one
  group and either leaves the loop (with the text, the bytes and the position) or goes on with them.
\<close>

type_synonym ipv6_state = "string \<times> nat list \<times> nat option"

definition ipv6_group :: "string \<Rightarrow> nat list \<Rightarrow> nat option \<Rightarrow> (ipv6_state + ipv6_state) option" where
  "ipv6_group s ip ellipsis =
     (let group = takeWhile is_hex s; rest = dropWhile is_hex s in
      if group = [] \<or> 4 < length group then None
      else if rest \<noteq> [] \<and> hd rest = CHR ''.'' then
        (if ellipsis = None \<and> length ip \<noteq> 12 then None
         else if 16 < length ip + 4 then None
         else case parseIPv4Fields s of
           None \<Rightarrow> None
         | Some quad \<Rightarrow> Some (Inl ([], ip @ quad, ellipsis)))
      else let acc = foldl (\<lambda>a c. a * 16 + the (hex_value c)) 0 group; ip' = ip @ [acc div 256, acc mod 256] in
        if rest = [] then Some (Inl ([], ip', ellipsis))
        else if hd rest \<noteq> CHR '':'' \<or> tl rest = [] then None
        else if hd (tl rest) = CHR '':'' then
          (if ellipsis \<noteq> None then None
           else if tl (tl rest) = [] then Some (Inl ([], ip', Some (length ip')))
           else Some (Inr (tl (tl rest), ip', Some (length ip'))))
        else Some (Inr (tl rest, ip', ellipsis)))"

lemma ipv6_group_grows: "ipv6_group s ip e = Some (Inr (s', ip', e')) \<Longrightarrow> length ip' = length ip + 2"
  by (auto simp: ipv6_group_def Let_def split: if_splits option.splits)

function ipv6_loop :: "string \<Rightarrow> nat list \<Rightarrow> nat option \<Rightarrow> ipv6_state option" where
  "ipv6_loop s ip ellipsis =
     (if 16 \<le> length ip then Some (s, ip, ellipsis)
      else case ipv6_group s ip ellipsis of
        None \<Rightarrow> None
      | Some (Inl r) \<Rightarrow> Some r
      | Some (Inr (s', ip', ellipsis')) \<Rightarrow> ipv6_loop s' ip' ellipsis')"
  by pat_completeness auto

termination
  by (relation "measure (\<lambda>(s, ip, ellipsis). 16 - length ip)") (auto dest: ipv6_group_grows)

declare ipv6_loop.simps [simp del]

definition ipv6_finish :: "string \<times> nat list \<times> nat option \<Rightarrow> nat list option" where
  "ipv6_finish r =
     (case r of (s, ip, ellipsis) \<Rightarrow>
        if s \<noteq> [] then None
        else if length ip < 16 then
          (case ellipsis of
             None \<Rightarrow> None
           | Some e \<Rightarrow> Some (take e ip @ replicate (16 - length ip) 0 @ drop e ip))
        else if ellipsis \<noteq> None then None else Some ip)"

definition parseIPv6 :: "string \<Rightarrow> addr option" where
  "parseIPv6 s0 =
     (case (case Cut (CHR ''%'') s0 of None \<Rightarrow> Some (s0, []) | Some (a, z) \<Rightarrow> if z = [] then None else Some (a, z)) of
        None \<Rightarrow> None
      | Some (s, zone) \<Rightarrow>
        map_option (\<lambda>ip. IPv6 ip zone)
          (if HasPrefix s ''::'' then
             (if drop 2 s = [] then Some (replicate 16 0)
              else Option.bind (ipv6_loop (drop 2 s) [] (Some 0)) ipv6_finish)
           else Option.bind (ipv6_loop s [] None) ipv6_finish))"

text \<open>The first of the three characters decides how the text is read.\<close>

definition ParseAddr :: "string \<Rightarrow> addr option" where
  "ParseAddr s =
     (case dropWhile (\<lambda>c. c \<notin> {CHR ''.'', CHR '':'', CHR ''%''}) s of
        [] \<Rightarrow> None
      | c # _ \<Rightarrow>
        (if c = CHR ''.'' then map_option IPv4 (parseIPv4Fields s)
         else if c = CHR '':'' then parseIPv6 s
         else None))"

text \<open>An IPv4 address written as IPv6 counts as IPv4.\<close>

fun Unmap :: "addr \<Rightarrow> addr" where
  "Unmap (IPv4 q) = IPv4 q"
| "Unmap (IPv6 ip zone) =
     (if take 10 ip = replicate 10 0 \<and> take 2 (drop 10 ip) = [255, 255] then IPv4 (drop 12 ip) else IPv6 ip zone)"

definition IsLoopback :: "addr \<Rightarrow> bool" where
  "IsLoopback a =
     (case Unmap a of IPv4 q \<Rightarrow> q ! 0 = 127 | IPv6 ip _ \<Rightarrow> ip = replicate 15 0 @ [1])"

definition IsUnspecified :: "addr \<Rightarrow> bool" where
  "IsUnspecified a \<longleftrightarrow> a = IPv4 [0, 0, 0, 0] \<or> a = IPv6 (replicate 16 0) []"

section \<open>URLs\<close>

record URL =
  u_Scheme :: string
  u_HasUser :: bool
  u_Host :: string
  u_Path :: string
  u_RawQuery :: string
  u_Fragment :: string

text \<open>A trailing port of digits is split off the host, and the brackets of an IPv6 host are removed.\<close>

definition url_host_port :: "string \<Rightarrow> string \<times> string" where
  "url_host_port hostPort =
     (let (host, port) = (case cut_last (CHR '':'') hostPort of
          None \<Rightarrow> (hostPort, [])
        | Some (h, p) \<Rightarrow> if list_all is_digit p then (h, p) else (hostPort, []))
      in (if HasPrefix host ''['' \<and> HasSuffix host '']'' then butlast (tl host) else host, port))"

definition URL_Hostname :: "URL \<Rightarrow> string" where "URL_Hostname u = fst (url_host_port (u_Host u))"
definition URL_Port :: "URL \<Rightarrow> string" where "URL_Port u = snd (url_host_port (u_Host u))"

section \<open>Facts\<close>

definition octets :: "nat list \<Rightarrow> bool" where
  "octets ns \<longleftrightarrow> list_all (\<lambda>n. n \<le> 255) ns"

lemma octets_simps [simp]:
  "octets []" "octets (n # ns) = (n \<le> 255 \<and> octets ns)" "octets (ms @ ns) = (octets ms \<and> octets ns)"
  "octets (replicate k 0)"
  by (auto simp: octets_def list_all_iff)

lemma octets_take_drop: "octets ns \<Longrightarrow> octets (take k ns) \<and> octets (drop k ns)"
  by (metis append_take_drop_id octets_simps(3))

lemma those_SomeD: "those xs = Some ys \<Longrightarrow> xs = map Some ys"
  by (induction xs arbitrary: ys) (auto split: option.splits)

lemma ipv4_fields_range:
  assumes "parseIPv4Fields s = Some q"
  shows "length q = 4 \<and> octets q"
proof -
  have fs: "map ipv4_field (Split (CHR ''.'') s) = map Some q" "length (Split (CHR ''.'') s) = 4"
    using assms by (auto simp: parseIPv4Fields_def Let_def dest: those_SomeD split: if_splits)
  have "n \<le> 255" if "n \<in> set q" for n
  proof -
    have "Some n \<in> set (map ipv4_field (Split (CHR ''.'') s))" using that fs(1) by simp
    then show ?thesis by (auto simp: ipv4_field_def split: if_splits option.splits)
  qed
  moreover have "length q = 4" using arg_cong [OF fs(1), of length] fs(2) by simp
  ultimately show ?thesis by (simp add: octets_def list_all_iff)
qed

lemma hex_group_value: "foldl (\<lambda>a c. a * 16 + the (hex_value c)) n (takeWhile is_hex s) < (n + 1) * 16 ^ length (takeWhile is_hex s)"
proof (induction s arbitrary: n)
  case (Cons c s)
  show ?case
  proof (cases "is_hex c")
    case True
    then have "the (hex_value c) < 16"
      by (auto simp: is_hex_def hex_value_def Let_def split: if_splits)
    then have "(n * 16 + the (hex_value c) + 1) * 16 ^ length (takeWhile is_hex s)
        \<le> ((n + 1) * 16) * 16 ^ length (takeWhile is_hex s)"
      by (intro mult_right_mono) auto
    also have "((n + 1) * 16) * 16 ^ length (takeWhile is_hex s) = (n + 1) * 16 ^ length (takeWhile is_hex (c # s))"
      using True by (simp add: add_mult_distrib)
    finally show ?thesis
      using less_le_trans [OF Cons.IH [of "n * 16 + the (hex_value c)"]] True by simp
  qed simp
qed simp

lemma ipv6_group_range:
  assumes "ipv6_group s ip e = Some r" and "octets ip" and "even (length ip)" and "length ip < 16"
  shows "case r of Inl (_, ip', _) \<Rightarrow> octets ip' \<and> length ip' \<le> 16
    | Inr (_, ip', _) \<Rightarrow> octets ip' \<and> even (length ip') \<and> length ip' \<le> 16"
proof -
  let ?g = "takeWhile is_hex s"
  let ?acc = "foldl (\<lambda>a c. a * 16 + the (hex_value c)) 0 ?g"
  have g: "length ?g \<le> 4" using assms(1) by (auto simp: ipv6_group_def Let_def split: if_splits)
  have "?acc < 16 ^ length ?g" using hex_group_value [of 0 s] by simp
  also have "(16 :: nat) ^ length ?g \<le> 16 ^ 4" using g by (intro power_increasing) auto
  finally have acc: "?acc div 256 \<le> 255" "?acc mod 256 \<le> 255" by auto
  have room: "length ip + 2 \<le> 16" using assms(3,4) by presburger
  show ?thesis
    using assms acc room ipv4_fields_range [of s]
    by (auto simp: ipv6_group_def Let_def split: if_splits option.splits)
qed

lemma ipv6_loop_range:
  assumes "ipv6_loop s ip ellipsis = Some (t, ip', e)" and "octets ip" and "even (length ip)" and "length ip \<le> 16"
  shows "octets ip' \<and> length ip' \<le> 16"
  using assms
proof (induction s ip ellipsis rule: ipv6_loop.induct)
  case (1 s ip ellipsis)
  show ?case
  proof (cases "16 \<le> length ip")
    case True
    then show ?thesis using "1.prems" by (simp add: ipv6_loop.simps [of s])
  next
    case False
    then obtain r where r: "ipv6_group s ip ellipsis = Some r"
      using "1.prems"(1) by (cases "ipv6_group s ip ellipsis") (auto simp: ipv6_loop.simps [of s])
    then show ?thesis
      using "1.prems" "1.IH" [OF False r] ipv6_group_range [OF r] False
      by (cases r) (auto simp: ipv6_loop.simps [of s])
  qed
qed

definition addr_ok :: "addr \<Rightarrow> bool" where
  "addr_ok a = (case a of IPv4 q \<Rightarrow> length q = 4 \<and> octets q | IPv6 ip _ \<Rightarrow> length ip = 16 \<and> octets ip)"

lemma ParseAddr_range:
  assumes "ParseAddr s = Some a"
  shows "addr_ok a"
proof -
  have loop: "length ip = 16 \<and> octets ip" if bound: "Option.bind (ipv6_loop t [] e) ipv6_finish = Some ip" for t e ip
  proof -
    obtain t' ip' e' where *: "ipv6_loop t [] e = Some (t', ip', e')" "ipv6_finish (t', ip', e') = Some ip"
      using bound by (auto simp: bind_eq_Some_conv)
    then show ?thesis
      using ipv6_loop_range [OF *(1)]
      by (auto simp: ipv6_finish_def octets_take_drop split: if_splits option.splits)
  qed
  then show ?thesis
    using assms ipv4_fields_range
    by (fastforce simp: ParseAddr_def parseIPv6_def addr_ok_def split: list.splits if_splits option.splits)
qed

text \<open>The loopback addresses: 127.0.0.0/8, also written as IPv6, and ::1 in any zone.\<close>

lemma length_four: "length xs = 4 \<Longrightarrow> \<exists>a b c d. xs = [a, b, c, d]"
  by (cases xs rule: list.exhaust; cases "tl xs"; cases "tl (tl xs)"; cases "tl (tl (tl xs))") auto

lemma IsLoopback_cases:
  assumes "addr_ok a" and "IsLoopback a"
  shows "(\<exists>b c d. a = IPv4 [127, b, c, d]) \<or> (\<exists>b c d z. a = IPv6 (replicate 10 0 @ [255, 255, 127, b, c, d]) z)
    \<or> (\<exists>z. a = IPv6 (replicate 15 0 @ [1]) z)"
proof (cases a)
  case (IPv4 q)
  then obtain x b c d where "q = [x, b, c, d]" using assms(1) length_four [of q] by (auto simp: addr_ok_def)
  then show ?thesis using assms(2) IPv4 by (simp add: IsLoopback_def)
next
  case (IPv6 ip z)
  show ?thesis
  proof (cases "take 10 ip = replicate 10 0 \<and> take 2 (drop 10 ip) = [255, 255]")
    case True
    have "length (drop 12 ip) = 4" using assms(1) IPv6 by (simp add: addr_ok_def)
    then obtain x b c d where tail: "drop 12 ip = [x, b, c, d]"
      using length_four by blast
    have "ip = take 10 ip @ take 2 (drop 10 ip) @ drop 12 ip"
      using append_take_drop_id [of 10 ip] append_take_drop_id [of 2 "drop 10 ip"] by simp
    then have "ip = replicate 10 0 @ [255, 255] @ [x, b, c, d]" using True tail by simp
    moreover have "x = 127" using assms(2) IPv6 True tail by (simp add: IsLoopback_def)
    ultimately show ?thesis using IPv6 by simp
  next
    case False
    then have "Unmap a = a" using IPv6 by (simp only: Unmap.simps if_False)
    then show ?thesis using assms(2) IPv6 by (simp add: IsLoopback_def)
  qed
qed

lemma cut_last_Some: "cut_last c s = Some (a, b) \<Longrightarrow> s = a @ c # b \<and> c \<notin> set b"
proof -
  assume "cut_last c s = Some (a, b)"
  then have "Cut c (rev s) = Some (rev b, rev a)" by (auto simp: cut_last_def)
  from Cut_Some [OF this] show ?thesis by (simp add: rev_swap)
qed

text \<open>The host and port are pieces of the address.\<close>

lemma SplitHostPort_join:
  assumes "SplitHostPort s = Some (host, port)"
  shows "s = host @ CHR '':'' # port \<or> s = CHR ''['' # host @ CHR '']'' # CHR '':'' # port"
proof -
  obtain a where cut: "cut_last (CHR '':'') s = Some (a, port)"
    using assms by (auto simp: SplitHostPort_def split: option.splits if_splits)
  have last: "s = a @ CHR '':'' # port" using cut_last_Some [OF cut] by simp
  show ?thesis
  proof (cases "hd s = CHR ''[''")
    case False
    then show ?thesis using assms cut last by (auto simp: SplitHostPort_def split: if_splits)
  next
    case True
    then obtain b where b: "Cut (CHR '']'') s = Some (b, CHR '':'' # port)" "host = tl b"
      using assms cut by (auto simp: SplitHostPort_def split: option.splits if_splits)
    then have s: "s = b @ CHR '']'' # CHR '':'' # port" using Cut_Some by blast
    then have "b \<noteq> []" using True by (cases b) auto
    then have "b = CHR ''['' # host" using b(2) True s by (cases b) auto
    then show ?thesis using s by simp
  qed
qed

end
