(* ===== verification/Controller_Config.thy ===== *)
theory Controller_Config
  imports Go_Net Operator_Domain
begin

text \<open>
  The controller's configuration: \<^verbatim>\<open>src/internal/controller/config.go\<close>. The environment is a partial map;
  \<^verbatim>\<open>url.Parse\<close> and the Unicode case mapping are parameters.
\<close>

section \<open>Settings\<close>

text \<open>\<^verbatim>\<open>slog.Level\<close> is an integer with four named values.\<close>

definition LevelDebug :: int where "LevelDebug = -4"
definition LevelInfo :: int where "LevelInfo = 0"
definition LevelWarn :: int where "LevelWarn = 4"
definition LevelError :: int where "LevelError = 8"

record Config =
  cfg_ListenAddress :: string
  cfg_LogLevel :: int
  cfg_DatabaseURL :: string
  cfg_AgentListenAddress :: string
  cfg_AgentTLSCertFile :: string
  cfg_AgentTLSKeyFile :: string

definition defaultListenAddress :: string where "defaultListenAddress = ''127.0.0.1:7447''"

definition RemoteEnabled :: "Config \<Rightarrow> bool" where
  "RemoteEnabled cfg \<longleftrightarrow> cfg_AgentListenAddress cfg \<noteq> []"

definition defaultConfig :: Config where
  "defaultConfig = \<lparr>cfg_ListenAddress = defaultListenAddress, cfg_LogLevel = LevelInfo, cfg_DatabaseURL = [],
     cfg_AgentListenAddress = [], cfg_AgentTLSCertFile = [], cfg_AgentTLSKeyFile = []\<rparr>"

section \<open>Checks\<close>

definition validateListenAddress :: "string \<Rightarrow> unit result" where
  "validateListenAddress addr =
     (case SplitHostPort addr of
        None \<Rightarrow> Inl (ErrOther ''must be a valid host:port string'')
      | Some (host, portStr) \<Rightarrow>
        (case ParseInt portStr of
           None \<Rightarrow> Inl (ErrOther ''port must be an integer between 1 and 65535'')
         | Some port \<Rightarrow>
           (if port < 1 \<or> port > 65535 then Inl (ErrOther ''port must be an integer between 1 and 65535'')
            else case ParseAddr host of
              None \<Rightarrow> Inl (ErrOther ''host must be a literal IP address'')
            | Some ip \<Rightarrow>
              (if \<not> IsLoopback ip then Inl (ErrOther ''address must use a loopback IP'') else Inr ()))))"

definition validateAgentListenAddress :: "string \<Rightarrow> unit result" where
  "validateAgentListenAddress addr =
     (case SplitHostPort addr of
        None \<Rightarrow> Inl (ErrOther ''must be a valid host:port string'')
      | Some (host, portStr) \<Rightarrow>
        (case ParseInt portStr of
           None \<Rightarrow> Inl (ErrOther ''port must be an integer between 1 and 65535'')
         | Some port \<Rightarrow>
           (if port < 1 \<or> port > 65535 then Inl (ErrOther ''port must be an integer between 1 and 65535'')
            else case ParseAddr host of
              None \<Rightarrow> Inl (ErrOther ''host must be a literal IP address'')
            | Some _ \<Rightarrow> Inr ())))"

definition validateLogLevel :: "int \<Rightarrow> unit result" where
  "validateLogLevel level =
     (if level \<in> {LevelDebug, LevelInfo, LevelWarn, LevelError} then Inr ()
      else Inl (ErrOther ''unsupported log level (allowed: debug, info, warn, error)''))"

definition parseLogLevel :: "(string \<Rightarrow> string) \<Rightarrow> string \<Rightarrow> int result" where
  "parseLogLevel lower val =
     (let v = strings_ToLower lower val in
      if v = ''debug'' then Inr LevelDebug
      else if v = ''info'' then Inr LevelInfo
      else if v = ''warn'' then Inr LevelWarn
      else if v = ''error'' then Inr LevelError
      else Inl (ErrOther ''unsupported value (allowed: debug, info, warn, error)''))"

definition TrimPrefix :: "string \<Rightarrow> string \<Rightarrow> string" where
  "TrimPrefix s p = (if HasPrefix s p then drop (length p) s else s)"

definition validateDatabaseURL :: "(string \<Rightarrow> URL option) \<Rightarrow> string \<Rightarrow> unit result" where
  "validateDatabaseURL url_Parse rawURL =
     (case url_Parse rawURL of
        None \<Rightarrow> Inl (ErrOther ''invalid STACKPILOT_DATABASE_URL: invalid PostgreSQL connection URL'')
      | Some u \<Rightarrow>
        (if u_Scheme u \<noteq> ''postgres'' \<and> u_Scheme u \<noteq> ''postgresql'' then
           Inl (ErrOther ''invalid STACKPILOT_DATABASE_URL: scheme must be postgres or postgresql'')
         else if URL_Hostname u = [] then
           Inl (ErrOther ''invalid STACKPILOT_DATABASE_URL: host cannot be empty'')
         else if TrimPrefix (u_Path u) ''/'' = [] then
           Inl (ErrOther ''invalid STACKPILOT_DATABASE_URL: database name cannot be empty'')
         else Inr ()))"

text \<open>\<^verbatim>\<open>if err := v; err != nil { return err }\<close>, then the rest.\<close>

abbreviation andThen :: "unit result \<Rightarrow> 'a result \<Rightarrow> 'a result" where
  "andThen v rest \<equiv> (case v of Inl e \<Rightarrow> Inl e | Inr _ \<Rightarrow> rest)"

abbreviation failing :: "string \<Rightarrow> 'a result" where
  "failing msg \<equiv> Inl (ErrOther msg)"

abbreviation wrapping :: "string \<Rightarrow> unit result \<Rightarrow> unit result" where
  "wrapping msg v \<equiv> (case v of Inl e \<Rightarrow> Inl (ErrWrap msg e) | Inr u \<Rightarrow> Inr u)"

definition Config_validate :: "(string \<Rightarrow> URL option) \<Rightarrow> Config \<Rightarrow> unit result" where
  "Config_validate url_Parse cfg =
     (if cfg_ListenAddress cfg = [] then failing ''listen address cannot be empty''
      else andThen (validateListenAddress (cfg_ListenAddress cfg))
       (andThen (validateLogLevel (cfg_LogLevel cfg))
         (if cfg_DatabaseURL cfg = [] then failing ''invalid STACKPILOT_DATABASE_URL: cannot be empty''
          else andThen (validateDatabaseURL url_Parse (cfg_DatabaseURL cfg))
            (if cfg_AgentListenAddress cfg \<noteq> [] then
               andThen (wrapping ''invalid STACKPILOT_AGENT_LISTEN_ADDRESS''
                   (validateAgentListenAddress (cfg_AgentListenAddress cfg)))
                 (if cfg_AgentTLSCertFile cfg = [] then
                    failing ''invalid STACKPILOT_AGENT_TLS_CERT_FILE: cannot be empty''
                  else if cfg_AgentTLSKeyFile cfg = [] then
                    failing ''invalid STACKPILOT_AGENT_TLS_KEY_FILE: cannot be empty''
                  else Inr ())
             else Inr ()))))"

section \<open>Loading\<close>

text \<open>An optional setting: absent it leaves the configuration alone, empty it is an error.\<close>

definition load_database :: "(string \<Rightarrow> URL option) \<Rightarrow> (string \<rightharpoonup> string) \<Rightarrow> Config \<Rightarrow> Config result" where
  "load_database url_Parse LookupEnv cfg =
     (case LookupEnv ''STACKPILOT_DATABASE_URL'' of
        None \<Rightarrow> failing ''missing required STACKPILOT_DATABASE_URL''
      | Some dbURL \<Rightarrow>
        (if dbURL = [] then failing ''invalid STACKPILOT_DATABASE_URL: cannot be empty''
         else andThen (validateDatabaseURL url_Parse dbURL) (Inr (cfg\<lparr>cfg_DatabaseURL := dbURL\<rparr>))))"

definition load_listen :: "(string \<rightharpoonup> string) \<Rightarrow> Config \<Rightarrow> Config result" where
  "load_listen LookupEnv cfg =
     (case LookupEnv ''STACKPILOT_LISTEN_ADDRESS'' of
        None \<Rightarrow> Inr cfg
      | Some val \<Rightarrow>
        (if val = [] then failing ''invalid STACKPILOT_LISTEN_ADDRESS: cannot be empty''
         else andThen (wrapping ''invalid STACKPILOT_LISTEN_ADDRESS'' (validateListenAddress val))
           (Inr (cfg\<lparr>cfg_ListenAddress := val\<rparr>))))"

definition load_level :: "(string \<Rightarrow> string) \<Rightarrow> (string \<rightharpoonup> string) \<Rightarrow> Config \<Rightarrow> Config result" where
  "load_level lower LookupEnv cfg =
     (case LookupEnv ''STACKPILOT_LOG_LEVEL'' of
        None \<Rightarrow> Inr cfg
      | Some val \<Rightarrow>
        (if val = [] then failing ''invalid STACKPILOT_LOG_LEVEL: cannot be empty''
         else case parseLogLevel lower val of
           Inl e \<Rightarrow> Inl (ErrWrap ''invalid STACKPILOT_LOG_LEVEL'' e)
         | Inr level \<Rightarrow> Inr (cfg\<lparr>cfg_LogLevel := level\<rparr>)))"

definition load_agent_listen :: "(string \<rightharpoonup> string) \<Rightarrow> Config \<Rightarrow> Config result" where
  "load_agent_listen LookupEnv cfg =
     (case LookupEnv ''STACKPILOT_AGENT_LISTEN_ADDRESS'' of
        None \<Rightarrow> Inr cfg
      | Some val \<Rightarrow>
        (if val = [] then failing ''invalid STACKPILOT_AGENT_LISTEN_ADDRESS: cannot be empty''
         else andThen (wrapping ''invalid STACKPILOT_AGENT_LISTEN_ADDRESS'' (validateAgentListenAddress val))
           (Inr (cfg\<lparr>cfg_AgentListenAddress := val\<rparr>))))"

definition load_tls :: "(string \<rightharpoonup> string) \<Rightarrow> Config \<Rightarrow> Config" where
  "load_tls LookupEnv cfg =
     cfg\<lparr>cfg_AgentTLSCertFile :=
           (case LookupEnv ''STACKPILOT_AGENT_TLS_CERT_FILE'' of None \<Rightarrow> cfg_AgentTLSCertFile cfg | Some val \<Rightarrow> val),
         cfg_AgentTLSKeyFile :=
           (case LookupEnv ''STACKPILOT_AGENT_TLS_KEY_FILE'' of None \<Rightarrow> cfg_AgentTLSKeyFile cfg | Some val \<Rightarrow> val)\<rparr>"

definition LoadConfig ::
  "(string \<Rightarrow> string) \<Rightarrow> (string \<Rightarrow> URL option) \<Rightarrow> (string \<rightharpoonup> string) \<Rightarrow> Config result" where
  "LoadConfig lower url_Parse LookupEnv =
     (case load_database url_Parse LookupEnv defaultConfig of
        Inl e \<Rightarrow> Inl e
      | Inr cfg1 \<Rightarrow>
        (case load_listen LookupEnv cfg1 of
           Inl e \<Rightarrow> Inl e
         | Inr cfg2 \<Rightarrow>
           (case load_level lower LookupEnv cfg2 of
              Inl e \<Rightarrow> Inl e
            | Inr cfg3 \<Rightarrow>
              (case load_agent_listen LookupEnv cfg3 of
                 Inl e \<Rightarrow> Inl e
               | Inr cfg4 \<Rightarrow>
                 (let cfg = load_tls LookupEnv cfg4 in
                  case Config_validate url_Parse cfg of
                    Inl e \<Rightarrow> Inl (ErrWrap ''invalid controller configuration'' e)
                  | Inr _ \<Rightarrow> Inr cfg)))))"

section \<open>What is accepted\<close>

text \<open>A literal IP address and a port number, and what the address must satisfy.\<close>

definition listens :: "(addr \<Rightarrow> bool) \<Rightarrow> string \<Rightarrow> bool" where
  "listens P s \<longleftrightarrow> (\<exists>host portStr port ip. SplitHostPort s = Some (host, portStr) \<and> ParseInt portStr = Some port
     \<and> 1 \<le> port \<and> port \<le> 65535 \<and> ParseAddr host = Some ip \<and> P ip)"

lemma validateListenAddress_ok: "validateListenAddress s = Inr () \<longleftrightarrow> listens IsLoopback s"
  by (auto simp: validateListenAddress_def listens_def split: option.splits if_splits)

lemma validateAgentListenAddress_ok: "validateAgentListenAddress s = Inr () \<longleftrightarrow> listens (\<lambda>_. True) s"
  by (auto simp: validateAgentListenAddress_def listens_def split: option.splits if_splits)

text \<open>What each variable must be for the controller to start.\<close>

definition environment_ok :: "(string \<Rightarrow> string) \<Rightarrow> (string \<Rightarrow> URL option) \<Rightarrow> (string \<rightharpoonup> string) \<Rightarrow> bool" where
  "environment_ok lower url_Parse env \<longleftrightarrow>
     (\<exists>db u. env ''STACKPILOT_DATABASE_URL'' = Some db \<and> db \<noteq> [] \<and> url_Parse db = Some u
        \<and> u_Scheme u \<in> {''postgres'', ''postgresql''} \<and> URL_Hostname u \<noteq> [] \<and> TrimPrefix (u_Path u) ''/'' \<noteq> [])
     \<and> pred_option (listens IsLoopback) (env ''STACKPILOT_LISTEN_ADDRESS'')
     \<and> pred_option (\<lambda>v. strings_ToLower lower v \<in> {''debug'', ''info'', ''warn'', ''error''} \<and> v \<noteq> [])
         (env ''STACKPILOT_LOG_LEVEL'')
     \<and> (case env ''STACKPILOT_AGENT_LISTEN_ADDRESS'' of
          None \<Rightarrow> True
        | Some v \<Rightarrow> listens (\<lambda>_. True) v
            \<and> (\<exists>f. env ''STACKPILOT_AGENT_TLS_CERT_FILE'' = Some f \<and> f \<noteq> [])
            \<and> (\<exists>f. env ''STACKPILOT_AGENT_TLS_KEY_FILE'' = Some f \<and> f \<noteq> []))"

lemma validateDatabaseURL_ok:
  "validateDatabaseURL url_Parse db = Inr () \<longleftrightarrow> (\<exists>u. url_Parse db = Some u
     \<and> u_Scheme u \<in> {''postgres'', ''postgresql''} \<and> URL_Hostname u \<noteq> [] \<and> TrimPrefix (u_Path u) ''/'' \<noteq> [])"
  by (auto simp: validateDatabaseURL_def split: option.splits if_splits)

lemma listens_not_Nil: "listens P s \<Longrightarrow> s \<noteq> []"
  by (auto simp: listens_def SplitHostPort_def cut_last_def Cut_def split: option.splits if_splits)

lemma parseLogLevel_ok:
  "(\<exists>l. parseLogLevel lower v = Inr l) \<longleftrightarrow> strings_ToLower lower v \<in> {''debug'', ''info'', ''warn'', ''error''}"
  by (auto simp: parseLogLevel_def Let_def)

lemma parseLogLevel_level:
  "parseLogLevel lower v = Inr l \<Longrightarrow> l \<in> {LevelDebug, LevelInfo, LevelWarn, LevelError}"
  by (auto simp: parseLogLevel_def Let_def split: if_splits)

text \<open>The default address passes its own check.\<close>

lemma default_listens: "listens IsLoopback defaultListenAddress"
proof -
  have "validateListenAddress defaultListenAddress = Inr ()"
    by (simp add: validateListenAddress_def defaultListenAddress_def SplitHostPort_def cut_last_def Cut_def
        ParseAddr_def parseIPv4Fields_def ipv4_field_def IsLoopback_def ParseInt_def ParseUint_def digit_value_def Let_def)
  then show ?thesis by (simp add: validateListenAddress_ok)
qed

lemma andThen_ok: "andThen v rest = Inr x \<longleftrightarrow> v = Inr () \<and> rest = Inr x"
  by (cases v) auto

lemma wrapping_ok: "wrapping msg v = Inr () \<longleftrightarrow> v = Inr ()"
  by (cases v) auto

lemma failing_if: "(if b then failing msg else r) = Inr x \<longleftrightarrow> \<not> b \<and> r = Inr x"
  by simp

lemmas config_checks = andThen_ok wrapping_ok failing_if validateListenAddress_ok validateAgentListenAddress_ok

lemma Config_validate_ok:
  "Config_validate url_Parse cfg = Inr () \<longleftrightarrow>
     listens IsLoopback (cfg_ListenAddress cfg) \<and> cfg_LogLevel cfg \<in> {LevelDebug, LevelInfo, LevelWarn, LevelError}
     \<and> cfg_DatabaseURL cfg \<noteq> [] \<and> validateDatabaseURL url_Parse (cfg_DatabaseURL cfg) = Inr ()
     \<and> (if RemoteEnabled cfg then listens (\<lambda>_. True) (cfg_AgentListenAddress cfg)
          \<and> cfg_AgentTLSCertFile cfg \<noteq> [] \<and> cfg_AgentTLSKeyFile cfg \<noteq> [] else True)"
proof -
  have level: "validateLogLevel l = Inr () \<longleftrightarrow> l \<in> {LevelDebug, LevelInfo, LevelWarn, LevelError}" for l
    by (simp add: validateLogLevel_def)
  have remote: "(if cfg_AgentListenAddress cfg \<noteq> [] then (a :: unit result) else Inr ()) = Inr () \<longleftrightarrow>
      (if RemoteEnabled cfg then a = Inr () else True)" for a
    by (simp add: RemoteEnabled_def)
  show ?thesis
    using listens_not_Nil [of IsLoopback "cfg_ListenAddress cfg"]
    unfolding Config_validate_def config_checks level remote config_checks simp_thms by blast
qed

text \<open>One lemma for each setting: when it is accepted, and what it changes.\<close>

lemma load_database_ok:
  "load_database url_Parse env cfg = Inr c \<longleftrightarrow>
     (\<exists>db. env ''STACKPILOT_DATABASE_URL'' = Some db \<and> db \<noteq> [] \<and> validateDatabaseURL url_Parse db = Inr ()
        \<and> c = cfg\<lparr>cfg_DatabaseURL := db\<rparr>)"
  by (auto simp: load_database_def config_checks split: option.splits)

lemma load_listen_ok:
  "load_listen env cfg = Inr c \<longleftrightarrow> pred_option (listens IsLoopback) (env ''STACKPILOT_LISTEN_ADDRESS'')
     \<and> c = (case env ''STACKPILOT_LISTEN_ADDRESS'' of None \<Rightarrow> cfg | Some v \<Rightarrow> cfg\<lparr>cfg_ListenAddress := v\<rparr>)"
  by (auto simp: load_listen_def config_checks dest: listens_not_Nil split: option.splits)

lemma load_level_ok:
  "load_level lower env cfg = Inr c \<longleftrightarrow>
     (case env ''STACKPILOT_LOG_LEVEL'' of
        None \<Rightarrow> c = cfg
      | Some v \<Rightarrow> v \<noteq> [] \<and> (\<exists>l. parseLogLevel lower v = Inr l \<and> c = cfg\<lparr>cfg_LogLevel := l\<rparr>))"
  by (auto simp: load_level_def split: option.splits sum.splits)

lemma load_agent_listen_ok:
  "load_agent_listen env cfg = Inr c \<longleftrightarrow> pred_option (listens (\<lambda>_. True)) (env ''STACKPILOT_AGENT_LISTEN_ADDRESS'')
     \<and> c = (case env ''STACKPILOT_AGENT_LISTEN_ADDRESS'' of None \<Rightarrow> cfg | Some v \<Rightarrow> cfg\<lparr>cfg_AgentListenAddress := v\<rparr>)"
  by (auto simp: load_agent_listen_def config_checks dest: listens_not_Nil split: option.splits)

lemma LoadConfig_chain:
  "LoadConfig lower url_Parse env = Inr cfg \<longleftrightarrow>
     (\<exists>c1 c2 c3 c4. load_database url_Parse env defaultConfig = Inr c1 \<and> load_listen env c1 = Inr c2
        \<and> load_level lower env c2 = Inr c3 \<and> load_agent_listen env c3 = Inr c4 \<and> cfg = load_tls env c4
        \<and> Config_validate url_Parse cfg = Inr ())"
  unfolding LoadConfig_def Let_def by (auto split: sum.splits)

lemma LoadConfig_listener:
  assumes "LoadConfig lower url_Parse env = Inr cfg"
  shows "cfg_AgentListenAddress cfg = (case env ''STACKPILOT_AGENT_LISTEN_ADDRESS'' of None \<Rightarrow> [] | Some v \<Rightarrow> v)"
proof -
  obtain c1 c2 c3 c4 where c: "load_database url_Parse env defaultConfig = Inr c1" "load_listen env c1 = Inr c2"
      "load_level lower env c2 = Inr c3" "load_agent_listen env c3 = Inr c4" "cfg = load_tls env c4"
    using assms unfolding LoadConfig_chain by blast
  have "cfg_AgentListenAddress c1 = []" using c(1) by (auto simp: load_database_ok defaultConfig_def)
  then have "cfg_AgentListenAddress c2 = []" using c(2) by (auto simp: load_listen_ok split: option.splits)
  then have "cfg_AgentListenAddress c3 = []" using c(3) by (auto simp: load_level_ok split: option.splits)
  then show ?thesis using c(4,5) by (auto simp: load_agent_listen_ok load_tls_def split: option.splits)
qed

lemma LoadConfig_environment:
  assumes "LoadConfig lower url_Parse env = Inr cfg"
  shows "environment_ok lower url_Parse env"
proof -
  obtain c1 c2 c3 c4 where c: "load_database url_Parse env defaultConfig = Inr c1" "load_listen env c1 = Inr c2"
      "load_level lower env c2 = Inr c3" "load_agent_listen env c3 = Inr c4" "cfg = load_tls env c4"
      "Config_validate url_Parse cfg = Inr ()"
    using assms unfolding LoadConfig_chain by blast
  have "cfg_AgentTLSCertFile c4 = [] \<and> cfg_AgentTLSKeyFile c4 = []"
  proof -
    have "cfg_AgentTLSCertFile c1 = [] \<and> cfg_AgentTLSKeyFile c1 = []"
      using c(1) by (auto simp: load_database_ok defaultConfig_def)
    then have "cfg_AgentTLSCertFile c2 = [] \<and> cfg_AgentTLSKeyFile c2 = []"
      using c(2) by (auto simp: load_listen_ok split: option.splits)
    then have "cfg_AgentTLSCertFile c3 = [] \<and> cfg_AgentTLSKeyFile c3 = []"
      using c(3) by (auto simp: load_level_ok split: option.splits)
    then show ?thesis using c(4) by (auto simp: load_agent_listen_ok split: option.splits)
  qed
  then have files: "(\<exists>f. env ''STACKPILOT_AGENT_TLS_CERT_FILE'' = Some f \<and> f \<noteq> [])
      \<and> (\<exists>f. env ''STACKPILOT_AGENT_TLS_KEY_FILE'' = Some f \<and> f \<noteq> [])" if "RemoteEnabled cfg"
    using c(5,6) that by (auto simp: Config_validate_ok load_tls_def split: option.splits)
  have "listens (\<lambda>_. True) v \<and> RemoteEnabled cfg" if "env ''STACKPILOT_AGENT_LISTEN_ADDRESS'' = Some v" for v
    using that c(4) LoadConfig_listener [OF assms] listens_not_Nil [of "\<lambda>_. True" v]
    by (auto simp: load_agent_listen_ok RemoteEnabled_def)
  moreover have "pred_option (\<lambda>v. strings_ToLower lower v \<in> {''debug'', ''info'', ''warn'', ''error''} \<and> v \<noteq> [])
      (env ''STACKPILOT_LOG_LEVEL'')"
    using c(3) parseLogLevel_ok [of lower] unfolding load_level_ok by (auto split: option.splits)
  ultimately show ?thesis
    using c(1,2) files
    unfolding environment_ok_def load_database_ok load_listen_ok validateDatabaseURL_ok by (auto split: option.splits)
qed

lemma LoadConfig_total:
  assumes "environment_ok lower url_Parse env"
  shows "\<exists>cfg. LoadConfig lower url_Parse env = Inr cfg"
proof -
  obtain c1 where c1: "load_database url_Parse env defaultConfig = Inr c1"
      "cfg_ListenAddress c1 = defaultListenAddress" "cfg_LogLevel c1 = LevelInfo" "cfg_AgentListenAddress c1 = []"
      "cfg_DatabaseURL c1 \<noteq> []" "validateDatabaseURL url_Parse (cfg_DatabaseURL c1) = Inr ()"
    using assms unfolding load_database_ok validateDatabaseURL_ok environment_ok_def
    by (fastforce simp: defaultConfig_def validateDatabaseURL_ok)
  define c2 where "c2 = (case env ''STACKPILOT_LISTEN_ADDRESS'' of None \<Rightarrow> c1 | Some v \<Rightarrow> c1\<lparr>cfg_ListenAddress := v\<rparr>)"
  have listen: "pred_option (listens IsLoopback) (env ''STACKPILOT_LISTEN_ADDRESS'')"
    using assms by (simp add: environment_ok_def)
  have c2: "load_listen env c1 = Inr c2" "listens IsLoopback (cfg_ListenAddress c2)"
      "cfg_LogLevel c2 = cfg_LogLevel c1" "cfg_AgentListenAddress c2 = []" "cfg_DatabaseURL c2 = cfg_DatabaseURL c1"
    using listen c1(2,4) default_listens unfolding load_listen_ok c2_def by (auto split: option.splits)
  obtain c3 where c3: "load_level lower env c2 = Inr c3" "cfg_ListenAddress c3 = cfg_ListenAddress c2"
      "cfg_LogLevel c3 \<in> {LevelDebug, LevelInfo, LevelWarn, LevelError}" "cfg_AgentListenAddress c3 = []"
      "cfg_DatabaseURL c3 = cfg_DatabaseURL c1"
  proof (cases "env ''STACKPILOT_LOG_LEVEL''")
    case None
    then show ?thesis using that [of c2] c1(3) c2 by (simp add: load_level_def)
  next
    case (Some v)
    then obtain l where "parseLogLevel lower v = Inr l" "v \<noteq> []"
      using assms parseLogLevel_ok [of lower v] by (auto simp: environment_ok_def)
    then show ?thesis
      using that [of "c2\<lparr>cfg_LogLevel := l\<rparr>"] Some parseLogLevel_level c2 by (simp add: load_level_def)
  qed
  define c4 where "c4 = (case env ''STACKPILOT_AGENT_LISTEN_ADDRESS'' of
      None \<Rightarrow> c3 | Some v \<Rightarrow> c3\<lparr>cfg_AgentListenAddress := v\<rparr>)"
  have c4: "load_agent_listen env c3 = Inr c4"
    using assms unfolding load_agent_listen_ok environment_ok_def c4_def by (auto split: option.splits)
  have "Config_validate url_Parse (load_tls env c4) = Inr ()"
    using assms c1 c2 c3 unfolding Config_validate_ok
    by (auto simp: c4_def load_tls_def RemoteEnabled_def environment_ok_def split: option.splits)
  then show ?thesis using c1(1) c2(1) c3(1) c4 unfolding LoadConfig_chain by blast
qed

text \<open>
  C40. The controller starts exactly when every setting is acceptable: a PostgreSQL URL with host and
  database, and, where they are given, a loopback address for the local listener, a known log level,
  and a literal address with certificate and key for the agents' listener. The local listener of a
  loaded configuration is always bound to 127.0.0.0/8 or ::1 on a port from 1 to 65535, and the agents'
  listener is enabled exactly when its variable is set, with both TLS files named.
\<close>

theorem LoadConfig_fails_closed:
  "case LoadConfig lower url_Parse env of
     Inl e \<Rightarrow> \<not> environment_ok lower url_Parse env
   | Inr cfg \<Rightarrow> environment_ok lower url_Parse env
       \<and> (\<exists>host portStr port ip z b c d. SplitHostPort (cfg_ListenAddress cfg) = Some (host, portStr)
            \<and> ParseInt portStr = Some port \<and> port \<in> {1..65535} \<and> ParseAddr host = Some ip
            \<and> ip \<in> {IPv4 [127, b, c, d], IPv6 (replicate 10 0 @ [255, 255, 127, b, c, d]) z, IPv6 (replicate 15 0 @ [1]) z})
       \<and> (if env ''STACKPILOT_AGENT_LISTEN_ADDRESS'' = None then \<not> RemoteEnabled cfg
           else RemoteEnabled cfg \<and> listens (\<lambda>_. True) (cfg_AgentListenAddress cfg)
             \<and> cfg_AgentTLSCertFile cfg \<noteq> [] \<and> cfg_AgentTLSKeyFile cfg \<noteq> [])"
proof (cases "LoadConfig lower url_Parse env")
  case (Inl e)
  then show ?thesis using LoadConfig_total [of lower url_Parse env] by auto
next
  case (Inr cfg)
  have ok: "Config_validate url_Parse cfg = Inr ()"
    using Inr unfolding LoadConfig_chain by blast
  then obtain host portStr port ip where l: "SplitHostPort (cfg_ListenAddress cfg) = Some (host, portStr)"
      "ParseInt portStr = Some port" "port \<in> {1..65535}" "ParseAddr host = Some ip" "IsLoopback ip"
    unfolding Config_validate_ok listens_def by auto
  have loop: "\<exists>z b c d. ip \<in> {IPv4 [127, b, c, d], IPv6 (replicate 10 0 @ [255, 255, 127, b, c, d]) z,
      IPv6 (replicate 15 0 @ [1]) z}"
    using IsLoopback_cases [OF ParseAddr_range [OF l(4)] l(5)] by blast
  have "RemoteEnabled cfg \<longleftrightarrow> env ''STACKPILOT_AGENT_LISTEN_ADDRESS'' \<noteq> None"
    using LoadConfig_listener [OF Inr] LoadConfig_environment [OF Inr] listens_not_Nil [of "\<lambda>_. True"]
    by (auto simp: RemoteEnabled_def environment_ok_def split: option.splits)
  then show ?thesis
    using ok loop l LoadConfig_environment [OF Inr] unfolding Inr sum.case Config_validate_ok by metis
qed

end
