(* ===== verification/Controller_Command.thy ===== *)
theory Controller_Command
  imports Controller_Config Controller_Operator Tokens Password
begin

text \<open>
  The command line of the controller, \<^verbatim>\<open>src/cmd/controller/main.go\<close>, opening the database
  (\<^verbatim>\<open>src/internal/database/database.go\<close>, \<^verbatim>\<open>migrate.go\<close>), and serving: \<^verbatim>\<open>Run\<close>, \<^verbatim>\<open>serve\<close> and \<^verbatim>\<open>serveDual\<close> of
  \<^verbatim>\<open>src/internal/controller/controller.go\<close>.
\<close>

section \<open>Redaction of error texts\<close>

text \<open>
  \<^verbatim>\<open>passwordPattern\<close>, case-insensitively \<^verbatim>\<open>password=\<close> and then at least one character other than white space,
  ampersand and comma. Under Go's case folding the letter s also matches U+017F, in UTF-8 the bytes C5 BF.
\<close>

definition redacted :: string where "redacted = ''[REDACTED]''"

definition value_char :: "char \<Rightarrow> bool" where
  "value_char c \<longleftrightarrow> c \<notin> {CHR 0x09, CHR 0x0A, CHR 0x0C, CHR 0x0D, CHR 0x20, CHR ''&'', CHR '',''}"

fun fold_prefix :: "string \<Rightarrow> string \<Rightarrow> (string \<times> string) option" where
  "fold_prefix [] s = Some ([], s)"
| "fold_prefix (p # ps) s =
     (case s of
        [] \<Rightarrow> None
      | c # cs \<Rightarrow>
        (if ascii_lower c = p then map_option (\<lambda>(m, r). (c # m, r)) (fold_prefix ps cs)
         else if p = CHR ''s'' \<and> c = CHR 0xC5 \<and> cs \<noteq> [] \<and> hd cs = CHR 0xBF then
           map_option (\<lambda>(m, r). (c # hd cs # m, r)) (fold_prefix ps (tl cs))
         else None))"

lemma fold_prefix_length: "fold_prefix p s = Some (m, r) \<Longrightarrow> length r + length p \<le> length s"
proof (induction p s arbitrary: m r rule: fold_prefix.induct)
  case (2 p ps s)
  then show ?case by (cases s) (fastforce split: if_splits)+
qed simp

function redact_password :: "string \<Rightarrow> string" where
  "redact_password s =
     (case s of
        [] \<Rightarrow> []
      | c # cs \<Rightarrow>
        (case fold_prefix ''password='' s of
           Some (m, r) \<Rightarrow>
             (if takeWhile value_char r \<noteq> [] then m @ redacted @ redact_password (dropWhile value_char r)
              else c # redact_password cs)
         | None \<Rightarrow> c # redact_password cs))"
  by pat_completeness auto

termination
proof (relation "measure length")
  fix s c cs p m r
  assume "s = c # cs" "fold_prefix ''password='' s = Some p" "(m, r) = p"
  then have "length r < length s" using fold_prefix_length [of "''password=''" s m r] by simp
  then show "(dropWhile value_char r, s) \<in> measure length"
    using length_dropWhile_le [of value_char r] by simp
qed auto

declare redact_password.simps [simp del]

text \<open>\<^verbatim>\<open>userinfoPattern\<close>: a colon, at least one character other than slash, at sign and colon, and an at sign.\<close>

definition user_char :: "char \<Rightarrow> bool" where
  "user_char c \<longleftrightarrow> c \<noteq> CHR ''/'' \<and> c \<noteq> CHR ''@'' \<and> c \<noteq> CHR '':''"

function redact_userinfo :: "string \<Rightarrow> string" where
  "redact_userinfo s =
     (case s of
        [] \<Rightarrow> []
      | c # cs \<Rightarrow>
        (let run = takeWhile user_char cs; rest = dropWhile user_char cs in
         if c = CHR '':'' \<and> run \<noteq> [] \<and> rest \<noteq> [] \<and> hd rest = CHR ''@''
         then '':'' @ redacted @ ''@'' @ redact_userinfo (tl rest)
         else c # redact_userinfo cs))"
  by pat_completeness auto

termination
proof (relation "measure length")
  fix s c cs run rest
  assume "s = c # cs" "rest = dropWhile user_char cs"
  then show "(tl rest, s) \<in> measure length"
    using length_dropWhile_le [of user_char cs] by simp
qed auto

declare redact_userinfo.simps [simp del]

text \<open>The text of an error, and \<^verbatim>\<open>sanitizeError\<close> on it.\<close>

definition sanitizeError :: "string \<Rightarrow> string" where
  "sanitizeError msg = redact_userinfo (redact_password msg)"

section \<open>Opening the database\<close>

text \<open>
  What the PostgreSQL driver and the migration library answer: whether the URL parses, the pool starts and the
  ping succeeds; whether a connection is acquired, the migrator made, the embedded migrations loaded and run.
  A refusal carries the text of the error.
\<close>

record pg_driver =
  pg_ParseConfig :: "string \<Rightarrow> bool"
  pg_NewWithConfig :: bool
  pg_Ping :: "string option"
  pg_Acquire :: "string option"
  pg_NewMigrator :: "string option"
  pg_LoadMigrations :: "string option"
  pg_Migrate :: "string option"

record pool_config =
  pc_MaxConns :: nat
  pc_MinConns :: nat
  pc_ApplicationName :: string
  pc_RequireAuth :: string

definition configurePool :: "pg_driver \<Rightarrow> string \<Rightarrow> pool_config result" where
  "configurePool pg databaseURL =
     (if \<not> pg_ParseConfig pg databaseURL then Inl (ErrOther ''failed to parse database configuration'')
      else Inr \<lparr>pc_MaxConns = 10, pc_MinConns = 0, pc_ApplicationName = ''stackpilot-controller'',
             pc_RequireAuth = ''scram-sha-256''\<rparr>)"

definition database_Open :: "pg_driver \<Rightarrow> string \<Rightarrow> unit result" where
  "database_Open pg databaseURL =
     (case configurePool pg databaseURL of
        Inl e \<Rightarrow> Inl e
      | Inr _ \<Rightarrow>
        (if \<not> pg_NewWithConfig pg then Inl (ErrOther ''failed to initialize database pool'')
         else case pg_Ping pg of
           Some msg \<Rightarrow> Inl (ErrWrap ''database ping failed'' (ErrOther (sanitizeError msg)))
         | None \<Rightarrow> Inr ()))"

definition database_Migrate :: "pg_driver \<Rightarrow> unit result" where
  "database_Migrate pg =
     (case pg_Acquire pg of
        Some msg \<Rightarrow> Inl (ErrWrap ''database migration failed: failed to acquire connection'' (ErrOther (sanitizeError msg)))
      | None \<Rightarrow>
        (case pg_NewMigrator pg of
           Some msg \<Rightarrow> Inl (ErrWrap ''database migration failed: failed to create migrator'' (ErrOther (sanitizeError msg)))
         | None \<Rightarrow>
           (case pg_LoadMigrations pg of
              Some msg \<Rightarrow> Inl (ErrWrap ''database migration failed: failed to load migrations'' (ErrOther msg))
            | None \<Rightarrow>
              (case pg_Migrate pg of
                 Some msg \<Rightarrow> Inl (ErrWrap ''database migration failed'' (ErrOther (sanitizeError msg)))
               | None \<Rightarrow> Inr ()))))"

section \<open>Flags and password of operator create\<close>

record operatorCreateOptions =
  oc_username :: string
  oc_role :: string
  oc_passwordStdin :: bool

definition needs_argument :: "string \<Rightarrow> 'a result" where
  "needs_argument name = Inl (ErrOther (''missing argument for '' @ name))"

fun operator_flags :: "string list \<Rightarrow> operatorCreateOptions \<Rightarrow> operatorCreateOptions result" where
  "operator_flags [] opts = Inr opts"
| "operator_flags (arg # args) opts =
     (if arg = ''--username'' then
        (case args of [] \<Rightarrow> needs_argument ''--username'' | v # rest \<Rightarrow> operator_flags rest (opts\<lparr>oc_username := v\<rparr>))
      else if HasPrefix arg ''--username='' then
        operator_flags args (opts\<lparr>oc_username := TrimPrefix arg ''--username=''\<rparr>)
      else if arg = ''--role'' then
        (case args of [] \<Rightarrow> needs_argument ''--role'' | v # rest \<Rightarrow> operator_flags rest (opts\<lparr>oc_role := v\<rparr>))
      else if HasPrefix arg ''--role='' then operator_flags args (opts\<lparr>oc_role := TrimPrefix arg ''--role=''\<rparr>)
      else if arg = ''--password-stdin'' then operator_flags args (opts\<lparr>oc_passwordStdin := True\<rparr>)
      else if arg = ''--password'' \<or> HasPrefix arg ''--password='' then
        Inl (ErrOther ''--password flag is not supported; use --password-stdin'')
      else if arg = ''--password-file'' \<or> HasPrefix arg ''--password-file='' then
        Inl (ErrOther ''--password-file flag is not supported; use --password-stdin'')
      else Inl (ErrOther ''unknown flag''))"

definition parseOperatorCreateFlags :: "(string \<Rightarrow> string) \<Rightarrow> string list \<Rightarrow> operatorCreateOptions result" where
  "parseOperatorCreateFlags lower args =
     (case operator_flags args \<lparr>oc_username = [], oc_role = [], oc_passwordStdin = False\<rparr> of
        Inl e \<Rightarrow> Inl e
      | Inr opts \<Rightarrow>
        (if oc_username opts = [] then Inl (ErrOther ''missing required flag: --username'')
         else let username = NormalizeUsername lower (oc_username opts) in
           case ValidateUsername username of
             Inl e \<Rightarrow> Inl (ErrWrap ''invalid username'' e)
           | Inr _ \<Rightarrow>
             (if oc_role opts = [] then Inl (ErrOther ''missing required flag: --role'')
              else case ParseRole (oc_role opts) of
                Inl e \<Rightarrow> Inl (ErrWrap ''invalid role'' e)
              | Inr parsedRole \<Rightarrow>
                (if \<not> oc_passwordStdin opts then Inl (ErrOther ''missing required flag: --password-stdin'')
                 else Inr \<lparr>oc_username = username, oc_role = parsedRole, oc_passwordStdin = True\<rparr>))))"

text \<open>Standard input may be missing, fail within the bytes that are read, or hold these bytes.\<close>

definition readPasswordFromStdin :: "bytes result option \<Rightarrow> string result" where
  "readPasswordFromStdin stdin =
     (case stdin of
        None \<Rightarrow> Inl (ErrOther ''stdin is not available'')
      | Some (Inl e) \<Rightarrow> Inl (ErrWrap ''failed to read password from stdin'' e)
      | Some (Inr stream) \<Rightarrow>
        (let raw = take 131 stream in
         if length raw = 0 then Inl (ErrOther ''empty password input'')
         else if length raw > 130 then Inl (ErrOther ''password exceeds maximum length of 128 bytes'')
         else if \<not> HasSuffix raw [CHR 0x0A] then
           Inl (ErrOther ''password input must end with a newline terminator'')
         else let stripped = (if HasSuffix raw [CHR 0x0D, CHR 0x0A] then take (length raw - 2) raw
                              else take (length raw - 1) raw) in
           if CHR 0x0A \<in> set stripped \<or> CHR 0x0D \<in> set stripped then
             Inl (ErrOther ''multiple password lines are not allowed'')
           else case ValidatePassword stripped of
             Inl e \<Rightarrow> Inl (ErrWrap ''invalid password'' e)
           | Inr _ \<Rightarrow> Inr stripped))"

section \<open>Commands\<close>

text \<open>
  What a run of the controller finds: its environment, the driver, the clock, randomness, standard input, and
  whether standard output can be written. A command ends with its error or success, what it printed, and the
  database it leaves.
\<close>

record host =
  ho_LookupEnv :: "string \<rightharpoonup> string"
  ho_lower :: "string \<Rightarrow> string"
  ho_url_Parse :: "string \<Rightarrow> URL option"
  ho_uuid_String :: "uuid \<Rightarrow> string"
  ho_IDKey :: kdf
  ho_driver :: pg_driver
  ho_entropy :: "bytes option"
  ho_now :: time
  ho_ctx :: txctx
  ho_stdin :: "bytes result option"
  ho_stdout_ok :: bool

text \<open>The start every command shares: configuration, connection, migrations.\<close>

definition with_database :: "host \<Rightarrow> (Config \<Rightarrow> 'a result) \<Rightarrow> 'a result" where
  "with_database h f =
     (case LoadConfig (ho_lower h) (ho_url_Parse h) (ho_LookupEnv h) of
        Inl e \<Rightarrow> Inl e
      | Inr cfg \<Rightarrow>
        (case database_Open (ho_driver h) (cfg_DatabaseURL cfg) of
           Inl e \<Rightarrow> Inl (ErrWrap ''database connection failed'' e)
         | Inr _ \<Rightarrow>
           (case database_Migrate (ho_driver h) of
              Inl e \<Rightarrow> Inl (ErrWrap ''database migration failed'' e)
            | Inr _ \<Rightarrow> f cfg)))"

definition issueAndPrintEnrollmentToken :: "host \<Rightarrow> db \<Rightarrow> (unit result \<times> string) \<times> db" where
  "issueAndPrintEnrollmentToken h s =
     (case IssueToken (ho_ctx h) (ho_entropy h) (ho_now h) s of
        (Inl e, t) \<Rightarrow> ((Inl (ErrWrap ''failed to issue enrollment token'' e), []), t)
      | (Inr token, t) \<Rightarrow>
        (if \<not> ho_stdout_ok h then ((Inl (ErrOther ''failed to write enrollment token''), []), t)
         else ((Inr (), token @ [CHR 0x0A]), t)))"

definition operator_created_text :: "host \<Rightarrow> OperatorRow \<Rightarrow> string" where
  "operator_created_text h rec =
     ''Operator created:'' @ [CHR 0x0A] @ ''ID: '' @ ho_uuid_String h (o_id rec) @ [CHR 0x0A]
     @ ''Username: '' @ o_username rec @ [CHR 0x0A] @ ''Role: '' @ o_role rec @ [CHR 0x0A]"

definition createAndPrintOperator :: "host \<Rightarrow> string \<Rightarrow> string \<Rightarrow> string \<Rightarrow> db \<Rightarrow> (unit result \<times> string) \<times> db" where
  "createAndPrintOperator h username password role s =
     (case HashPassword (ho_IDKey h) (ho_entropy h) password of
        Inl e \<Rightarrow> ((Inl (ErrWrap ''failed to hash password'' e), []), s)
      | Inr pwHash \<Rightarrow>
        (case CreateOperator (ho_lower h) (ho_ctx h) username pwHash role s of
           (Inl err, t) \<Rightarrow>
             ((if errors_Is err ErrUsernameConflict then (Inl (ErrOther ''operator already exists''), [])
               else (Inl (ErrWrap ''failed to create operator'' err), [])), t)
         | (Inr rec, t) \<Rightarrow> ((Inr (), if ho_stdout_ok h then operator_created_text h rec else []), t)))"

text \<open>The start of a command, and its work on the database when the start succeeds.\<close>

definition after_start :: "unit result \<Rightarrow> db \<Rightarrow> (unit result \<times> string) \<times> db \<Rightarrow> (unit result \<times> string) \<times> db" where
  "after_start started s work = (case started of Inl e \<Rightarrow> ((Inl e, []), s) | Inr _ \<Rightarrow> work)"

definition runEnrollmentTokenCreate :: "host \<Rightarrow> db \<Rightarrow> (unit result \<times> string) \<times> db" where
  "runEnrollmentTokenCreate h s =
     after_start (with_database h (\<lambda>_. Inr ())) s (issueAndPrintEnrollmentToken h s)"

definition runOperatorCreate :: "host \<Rightarrow> string list \<Rightarrow> db \<Rightarrow> (unit result \<times> string) \<times> db" where
  "runOperatorCreate h args s =
     (case parseOperatorCreateFlags (ho_lower h) args of
        Inl e \<Rightarrow> ((Inl e, []), s)
      | Inr opts \<Rightarrow>
        (case readPasswordFromStdin (ho_stdin h) of
           Inl e \<Rightarrow> ((Inl e, []), s)
         | Inr pw \<Rightarrow>
           after_start (with_database h (\<lambda>_. Inr ())) s
             (createAndPrintOperator h (oc_username opts) pw (oc_role opts) s)))"

text \<open>The server, once it is started, is the argument: \<^verbatim>\<open>controller.Run\<close> below.\<close>

definition runServer :: "host \<Rightarrow> (Config \<Rightarrow> db \<Rightarrow> unit result \<times> db) \<Rightarrow> db \<Rightarrow> (unit result \<times> string) \<times> db" where
  "runServer h controller_Run s =
     (case with_database h Inr of
        Inl e \<Rightarrow> ((Inl e, []), s)
      | Inr cfg \<Rightarrow> (case controller_Run cfg s of (r, t) \<Rightarrow> ((r, []), t)))"

definition controller_run ::
  "host \<Rightarrow> (Config \<Rightarrow> db \<Rightarrow> unit result \<times> db) \<Rightarrow> string list \<Rightarrow> db \<Rightarrow> (unit result \<times> string) \<times> db" where
  "controller_run h controller_Run args s =
     (case args of
        [] \<Rightarrow> runServer h controller_Run s
      | a # rest \<Rightarrow>
        (if a = ''enrollment-token'' then
           (if rest = [''create''] then runEnrollmentTokenCreate h s
            else if rest = [] then ((Inl (ErrOther ''missing subcommand for enrollment-token (supported: create)''), []), s)
            else ((Inl (ErrOther ''unknown enrollment-token subcommand (supported: create)''), []), s))
         else if a = ''operator'' then
           (case rest of
              [] \<Rightarrow> ((Inl (ErrOther ''missing subcommand for operator (supported: create)''), []), s)
            | b # args' \<Rightarrow>
              (if b = ''create'' then runOperatorCreate h args' s
               else ((Inl (ErrOther ''unknown operator subcommand (supported: create)''), []), s)))
         else ((Inl (ErrOther ''unknown command (supported: enrollment-token create, operator create)''), []), s)))"

section \<open>Serving\<close>

definition ErrServerClosed :: go_error where "ErrServerClosed = ErrOther ''http: Server closed''"

text \<open>
  What ends \<^verbatim>\<open>serve\<close>: the server stops by itself, or the context is done; then it is shut down, with the
  result of the shutdown and that of the server. In \<^verbatim>\<open>serveDual\<close> the results arrive in any order.
\<close>

datatype serve_event =
    ServerStopped "go_error option"
  | ServeCancelled "go_error option" "go_error option"

datatype dual_event =
    OneStopped "go_error option" "go_error option"
  | DualCancelled "go_error option" "go_error option" "go_error option" "go_error option"

definition as_result :: "go_error option \<Rightarrow> unit result" where
  "as_result err = (case err of None \<Rightarrow> Inr () | Some e \<Rightarrow> Inl e)"

definition real_failure :: "go_error option \<Rightarrow> bool" where
  "real_failure err = (case err of None \<Rightarrow> False | Some e \<Rightarrow> \<not> errors_Is e ErrServerClosed)"

definition serve :: "serve_event \<Rightarrow> unit result" where
  "serve ev =
     (case ev of
        ServerStopped err \<Rightarrow> if real_failure err then as_result err else Inr ()
      | ServeCancelled shutdownErr serveErr \<Rightarrow>
          if real_failure serveErr then as_result serveErr else as_result shutdownErr)"

definition serveDual :: "dual_event \<Rightarrow> unit result" where
  "serveDual ev =
     (case ev of
        OneStopped err err2 \<Rightarrow>
          if real_failure err then as_result err else if real_failure err2 then as_result err2 else Inr ()
      | DualCancelled err1 err2 sErr1 sErr2 \<Rightarrow>
          if real_failure sErr1 then as_result sErr1
          else if real_failure sErr2 then as_result sErr2
          else if err1 \<noteq> None then as_result err1 else as_result err2)"

text \<open>
  \<^verbatim>\<open>Run\<close> as what it does to the listeners, and its result. The key pair is loaded by \<^verbatim>\<open>buildRemoteTLSConfig\<close>, which
  demands TLS 1.3 and asks for a client certificate.
\<close>


record TLSConfig =
  tls_MinVersion :: nat
  tls_Certificate :: bytes
  tls_RequestClientCert :: bool

datatype listener_action = OpenLocal | CloseLocal | OpenRemote TLSConfig | ServeLocal | ServeBoth

record network =
  nw_LoadX509KeyPair :: "string \<Rightarrow> string \<Rightarrow> bytes result"
  nw_Listen :: "string \<Rightarrow> unit result"
  nw_ListenTLS :: "string \<Rightarrow> unit result"
  nw_serve :: serve_event
  nw_serveDual :: dual_event

definition VersionTLS13 :: nat where "VersionTLS13 = 0x0304"

definition buildRemoteTLSConfig :: "network \<Rightarrow> string \<Rightarrow> string \<Rightarrow> TLSConfig result" where
  "buildRemoteTLSConfig nw certFile keyFile =
     (case nw_LoadX509KeyPair nw certFile keyFile of
        Inl e \<Rightarrow> Inl (ErrWrap ''failed to load agent TLS certificate'' e)
      | Inr cert \<Rightarrow> Inr \<lparr>tls_MinVersion = VersionTLS13, tls_Certificate = cert, tls_RequestClientCert = True\<rparr>)"

definition controller_Run ::
  "(string \<Rightarrow> URL option) \<Rightarrow> network \<Rightarrow> Config \<Rightarrow> unit result \<times> listener_action list" where
  "controller_Run url_Parse nw cfg =
     (case Config_validate url_Parse cfg of
        Inl e \<Rightarrow> (Inl (ErrWrap ''invalid controller configuration'' e), [])
      | Inr _ \<Rightarrow>
        (case (if RemoteEnabled cfg
               then map_sum id Some (buildRemoteTLSConfig nw (cfg_AgentTLSCertFile cfg) (cfg_AgentTLSKeyFile cfg))
               else Inr None) of
           Inl e \<Rightarrow> (Inl e, [])
         | Inr remoteTLSConfig \<Rightarrow>
           (case nw_Listen nw (cfg_ListenAddress cfg) of
              Inl e \<Rightarrow> (Inl (ErrWrap ''failed to listen'' e), [])
            | Inr _ \<Rightarrow>
              (case remoteTLSConfig of
                 None \<Rightarrow> (serve (nw_serve nw), [OpenLocal, ServeLocal])
               | Some tls \<Rightarrow>
                 (case nw_ListenTLS nw (cfg_AgentListenAddress cfg) of
                    Inl e \<Rightarrow> (Inl (ErrWrap ''failed to listen on agent address'' e), [OpenLocal, CloseLocal])
                  | Inr _ \<Rightarrow> (serveDual (nw_serveDual nw), [OpenLocal, OpenRemote tls, ServeBoth]))))))"

end
