(* ===== verification/Agent_State.thy ===== *)
theory Agent_State
  imports Go_Files Go_Net Wire_Codec Base64
begin

text \<open>
  The agent's state directory: \<^verbatim>\<open>src/internal/agent/identity.go\<close>. Code that works on files is an
  interaction program: it asks the operating system and goes on with the answer, so that a run can be
  cut off between any two calls.
\<close>

section \<open>Calls and programs\<close>

datatype call =
    Lstat string
  | MkdirAll string nat
  | ReadFile string
  | CreateExcl string nat
  | CreateTemp string string string
  | Chmod string nat
  | Write string bytes
  | Sync string
  | Close string
  | Rename string string
  | Remove string
  | GenerateKey
  | OpenSource string
  | ReadToken
  | SystemCertPool
  | Exchange bytes

text \<open>
  The answers. \<open>Source\<close> is a file that was opened, with what \<^verbatim>\<open>Stat\<close> says, what can be read of it and whether
  reading ends in an error; \<open>Reply\<close> is the reply to an HTTP request in the same form, with its status
  and its content type.
\<close>

record source =
  src_stat :: "node_kind result"
  src_data :: bytes
  src_err :: bool

record reply =
  rp_status :: nat
  rp_contentType :: string
  rp_body :: bytes
  rp_err :: bool

datatype answer =
    AInfo "FileInfo result"
  | AUnit "unit result"
  | AData "bytes result"
  | APath "string result"
  | ASource "source result"
  | AReply "reply result"
  | APool bool

datatype 'r prog = Done 'r | Call call "answer \<Rightarrow> 'r prog"

text \<open>Every call has one kind of answer; the operating system never gives another one.\<close>

definition mismatch :: "'a result" where "mismatch = Inl (ErrOther ''unexpected kind of answer'')"

fun as_info :: "answer \<Rightarrow> FileInfo result" where "as_info (AInfo r) = r" | "as_info _ = mismatch"
fun as_unit :: "answer \<Rightarrow> unit result" where "as_unit (AUnit r) = r" | "as_unit _ = mismatch"
fun as_data :: "answer \<Rightarrow> bytes result" where "as_data (AData r) = r" | "as_data _ = mismatch"
fun as_path :: "answer \<Rightarrow> string result" where "as_path (APath r) = r" | "as_path _ = mismatch"
fun as_source :: "answer \<Rightarrow> source result" where "as_source (ASource r) = r" | "as_source _ = mismatch"
fun as_reply :: "answer \<Rightarrow> reply result" where "as_reply (AReply r) = r" | "as_reply _ = mismatch"

primrec bind :: "'a prog \<Rightarrow> ('a \<Rightarrow> 'b prog) \<Rightarrow> 'b prog" where
  "bind (Done r) f = f r"
| "bind (Call c k) f = Call c (\<lambda>a. bind (k a) f)"

text \<open>\<^verbatim>\<open>if err != nil { return err }\<close>, then the rest.\<close>

definition bind_ok :: "'a result prog \<Rightarrow> ('a \<Rightarrow> 'b result prog) \<Rightarrow> 'b result prog" where
  "bind_ok p f = bind p (\<lambda>r. case r of Inl e \<Rightarrow> Done (Inl e) | Inr x \<Rightarrow> f x)"

definition wrap_err :: "string \<Rightarrow> 'a result prog \<Rightarrow> 'a result prog" where
  "wrap_err msg p = bind p (\<lambda>r. Done (case r of Inl e \<Rightarrow> Inl (ErrWrap msg e) | Inr x \<Rightarrow> Inr x))"

definition fail :: "string \<Rightarrow> 'a result prog" where
  "fail msg = Done (Inl (ErrOther msg))"

definition insecure :: "string \<Rightarrow> 'a result prog" where
  "insecure msg = Done (Inl (ErrWrap msg ErrInsecurePermissions))"

abbreviation lstat :: "string \<Rightarrow> FileInfo result prog" where "lstat p \<equiv> Call (Lstat p) (\<lambda>a. Done (as_info a))"
abbreviation unit_call :: "call \<Rightarrow> unit result prog" where "unit_call c \<equiv> Call c (\<lambda>a. Done (as_unit a))"
abbreviation read_file :: "string \<Rightarrow> bytes result prog" where "read_file p \<equiv> Call (ReadFile p) (\<lambda>a. Done (as_data a))"

section \<open>Keys\<close>

text \<open>
  The parts of \<^verbatim>\<open>encoding/pem\<close>, \<^verbatim>\<open>crypto/x509\<close>, \<^verbatim>\<open>net/url\<close> and \<^verbatim>\<open>mime\<close> the code calls. A decoded PEM block is its type and
  its bytes, with the text that follows.
\<close>

datatype private_key = Ed25519 bytes | OtherKey

record crypto =
  cr_pem_Decode :: "bytes \<Rightarrow> ((string \<times> bytes) \<times> bytes) option"
  cr_pem_Encode :: "string \<Rightarrow> bytes \<Rightarrow> bytes"
  cr_MarshalPKCS8 :: "bytes \<Rightarrow> bytes option"
  cr_ParsePKCS8 :: "bytes \<Rightarrow> private_key option"
  cr_ParseCertificate :: "bytes \<Rightarrow> bool"
  cr_url_Parse :: "string \<Rightarrow> URL option"
  cr_ParseMediaType :: "string \<Rightarrow> (string \<times> (string \<Rightarrow> string option)) option"
  cr_lower :: "string \<Rightarrow> string"

definition IdentityKeyFileName :: string where "IdentityKeyFileName = ''identity.key''"
definition IdentityJSONFileName :: string where "IdentityJSONFileName = ''identity.json''"
definition PEMBlockType :: string where "PEMBlockType = ''PRIVATE KEY''"
definition PrivateKeySize :: nat where "PrivateKeySize = 64"
definition PublicKeySize :: nat where "PublicKeySize = 32"

text \<open>\<^verbatim>\<open>priv.Public()\<close>: the second half of the 64 bytes.\<close>

definition public_of :: "bytes \<Rightarrow> bytes" where "public_of priv = drop 32 priv"

definition EncodePrivateKeyPKCS8PEM :: "crypto \<Rightarrow> bytes \<Rightarrow> bytes result" where
  "EncodePrivateKeyPKCS8PEM cr priv =
     (if length priv \<noteq> PrivateKeySize then Inl ErrInvalidPrivateKey
      else case cr_MarshalPKCS8 cr priv of
        None \<Rightarrow> Inl (ErrOther ''failed to marshal pkcs8 private key'')
      | Some pkcs8Bytes \<Rightarrow> Inr (cr_pem_Encode cr PEMBlockType pkcs8Bytes))"

definition ParsePrivateKeyPKCS8PEM :: "crypto \<Rightarrow> bytes \<Rightarrow> bytes result" where
  "ParsePrivateKeyPKCS8PEM cr pemBytes =
     (case cr_pem_Decode cr pemBytes of
        None \<Rightarrow> Inl ErrInvalidPrivateKey
      | Some ((typ, block), _) \<Rightarrow>
        (if typ \<noteq> PEMBlockType then Inl ErrInvalidPrivateKey
         else case cr_ParsePKCS8 cr block of
           None \<Rightarrow> Inl ErrInvalidPrivateKey
         | Some OtherKey \<Rightarrow> Inl ErrInvalidPrivateKey
         | Some (Ed25519 privKey) \<Rightarrow>
             (if length privKey \<noteq> PrivateKeySize then Inl ErrInvalidPrivateKey else Inr privKey)))"

definition FormatPublicKeyBase64RawURL :: "bytes \<Rightarrow> string" where
  "FormatPublicKeyBase64RawURL pub = EncodeToString True pub"

section \<open>Identifiers\<close>

definition uuid7_byte :: "nat \<Rightarrow> char \<Rightarrow> unit result" where
  "uuid7_byte i c =
     (if i \<in> {8, 13, 18, 23} then
        (if c \<noteq> CHR ''-'' then Inl (ErrOther ''invalid UUID format: missing hyphen'') else Inr ())
      else if i = 14 then
        (if c \<noteq> CHR ''7'' then Inl (ErrOther ''invalid UUID version: expected version 7'') else Inr ())
      else if i = 19 then
        (if \<not> (CHR ''8'' \<le> c \<and> c \<le> CHR ''9'' \<or> CHR ''a'' \<le> c \<and> c \<le> CHR ''b'' \<or> CHR ''A'' \<le> c \<and> c \<le> CHR ''B'')
         then Inl (ErrOther ''invalid UUID variant: expected RFC variant'') else Inr ())
      else
        (if \<not> (CHR ''0'' \<le> c \<and> c \<le> CHR ''9'' \<or> CHR ''a'' \<le> c \<and> c \<le> CHR ''f'' \<or> CHR ''A'' \<le> c \<and> c \<le> CHR ''F'')
         then Inl (ErrOther ''invalid UUID character'') else Inr ()))"

definition ValidateUUIDv7 :: "string \<Rightarrow> unit result" where
  "ValidateUUIDv7 s =
     (if length s \<noteq> 36 then Inl (ErrOther ''invalid UUID length'')
      else for_each (\<lambda>(i, c) _. uuid7_byte i c) (enumerate 0 s) ())"

section \<open>The directory and the key\<close>

definition validateExistingStateDir :: "string \<Rightarrow> unit result prog" where
  "validateExistingStateDir stateDir =
     bind_ok (wrap_err ''failed to stat state directory'' (lstat stateDir)) (\<lambda>info.
       if fi_kind info = Symlink then insecure ''state directory cannot be a symlink''
       else if fi_kind info \<noteq> Directory then fail ''state directory path is not a directory''
       else if fi_Perm info \<noteq> 0x1C0 then insecure ''state directory mode must be 0700''
       else Done (Inr ()))"

definition EnsureStateDir :: "string \<Rightarrow> unit result prog" where
  "EnsureStateDir stateDir =
     bind (lstat stateDir) (\<lambda>r. case r of
       Inl err \<Rightarrow>
         (if errors_Is err ErrNotExist then
            bind_ok (unit_call (MkdirAll stateDir 0x1C0)) (\<lambda>_. validateExistingStateDir stateDir)
          else Done (Inl (ErrWrap ''failed to stat state directory'' err)))
     | Inr _ \<Rightarrow> validateExistingStateDir stateDir)"

definition loadExistingPrivateKey :: "crypto \<Rightarrow> string \<Rightarrow> bytes result prog" where
  "loadExistingPrivateKey cr stateDir =
     (let keyPath = filepath_Join stateDir IdentityKeyFileName in
      bind_ok (lstat keyPath) (\<lambda>fi.
        if fi_kind fi = Symlink then insecure ''identity key cannot be a symlink''
        else if fi_kind fi \<noteq> Regular then insecure ''identity key must be a regular file''
        else if fi_Perm fi \<noteq> 0x180 then insecure ''identity key mode must be 0600''
        else bind_ok (wrap_err ''failed to read identity key'' (read_file keyPath)) (\<lambda>content.
          wrap_err ''failed to parse existing identity key'' (Done (ParsePrivateKeyPKCS8PEM cr content)))))"

text \<open>
  Creating the key file and writing it, then \<open>x\<close>. \<^verbatim>\<open>defer f.Close()\<close> closes a file that was created.
\<close>

definition write_key :: "string \<Rightarrow> bytes \<Rightarrow> 'a \<Rightarrow> 'a result prog" where
  "write_key keyPath pemBytes x =
     bind_ok (wrap_err ''failed to create identity key file'' (unit_call (CreateExcl keyPath 0x180))) (\<lambda>_.
       bind (bind_ok (wrap_err ''failed to write identity key file'' (unit_call (Write keyPath pemBytes))) (\<lambda>_.
               bind_ok (wrap_err ''failed to sync identity key file'' (unit_call (Sync keyPath))) (\<lambda>_. Done (Inr x))))
         (\<lambda>r. bind (unit_call (Close keyPath)) (\<lambda>_. Done r)))"

text \<open>The public and the private key.\<close>

definition LoadOrGenerateKey :: "crypto \<Rightarrow> string \<Rightarrow> (bytes \<times> bytes) result prog" where
  "LoadOrGenerateKey cr stateDir =
     bind_ok (EnsureStateDir stateDir) (\<lambda>_.
       bind (loadExistingPrivateKey cr stateDir) (\<lambda>r. case r of
         Inr priv \<Rightarrow> Done (Inr (public_of priv, priv))
       | Inl err \<Rightarrow>
         (if \<not> errors_Is err ErrNotExist then Done (Inl err)
          else bind_ok (wrap_err ''failed to generate ed25519 key'' (Call GenerateKey (\<lambda>a. Done (as_data a)))) (\<lambda>priv.
            bind_ok (Done (EncodePrivateKeyPKCS8PEM cr priv)) (\<lambda>pemBytes.
              write_key (filepath_Join stateDir IdentityKeyFileName) pemBytes (public_of priv, priv))))))"

section \<open>The metadata\<close>

record IdentityMetadata =
  im_Version :: int
  im_AgentID :: string
  im_ControllerURL :: string
  im_PublicKey :: string

definition IdentityMetadata_fields :: "IdentityMetadata field list" where
  "IdentityMetadata_fields =
     [(''version'', set_int (\<lambda>i r. r\<lparr>im_Version := i\<rparr>)),
      (''agent_id'', set_string (\<lambda>s r. r\<lparr>im_AgentID := s\<rparr>)),
      (''controller_url'', set_string (\<lambda>s r. r\<lparr>im_ControllerURL := s\<rparr>)),
      (''public_key'', set_string (\<lambda>s r. r\<lparr>im_PublicKey := s\<rparr>))]"

definition IdentityMetadata_zero :: IdentityMetadata where
  "IdentityMetadata_zero = \<lparr>im_Version = 0, im_AgentID = [], im_ControllerURL = [], im_PublicKey = []\<rparr>"

definition IdentityMetadata_members :: "IdentityMetadata \<Rightarrow> (string \<times> json) list" where
  "IdentityMetadata_members m =
     [(''version'', json_int (im_Version m)), (''agent_id'', JString (im_AgentID m)),
      (''controller_url'', JString (im_ControllerURL m)), (''public_key'', JString (im_PublicKey m))]"

text \<open>\<^verbatim>\<open>json.MarshalIndent(v, "", "  ")\<close> of a struct of numbers and strings.\<close>

definition indent_member :: "string \<times> json \<Rightarrow> string" where
  "indent_member kv = [CHR 0x0A, CHR 0x20, CHR 0x20] @ quote (fst kv) @ [CHR '':'', CHR 0x20] @ render (snd kv)"

definition MarshalIndent :: "(string \<times> json) list \<Rightarrow> string" where
  "MarshalIndent ms = CHR ''{'' # Join (CHR '','') (map indent_member ms) @ [CHR 0x0A, CHR ''}'']"

text \<open>
  \<^verbatim>\<open>Decode\<close> of the first document, with the text after it. \<^verbatim>\<open>More\<close> looks at the next character and also says
  no at a closing bracket.
\<close>

definition DecodeFirst :: "'r field list \<Rightarrow> 'r \<Rightarrow> string \<Rightarrow> ('r \<times> string) option" where
  "DecodeFirst fs zero body =
     (case ParseJson body of
        None \<Rightarrow> None
      | Some (v, rest) \<Rightarrow> map_option (\<lambda>r. (r, rest)) (set_struct fs v zero))"

definition More :: "string \<Rightarrow> bool" where
  "More rest \<longleftrightarrow> skip_ws rest \<noteq> [] \<and> hd (skip_ws rest) \<notin> {CHR '']'', CHR ''}''}"

end
