(* ===== verification/Agent_Enroll.thy ===== *)
theory Agent_Enroll
  imports Agent_State Tokens Operator_Domain
begin

text \<open>
  Enrollment: \<^verbatim>\<open>src/internal/agent/enroll.go\<close>, the identity file of \<^verbatim>\<open>identity.go\<close>, and the trust roots and the
  transport check of \<^verbatim>\<open>transport.go\<close>. The texts of errors are shortened where two files word the same
  failure differently.
\<close>

section \<open>The controller's address\<close>

definition ValidateControllerURL :: "crypto \<Rightarrow> string \<Rightarrow> URL result" where
  "ValidateControllerURL cr rawURL =
     (if rawURL = [] then Inl (ErrOther ''controller URL is required'')
      else case cr_url_Parse cr rawURL of
        None \<Rightarrow> Inl (ErrOther ''invalid controller URL'')
      | Some u \<Rightarrow>
        (if u_Scheme u \<noteq> ''http'' \<and> u_Scheme u \<noteq> ''https'' then
           Inl (ErrOther ''controller URL scheme must be http or https'')
         else if u_HasUser u then Inl (ErrOther ''controller URL must not contain credentials'')
         else if u_RawQuery u \<noteq> [] \<or> u_Fragment u \<noteq> [] then
           Inl (ErrOther ''controller URL must not contain query or fragment'')
         else if u_Path u \<noteq> [] \<and> u_Path u \<noteq> ''/'' then Inl (ErrOther ''controller URL must not contain path'')
         else let hostname = URL_Hostname u; portStr = URL_Port u in
           if hostname = [] then Inl (ErrOther ''controller URL missing host'')
           else if portStr = [] then Inl (ErrOther ''controller URL must specify a port'')
           else case ParseInt portStr of
             None \<Rightarrow> Inl (ErrOther ''controller URL port is invalid'')
           | Some port \<Rightarrow>
             (if port \<le> 0 \<or> port > 65535 then Inl (ErrOther ''controller URL port is invalid'')
              else if u_Scheme u = ''http'' then
                (case ParseAddr hostname of
                   None \<Rightarrow> Inl (ErrOther ''controller URL host must be a literal loopback IP address'')
                 | Some ip \<Rightarrow>
                   (if \<not> IsLoopback ip then Inl (ErrOther ''controller URL host must be a loopback IP address'')
                    else Inr u))
              else
                (case ParseAddr hostname of
                   None \<Rightarrow> Inr u
                 | Some ip \<Rightarrow>
                   (if IsUnspecified ip then Inl (ErrOther ''controller URL host cannot be unspecified IP address'')
                    else Inr u)))))"

section \<open>The token on standard input\<close>

definition MaxStdinTokenBytes :: nat where "MaxStdinTokenBytes = 128"
definition MaxHTTPResponseBody :: nat where "MaxHTTPResponseBody = 4096"

text \<open>The text without its line ending.\<close>

definition strip_line_end :: "string \<Rightarrow> string" where
  "strip_line_end raw =
     (if HasSuffix raw [CHR 0x0D, CHR 0x0A] then take (length raw - 2) raw
      else if HasSuffix raw [CHR 0x0A] then take (length raw - 1) raw
      else raw)"

definition ReadAndValidateTokenFromStdin :: "bytes result \<Rightarrow> string result" where
  "ReadAndValidateTokenFromStdin input =
     (case input of
        Inl _ \<Rightarrow> Inl (ErrOther ''failed to read enrollment token from stdin'')
      | Inr stream \<Rightarrow>
        (let content = take (MaxStdinTokenBytes + 1) stream in
         if length content > MaxStdinTokenBytes then
           Inl (ErrOther ''enrollment token input exceeds maximum allowed size'')
         else if length content = 0 then Inl (ErrOther ''empty enrollment token from stdin'')
         else let token = strip_line_end content in
           if length token = 0 then Inl (ErrOther ''empty enrollment token from stdin'')
           else if ContainsAny token [CHR 0x0D, CHR 0x0A] then
             Inl (ErrOther ''stdin contains multiple lines or embedded newline'')
           else if ContainsAny token [CHR 0x20, CHR 0x09, CHR 0x0B, CHR 0x0C] then
             Inl (ErrOther ''enrollment token contains invalid whitespace characters'')
           else case ValidateToken token of
             Inl e \<Rightarrow> Inl (ErrWrap ''invalid enrollment token'' e)
           | Inr _ \<Rightarrow> Inr token))"

section \<open>The identity file\<close>

definition check_metadata :: "crypto \<Rightarrow> IdentityMetadata \<Rightarrow> bytes result" where
  "check_metadata cr meta =
     (if im_Version meta \<noteq> 1 then Inl (ErrOther ''unsupported identity metadata version'')
      else case ValidateUUIDv7 (im_AgentID meta) of
        Inl e \<Rightarrow> Inl (ErrWrap ''invalid agent_id in identity metadata'' e)
      | Inr _ \<Rightarrow>
        (case ValidateControllerURL cr (im_ControllerURL meta) of
           Inl e \<Rightarrow> Inl (ErrWrap ''invalid controller_url in identity metadata'' e)
         | Inr _ \<Rightarrow>
           (case DecodeString True False (im_PublicKey meta) of
              None \<Rightarrow> Inl (ErrOther ''invalid public_key in identity metadata'')
            | Some pubBytes \<Rightarrow>
              (if length pubBytes \<noteq> PublicKeySize then Inl (ErrOther ''invalid public_key in identity metadata'')
               else Inr pubBytes))))"

definition decode_metadata :: "bytes \<Rightarrow> IdentityMetadata result" where
  "decode_metadata content =
     (case DecodeFirst IdentityMetadata_fields IdentityMetadata_zero content of
        None \<Rightarrow> Inl (ErrOther ''failed to parse identity metadata'')
      | Some (meta, rest) \<Rightarrow>
        (if More rest then Inl (ErrOther ''identity metadata contains trailing data'') else Inr meta))"

definition LoadIdentityMetadata :: "crypto \<Rightarrow> string \<Rightarrow> IdentityMetadata result prog" where
  "LoadIdentityMetadata cr stateDir =
     bind_ok (validateExistingStateDir stateDir) (\<lambda>_.
       let metaPath = filepath_Join stateDir IdentityJSONFileName in
       bind_ok (lstat metaPath) (\<lambda>fi.
         if fi_kind fi = Symlink then insecure ''identity metadata cannot be a symlink''
         else if fi_kind fi \<noteq> Regular then insecure ''identity metadata must be a regular file''
         else if fi_Perm fi \<noteq> 0x180 then insecure ''identity metadata mode must be 0600''
         else bind_ok (read_file metaPath) (\<lambda>content.
           bind_ok (Done (decode_metadata content)) (\<lambda>meta.
             bind_ok (Done (check_metadata cr meta)) (\<lambda>pubBytes.
               bind_ok (wrap_err ''identity metadata requires valid identity.key'' (loadExistingPrivateKey cr stateDir)) (\<lambda>priv.
                 if public_of priv \<noteq> pubBytes then
                   fail ''agent identity consistency error: public key mismatch''
                 else Done (Inr meta)))))))"

text \<open>
  Writing a file in one step: a temporary file is filled, closed and renamed. The deferred removal
  finds nothing after a rename that succeeded; its result is ignored.
\<close>

definition write_temp :: "string \<Rightarrow> string \<Rightarrow> bytes \<Rightarrow> unit result prog" where
  "write_temp tempPath targetPath content =
     (let closing = (\<lambda>msg p. bind (wrap_err msg p) (\<lambda>r. case r of
          Inl e \<Rightarrow> bind (unit_call (Close tempPath)) (\<lambda>_. Done (Inl e)) | Inr u \<Rightarrow> Done (Inr u))) in
      bind_ok (closing ''failed to set file permissions'' (unit_call (Chmod tempPath 0x180))) (\<lambda>_.
        bind_ok (closing ''failed to write file'' (unit_call (Write tempPath content))) (\<lambda>_.
          bind_ok (closing ''failed to sync file'' (unit_call (Sync tempPath))) (\<lambda>_.
            bind_ok (wrap_err ''failed to close temp file'' (unit_call (Close tempPath))) (\<lambda>_.
              wrap_err ''failed to atomically rename file'' (unit_call (Rename tempPath targetPath)))))))"

definition write_atomic :: "string \<Rightarrow> string \<Rightarrow> string \<Rightarrow> bytes \<Rightarrow> unit result prog" where
  "write_atomic stateDir prefix targetPath content =
     bind_ok (wrap_err ''failed to create temp file'' (Call (CreateTemp stateDir prefix ''.tmp'') (\<lambda>a. Done (as_path a))))
       (\<lambda>tempPath. bind (write_temp tempPath targetPath content) (\<lambda>r.
          bind (unit_call (Remove tempPath)) (\<lambda>_. Done r)))"

definition WriteIdentityMetadata :: "string \<Rightarrow> IdentityMetadata \<Rightarrow> unit result prog" where
  "WriteIdentityMetadata stateDir meta =
     bind_ok (EnsureStateDir stateDir) (\<lambda>_.
       write_atomic stateDir ''identity-'' (filepath_Join stateDir IdentityJSONFileName)
         (MarshalIndent (IdentityMetadata_members meta)))"

section \<open>Trust roots\<close>

definition ControllerCAPEMFileName :: string where "ControllerCAPEMFileName = ''controller-ca.pem''"
definition MaxCAPEMBytes :: nat where "MaxCAPEMBytes = 1024 * 1024"
definition pemBeginCertificate :: string where "pemBeginCertificate = ''-----BEGIN CERTIFICATE-----''"

definition trim_left_ws :: "bytes \<Rightarrow> bytes" where
  "trim_left_ws s = dropWhile (\<lambda>c. c \<in> {CHR 0x20, CHR 0x09, CHR 0x0D, CHR 0x0A}) s"

text \<open>
  The loop of \<^verbatim>\<open>validateAndParseCAPEM\<close> takes one block a round and goes on with the text behind it; the
  result is the DER bytes of the certificates. \<open>n\<close> bounds the rounds: every block is at least one byte
  long, so the length of the text is enough.
\<close>

fun ca_blocks :: "crypto \<Rightarrow> nat \<Rightarrow> bytes \<Rightarrow> bytes list \<Rightarrow> bytes list result" where
  "ca_blocks cr n text certs =
     (let rest = trim_left_ws text in
      if rest = [] then Inr certs
      else case n of
        0 \<Rightarrow> Inl (ErrOther ''out of rounds'')
      | Suc m \<Rightarrow>
        (if \<not> HasPrefix rest pemBeginCertificate then
           Inl (ErrOther ''CA file contains non-CERTIFICATE block or invalid inter-block data'')
         else case cr_pem_Decode cr rest of
           None \<Rightarrow> Inl (ErrOther ''failed to decode certificate PEM block'')
         | Some ((typ, block), rest') \<Rightarrow>
           (if typ \<noteq> ''CERTIFICATE'' then Inl (ErrOther ''CA file contains non-CERTIFICATE block'')
            else if \<not> cr_ParseCertificate cr block then
              Inl (ErrOther ''CA file contains malformed certificate block'')
            else ca_blocks cr m rest' (certs @ [block]))))"

declare ca_blocks.simps [simp del]

definition validateAndParseCAPEM :: "crypto \<Rightarrow> bytes \<Rightarrow> bytes list result" where
  "validateAndParseCAPEM cr caBytes =
     (if length (TrimSpace caBytes) = 0 then Inl (ErrOther ''CA file is empty'')
      else case ca_blocks cr (length caBytes) caBytes [] of
        Inl e \<Rightarrow> Inl e
      | Inr certs \<Rightarrow>
        (if length certs = 0 then Inl (ErrOther ''CA file contains no valid certificates'') else Inr certs))"

definition ValidateAndPersistCAFile :: "crypto \<Rightarrow> string \<Rightarrow> string \<Rightarrow> unit result prog" where
  "ValidateAndPersistCAFile cr stateDir caFilePath =
     bind_ok (EnsureStateDir stateDir) (\<lambda>_.
       bind_ok (wrap_err ''failed to open CA file'' (Call (OpenSource caFilePath) (\<lambda>a. Done (as_source a)))) (\<lambda>f.
         case src_stat f of Inl e \<Rightarrow> Done (Inl (ErrWrap ''failed to stat source CA file'' e)) | Inr kind \<Rightarrow>
         if kind \<noteq> Regular then fail ''source CA file must be a regular file''
         else if src_err f \<and> length (src_data f) \<le> MaxCAPEMBytes then fail ''failed to read CA file''
         else let caBytes = take (MaxCAPEMBytes + 1) (src_data f) in
           if length caBytes > MaxCAPEMBytes then fail ''CA file exceeds maximum allowed size of 1 MiB''
           else bind_ok (Done (validateAndParseCAPEM cr caBytes)) (\<lambda>_.
             let caDestPath = filepath_Join stateDir ControllerCAPEMFileName in
             bind (lstat caDestPath) (\<lambda>r. case r of
               Inr fi \<Rightarrow>
                 (if fi_kind fi = Symlink then insecure ''existing controller CA file cannot be a symlink''
                  else if fi_kind fi \<noteq> Regular then insecure ''existing controller CA file must be a regular file''
                  else if fi_Perm fi \<noteq> 0x180 then insecure ''existing controller CA file mode must be 0600''
                  else bind_ok (wrap_err ''failed to read existing controller CA file'' (read_file caDestPath)) (\<lambda>existingBytes.
                    if existingBytes \<noteq> caBytes then
                      fail ''existing controller CA file contents differ from requested CA file''
                    else Done (Inr ())))
             | Inl err \<Rightarrow>
                 (if \<not> errors_Is err ErrNotExist then
                    Done (Inl (ErrWrap ''failed to inspect existing controller CA file'' err))
                  else write_atomic stateDir ''ca-'' caDestPath caBytes)))))"

text \<open>
  The certificates added to the system pool, or \<^const>\<open>None\<close> when the system pool alone is used. Opening and
  reading the file are one call.
\<close>

definition LoadControllerTrustRoots :: "crypto \<Rightarrow> string \<Rightarrow> bytes list option result prog" where
  "LoadControllerTrustRoots cr stateDir =
     (let caPath = filepath_Join stateDir ControllerCAPEMFileName in
      bind (lstat caPath) (\<lambda>r. case r of
        Inl err \<Rightarrow>
          (if errors_Is err ErrNotExist then Done (Inr None)
           else Done (Inl (ErrWrap ''failed to stat controller CA file'' err)))
      | Inr fi \<Rightarrow>
        (if fi_kind fi = Symlink then insecure ''controller CA file cannot be a symlink''
         else if fi_kind fi \<noteq> Regular then insecure ''controller CA file must be a regular file''
         else if fi_Perm fi \<noteq> 0x180 then insecure ''controller CA file mode must be 0600''
         else bind_ok (wrap_err ''failed to read controller CA file'' (read_file caPath)) (\<lambda>content.
           let caBytes = take (MaxCAPEMBytes + 1) content in
           if length caBytes > MaxCAPEMBytes then fail ''controller CA file exceeds maximum allowed size of 1 MiB''
           else bind_ok (wrap_err ''invalid controller CA file'' (Done (validateAndParseCAPEM cr caBytes))) (\<lambda>certs.
             Call SystemCertPool (\<lambda>_. Done (Inr (Some certs))))))))"

section \<open>Enrolling\<close>

record EnrollOptions =
  eo_ControllerURL :: string
  eo_StateDir :: string
  eo_CAFile :: string
  eo_hasTokenReader :: bool

definition enrollRequest_json :: "string \<Rightarrow> string \<Rightarrow> json" where
  "enrollRequest_json token pubKey = JObject [(''token'', JString token), (''public_key'', JString pubKey)]"

definition enrollResponse_fields :: "string field list" where
  "enrollResponse_fields = [(''agent_id'', set_string (\<lambda>s _. s))]"

text \<open>The identifier in a reply of the controller: content type, strict JSON, nothing behind it, a UUIDv7.\<close>

definition reply_agent_id :: "crypto \<Rightarrow> string \<Rightarrow> bytes \<Rightarrow> string result" where
  "reply_agent_id cr ct bodyBytes =
     (if ct = [] then Inl (ErrOther ''controller returned missing Content-Type in response'')
      else case cr_ParseMediaType cr ct of
        None \<Rightarrow> Inl (ErrOther ''controller returned malformed Content-Type in response'')
      | Some (mediaType, params) \<Rightarrow>
        (if mediaType \<noteq> ''application/json'' then
           Inl (ErrOther ''controller returned invalid Content-Type in response'')
         else if (case params ''charset'' of None \<Rightarrow> False
                    | Some charset \<Rightarrow> strings_ToLower (cr_lower cr) charset \<noteq> ''utf-8'') then
           Inl (ErrOther ''controller returned unsupported charset in response'')
         else case DecodeFirst enrollResponse_fields [] bodyBytes of
           None \<Rightarrow> Inl (ErrOther ''controller returned malformed JSON in response'')
         | Some (agentID, rest) \<Rightarrow>
           (if More rest then Inl (ErrOther ''controller returned trailing data in response'')
            else if skip_ws rest \<noteq> [] then
              Inl (ErrOther ''controller returned additional JSON documents in response'')
            else if agentID = [] then Inl (ErrOther ''controller returned empty agent_id in response'')
            else case ValidateUUIDv7 agentID of
              Inl _ \<Rightarrow> Inl (ErrOther ''controller returned invalid agent_id format in response'')
            | Inr _ \<Rightarrow> Inr agentID)))"

text \<open>Reading a reply body up to the limit.\<close>

definition read_reply :: "reply \<Rightarrow> bytes result" where
  "read_reply r =
     (if rp_err r \<and> length (rp_body r) \<le> MaxHTTPResponseBody then Inl (ErrOther ''failed to read response'')
      else let bodyBytes = take (MaxHTTPResponseBody + 1) (rp_body r) in
        if length bodyBytes > MaxHTTPResponseBody then Inl (ErrOther ''response exceeds maximum allowed size'')
        else Inr bodyBytes)"

definition enroll_exchange ::
  "crypto \<Rightarrow> EnrollOptions \<Rightarrow> string \<Rightarrow> string \<Rightarrow> string result prog" where
  "enroll_exchange cr opts token pubKeyStr =
     Call (Exchange (render (enrollRequest_json token pubKeyStr))) (\<lambda>a. case as_reply a of
       Inl _ \<Rightarrow> fail ''enrollment request failed''
     | Inr resp \<Rightarrow>
       bind_ok (Done (read_reply resp)) (\<lambda>bodyBytes.
         if rp_status resp = 201 \<or> rp_status resp = 200 then
           bind_ok (Done (reply_agent_id cr (rp_contentType resp) bodyBytes)) (\<lambda>agentID.
             bind_ok (wrap_err ''failed to persist agent identity metadata''
                 (WriteIdentityMetadata (eo_StateDir opts)
                   \<lparr>im_Version = 1, im_AgentID = agentID, im_ControllerURL = eo_ControllerURL opts,
                    im_PublicKey = pubKeyStr\<rparr>)) (\<lambda>_. Done (Inr agentID)))
         else if rp_status resp = 401 then fail ''enrollment rejected by controller''
         else if rp_status resp = 409 then fail ''agent identity conflict''
         else if rp_status resp = 400 then fail ''controller rejected enrollment request''
         else fail ''controller enrollment failed''))"

text \<open>With a token: the key, the trust roots, the exchange.\<close>

definition enroll_pending :: "crypto \<Rightarrow> EnrollOptions \<Rightarrow> string \<Rightarrow> string result prog" where
  "enroll_pending cr opts token =
     bind_ok (wrap_err ''failed to prepare agent identity'' (LoadOrGenerateKey cr (eo_StateDir opts))) (\<lambda>keys.
       bind_ok (wrap_err ''failed to load controller trust roots'' (LoadControllerTrustRoots cr (eo_StateDir opts))) (\<lambda>_.
         enroll_exchange cr opts token (FormatPublicKeyBase64RawURL (fst keys))))"

definition Enroll :: "crypto \<Rightarrow> EnrollOptions \<Rightarrow> string result prog" where
  "Enroll cr opts =
     bind_ok (Done (ValidateControllerURL cr (eo_ControllerURL opts))) (\<lambda>ctrlURL.
       if eo_StateDir opts = [] then fail ''state directory is required''
       else if \<not> eo_hasTokenReader opts then fail ''token reader is required''
       else if eo_CAFile opts \<noteq> [] \<and> u_Scheme ctrlURL \<noteq> ''https'' then
         fail ''--ca-file is permitted only with HTTPS controller URL''
       else bind (lstat (filepath_Join (eo_StateDir opts) IdentityJSONFileName)) (\<lambda>r. case r of
         Inr _ \<Rightarrow>
           bind (LoadIdentityMetadata cr (eo_StateDir opts)) (\<lambda>loaded. case loaded of
             Inr _ \<Rightarrow> Done (Inl ErrAlreadyEnrolled)
           | Inl loadErr \<Rightarrow> Done (Inl (ErrWrap ''existing agent identity metadata is invalid'' loadErr)))
       | Inl err \<Rightarrow>
         (if \<not> errors_Is err ErrNotExist then
            Done (Inl (ErrWrap ''failed to inspect existing agent identity metadata'' err))
          else bind_ok (if eo_CAFile opts \<noteq> [] then
                 wrap_err ''failed to process CA file'' (ValidateAndPersistCAFile cr (eo_StateDir opts) (eo_CAFile opts))
               else Done (Inr ())) (\<lambda>_.
            bind_ok (Call ReadToken (\<lambda>a. Done (ReadAndValidateTokenFromStdin (as_data a)))) (\<lambda>token.
              enroll_pending cr opts token)))))"

section \<open>The transport check\<close>

text \<open>\<open>build\<close> is whether a client certificate for the key can be made.\<close>

definition TransportCheck :: "crypto \<Rightarrow> (bytes \<Rightarrow> unit result) \<Rightarrow> string \<Rightarrow> string result prog" where
  "TransportCheck cr build stateDir =
     (if stateDir = [] then fail ''state directory is required''
      else bind_ok (wrap_err ''failed to load agent identity'' (LoadIdentityMetadata cr stateDir)) (\<lambda>meta.
        bind_ok (wrap_err ''invalid controller URL in identity'' (Done (ValidateControllerURL cr (im_ControllerURL meta)))) (\<lambda>ctrlURL.
          if u_Scheme ctrlURL \<noteq> ''https'' then
            fail ''transport check requires HTTPS controller URL; found HTTP loopback identity''
          else bind_ok (wrap_err ''failed to load controller trust roots'' (LoadControllerTrustRoots cr stateDir)) (\<lambda>_.
            bind_ok (wrap_err ''failed to load agent private key'' (loadExistingPrivateKey cr stateDir)) (\<lambda>privKey.
              bind_ok (wrap_err ''failed to create ephemeral client certificate'' (Done (build privKey))) (\<lambda>_.
                Call (Exchange []) (\<lambda>a. case as_reply a of
                  Inl e \<Rightarrow> Done (Inl (ErrWrap ''transport check connection failed'' e))
                | Inr resp \<Rightarrow>
                  bind_ok (Done (read_reply resp)) (\<lambda>bodyBytes.
                    if rp_status resp = 401 then fail ''agent authentication rejected by controller''
                    else if rp_status resp \<noteq> 200 then fail ''controller returned unexpected status''
                    else bind_ok (Done (reply_agent_id cr (rp_contentType resp) bodyBytes)) (\<lambda>agentID.
                      if agentID \<noteq> im_AgentID meta then fail ''controller returned unexpected agent ID''
                      else Done (Inr agentID))))))))))"

end
