(* ===== verification/Go_Flags.thy ===== *)
theory Go_Flags
  imports Privilege_Server Privilege_Client Agent_Enroll Agent_Privilege
begin

text \<open>
  What the commands use of the package \<^verbatim>\<open>flag\<close>, for flags that are strings, and the command lines of the
  agent and of its helper: \<^verbatim>\<open>src/cmd/agent/main.go\<close> and \<^verbatim>\<open>src/cmd/agent-helper/main.go\<close>.
\<close>

section \<open>Flag sets\<close>

text \<open>
  One flag at the head of the arguments: \<open>None\<close> when parsing stops there (the first positional argument,
  or \<^verbatim>\<open>--\<close>, which is dropped); otherwise the name with the value behind an equals sign.
\<close>

datatype flag_token = Positional | Terminator | BadSyntax | Flag string "string option"

text \<open>An equals sign is looked for behind the first character of the name.\<close>

definition flag_name :: "string \<Rightarrow> flag_token" where
  "flag_name name =
     (if name = [] \<or> hd name = CHR ''-'' \<or> hd name = CHR ''='' then BadSyntax
      else case Cut (CHR ''='') (tl name) of
        None \<Rightarrow> Flag name None
      | Some (before, after) \<Rightarrow> Flag (hd name # before) (Some after))"

definition flag_token :: "string \<Rightarrow> flag_token" where
  "flag_token s =
     (if length s < 2 \<or> hd s \<noteq> CHR ''-'' then Positional
      else if s ! 1 = CHR ''-'' then (if length s = 2 then Terminator else flag_name (drop 2 s))
      else flag_name (tl s))"

text \<open>\<^verbatim>\<open>FlagSet.Parse\<close> with \<^verbatim>\<open>ContinueOnError\<close>: the values set, and the arguments left over.\<close>

fun parse_flags :: "string list \<Rightarrow> string list \<Rightarrow> (string \<Rightarrow> string) \<Rightarrow> ((string \<Rightarrow> string) \<times> string list) result" where
  "parse_flags names [] vals = Inr (vals, [])"
| "parse_flags names (s # args) vals =
     (case flag_token s of
        Positional \<Rightarrow> Inr (vals, s # args)
      | Terminator \<Rightarrow> Inr (vals, args)
      | BadSyntax \<Rightarrow> Inl (ErrOther ''bad flag syntax'')
      | Flag name v \<Rightarrow>
        (if name \<notin> set names then
           (if name = ''help'' \<or> name = ''h'' then Inl (ErrOther ''flag: help requested'')
            else Inl (ErrOther ''flag provided but not defined''))
         else case v of
           Some x \<Rightarrow> parse_flags names args (vals(name := x))
         | None \<Rightarrow>
           (case args of
              [] \<Rightarrow> Inl (ErrOther ''flag needs an argument'')
            | x # args' \<Rightarrow> parse_flags names args' (vals(name := x)))))"

abbreviation no_values :: "string \<Rightarrow> string" where "no_values \<equiv> \<lambda>_. []"

text \<open>The flags of a command, with no positional argument behind them.\<close>

definition command_flags :: "string list \<Rightarrow> string \<Rightarrow> string list \<Rightarrow> (string \<Rightarrow> string) result" where
  "command_flags names msg args =
     (case parse_flags names args no_values of
        Inl e \<Rightarrow> Inl e
      | Inr (vals, rest) \<Rightarrow> if rest \<noteq> [] then Inl (ErrOther msg) else Inr vals)"

section \<open>The agent\<close>

text \<open>
  A command ends in an error or in the text it prints. The daemon, the exchange with the helper and the
  construction of certificates are arguments: \<^verbatim>\<open>agent.Run\<close>, \<^verbatim>\<open>Client.Ping\<close> and \<^verbatim>\<open>BuildEphemeralClientCert\<close>.
\<close>

definition newline :: string where "newline = [CHR 0x0A]"

definition runAgentDaemonWithRunner :: "(string \<Rightarrow> unit result prog) \<Rightarrow> string list \<Rightarrow> string result prog" where
  "runAgentDaemonWithRunner runner args =
     bind_ok (Done (command_flags [''state-dir''] ''unexpected positional arguments'' args)) (\<lambda>vals.
       if vals ''state-dir'' = [] then fail ''missing required flag --state-dir''
       else bind_ok (runner (vals ''state-dir'')) (\<lambda>_. Done (Inr [])))"

definition runEnroll :: "crypto \<Rightarrow> string list \<Rightarrow> string result prog" where
  "runEnroll cr args =
     bind_ok (Done (command_flags [''controller'', ''state-dir'', ''ca-file'']
         ''unexpected positional arguments; enrollment token must be provided via stdin'' args)) (\<lambda>vals.
       if vals ''controller'' = [] then fail ''missing required flag --controller''
       else if vals ''state-dir'' = [] then fail ''missing required flag --state-dir''
       else bind_ok (Enroll cr \<lparr>eo_ControllerURL = vals ''controller'', eo_StateDir = vals ''state-dir'',
              eo_CAFile = vals ''ca-file'', eo_hasTokenReader = True\<rparr>)
         (\<lambda>agentID. Done (Inr (''Agent enrolled successfully: '' @ agentID @ newline))))"

definition runTransportCheck :: "crypto \<Rightarrow> (bytes \<Rightarrow> unit result) \<Rightarrow> string list \<Rightarrow> string result prog" where
  "runTransportCheck cr build args =
     bind_ok (Done (command_flags [''state-dir''] ''unexpected positional arguments'' args)) (\<lambda>vals.
       if vals ''state-dir'' = [] then fail ''missing required flag --state-dir''
       else bind_ok (TransportCheck cr build (vals ''state-dir''))
         (\<lambda>agentID. Done (Inr (''Secure transport verified: '' @ agentID @ newline))))"

definition runPrivilegeCheckWithFactory ::
  "(ClientConfig \<Rightarrow> client result) \<Rightarrow> (client \<Rightarrow> unit result) \<Rightarrow> string list \<Rightarrow> string result prog" where
  "runPrivilegeCheckWithFactory factory ping args =
     bind_ok (Done (command_flags [''runtime-dir''] ''unexpected positional arguments'' args)) (\<lambda>vals.
       if vals ''runtime-dir'' = [] then fail ''missing required flag --runtime-dir''
       else bind_ok (Done (factory \<lparr>cc_RuntimeDir = vals ''runtime-dir'', cc_Timeout = 0\<rparr>)) (\<lambda>c.
         bind_ok (Done (ping c)) (\<lambda>_. Done (Inr (''Privilege boundary verified'' @ newline)))))"

definition agent_run ::
  "crypto \<Rightarrow> (bytes \<Rightarrow> unit result) \<Rightarrow> (client \<Rightarrow> unit result) \<Rightarrow> (string \<Rightarrow> unit result prog) \<Rightarrow> string list
     \<Rightarrow> string result prog" where
  "agent_run cr build ping runner args =
     (if args = [] \<or> HasPrefix (hd args) ''-'' then runAgentDaemonWithRunner runner args
      else if hd args = ''enroll'' then runEnroll cr (tl args)
      else if hd args = ''transport-check'' then runTransportCheck cr build (tl args)
      else if hd args = ''privilege-check'' then runPrivilegeCheckWithFactory newClientWithDeps ping (tl args)
      else fail ''unknown command'')"

section \<open>The helper\<close>

text \<open>\<^verbatim>\<open>strconv.ParseUint(s, 10, 32)\<close>.\<close>

definition ParseUint32 :: "string \<Rightarrow> nat option" where
  "ParseUint32 s = (case ParseUint s of None \<Rightarrow> None | Some n \<Rightarrow> if n < 2 ^ 32 then Some n else None)"

text \<open>The runner is given the configuration; \<^verbatim>\<open>defaultServerRunner\<close> makes a server of it.\<close>

definition defaultServerRunner :: "(Server \<Rightarrow> unit result) \<Rightarrow> ServerConfig \<Rightarrow> unit result" where
  "defaultServerRunner serve cfg = (case newServerWithDeps cfg of Inl e \<Rightarrow> Inl e | Inr srv \<Rightarrow> serve srv)"

definition runWithRunner :: "(ServerConfig \<Rightarrow> unit result) \<Rightarrow> string list \<Rightarrow> unit result" where
  "runWithRunner runner args =
     (case command_flags [''runtime-dir'', ''allowed-uid'', ''allowed-gid''] ''unexpected positional arguments'' args of
        Inl e \<Rightarrow> Inl e
      | Inr vals \<Rightarrow>
        (if vals ''runtime-dir'' = [] then Inl (ErrOther ''missing required flag --runtime-dir'')
         else if vals ''allowed-uid'' = [] then Inl (ErrOther ''missing required flag --allowed-uid'')
         else if vals ''allowed-gid'' = [] then Inl (ErrOther ''missing required flag --allowed-gid'')
         else case ParseUint32 (vals ''allowed-uid'') of
           None \<Rightarrow> Inl (ErrOther ''invalid numeric --allowed-uid'')
         | Some allowedUID \<Rightarrow>
           (if allowedUID = 0 then Inl (ErrOther ''allowed UID must be non-root (non-zero)'')
            else case ParseUint32 (vals ''allowed-gid'') of
              None \<Rightarrow> Inl (ErrOther ''invalid numeric --allowed-gid'')
            | Some allowedGID \<Rightarrow>
              (let cfg = \<lparr>sv_RuntimeDir = vals ''runtime-dir'', sv_AllowedUID = allowedUID, sv_AllowedGID = allowedGID, sv_Timeout = 0\<rparr> in
               case ValidateServerConfig cfg of
                 Inl e \<Rightarrow> Inl e
               | Inr _ \<Rightarrow> runner cfg))))"

section \<open>Facts\<close>

text \<open>Flags given as name and value are read back, whatever the values are.\<close>

definition plain_flag :: "string \<Rightarrow> bool" where
  "plain_flag n \<longleftrightarrow> n \<noteq> [] \<and> hd n \<noteq> CHR ''-'' \<and> CHR ''='' \<notin> set n"

definition flag_args :: "(string \<times> string) list \<Rightarrow> string list" where
  "flag_args nvs = concat (map (\<lambda>(n, v). [''--'' @ n, v]) nvs)"

lemma Cut_absent: "c \<notin> set s \<Longrightarrow> Cut c s = None"
  by (simp add: Cut_def)

lemma flag_token_plain:
  assumes "plain_flag n"
  shows "flag_token (''--'' @ n) = Flag n None"
proof -
  obtain c n' where n: "n = c # n'" using assms by (cases n) (auto simp: plain_flag_def)
  then show ?thesis using assms by (auto simp: plain_flag_def flag_token_def flag_name_def Cut_absent)
qed

lemma parse_flag_args:
  assumes "\<forall>(n, v) \<in> set nvs. n \<in> set names \<and> plain_flag n"
  shows "parse_flags names (flag_args nvs) vals = Inr (foldl (\<lambda>f (n, v). f(n := v)) vals nvs, [])"
  using assms
proof (induction nvs arbitrary: vals)
  case (Cons nv nvs)
  obtain n v where nv: "nv = (n, v)" by (cases nv)
  have head: "flag_args (nv # nvs) = (''--'' @ n) # v # flag_args nvs" by (simp add: flag_args_def nv)
  have "flag_token (''--'' @ n) = Flag n None" "n \<in> set names" using Cons.prems flag_token_plain by (auto simp: nv)
  then show ?case
    using Cons unfolding head parse_flags.simps by (simp add: nv fun_upd_def)
qed (simp add: flag_args_def)

lemma runWithRunner_config:
  assumes "runWithRunner runner args = Inr ()"
  shows "\<exists>cfg. ValidateServerConfig cfg = Inr () \<and> runner cfg = Inr () \<and> 0 < sv_AllowedUID cfg
    \<and> sv_AllowedUID cfg < 2 ^ 32 \<and> sv_AllowedGID cfg < 2 ^ 32"
proof -
  obtain vals uid gid where
      "ParseUint32 (vals ''allowed-uid'') = Some uid" "ParseUint32 (vals ''allowed-gid'') = Some gid" "0 < uid"
      "ValidateServerConfig \<lparr>sv_RuntimeDir = vals ''runtime-dir'', sv_AllowedUID = uid, sv_AllowedGID = gid, sv_Timeout = 0\<rparr> = Inr ()"
      "runner \<lparr>sv_RuntimeDir = vals ''runtime-dir'', sv_AllowedUID = uid, sv_AllowedGID = gid, sv_Timeout = 0\<rparr> = Inr ()"
    using assms by (auto simp: runWithRunner_def Let_def split: sum.splits if_splits option.splits)
  then show ?thesis
    by (intro exI [of _ "\<lparr>sv_RuntimeDir = vals ''runtime-dir'', sv_AllowedUID = uid, sv_AllowedGID = gid, sv_Timeout = 0\<rparr>"])
      (auto simp: ParseUint32_def split: option.splits if_splits)
qed

end
