(* ===== verification/Agent_Files.thy ===== *)
theory Agent_Files
  imports Agent_State
begin

text \<open>
  What the operating system does with the calls of the agent's programs: a file system of paths, in
  which any call may fail and a failing write may leave part of its data. A program logic shows that
  a condition on the files holds between any two calls, wherever the process is stopped.
\<close>

section \<open>Files\<close>

record node =
  n_kind :: node_kind
  n_perm :: nat
  n_data :: bytes

type_synonym fs = "string \<Rightarrow> node option"

definition info_of :: "node \<Rightarrow> FileInfo" where
  "info_of n = \<lparr>fi_kind = n_kind n, fi_Perm = n_perm n, fi_Sys = None\<rparr>"

definition new_file :: "nat \<Rightarrow> node" where
  "new_file perm = \<lparr>n_kind = Regular, n_perm = perm, n_data = []\<rparr>"

definition new_dir :: "nat \<Rightarrow> node" where
  "new_dir perm = \<lparr>n_kind = Directory, n_perm = perm, n_data = []\<rparr>"

text \<open>The name \<^verbatim>\<open>os.CreateTemp\<close> makes of a directory and a file name.\<close>

definition joinPath :: "string \<Rightarrow> string \<Rightarrow> string" where
  "joinPath dir name = (if dir \<noteq> [] \<and> last dir = slash then dir @ name else dir @ slash # name)"

text \<open>
  A call in a file system, its answer and the file system after it. Each path is known to the program
  under one name. The mode of a new file is the one asked for: all modes the program asks for are
  those of the owner alone, which a usual umask leaves alone.
\<close>

fun os :: "call \<Rightarrow> fs \<Rightarrow> answer \<Rightarrow> fs \<Rightarrow> bool" where
  "os (Lstat p) fs a fs' \<longleftrightarrow> fs' = fs \<and>
     (case fs p of
        Some n \<Rightarrow> a = AInfo (Inr (info_of n)) \<or> (\<exists>e. a = AInfo (Inl e) \<and> \<not> errors_Is e ErrNotExist)
      | None \<Rightarrow> \<exists>e. a = AInfo (Inl e))"
| "os (MkdirAll p m) fs a fs' \<longleftrightarrow>
     (a = AUnit (Inr ()) \<and> fs' = (if fs p = None then fs(p \<mapsto> new_dir m) else fs)) \<or> (\<exists>e. a = AUnit (Inl e) \<and> fs' = fs)"
| "os (ReadFile p) fs a fs' \<longleftrightarrow> fs' = fs \<and>
     (case fs p of
        Some n \<Rightarrow> a = AData (Inr (n_data n)) \<or> (\<exists>e. a = AData (Inl e) \<and> \<not> errors_Is e ErrNotExist)
      | None \<Rightarrow> \<exists>e. a = AData (Inl e))"
| "os (CreateExcl p m) fs a fs' \<longleftrightarrow>
     (fs p = None \<and> a = AUnit (Inr ()) \<and> fs' = fs(p \<mapsto> new_file m)) \<or> (\<exists>e. a = AUnit (Inl e) \<and> fs' = fs)"
| "os (CreateTemp dir pre suf) fs a fs' \<longleftrightarrow>
     (\<exists>r p. p = joinPath dir (pre @ r @ suf) \<and> fs p = None \<and> a = APath (Inr p) \<and> fs' = fs(p \<mapsto> new_file 0x180))
     \<or> (\<exists>e. a = APath (Inl e) \<and> fs' = fs)"
| "os (Chmod p m) fs a fs' \<longleftrightarrow>
     (\<exists>n. fs p = Some n \<and> a = AUnit (Inr ()) \<and> fs' = fs(p \<mapsto> n\<lparr>n_perm := m\<rparr>)) \<or> (\<exists>e. a = AUnit (Inl e) \<and> fs' = fs)"
| "os (Write p b) fs a fs' \<longleftrightarrow>
     (\<exists>n. fs p = Some n \<and> a = AUnit (Inr ()) \<and> fs' = fs(p \<mapsto> n\<lparr>n_data := n_data n @ b\<rparr>))
     \<or> (\<exists>n k e. fs p = Some n \<and> a = AUnit (Inl e) \<and> fs' = fs(p \<mapsto> n\<lparr>n_data := n_data n @ take k b\<rparr>))
     \<or> (\<exists>e. a = AUnit (Inl e) \<and> fs' = fs)"
| "os (Sync p) fs a fs' \<longleftrightarrow> fs' = fs \<and> (\<exists>r. a = AUnit r)"
| "os (Close p) fs a fs' \<longleftrightarrow> fs' = fs \<and> (\<exists>r. a = AUnit r)"
| "os (Rename p q) fs a fs' \<longleftrightarrow>
     (\<exists>n. fs p = Some n \<and> a = AUnit (Inr ()) \<and> fs' = (fs(p := None))(q \<mapsto> n)) \<or> (\<exists>e. a = AUnit (Inl e) \<and> fs' = fs)"
| "os (Remove p) fs a fs' \<longleftrightarrow>
     (a = AUnit (Inr ()) \<and> fs' = fs(p := None)) \<or> (\<exists>e. a = AUnit (Inl e) \<and> fs' = fs)"
| "os GenerateKey fs a fs' \<longleftrightarrow> fs' = fs \<and> ((\<exists>priv. length priv = PrivateKeySize \<and> a = AData (Inr priv)) \<or> (\<exists>e. a = AData (Inl e)))"
| "os (OpenSource p) fs a fs' \<longleftrightarrow> fs' = fs \<and> (\<exists>r. a = ASource r)"
| "os ReadToken fs a fs' \<longleftrightarrow> fs' = fs \<and> (\<exists>r. a = AData r)"
| "os SystemCertPool fs a fs' \<longleftrightarrow> fs' = fs \<and> (\<exists>b. a = APool b)"
| "os (Exchange b) fs a fs' \<longleftrightarrow> fs' = fs \<and> (\<exists>r. a = AReply r)"

section \<open>Runs\<close>

text \<open>A run may stop anywhere: the process was killed, or the program is done.\<close>

inductive os_run :: "fs \<Rightarrow> 'r prog \<Rightarrow> fs \<Rightarrow> 'r prog \<Rightarrow> bool" where
  stop: "os_run fs p fs p"
| answered: "os c fs a fs1 \<Longrightarrow> os_run fs1 (k a) fs2 p2 \<Longrightarrow> os_run fs (Call c k) fs2 p2"

section \<open>A logic for stopped programs\<close>

text \<open>\<open>I\<close> holds before and after every call, and \<open>Q\<close> of the result and the files at the end.\<close>

primrec safe :: "(fs \<Rightarrow> bool) \<Rightarrow> 'r prog \<Rightarrow> ('r \<Rightarrow> fs \<Rightarrow> bool) \<Rightarrow> fs \<Rightarrow> bool" where
  "safe I (Done r) Q fs = (I fs \<and> Q r fs)"
| "safe I (Call c k) Q fs = (I fs \<and> (\<forall>a fs'. os c fs a fs' \<longrightarrow> safe I (k a) Q fs'))"

lemma safe_now: "safe I p Q fs \<Longrightarrow> I fs"
  by (cases p) auto

lemma safe_run:
  assumes "os_run fs p fs' p'" and "safe I p Q fs"
  shows "safe I p' Q fs'"
  using assms by (induction rule: os_run.induct) auto

lemma safe_bind: "safe I (bind p f) Q fs \<longleftrightarrow> safe I p (\<lambda>r. safe I (f r) Q) fs"
proof (induction p arbitrary: fs)
  case (Done r)
  then show ?case using safe_now by auto
qed simp

lemma safe_bind_ok:
  "safe I (bind_ok p f) Q fs \<longleftrightarrow> safe I p (\<lambda>r. case r of Inl e \<Rightarrow> (\<lambda>fs. I fs \<and> Q (Inl e) fs) | Inr x \<Rightarrow> safe I (f x) Q) fs"
proof -
  have "(\<lambda>r. safe I (case r of Inl e \<Rightarrow> Done (Inl e) | Inr x \<Rightarrow> f x) Q) =
      (\<lambda>r. case r of Inl e \<Rightarrow> (\<lambda>fs. I fs \<and> Q (Inl e) fs) | Inr x \<Rightarrow> safe I (f x) Q)"
    by (rule ext) (auto split: sum.splits)
  then show ?thesis by (simp add: bind_ok_def safe_bind)
qed

lemma safe_conseq: "safe I p Q fs \<Longrightarrow> (\<And>r fs'. I fs' \<Longrightarrow> Q r fs' \<Longrightarrow> R r fs') \<Longrightarrow> safe I p R fs"
  by (induction p arbitrary: fs) auto

lemma safe_wrap_err:
  "safe I (wrap_err msg p) Q fs \<longleftrightarrow>
     safe I p (\<lambda>r fs. Q (case r of Inl e \<Rightarrow> Inl (ErrWrap msg e) | Inr x \<Rightarrow> Inr x) fs) fs"
proof -
  have "safe I p (\<lambda>r fs. I fs \<and> R r fs) fs = safe I p R fs" for R
    by (auto elim: safe_conseq)
  moreover have "safe I (Done x) Q = (\<lambda>fs. I fs \<and> Q x fs)" for x
    by (rule ext) simp
  ultimately show ?thesis by (simp only: wrap_err_def safe_bind)
qed

lemmas safe_simps = safe_bind safe_bind_ok safe_wrap_err

end
