(* ===== verification/Agent_Identity.thy ===== *)
theory Agent_Identity
  imports Agent_Enroll Agent_Files
begin

text \<open>
  The identity of an enrolled agent: what is written is what is loaded, wherever enrollment is cut off.
\<close>

section \<open>The indented document\<close>

lemma parse_value_space: "parse_value n (CHR 0x20 # s) = parse_value n s"
  by (cases n) (simp_all add: skip_ws_def json_space_def)

lemma expect_space:
  "expect c (CHR 0x20 # s) = expect c s" "expect c (CHR 0x0A # s) = expect c s"
  by (simp_all add: expect_def skip_ws_def json_space_def)

lemma parse_members_indent:
  assumes "\<And>k v t. (k, v) \<in> set ms \<Longrightarrow> stops t \<Longrightarrow> ValidString k \<and> parse_value j (render v @ t) = Some (v, t)"
    and "ms \<noteq> []" and "length ms \<le> n"
  shows "parse_members (parse_value j) n (Join (CHR '','') (map indent_member ms) @ CHR 0x0A # CHR ''}'' # u) = Some (ms, u)"
  using assms
proof (induction ms arbitrary: n)
  case (Cons m ms)
  obtain i where n: "n = Suc i" using Cons.prems(3) by (cases n) auto
  obtain k v where m: "m = (k, v)" by (cases m)
  have key: "Option.bind (expect (CHR 0x22) (quote k @ t)) parse_string = Some (k, t)" for t
    using parse_quoted [of k t] Cons.prems(1) [of k v "[]"] by (auto simp: m)
  have val: "parse_value j (render v @ t) = Some (v, t)" if "stops t" for t
    using Cons.prems(1) [of k v t] that by (simp add: m)
  show ?case
  proof (cases "ms = []")
    case True
    then show ?thesis using key val by (simp add: n m indent_member_def expect_space parse_value_space)
  next
    case False
    have "parse_members (parse_value j) i (Join (CHR '','') (map indent_member ms) @ CHR 0x0A # CHR ''}'' # u) = Some (ms, u)"
      using Cons.prems False by (intro Cons.IH) (auto simp: n)
    then show ?thesis
      using False key val
      by (simp add: n m Join_Cons indent_member_def [of "(k, v)"] expect_space parse_value_space)
  qed
qed simp

lemma Join_count: "length ws \<le> Suc (length (Join c ws))"
  by (induction c ws rule: Join.induct) auto

lemma ParseJson_indent:
  assumes "json_ok (JObject ms)" and "ms \<noteq> []" and "\<And>k v. (k, v) \<in> set ms \<Longrightarrow> need v = 1"
  shows "ParseJson (MarshalIndent ms) = Some (JObject ms, [])"
proof -
  let ?body = "Join (CHR '','') (map indent_member ms) @ [CHR 0x0A, CHR ''}'']"
  let ?n = "length (MarshalIndent ms)"
  have "length ms \<le> ?n" using Join_count [of "map indent_member ms" "CHR '',''"] by (simp add: MarshalIndent_def)
  moreover have "ValidString k \<and> parse_value ?n (render v @ t) = Some (v, t)" if "(k, v) \<in> set ms" "stops t" for k v t
    using assms(1) that assms(3) [OF that(1)] parse_render [of v ?n t] by (auto simp: list_all_iff MarshalIndent_def)
  ultimately have "parse_members (parse_value ?n) ?n ?body = Some (ms, [])"
    using parse_members_indent [of ms ?n ?n "[]"] assms(2) by simp
  moreover obtain m ws where "ms = m # ws" using assms(2) by (cases ms) auto
  then have "\<exists>r. ?body = CHR 0x0A # CHR 0x20 # CHR 0x20 # CHR 0x22 # r"
    by (cases ws) (auto simp: indent_member_def quote_def)
  ultimately show ?thesis
    by (auto simp: ParseJson_def MarshalIndent_def skip_ws_def json_space_def expect_space)
qed

definition metadata_fits :: "IdentityMetadata \<Rightarrow> bool" where
  "metadata_fits m \<longleftrightarrow> in_int64 (im_Version m) \<and> ValidString (im_AgentID m) \<and> ValidString (im_ControllerURL m)
     \<and> ValidString (im_PublicKey m)"

lemma metadata_literals:
  "ValidString ''version''" "ValidString ''agent_id''" "ValidString ''controller_url''" "ValidString ''public_key''"
  by (rule ascii_valid, simp add: is_ascii_def)+

lemma decode_written:
  assumes "metadata_fits m"
  shows "decode_metadata (MarshalIndent (IdentityMetadata_members m)) = Inr m"
proof -
  have "ParseJson (MarshalIndent (IdentityMetadata_members m)) = Some (JObject (IdentityMetadata_members m), [])"
    using assms by (intro ParseJson_indent)
      (auto simp: IdentityMetadata_members_def metadata_fits_def metadata_literals FormatInt_ok [simplified])
  moreover have "set_struct IdentityMetadata_fields (JObject (IdentityMetadata_members m)) IdentityMetadata_zero = Some m"
    using assms by (simp add: IdentityMetadata_members_def IdentityMetadata_fields_def IdentityMetadata_zero_def
        metadata_fits_def set_struct_def find_field_def)
  ultimately show ?thesis
    by (simp add: decode_metadata_def DecodeFirst_def More_def skip_ws_def)
qed

section \<open>Paths\<close>

text \<open>The state directory is an absolute, clean path.\<close>

definition state_dir_ok :: "string \<Rightarrow> bool" where
  "state_dir_ok d \<longleftrightarrow> filepath_IsAbs d \<and> filepath_Clean d = d"

abbreviation key_path :: "string \<Rightarrow> string" where "key_path d \<equiv> filepath_Join d IdentityKeyFileName"
abbreviation json_path :: "string \<Rightarrow> string" where "json_path d \<equiv> filepath_Join d IdentityJSONFileName"
abbreviation ca_path :: "string \<Rightarrow> string" where "ca_path d \<equiv> filepath_Join d ControllerCAPEMFileName"

lemma plain_names:
  "plain_name IdentityKeyFileName" "plain_name IdentityJSONFileName" "plain_name ControllerCAPEMFileName"
  by (simp_all add: plain_name_def IdentityKeyFileName_def IdentityJSONFileName_def ControllerCAPEMFileName_def)

lemma path_last:
  assumes "state_dir_ok d"
  shows "last (key_path d) = CHR ''y''" "last (json_path d) = CHR ''n''" "last (ca_path d) = CHR ''m''"
    "length d < length (key_path d)" "length d < length (json_path d)" "length d < length (ca_path d)"
  using assms plain_names
  by (simp_all add: state_dir_ok_def Join_below_clean IdentityKeyFileName_def IdentityJSONFileName_def ControllerCAPEMFileName_def)

lemma temp_last: "last (joinPath d (pre @ r @ ''.tmp'')) = CHR ''p''"
  by (simp add: joinPath_def)

lemma paths_differ:
  assumes "state_dir_ok d"
  shows "key_path d \<noteq> json_path d" "ca_path d \<noteq> json_path d" "ca_path d \<noteq> key_path d"
    "d \<noteq> key_path d" "d \<noteq> json_path d" "d \<noteq> ca_path d"
    "joinPath d (pre @ r @ ''.tmp'') \<noteq> key_path d" "joinPath d (pre @ r @ ''.tmp'') \<noteq> json_path d"
    "joinPath d (pre @ r @ ''.tmp'') \<noteq> ca_path d" "joinPath d (pre @ r @ ''.tmp'') \<noteq> d"
proof -
  note facts = path_last [OF assms] temp_last [of d pre r]
  have other: "x \<noteq> y" if "last x \<noteq> last y" for x y :: string using that by auto
  show "key_path d \<noteq> json_path d" "ca_path d \<noteq> json_path d" "ca_path d \<noteq> key_path d"
    "joinPath d (pre @ r @ ''.tmp'') \<noteq> key_path d" "joinPath d (pre @ r @ ''.tmp'') \<noteq> json_path d"
    "joinPath d (pre @ r @ ''.tmp'') \<noteq> ca_path d"
    by (rule other, simp only: facts, simp)+
  have longer: "x \<noteq> y" if "length x < length y" for x y :: string using that by auto
  show "d \<noteq> key_path d" "d \<noteq> json_path d" "d \<noteq> ca_path d"
    by (rule longer, simp only: facts)+
  show "joinPath d (pre @ r @ ''.tmp'') \<noteq> d"
    by (rule longer [symmetric]) (simp add: joinPath_def)
qed

section \<open>A complete identity\<close>

definition private_dir :: "string \<Rightarrow> fs \<Rightarrow> bool" where
  "private_dir d fs \<longleftrightarrow> (\<exists>n. fs d = Some n \<and> n_kind n = Directory \<and> n_perm n = 0x1C0)"

definition private_file :: "bytes \<Rightarrow> node" where
  "private_file content = \<lparr>n_kind = Regular, n_perm = 0x180, n_data = content\<rparr>"

definition key_file :: "crypto \<Rightarrow> string \<Rightarrow> bytes \<Rightarrow> fs \<Rightarrow> bool" where
  "key_file cr d priv fs \<longleftrightarrow> (\<exists>content. fs (key_path d) = Some (private_file content)
     \<and> ParsePrivateKeyPKCS8PEM cr content = Inr priv)"

definition complete_identity :: "crypto \<Rightarrow> string \<Rightarrow> IdentityMetadata \<Rightarrow> bytes \<Rightarrow> fs \<Rightarrow> bool" where
  "complete_identity cr d m priv fs \<longleftrightarrow>
     private_dir d fs \<and> key_file cr d priv fs
     \<and> fs (json_path d) = Some (private_file (MarshalIndent (IdentityMetadata_members m)))
     \<and> metadata_fits m \<and> check_metadata cr m = Inr (public_of priv)"

text \<open>
  The invariant of the state directory: the metadata are absent or belong to a complete identity, and
  the key \<open>K\<close>, once it is there, stays.
\<close>

definition steady :: "crypto \<Rightarrow> string \<Rightarrow> bytes option \<Rightarrow> fs \<Rightarrow> bool" where
  "steady cr d K fs \<longleftrightarrow>
     (fs (json_path d) = None \<or> (\<exists>m priv. complete_identity cr d m priv fs))
     \<and> (case K of None \<Rightarrow> True | Some priv \<Rightarrow> key_file cr d priv fs)"

lemma steady_elsewhere:
  assumes "steady cr d K fs" and "p \<noteq> d" "p \<noteq> key_path d" "p \<noteq> json_path d"
  shows "steady cr d K (fs(p := x))"
  using assms by (auto simp: steady_def complete_identity_def private_dir_def key_file_def split: option.splits)

lemma steady_new_dir:
  assumes "state_dir_ok d" and "steady cr d K fs" and "fs d = None"
  shows "steady cr d K (fs(d \<mapsto> n))"
  using assms paths_differ [OF assms(1)]
  by (auto simp: steady_def complete_identity_def private_dir_def key_file_def split: option.splits)

lemma steady_no_key:
  assumes "steady cr d K fs" and "fs (key_path d) = None"
  shows "K = None" and "fs (json_path d) = None"
  using assms by (auto simp: steady_def complete_identity_def key_file_def split: option.splits)

lemma steady_key_update:
  assumes "state_dir_ok d" and "fs (json_path d) = None"
  shows "steady cr d None (fs(key_path d := x))"
  using assms paths_differ [OF assms(1)] by (simp add: steady_def)

lemma steady_json_update:
  assumes "state_dir_ok d" and "key_file cr d priv fs" and "private_dir d fs"
    and "metadata_fits m" and "check_metadata cr m = Inr (public_of priv)"
  shows "complete_identity cr d m priv (fs(json_path d \<mapsto> private_file (MarshalIndent (IdentityMetadata_members m))))"
  using assms paths_differ [OF assms(1)]
  by (auto simp: complete_identity_def private_dir_def key_file_def)

lemma complete_steady: "complete_identity cr d m priv fs \<Longrightarrow> steady cr d (Some priv) fs"
  by (auto simp: steady_def complete_identity_def)

lemma steady_weaken: "steady cr d (Some priv) fs \<Longrightarrow> steady cr d None fs"
  by (simp add: steady_def)

section \<open>Programs that keep it\<close>

lemma safe_mono: "safe I p Q fs \<Longrightarrow> (\<And>fs. I fs \<Longrightarrow> J fs) \<Longrightarrow> safe J p Q fs"
  by (induction p arbitrary: fs) auto

text \<open>Programs that change nothing.\<close>

lemma safe_lstat: "safe I (lstat p) Q fs \<longleftrightarrow>
    I fs \<and> (case fs p of
      Some n \<Rightarrow> Q (Inr (info_of n)) fs \<and> (\<forall>e. \<not> errors_Is e ErrNotExist \<longrightarrow> Q (Inl e) fs)
    | None \<Rightarrow> \<forall>e. Q (Inl e) fs)"
  by (auto split: option.splits)

lemma safe_read_file: "safe I (read_file p) Q fs \<longleftrightarrow>
    I fs \<and> (case fs p of
      Some n \<Rightarrow> Q (Inr (n_data n)) fs \<and> (\<forall>e. \<not> errors_Is e ErrNotExist \<longrightarrow> Q (Inl e) fs)
    | None \<Rightarrow> \<forall>e. Q (Inl e) fs)"
  by (auto split: option.splits)

lemma safe_validateExistingStateDir:
  "I fs \<Longrightarrow> safe I (validateExistingStateDir d) (\<lambda>r fs'. fs' = fs \<and> (r = Inr () \<longrightarrow> private_dir d fs)) fs"
  by (auto simp: validateExistingStateDir_def safe_simps safe_lstat insecure_def fail_def private_dir_def info_of_def
      simp del: safe.simps(2) split: option.splits)

lemma safe_MkdirAll:
  "I fs \<Longrightarrow> I (if fs p = None then fs(p \<mapsto> new_dir m) else fs) \<Longrightarrow>
   Q (Inr ()) (if fs p = None then fs(p \<mapsto> new_dir m) else fs) \<Longrightarrow> (\<And>e. Q (Inl e) fs) \<Longrightarrow>
   safe I (unit_call (MkdirAll p m)) Q fs"
  by auto

lemma safe_EnsureStateDir:
  assumes ok: "state_dir_ok d" and inv: "steady cr d K fs"
  shows "safe (steady cr d K) (EnsureStateDir d)
    (\<lambda>r fs'. (r = Inr () \<longrightarrow> private_dir d fs') \<and> (\<forall>p. p \<noteq> d \<longrightarrow> fs' p = fs p)) fs"
proof -
  let ?fs = "if fs d = None then fs(d \<mapsto> new_dir 0x1C0) else fs"
  have inv': "steady cr d K ?fs" using steady_new_dir [OF ok inv] inv by simp
  have check: "safe (steady cr d K) (validateExistingStateDir d)
      (\<lambda>r fs'. (r = Inr () \<longrightarrow> private_dir d fs') \<and> (\<forall>p. p \<noteq> d \<longrightarrow> fs' p = fs p)) fs1"
    if "fs1 = fs \<or> fs1 = ?fs" for fs1
    using that inv inv' by (intro safe_conseq [OF safe_validateExistingStateDir]) (auto split: if_splits)
  have made: "safe (steady cr d K) (unit_call (MkdirAll d 0x1C0)) (\<lambda>r. case r of
        Inl e \<Rightarrow> \<lambda>fs'. steady cr d K fs' \<and> (Inl e = Inr () \<longrightarrow> private_dir d fs') \<and> (\<forall>p. p \<noteq> d \<longrightarrow> fs' p = fs p)
      | Inr _ \<Rightarrow> safe (steady cr d K) (validateExistingStateDir d)
          (\<lambda>r fs'. (r = Inr () \<longrightarrow> private_dir d fs') \<and> (\<forall>p. p \<noteq> d \<longrightarrow> fs' p = fs p))) fs"
    using inv inv' check [of ?fs] by (intro safe_MkdirAll) auto
  show ?thesis
    unfolding EnsureStateDir_def safe_bind safe_lstat
    using inv check [of fs] made by (auto simp: safe_bind_ok simp del: safe.simps(2) split: option.splits)
qed

lemma key_file_iff:
  "key_file cr d priv fs \<longleftrightarrow> (\<exists>n. fs (key_path d) = Some n \<and> n_kind n = Regular \<and> n_perm n = 0x180
     \<and> ParsePrivateKeyPKCS8PEM cr (n_data n) = Inr priv)"
proof -
  have "n = private_file c \<longleftrightarrow> n_kind n = Regular \<and> n_perm n = 0x180 \<and> n_data n = c" for n c
    by (cases n) (auto simp: private_file_def)
  moreover have "n_kind (private_file c) = Regular" "n_perm (private_file c) = 0x180" "n_data (private_file c) = c" for c
    by (simp_all add: private_file_def)
  ultimately show ?thesis by (auto simp: key_file_def)
qed

lemma safe_loadExistingPrivateKey:
  "I fs \<Longrightarrow> safe I (loadExistingPrivateKey cr d)
     (\<lambda>r fs'. fs' = fs \<and> (case r of Inr priv \<Rightarrow> key_file cr d priv fs | Inl _ \<Rightarrow> True)) fs"
  by (auto simp: loadExistingPrivateKey_def safe_simps safe_lstat safe_read_file insecure_def fail_def Let_def info_of_def
      key_file_iff simp del: safe.simps(2) split: option.splits sum.splits)

text \<open>A program whose calls only look leaves the files alone.\<close>

fun looks :: "call \<Rightarrow> bool" where
  "looks (Lstat _) = True"
| "looks (ReadFile _) = True"
| "looks (OpenSource _) = True"
| "looks ReadToken = True"
| "looks SystemCertPool = True"
| "looks (Exchange _) = True"
| "looks GenerateKey = True"
| "looks _ = False"

primrec read_only :: "'r prog \<Rightarrow> bool" where
  "read_only (Done r) = True"
| "read_only (Call c k) = (looks c \<and> (\<forall>a. read_only (k a)))"

lemma read_only_bind: "read_only p \<Longrightarrow> (\<And>r. read_only (f r)) \<Longrightarrow> read_only (bind p f)"
  by (induction p) auto

lemma read_only_bind_ok: "read_only p \<Longrightarrow> (\<And>r. read_only (f r)) \<Longrightarrow> read_only (bind_ok p f)"
  by (auto simp: bind_ok_def intro: read_only_bind split: sum.splits)

lemma read_only_wrap_err: "read_only p \<Longrightarrow> read_only (wrap_err msg p)"
  by (auto simp: wrap_err_def intro: read_only_bind)

lemmas read_only_intros = read_only_bind read_only_bind_ok read_only_wrap_err

lemma looks_keeps: "looks c \<Longrightarrow> os c fs a fs' \<Longrightarrow> fs' = fs"
  by (cases c) auto

lemma safe_read_only: "read_only p \<Longrightarrow> I fs \<Longrightarrow> safe I p (\<lambda>_ fs'. fs' = fs) fs"
proof (induction p)
  case (Call c k)
  then show ?case using looks_keeps by fastforce
qed simp

lemma read_only_if: "read_only p \<Longrightarrow> read_only q \<Longrightarrow> read_only (if b then p else q)"
  by simp

lemma read_only_programs:
  "read_only (validateExistingStateDir d)" "read_only (loadExistingPrivateKey cr d)"
  by (auto simp: validateExistingStateDir_def loadExistingPrivateKey_def Let_def insecure_def fail_def
      intro!: read_only_intros read_only_if)

lemma read_only_LoadIdentityMetadata: "read_only (LoadIdentityMetadata cr d)"
  by (auto simp: LoadIdentityMetadata_def Let_def insecure_def fail_def
      intro!: read_only_intros read_only_if read_only_programs)

lemma read_only_LoadControllerTrustRoots: "read_only (LoadControllerTrustRoots cr d)"
  by (auto simp: LoadControllerTrustRoots_def Let_def insecure_def fail_def
      intro!: read_only_intros read_only_if split: sum.splits)

lemma read_only_TransportCheck: "read_only (TransportCheck cr build d)"
  by (auto simp: TransportCheck_def Let_def fail_def
      intro!: read_only_intros read_only_if read_only_programs read_only_LoadIdentityMetadata
        read_only_LoadControllerTrustRoots split: sum.splits)


section \<open>Writing in one step\<close>

text \<open>
  The invariant \<open>I\<close> has to tolerate any change of temporary files and the new content of the target;
  the target is then either as it was or complete.
\<close>

lemma safe_write_temp:
  assumes temp: "\<And>fs x. I fs \<Longrightarrow> I (fs(t := x))"
    and target: "\<And>fs. I fs \<Longrightarrow> I (fs(q \<mapsto> private_file b))" and "t \<noteq> q"
    and "I fs" and "fs t = Some (new_file 0x180)"
  shows "safe I (write_temp t q b) (\<lambda>r fs'. r = Inr () \<longrightarrow> fs' q = Some (private_file b)) fs"
  using assms
  by (auto simp: write_temp_def safe_simps Let_def new_file_def private_file_def fun_upd_twist [of t q] split: sum.splits)

lemma safe_write_atomic:
  assumes "\<And>r fs x. I fs \<Longrightarrow> I (fs(joinPath d (pre @ r @ ''.tmp'') := x))"
    and "\<And>fs. I fs \<Longrightarrow> I (fs(q \<mapsto> private_file b))" and "\<And>r. joinPath d (pre @ r @ ''.tmp'') \<noteq> q"
    and "I fs"
  shows "safe I (write_atomic d pre q b) (\<lambda>r fs'. r = Inr () \<longrightarrow> fs' q = Some (private_file b)) fs"
proof -
  have body: "safe I (write_temp (joinPath d (pre @ r @ ''.tmp'')) q b) (\<lambda>r fs'. r = Inr () \<longrightarrow> fs' q = Some (private_file b))
      (fs(joinPath d (pre @ r @ ''.tmp'') \<mapsto> new_file 0x180))" for r
    using assms by (intro safe_write_temp) auto
  have "safe I (bind (write_temp t q b) (\<lambda>r. bind (unit_call (Remove t)) (\<lambda>_. Done r)))
      (\<lambda>r fs'. r = Inr () \<longrightarrow> fs' q = Some (private_file b)) (fs(t \<mapsto> new_file 0x180))"
    if "t = joinPath d (pre @ r @ ''.tmp'')" for t r
    unfolding safe_bind using body [of r] assms(1) assms(3) [of r] by (auto simp: that elim!: safe_conseq)
  then show ?thesis
    unfolding write_atomic_def using assms(1,4) by (auto simp: safe_bind_ok safe_wrap_err)
qed

lemma steady_temp:
  assumes "state_dir_ok d" and "steady cr d K fs"
  shows "steady cr d K (fs(joinPath d (pre @ r @ ''.tmp'') := x))"
  using assms paths_differ [OF assms(1)] by (intro steady_elsewhere) auto


section \<open>The key\<close>

text \<open>What enrollment relies on: PEM and PKCS#8 read back what they wrote.\<close>

definition keys_round_trip :: "crypto \<Rightarrow> bool" where
  "keys_round_trip cr \<longleftrightarrow>
     (\<forall>der. \<exists>rest. cr_pem_Decode cr (cr_pem_Encode cr PEMBlockType der) = Some ((PEMBlockType, der), rest))
     \<and> (\<forall>priv der. length priv = PrivateKeySize \<longrightarrow> cr_MarshalPKCS8 cr priv = Some der \<longrightarrow>
          cr_ParsePKCS8 cr der = Some (Ed25519 priv))"

lemma parse_encoded_key:
  assumes "keys_round_trip cr" and "EncodePrivateKeyPKCS8PEM cr priv = Inr pem"
  shows "ParsePrivateKeyPKCS8PEM cr pem = Inr priv"
proof -
  obtain der where len: "length priv = PrivateKeySize" and der: "cr_MarshalPKCS8 cr priv = Some der"
    and pem: "pem = cr_pem_Encode cr PEMBlockType der"
    using assms(2) by (auto simp: EncodePrivateKeyPKCS8PEM_def split: if_splits option.splits)
  obtain rest where "cr_pem_Decode cr pem = Some ((PEMBlockType, der), rest)"
    using assms(1) pem unfolding keys_round_trip_def by blast
  moreover have "cr_ParsePKCS8 cr der = Some (Ed25519 priv)"
    using assms(1) len der by (auto simp: keys_round_trip_def)
  ultimately show ?thesis using len by (simp add: ParsePrivateKeyPKCS8PEM_def)
qed

lemma parsed_key_length: "ParsePrivateKeyPKCS8PEM cr pem = Inr priv \<Longrightarrow> length priv = PrivateKeySize"
  by (auto simp: ParsePrivateKeyPKCS8PEM_def split: option.splits if_splits private_key.splits)

lemma key_file_length: "key_file cr d priv fs \<Longrightarrow> length priv = PrivateKeySize"
  by (auto simp: key_file_def dest: parsed_key_length)

lemma safe_write_key:
  assumes ok: "state_dir_ok d" and inv: "steady cr d K fs" and pem: "ParsePrivateKeyPKCS8PEM cr pem = Inr priv"
  shows "safe (steady cr d K) (write_key (key_path d) pem x)
    (\<lambda>r fs'. case r of Inr y \<Rightarrow> y = x \<and> key_file cr d priv fs' | Inl _ \<Rightarrow> True) fs"
proof (cases "fs (key_path d)")
  case None
  then have K: "K = None" and json: "fs (json_path d) = None" using steady_no_key [OF inv] by auto
  have upd: "steady cr d None (fs(key_path d := y))" for y using ok json by (rule steady_key_update)
  have "key_file cr d priv (fs(key_path d \<mapsto> (new_file 0x180)\<lparr>n_data := pem\<rparr>))"
    using pem by (simp add: key_file_iff new_file_def)
  then show ?thesis
    using upd inv K None
    by (auto simp: write_key_def safe_simps new_file_def split: sum.splits)
next
  case (Some n)
  then show ?thesis using inv by (auto simp: write_key_def safe_simps split: sum.splits)
qed

lemma safe_LoadOrGenerateKey:
  assumes ok: "state_dir_ok d" and cr: "keys_round_trip cr" and inv: "steady cr d K fs"
  shows "safe (steady cr d K) (LoadOrGenerateKey cr d)
    (\<lambda>r fs'. case r of Inr (pub, priv) \<Rightarrow> pub = public_of priv \<and> key_file cr d priv fs' | Inl _ \<Rightarrow> True) fs"
    (is "safe ?I _ ?Q _")
proof -
  have gen: "safe ?I (bind_ok (wrap_err ''failed to generate ed25519 key'' (Call GenerateKey (\<lambda>a. Done (as_data a)))) (\<lambda>priv.
      bind_ok (Done (EncodePrivateKeyPKCS8PEM cr priv)) (\<lambda>pem. write_key (key_path d) pem (public_of priv, priv)))) ?Q fs1"
    if "?I fs1" for fs1
  proof -
    have "safe ?I (write_key (key_path d) pem (public_of priv, priv)) ?Q fs1"
      if "EncodePrivateKeyPKCS8PEM cr priv = Inr pem" for priv pem
      using safe_write_key [OF ok \<open>?I fs1\<close> parse_encoded_key [OF cr that], of "(public_of priv, priv)"]
      by (rule safe_conseq) (auto split: sum.splits)
    then show ?thesis using that by (auto simp: safe_simps split: sum.splits)
  qed
  have load: "safe ?I (loadExistingPrivateKey cr d) (\<lambda>r. safe ?I (case r of
        Inr priv \<Rightarrow> Done (Inr (public_of priv, priv))
      | Inl err \<Rightarrow> if \<not> errors_Is err ErrNotExist then Done (Inl err)
          else bind_ok (wrap_err ''failed to generate ed25519 key'' (Call GenerateKey (\<lambda>a. Done (as_data a)))) (\<lambda>priv.
            bind_ok (Done (EncodePrivateKeyPKCS8PEM cr priv)) (\<lambda>pem. write_key (key_path d) pem (public_of priv, priv)))) ?Q) fs1"
    if "?I fs1" for fs1
    using safe_loadExistingPrivateKey [of ?I, OF that, of cr d]
    by (rule safe_conseq) (auto simp: gen split: sum.splits)
  show ?thesis
    unfolding LoadOrGenerateKey_def Let_def safe_bind_ok safe_bind
    using safe_EnsureStateDir [OF ok inv]
    by (rule safe_conseq) (auto simp: load [unfolded safe_bind_ok] split: sum.splits)
qed


section \<open>Enrolling\<close>

lemma safe_ValidateAndPersistCAFile:
  assumes ok: "state_dir_ok d" and inv: "steady cr d K fs"
  shows "safe (steady cr d K) (ValidateAndPersistCAFile cr d src) (\<lambda>_ _. True) fs"
proof -
  have ca: "steady cr d K (fs(ca_path d \<mapsto> n))" if "steady cr d K fs" for fs n
    using that paths_differ [OF ok] by (intro steady_elsewhere) auto
  have "safe (steady cr d K) (write_atomic d ''ca-'' (ca_path d) b) (\<lambda>_ _. True) fs1" if "steady cr d K fs1" for b fs1
    using that by (intro safe_conseq [OF safe_write_atomic] steady_temp [OF ok] ca paths_differ(9) [OF ok]) auto
  then have "safe (steady cr d K) (ValidateAndPersistCAFile cr d src) (\<lambda>_ _. True) fs"
    unfolding ValidateAndPersistCAFile_def safe_bind_ok Let_def
    by (intro safe_conseq [OF safe_EnsureStateDir [OF ok inv]])
      (auto simp: safe_simps safe_lstat safe_read_file insecure_def fail_def split: sum.splits option.splits)
  then show ?thesis .
qed

lemma key_file_unique: "key_file cr d priv fs \<Longrightarrow> key_file cr d priv' fs \<Longrightarrow> priv' = priv"
  by (auto simp: key_file_iff)

lemma safe_WriteIdentityMetadata:
  assumes ok: "state_dir_ok d" and inv: "steady cr d (Some priv) fs"
    and fits: "metadata_fits m" and check: "check_metadata cr m = Inr (public_of priv)"
  shows "safe (steady cr d (Some priv)) (WriteIdentityMetadata d m)
    (\<lambda>r fs'. r = Inr () \<longrightarrow> complete_identity cr d m priv fs') fs" (is "safe ?I _ ?Q _")
proof -
  let ?J = "\<lambda>fs. ?I fs \<and> private_dir d fs"
  let ?b = "MarshalIndent (IdentityMetadata_members m)"
  have complete: "complete_identity cr d m priv (fs(json_path d \<mapsto> private_file ?b))" if "?J fs" for fs
    using that ok fits check by (intro steady_json_update) (auto simp: steady_def)
  have temp: "?J (fs(joinPath d (pre @ r @ ''.tmp'') := x))" if "?J fs" for fs pre r x
    using that steady_temp [OF ok] paths_differ(10) [OF ok, of pre r] by (auto simp: private_dir_def)
  have json: "?J (fs(json_path d \<mapsto> private_file ?b))" if "?J fs" for fs
    using complete [OF that] by (auto simp: complete_identity_def dest: complete_steady intro: complete_steady)
  have writes: "safe ?J (write_atomic d ''identity-'' (json_path d) ?b) ?Q fs1" if "?J fs1" for fs1
    using that complete
    by (intro safe_conseq [OF safe_write_atomic [of ?J]] temp json paths_differ(8) [OF ok])
      (auto simp: complete_identity_def steady_def fits check)
  have "safe ?I (write_atomic d ''identity-'' (json_path d) ?b) ?Q fs1" if "?J fs1" for fs1
    using writes [OF that] by (rule safe_mono) simp
  then show ?thesis
    unfolding WriteIdentityMetadata_def safe_bind_ok
    by (intro safe_conseq [OF safe_EnsureStateDir [OF ok inv]]) (auto split: sum.splits)
qed

lemma uuid7_ascii:
  assumes "ValidateUUIDv7 s = Inr ()"
  shows "is_ascii s"
proof -
  have byte: "of_char c < (128 :: nat)" if "uuid7_byte i c = Inr ()" for i c
    using that by (auto simp: uuid7_byte_def is_ascii_def less_eq_char_def split: if_splits)
  have "for_each (\<lambda>(i, c) _. uuid7_byte i c) (enumerate k s) () = Inr () \<Longrightarrow> is_ascii s" for k
    by (induction s arbitrary: k) (auto simp: is_ascii_def dest: byte split: sum.splits)
  then show ?thesis using assms by (auto simp: ValidateUUIDv7_def split: if_splits)
qed

text \<open>The metadata that enrollment writes are well formed.\<close>

definition enrolled_metadata :: "string \<Rightarrow> string \<Rightarrow> bytes \<Rightarrow> IdentityMetadata" where
  "enrolled_metadata url agentID priv = \<lparr>im_Version = 1, im_AgentID = agentID, im_ControllerURL = url,
     im_PublicKey = FormatPublicKeyBase64RawURL (public_of priv)\<rparr>"

lemma enrolled_fits:
  assumes "ValidateUUIDv7 agentID = Inr ()" and "ValidString url"
  shows "metadata_fits (enrolled_metadata url agentID priv)"
proof -
  have "is_ascii (FormatPublicKeyBase64RawURL (public_of priv))"
    using encode_clean [of True "public_of priv"] by (simp add: is_ascii_def FormatPublicKeyBase64RawURL_def list_all_iff)
  then show ?thesis
    using assms(2) uuid7_ascii [OF assms(1)] by (simp add: metadata_fits_def enrolled_metadata_def in_int64_def ascii_valid)
qed

lemma enrolled_check:
  assumes "ValidateUUIDv7 agentID = Inr ()" and "ValidateControllerURL cr url = Inr u" and "length priv = PrivateKeySize"
  shows "check_metadata cr (enrolled_metadata url agentID priv) = Inr (public_of priv)"
  using assms
  by (simp add: check_metadata_def enrolled_metadata_def FormatPublicKeyBase64RawURL_def decode_encode public_of_def
      PrivateKeySize_def PublicKeySize_def)

lemma reply_agent_id_valid: "reply_agent_id cr ct b = Inr agentID \<Longrightarrow> ValidateUUIDv7 agentID = Inr ()"
  by (auto simp: reply_agent_id_def split: if_splits option.splits sum.splits)


lemma safe_enroll_exchange:
  assumes ok: "state_dir_ok (eo_StateDir opts)" and inv: "steady cr (eo_StateDir opts) (Some priv) fs"
    and url: "ValidateControllerURL cr (eo_ControllerURL opts) = Inr u" "ValidString (eo_ControllerURL opts)"
  shows "safe (steady cr (eo_StateDir opts) (Some priv))
    (enroll_exchange cr opts token (FormatPublicKeyBase64RawURL (public_of priv)))
    (\<lambda>r fs'. case r of
       Inr agentID \<Rightarrow> complete_identity cr (eo_StateDir opts) (enrolled_metadata (eo_ControllerURL opts) agentID priv) priv fs'
     | Inl _ \<Rightarrow> True) fs"
proof -
  have len: "length priv = PrivateKeySize" using inv by (auto simp: steady_def dest: key_file_length)
  let ?I = "steady cr (eo_StateDir opts) (Some priv)"
  let ?Q = "\<lambda>r fs'. case r of
       Inr agentID \<Rightarrow> complete_identity cr (eo_StateDir opts) (enrolled_metadata (eo_ControllerURL opts) agentID priv) priv fs'
     | Inl _ \<Rightarrow> True"
  have persist: "safe ?I (bind_ok (wrap_err ''failed to persist agent identity metadata''
      (WriteIdentityMetadata (eo_StateDir opts) (enrolled_metadata (eo_ControllerURL opts) agentID priv)))
      (\<lambda>_. Done (Inr agentID))) ?Q fs"
    if "reply_agent_id cr ct b = Inr agentID" for ct b agentID
    unfolding safe_simps using ok inv
    by (rule safe_conseq [OF safe_WriteIdentityMetadata [OF _ _ enrolled_fits enrolled_check]])
      (use reply_agent_id_valid [OF that] url len in \<open>auto split: sum.splits\<close>)
  show ?thesis
    unfolding enroll_exchange_def enrolled_metadata_def [symmetric]
    using inv persist by (auto simp: safe_bind_ok [of _ "Done _"] fail_def split: sum.splits)
qed

text \<open>What enrollment leaves behind: when it returns an identifier, a complete identity.\<close>

definition enroll_post :: "crypto \<Rightarrow> string \<Rightarrow> EnrollOptions \<Rightarrow> string result \<Rightarrow> fs \<Rightarrow> bool" where
  "enroll_post cr d opts r fs \<longleftrightarrow> (case r of
     Inr agentID \<Rightarrow> \<exists>priv. complete_identity cr d (enrolled_metadata (eo_ControllerURL opts) agentID priv) priv fs
   | Inl _ \<Rightarrow> True)"

lemma enroll_post_error [simp]: "enroll_post cr d opts (Inl e) fs"
  by (simp add: enroll_post_def)

lemma safe_enroll_pending:
  assumes ok: "state_dir_ok d" and cr: "keys_round_trip cr" and inv: "steady cr d K fs"
    and d: "eo_StateDir opts = d" and url: "ValidateControllerURL cr (eo_ControllerURL opts) = Inr u"
    and valid: "ValidString (eo_ControllerURL opts)"
  shows "safe (steady cr d K) (enroll_pending cr opts token) (enroll_post cr d opts) fs"
proof -
  let ?I = "steady cr d K" and ?Q = "enroll_post cr d opts"
  have exchange: "safe ?I (enroll_exchange cr opts token (FormatPublicKeyBase64RawURL (public_of priv))) ?Q fs1"
    if I: "?I fs1" and key: "key_file cr d priv fs1" for priv fs1
  proof -
    have K: "K = None \<or> K = Some priv"
      using I key by (auto simp: steady_def dest: key_file_unique split: option.splits)
    have steady: "steady cr d (Some priv) fs1" using I key by (auto simp: steady_def)
    have "safe (steady cr d (Some priv)) (enroll_exchange cr opts token (FormatPublicKeyBase64RawURL (public_of priv)))
        ?Q fs1"
      using safe_enroll_exchange [of opts cr priv fs1 u token, unfolded d, OF ok steady url valid]
      by (rule safe_conseq) (auto simp: enroll_post_def split: sum.splits)
    then show ?thesis by (rule safe_mono) (use K in \<open>auto dest: steady_weaken\<close>)
  qed
  have roots: "safe ?I (bind_ok (wrap_err ''failed to load controller trust roots'' (LoadControllerTrustRoots cr d)) (\<lambda>_.
      enroll_exchange cr opts token (FormatPublicKeyBase64RawURL (public_of priv)))) ?Q fs1"
    if "?I fs1" "key_file cr d priv fs1" for priv fs1
    unfolding safe_simps using safe_read_only [OF read_only_LoadControllerTrustRoots, of ?I, OF that(1)]
    by (rule safe_conseq) (use that in \<open>auto simp: exchange split: sum.splits\<close>)
  show ?thesis
    unfolding enroll_pending_def d safe_bind_ok [of _ "wrap_err ''failed to prepare agent identity'' _"]
      safe_wrap_err [of _ "''failed to prepare agent identity''"]
    using safe_LoadOrGenerateKey [OF ok cr inv]
    by (rule safe_conseq) (auto simp: roots split: sum.splits prod.splits)
qed

lemma safe_Enroll:
  assumes ok: "state_dir_ok d" and cr: "keys_round_trip cr" and inv: "steady cr d K fs"
    and d: "eo_StateDir opts = d" and valid: "ValidString (eo_ControllerURL opts)"
  shows "safe (steady cr d K) (Enroll cr opts) (enroll_post cr d opts) fs" (is "safe ?I _ ?Q _")
proof (cases "ValidateControllerURL cr (eo_ControllerURL opts)")
  case (Inl e)
  then show ?thesis using inv by (simp add: Enroll_def safe_simps)
next
  case (Inr u)
  let ?rest = "bind_ok (Call ReadToken (\<lambda>a. Done (ReadAndValidateTokenFromStdin (as_data a)))) (\<lambda>token. enroll_pending cr opts token)"
  have "safe ?I ?rest ?Q fs1" if "?I fs1" for fs1
    unfolding safe_bind_ok [of _ "Call ReadToken _"]
    using that safe_enroll_pending [OF ok cr _ d Inr valid] by (auto split: sum.splits)
  then have "safe ?I (bind_ok (if eo_CAFile opts \<noteq> [] then
      wrap_err ''failed to process CA file'' (ValidateAndPersistCAFile cr d (eo_CAFile opts)) else Done (Inr ())) (\<lambda>_. ?rest)) ?Q fs"
    using inv safe_ValidateAndPersistCAFile [OF ok inv, of "eo_CAFile opts"]
    by (auto simp: safe_bind_ok [of _ _ "\<lambda>_. ?rest"] safe_wrap_err elim!: safe_conseq split: sum.splits)
  moreover have "safe ?I (LoadIdentityMetadata cr d) (\<lambda>r. safe ?I (case r of
      Inr _ \<Rightarrow> Done (Inl ErrAlreadyEnrolled)
    | Inl loadErr \<Rightarrow> Done (Inl (ErrWrap ''existing agent identity metadata is invalid'' loadErr))) ?Q) fs"
    using safe_read_only [OF read_only_LoadIdentityMetadata, of ?I, OF inv]
    by (rule safe_conseq) (auto split: sum.splits)
  ultimately show ?thesis
    unfolding Enroll_def Inr d using inv
    by (auto simp: safe_bind [of _ "lstat _"] safe_lstat safe_bind [of _ "LoadIdentityMetadata cr d"] fail_def
        safe_bind_ok [of _ "Done _"] split: sum.splits option.splits)
qed

end
