(* ===== verification/Enroll_Properties.thy ===== *)
theory Enroll_Properties
  imports Agent_Identity
begin

text \<open>
  Properties of enrollment, and an enrollment on a machine where every call succeeds that shows their
  hypotheses can be met.
\<close>

section \<open>A machine where calls succeed\<close>

record machine =
  mc_key :: bytes
  mc_token :: bytes
  mc_temp :: string
  mc_source :: "string \<Rightarrow> source result"
  mc_reply :: "bytes \<Rightarrow> reply result"

fun perform :: "machine \<Rightarrow> call \<Rightarrow> fs \<Rightarrow> answer \<times> fs" where
  "perform mc (Lstat p) fs = (AInfo (case fs p of None \<Rightarrow> Inl ErrNotExist | Some n \<Rightarrow> Inr (info_of n)), fs)"
| "perform mc (MkdirAll p m) fs = (AUnit (Inr ()), if fs p = None then fs(p \<mapsto> new_dir m) else fs)"
| "perform mc (ReadFile p) fs = (AData (case fs p of None \<Rightarrow> Inl ErrNotExist | Some n \<Rightarrow> Inr (n_data n)), fs)"
| "perform mc (CreateExcl p m) fs =
     (if fs p = None then (AUnit (Inr ()), fs(p \<mapsto> new_file m)) else (AUnit (Inl (ErrOther ''exists'')), fs))"
| "perform mc (CreateTemp d pre suf) fs =
     (let p = joinPath d (pre @ mc_temp mc @ suf) in
      if fs p = None then (APath (Inr p), fs(p \<mapsto> new_file 0x180)) else (APath (Inl (ErrOther ''exists'')), fs))"
| "perform mc (Chmod p m) fs =
     (case fs p of None \<Rightarrow> (AUnit (Inl ErrNotExist), fs) | Some n \<Rightarrow> (AUnit (Inr ()), fs(p \<mapsto> n\<lparr>n_perm := m\<rparr>)))"
| "perform mc (Write p b) fs =
     (case fs p of None \<Rightarrow> (AUnit (Inl ErrNotExist), fs) | Some n \<Rightarrow> (AUnit (Inr ()), fs(p \<mapsto> n\<lparr>n_data := n_data n @ b\<rparr>)))"
| "perform mc (Sync p) fs = (AUnit (Inr ()), fs)"
| "perform mc (Close p) fs = (AUnit (Inr ()), fs)"
| "perform mc (Rename p q) fs =
     (case fs p of None \<Rightarrow> (AUnit (Inl ErrNotExist), fs) | Some n \<Rightarrow> (AUnit (Inr ()), (fs(p := None))(q \<mapsto> n)))"
| "perform mc (Remove p) fs = (AUnit (Inr ()), fs(p := None))"
| "perform mc GenerateKey fs = (AData (Inr (mc_key mc)), fs)"
| "perform mc (OpenSource p) fs = (ASource (mc_source mc p), fs)"
| "perform mc ReadToken fs = (AData (Inr (mc_token mc)), fs)"
| "perform mc SystemCertPool fs = (APool True, fs)"
| "perform mc (Exchange b) fs = (AReply (mc_reply mc b), fs)"

primrec finish :: "machine \<Rightarrow> 'r prog \<Rightarrow> fs \<Rightarrow> 'r \<times> fs" where
  "finish mc (Done r) fs = (r, fs)"
| "finish mc (Call c k) fs = finish mc (k (fst (perform mc c fs))) (snd (perform mc c fs))"

lemma perform_os:
  assumes "length (mc_key mc) = PrivateKeySize"
  shows "os c fs (fst (perform mc c fs)) (snd (perform mc c fs))"
  using assms by (cases c) (auto simp: Let_def split: option.splits)

lemma finish_run:
  assumes "length (mc_key mc) = PrivateKeySize"
  shows "os_run fs p (snd (finish mc p fs)) (Done (fst (finish mc p fs)))"
proof (induction p arbitrary: fs)
  case (Done r)
  then show ?case by (auto intro: os_run.stop)
next
  case (Call c k)
  show ?case
    using os_run.answered [OF perform_os [OF assms, of c fs] Call.IH [OF rangeI]] by simp
qed

lemma finish_bind: "finish mc (bind p f) fs = finish mc (f (fst (finish mc p fs))) (snd (finish mc p fs))"
  by (induction p arbitrary: fs) auto

lemma finish_bind_ok:
  "finish mc (bind_ok p f) fs =
     (case fst (finish mc p fs) of Inl e \<Rightarrow> (Inl e, snd (finish mc p fs)) | Inr x \<Rightarrow> finish mc (f x) (snd (finish mc p fs)))"
  by (auto simp: bind_ok_def finish_bind split: sum.splits)

lemma finish_wrap_err:
  "finish mc (wrap_err msg p) fs =
     (case fst (finish mc p fs) of Inl e \<Rightarrow> Inl (ErrWrap msg e) | Inr x \<Rightarrow> Inr x, snd (finish mc p fs))"
  by (simp add: wrap_err_def finish_bind)

lemmas finish_simps = finish_bind finish_bind_ok finish_wrap_err

text \<open>A complete identity loads.\<close>

lemma load_complete:
  assumes "complete_identity cr d m priv fs"
  shows "finish mc (LoadIdentityMetadata cr d) fs = (Inr m, fs)"
  using assms
  by (auto simp: complete_identity_def private_dir_def key_file_def LoadIdentityMetadata_def validateExistingStateDir_def
      loadExistingPrivateKey_def finish_simps Let_def info_of_def private_file_def decode_written)

text \<open>A token the controller issued is accepted, with any line ending behind it.\<close>

lemma token_chars: "c \<in> set (TokenPrefix @ EncodeToString True b) \<Longrightarrow> c \<notin> {CHR 0x0D, CHR 0x0A, CHR 0x20, CHR 0x09, CHR 0x0B, CHR 0x0C}"
proof -
  have "list_all (\<lambda>c. c \<notin> {CHR 0x0D, CHR 0x0A, CHR 0x20, CHR 0x09, CHR 0x0B, CHR 0x0C}) (TokenPrefix @ alphabet True)"
    by (simp add: TokenPrefix_def alphabet_def common_alphabet_def)
  moreover have "set (EncodeToString True b) \<subseteq> set (alphabet True)"
    using enc_sextets_range [OF byte_values_range, of b] alphabet_facts(2) [of True]
    by (auto simp: EncodeToString_def enc6_def list_all_iff)
  ultimately show "c \<in> set (TokenPrefix @ EncodeToString True b) \<Longrightarrow> ?thesis"
    unfolding list_all_iff set_append by blast
qed

lemma HasSuffix_split: "HasSuffix s w \<Longrightarrow> \<exists>p. s = p @ w"
  unfolding HasSuffix_def by (metis append_take_drop_id)

lemma generated_token_read:
  assumes "length b = 32" and "e \<in> {[], [CHR 0x0A], [CHR 0x0D, CHR 0x0A]}"
  shows "ReadAndValidateTokenFromStdin (Inr (TokenPrefix @ EncodeToString True b @ e)) = Inr (TokenPrefix @ EncodeToString True b)"
proof -
  define t where "t = TokenPrefix @ EncodeToString True b"
  have clean: "c \<notin> set t" if "c \<in> {CHR 0x0D, CHR 0x0A, CHR 0x20, CHR 0x09, CHR 0x0B, CHR 0x0C}" for c
    using token_chars [of c b] that unfolding t_def by blast
  have len: "length t = 53" by (simp add: t_def TokenPrefix_def encode_length assms(1))
  have suffix: "\<not> HasSuffix t [x, CHR 0x0A]" "\<not> HasSuffix t [CHR 0x0A]" "\<not> HasSuffix (t @ [CHR 0x0A]) [CHR 0x0D, CHR 0x0A]" for x
    using clean [of "CHR 0x0A"] clean [of "CHR 0x0D"] by (auto dest!: HasSuffix_split simp: append_eq_append_conv2 append_eq_Cons_conv)
  have strip: "strip_line_end (t @ e) = t"
    using assms(2) suffix len by (auto simp: strip_line_end_def) (auto simp: HasSuffix_def)
  have "ValidateToken t = Inr ()" using generated_token_valid [OF assms(1)] by (simp add: t_def)
  moreover have "\<not> ContainsAny t [CHR 0x0D, CHR 0x0A]" "\<not> ContainsAny t [CHR 0x20, CHR 0x09, CHR 0x0B, CHR 0x0C]"
    using clean by (auto simp: ContainsAny_def list_ex_iff)
  moreover have "length (t @ e) \<le> MaxStdinTokenBytes" "length (t @ e) \<noteq> 0" "length t \<noteq> 0"
    using assms(2) len by (auto simp: MaxStdinTokenBytes_def)
  moreover from this have "take (MaxStdinTokenBytes + 1) (t @ e) = t @ e" by (intro take_all) linarith
  ultimately have "ReadAndValidateTokenFromStdin (Inr (t @ e)) = Inr t"
    by (simp add: ReadAndValidateTokenFromStdin_def Let_def strip del: length_append take_append)
  then show ?thesis by (simp add: t_def)
qed

section \<open>Enrollment of an enrolled agent\<close>

lemma Enroll_frozen:
  assumes "fs (json_path (eo_StateDir opts)) \<noteq> None"
  shows "safe (\<lambda>f. f = fs) (Enroll cr opts) (\<lambda>r _. \<exists>e. r = Inl e) fs"
proof -
  have "safe (\<lambda>f. f = fs) (LoadIdentityMetadata cr (eo_StateDir opts)) (\<lambda>r. safe (\<lambda>f. f = fs) (case r of
      Inr _ \<Rightarrow> Done (Inl ErrAlreadyEnrolled)
    | Inl loadErr \<Rightarrow> Done (Inl (ErrWrap ''existing agent identity metadata is invalid'' loadErr)))
      (\<lambda>r _. \<exists>e. r = Inl e)) fs"
    by (rule safe_conseq [OF safe_read_only [OF read_only_LoadIdentityMetadata]]) (auto split: sum.splits)
  then show ?thesis
    using assms
    by (auto simp: Enroll_def fail_def safe_bind_ok [of _ "Done _"] safe_bind [of _ "LoadIdentityMetadata _ _"] split: sum.splits)
qed

text \<open>An enrollment that returns an identifier had arguments that pass the checks at its start.\<close>

inductive_cases os_run_DoneE: "os_run fs (Done r) fs' p"

lemma Enroll_arguments:
  assumes "os_run fs (Enroll cr opts) fs' (Done (Inr agentID))"
  shows "\<exists>u. ValidateControllerURL cr (eo_ControllerURL opts) = Inr u \<and> eo_StateDir opts \<noteq> [] \<and> eo_hasTokenReader opts
    \<and> (eo_CAFile opts = [] \<or> u_Scheme u = ''https'')"
  using assms unfolding Enroll_def
  by (cases "ValidateControllerURL cr (eo_ControllerURL opts)")
    (auto simp: bind_ok_def fail_def elim: os_run_DoneE split: if_splits)

lemma Enroll_completes:
  assumes "keys_round_trip cr" and "state_dir_ok (eo_StateDir opts)" and "ValidString (eo_ControllerURL opts)"
    and "os_run fs (Enroll cr opts) fs' (Done (Inr agentID))"
  shows "\<exists>priv. complete_identity cr (eo_StateDir opts) (enrolled_metadata (eo_ControllerURL opts) agentID priv) priv fs'"
proof -
  have "fs (json_path (eo_StateDir opts)) = None"
    using safe_run [OF assms(4) Enroll_frozen] by fastforce
  then show ?thesis
    using safe_run [OF assms(4) safe_Enroll [OF assms(2,1) _ refl assms(3), of None]] by (auto simp: steady_def enroll_post_def)
qed

text \<open>
  What happens in the state directory: enrollments and transport checks one after the other, each with
  any answers of the operating system and each stopped anywhere.
\<close>

inductive agent_step :: "crypto \<Rightarrow> string \<Rightarrow> fs \<Rightarrow> fs \<Rightarrow> bool" for cr d where
  enroll: "os_run fs (Enroll cr opts) fs' p \<Longrightarrow> eo_StateDir opts = d \<Longrightarrow> ValidString (eo_ControllerURL opts) \<Longrightarrow>
     agent_step cr d fs fs'"
| check: "os_run fs (TransportCheck cr build d) fs' p \<Longrightarrow> agent_step cr d fs fs'"

lemma agent_step_steady:
  assumes "agent_step cr d fs fs'" and "state_dir_ok d" and "keys_round_trip cr" and "steady cr d K fs"
  shows "steady cr d K fs'"
  using assms
proof (cases rule: agent_step.cases)
  case (enroll opts p)
  then show ?thesis using safe_now [OF safe_run [OF enroll(1) safe_Enroll]] assms by blast
next
  case (check build p)
  then show ?thesis
    using safe_now [OF safe_run [OF check(1) safe_read_only [OF read_only_TransportCheck]]] assms by blast
qed

interpretation state_dir: invariant_system "agent_step cr d" "\<lambda>fs. keys_round_trip cr \<and> state_dir_ok d \<and> steady cr d K fs"
  for cr d K
  by unfold_locales (blast intro: agent_step_steady)

lemma agent_steps_steady:
  "(agent_step cr d)\<^sup>*\<^sup>* fs fs' \<Longrightarrow> state_dir_ok d \<Longrightarrow> keys_round_trip cr \<Longrightarrow> steady cr d K fs \<Longrightarrow> steady cr d K fs'"
  using state_dir.run_inv by blast

lemma agent_steps_frozen:
  assumes "(agent_step cr d)\<^sup>*\<^sup>* fs fs'" and "fs (json_path d) \<noteq> None"
  shows "fs' = fs"
  using assms(1)
proof (induction rule: rtranclp_induct)
  case (step fs1 fs2)
  from step.hyps(2) show ?case
  proof (cases rule: agent_step.cases)
    case (enroll opts p)
    then show ?thesis
      using safe_now [OF safe_run [OF enroll(1) Enroll_frozen]] step.IH assms(2) by simp
  next
    case (check build p)
    then show ?thesis
      using safe_now [OF safe_run [OF check(1) safe_read_only [OF read_only_TransportCheck, of "\<lambda>f. f = fs1"]]] step.IH by simp
  qed
qed simp

section \<open>The properties\<close>



section \<open>An enrollment\<close>

definition ex_url :: string where "ex_url = ''https://c:8443''"
definition ex_id :: string where "ex_id = ''01890000-0000-7000-8000-000000000000''"

definition ex_crypto :: crypto where
  "ex_crypto = \<lparr>cr_pem_Decode = (\<lambda>b. Some ((PEMBlockType, b), [])), cr_pem_Encode = (\<lambda>_ b. b), cr_MarshalPKCS8 = Some,
     cr_ParsePKCS8 = (\<lambda>b. Some (Ed25519 b)), cr_ParseCertificate = (\<lambda>_. False),
     cr_url_Parse = (\<lambda>_. Some \<lparr>u_Scheme = ''https'', u_HasUser = False, u_Host = ''c:8443'', u_Path = [], u_RawQuery = [],
       u_Fragment = []\<rparr>),
     cr_ParseMediaType = (\<lambda>s. Some (s, \<lambda>_. None)), cr_lower = (\<lambda>s. s)\<rparr>"

definition ex_enroll :: EnrollOptions where
  "ex_enroll = \<lparr>eo_ControllerURL = ex_url, eo_StateDir = ''/s'', eo_CAFile = [], eo_hasTokenReader = True\<rparr>"

definition ex_reply :: reply where
  "ex_reply = \<lparr>rp_status = 201, rp_contentType = ''application/json'',
     rp_body = render (JObject [(''agent_id'', JString ex_id)]), rp_err = False\<rparr>"

definition ex_machine :: machine where
  "ex_machine = \<lparr>mc_key = replicate 64 (CHR ''k''), mc_token = TokenPrefix @ EncodeToString True (replicate 32 (CHR ''t'')),
     mc_temp = ''1'', mc_source = (\<lambda>_. Inl ErrNotExist), mc_reply = (\<lambda>_. Inr ex_reply)\<rparr>"

lemma ex_crypto_ok: "keys_round_trip ex_crypto"
  by (simp add: keys_round_trip_def ex_crypto_def)

lemma ex_dir_ok: "state_dir_ok ''/s''"
  by (simp add: state_dir_ok_def filepath_IsAbs_def filepath_Clean_def HasPrefix_def Let_def)

lemma ex_url_ok: "ValidateControllerURL ex_crypto ex_url =
    Inr \<lparr>u_Scheme = ''https'', u_HasUser = False, u_Host = ''c:8443'', u_Path = [], u_RawQuery = [], u_Fragment = []\<rparr>"
proof -
  have split: "url_host_port ''c:8443'' = (''c'', ''8443'')"
    by (simp add: url_host_port_def cut_last_def Cut_def is_digit_def digit_value_def HasPrefix_def HasSuffix_def)
  have "ParseInt ''8443'' = Some 8443" by (simp add: ParseInt_def text_eval)
  moreover have "ParseAddr ''c'' = None" by (simp add: ParseAddr_def)
  ultimately show ?thesis
    by (simp add: ValidateControllerURL_def ex_crypto_def ex_url_def URL_Hostname_def URL_Port_def split)
qed

lemma ex_id_ok: "ValidateUUIDv7 ex_id = Inr ()"
  by (simp add: ValidateUUIDv7_def ex_id_def uuid7_byte_def less_eq_char_def)

lemma ex_token_ok: "ReadAndValidateTokenFromStdin (Inr (mc_token ex_machine)) = Inr (mc_token ex_machine)"
  using generated_token_read [of "replicate 32 (CHR ''t'')" "[]"] by (simp add: ex_machine_def)

lemma ex_reply_ok:
  "read_reply ex_reply = Inr (rp_body ex_reply)"
  "reply_agent_id ex_crypto (rp_contentType ex_reply) (rp_body ex_reply) = Inr ex_id"
proof -
  have ascii: "ValidString ex_id" "ValidString ''agent_id''"
    using uuid7_ascii [OF ex_id_ok] by (auto intro: ascii_valid simp: is_ascii_def)
  have "length (rp_body ex_reply) \<le> 4096"
    by (simp add: ex_reply_def ex_id_def quote_def quote_rune_def RuneError_def rune_segments_ascii is_ascii_def del: rune_segments.simps)
  moreover have "\<not> rp_err ex_reply" by (simp add: ex_reply_def)
  ultimately show "read_reply ex_reply = Inr (rp_body ex_reply)"
    by (simp add: read_reply_def MaxHTTPResponseBody_def Let_def)
  have "ParseJson (rp_body ex_reply) = Some (JObject [(''agent_id'', JString ex_id)], [])"
    using ParseJson_render [of "JObject [(''agent_id'', JString ex_id)]" "[]"] ascii by (simp add: ex_reply_def)
  then have "DecodeFirst enrollResponse_fields [] (rp_body ex_reply) = Some (ex_id, [])"
    by (simp add: DecodeFirst_def enrollResponse_fields_def set_struct_def find_field_def)
  moreover have "ex_id \<noteq> []" by (simp add: ex_id_def)
  ultimately show "reply_agent_id ex_crypto (rp_contentType ex_reply) (rp_body ex_reply) = Inr ex_id"
    using ex_id_ok by (simp add: reply_agent_id_def ex_reply_def ex_crypto_def More_def skip_ws_def)
qed

lemma ex_paths: "key_path ''/s'' = ''/s/identity.key''" "json_path ''/s'' = ''/s/identity.json''" "ca_path ''/s'' = ''/s/controller-ca.pem''"
  by (simp_all add: filepath_Join_def filepath_Clean_def filepath_IsAbs_def HasPrefix_def IdentityKeyFileName_def
      IdentityJSONFileName_def ControllerCAPEMFileName_def Let_def)

lemma ex_enrolls: "fst (finish ex_machine (Enroll ex_crypto ex_enroll) (\<lambda>_. None)) = Inr ex_id"
proof -
  have key: "EncodePrivateKeyPKCS8PEM ex_crypto (mc_key ex_machine) = Inr (mc_key ex_machine)"
    by (simp add: EncodePrivateKeyPKCS8PEM_def ex_machine_def ex_crypto_def PrivateKeySize_def)
  have machine: "mc_reply ex_machine b = Inr ex_reply" "mc_temp ex_machine = ''1''" for b by (simp_all add: ex_machine_def)
  have opts: "eo_ControllerURL ex_enroll = ex_url" "eo_StateDir ex_enroll = ''/s''" "eo_CAFile ex_enroll = []" "eo_hasTokenReader ex_enroll"
    by (simp_all add: ex_enroll_def)
  have status: "rp_status ex_reply = 201" by (simp add: ex_reply_def)
  show ?thesis
    by (simp add: Enroll_def enroll_pending_def LoadOrGenerateKey_def write_key_def EnsureStateDir_def validateExistingStateDir_def loadExistingPrivateKey_def
        LoadControllerTrustRoots_def enroll_exchange_def WriteIdentityMetadata_def write_atomic_def write_temp_def
        finish_simps Let_def info_of_def new_dir_def new_file_def joinPath_def ex_paths ex_url_ok ex_token_ok ex_reply_ok
        key machine opts status)
qed

definition ex_files :: fs where
  "ex_files = snd (finish ex_machine (Enroll ex_crypto ex_enroll) (\<lambda>_. None))"

lemma ex_enroll_run: "os_run (\<lambda>_. None) (Enroll ex_crypto ex_enroll) ex_files (Done (Inr ex_id))"
  using finish_run [of ex_machine "\<lambda>_. None" "Enroll ex_crypto ex_enroll"] ex_enrolls
  by (simp add: ex_files_def ex_machine_def PrivateKeySize_def)

lemma ex_options: "eo_StateDir ex_enroll = ''/s''" "eo_ControllerURL ex_enroll = ex_url" "ValidString ex_url"
  by (auto simp: ex_enroll_def ex_url_def is_ascii_def intro: ascii_valid)

lemma ex_steps: "(agent_step ex_crypto ''/s'')\<^sup>*\<^sup>* (\<lambda>_. None) ex_files"
  using agent_step.enroll [OF ex_enroll_run, of "''/s''"] ex_options by auto


lemma ex_identity_there: "ex_files (json_path ''/s'') \<noteq> None"
  using safe_run [OF ex_enroll_run safe_Enroll [OF ex_dir_ok ex_crypto_ok _ ex_options(1), of None]] ex_options
  by (auto simp: steady_def enroll_post_def complete_identity_def)


section \<open>A torn key\<close>

text \<open>
  The key, unlike the metadata, is not written in one step. A process killed between creating and writing
  \<^verbatim>\<open>identity.key\<close> leaves an empty file, which every later start rejects.
\<close>

lemma torn_key_rejected:
  assumes "private_dir d fs" and "fs (key_path d) = Some (private_file [])" and "cr_pem_Decode cr [] = None"
  shows "finish mc (LoadOrGenerateKey cr d) fs =
    (Inl (ErrWrap ''failed to parse existing identity key'' ErrInvalidPrivateKey), fs)"
  using assms
  by (auto simp: private_dir_def private_file_def LoadOrGenerateKey_def write_key_def EnsureStateDir_def validateExistingStateDir_def
      loadExistingPrivateKey_def ParsePrivateKeyPKCS8PEM_def finish_simps Let_def info_of_def)


section \<open>The rounds of the CA parser\<close>

text \<open>
  When every PEM block takes at least one byte, the number of rounds given by the length of the text is
  enough: more rounds change nothing.
\<close>

lemma ca_rounds_enough:
  assumes "\<And>b x r. cr_pem_Decode cr b = Some (x, r) \<Longrightarrow> length r < length b" and "length s \<le> n"
  shows "ca_blocks cr (n + k) s certs = ca_blocks cr n s certs"
  using assms(2)
proof (induction n arbitrary: s certs)
  case 0
  then show ?case by (simp add: ca_blocks.simps [of cr _ "[]"] trim_left_ws_def)
next
  case (Suc n)
  have "ca_blocks cr (n + k) r c = ca_blocks cr n r c" if "cr_pem_Decode cr (trim_left_ws s) = Some (x, r)" for x r c
  proof (rule Suc.IH)
    have "length (trim_left_ws s) \<le> length s" by (simp add: trim_left_ws_def length_dropWhile_le)
    then show "length r \<le> n" using assms(1) [OF that] Suc.prems by simp
  qed
  then show ?case
    by (simp add: ca_blocks.simps [of cr "Suc _"] Let_def split: option.splits prod.splits)
qed

end
