(* ===== verification/Enroll_Wire.thy ===== *)
theory Enroll_Wire
  imports Enroll_Properties Controller_Properties Wire_Bounds
begin

text \<open>
  What enrollment and the transport check send to the controller, and what the controller's answer looks
  like to the agent: the request of \<^verbatim>\<open>src/internal/agent/enroll.go\<close> (\<^verbatim>\<open>Enroll\<close>) and \<^verbatim>\<open>transport.go\<close> (\<^verbatim>\<open>TransportCheck\<close>)
  decodes at \<^verbatim>\<open>handleEnroll\<close> to the token and the key, and an identifier the agent reads in a reply is the one
  the database has for that key.
\<close>

section \<open>Requests and replies\<close>

definition EnrollmentEndpointPath :: string where "EnrollmentEndpointPath = ''/api/v1/agent/enroll''"
definition SelfEndpointPath :: string where "SelfEndpointPath = ''/api/v1/agent/self''"

text \<open>Enrollment posts a document; the transport check sends a request without a body.\<close>

definition agent_http :: "certificate list option \<Rightarrow> bytes \<Rightarrow> request" where
  "agent_http tls b =
     \<lparr>rq_Method = (if b = [] then ''GET'' else ''POST''),
      rq_Path = (if b = [] then SelfEndpointPath else EnrollmentEndpointPath),
      rq_TLS = tls, rq_Header = (\<lambda>k. if b \<noteq> [] \<and> k = ''Content-Type'' then [''application/json''] else []),
      rq_Query = [], rq_Body = b, rq_BodyErr = False\<rparr>"

definition wire_reply :: "response \<Rightarrow> reply" where
  "wire_reply resp =
     \<lparr>rp_status = rs_Status resp,
      rp_contentType = (case map_of (rs_Header resp) ''Content-Type'' of None \<Rightarrow> [] | Some v \<Rightarrow> v),
      rp_body = (case rs_Body resp of NoBody \<Rightarrow> [] | TextBody x \<Rightarrow> x | JsonBody j \<Rightarrow> render j @ [CHR 0x0A]),
      rp_err = False\<rparr>"

text \<open>A reply arrives whole, is cut off somewhere, or does not arrive.\<close>

inductive arrives :: "response \<Rightarrow> reply result \<Rightarrow> bool" where
  whole: "arrives resp (Inr (wire_reply resp))"
| cut: "arrives resp (Inr ((wire_reply resp)\<lparr>rp_body := take n (rp_body (wire_reply resp)), rp_err := True\<rparr>))"
| lost: "arrives resp (Inl x)"

text \<open>
  One exchange with either listener, with any clock, certificate and concurrent activity; the mux itself
  answers a path it does not know.
\<close>

inductive enroll_net ::
  "(uuid \<Rightarrow> string) \<Rightarrow> (string \<Rightarrow> string) \<Rightarrow> bytes \<Rightarrow> db \<Rightarrow> reply result \<Rightarrow> db \<Rightarrow> bool" for us ul where
  request_lost: "enroll_net us ul b s (Inl x) s"
| remote: "env_uuid_String e = us \<Longrightarrow> env_lower e = ul \<Longrightarrow> newRemoteHandler e be (agent_http tls b) s = Some (resp, t)
    \<Longrightarrow> arrives resp r \<Longrightarrow> enroll_net us ul b s r t"
| local: "env_uuid_String e = us \<Longrightarrow> env_lower e = ul \<Longrightarrow> newHandler e be lim ping_ok (agent_http None b) s = Some (resp, t)
    \<Longrightarrow> arrives resp r \<Longrightarrow> enroll_net us ul b s r t"
| unknown_path: "newHandler e be lim ping_ok (agent_http None b) s = None \<Longrightarrow> rp_status r = 404 \<Longrightarrow>
    enroll_net us ul b s (Inr r) s"

section \<open>The request at the controller\<close>

lemma valid_token_ascii:
  assumes "ValidateToken token = Inr ()"
  shows "is_ascii token" and "length token = 53"
proof -
  show len: "length token = 53"
    using assms by (simp add: ValidateToken_def TokenTotalLength_def TokenPrefix_def split: if_splits)
  have "HasPrefix token TokenPrefix" using assms by (simp add: ValidateToken_def split: if_splits)
  then obtain rest where token: "token = TokenPrefix @ rest" by (rule HasPrefixE)
  obtain raw where "DecodeString True False rest = Some raw"
    using assms by (auto simp: ValidateToken_def token Let_def split: if_splits option.splits)
  then obtain xs where xs: "map (dec6 True) (filter (\<lambda>c. \<not> line_break c) rest) = map Some xs"
    by (auto simp: DecodeString_def those_Some split: option.splits)
  have "of_char c < (128 :: nat)" if "c \<in> set rest" for c
  proof (cases "line_break c")
    case False
    then have "c \<in> set (map (enc6 True) xs)" "list_all (\<lambda>x. x < 64) xs"
      using dec6_list [OF xs] that by simp_all
    then show ?thesis using alphabet_chars(2) by (auto simp: list_all_iff)
  qed (auto simp: line_break_def)
  then show "is_ascii token" by (simp add: token is_ascii_def list_all_iff TokenPrefix_def)
qed

lemma public_key_text:
  "is_ascii (FormatPublicKeyBase64RawURL pub)" "CHR ''='' \<notin> set (FormatPublicKeyBase64RawURL pub)"
  "length pub = 32 \<Longrightarrow> length (FormatPublicKeyBase64RawURL pub) = 43"
  using encode_clean [of True pub]
  by (auto simp: is_ascii_def FormatPublicKeyBase64RawURL_def list_all_iff encode_length)

definition enroll_body :: "string \<Rightarrow> bytes \<Rightarrow> bytes" where
  "enroll_body token pub = render (enrollRequest_json token (FormatPublicKeyBase64RawURL pub))"

lemma enroll_body_decodes:
  assumes "ValidateToken token = Inr ()"
  shows "DecodeOne enroll_fields enroll_zero (enroll_body token pub) =
    Decoded \<lparr>en_Token = token, en_PublicKey = FormatPublicKeyBase64RawURL pub\<rparr>"
proof -
  have "ValidString ''token''" "ValidString ''public_key''"
    by (rule ascii_valid, simp add: is_ascii_def)+
  then have "ParseJson (enroll_body token pub) = Some (enrollRequest_json token (FormatPublicKeyBase64RawURL pub), [])"
    using ParseJson_render [of "enrollRequest_json token (FormatPublicKeyBase64RawURL pub)" "[]"]
      ascii_valid [OF valid_token_ascii(1) [OF assms]] ascii_valid [OF public_key_text(1)]
    by (simp add: enroll_body_def enrollRequest_json_def)
  then show ?thesis
    by (simp add: DecodeOne_def enrollRequest_json_def enroll_fields_def enroll_zero_def set_struct_def find_field_def
        skip_ws_def)
qed

lemma enroll_body_nonempty: "enroll_body token pub \<noteq> []"
  by (simp add: enroll_body_def enrollRequest_json_def)

lemma handleEnroll_granted:
  assumes "handleEnroll e be r s = (resp, t)" and "rs_Status resp \<in> {200, 201}"
    and "DecodeOne enroll_fields enroll_zero (rq_Body r) = Decoded req"
  obtains pub rec created where "DecodeString True False (en_PublicKey req) = Some pub"
    "RegisterAgent (env_ctx e 0) (HashToken (en_Token req)) pub s = (Inr (rec, created), t)"
    "resp = writeJSON (if created then StatusCreated else StatusOK)
       (JObject [(''agent_id'', JString (env_uuid_String e (ar_ID rec)))])"
  using assms
  by (auto simp: handleEnroll_def status_codes split: handler_splits if_splits)

lemma handleEnroll_registers:
  assumes "ValidateToken token = Inr ()" and "length pub = 32"
    and "check_media e (agent_http tls (enroll_body token pub)) = MediaOk" and "be_registrar be"
    and "RegisterAgent (env_ctx e 0) (HashToken token) pub s = (Inr (rec, created), t)"
  shows "handleEnroll e be (agent_http tls (enroll_body token pub)) s =
    (writeJSON (if created then StatusCreated else StatusOK)
      (JObject [(''agent_id'', JString (env_uuid_String e (ar_ID rec)))]), t)"
proof -
  have "length (enroll_body token pub) \<le> 4096"
  proof -
    have "length (render (JString x)) \<le> 2 + 6 * length x" for x using quote_key_length [of x] by simp
    from this [of token] this [of "FormatPublicKeyBase64RawURL pub"]
    have "length (enroll_body token pub) \<le> 2 + sum_list [400, 400]"
      unfolding enroll_body_def enrollRequest_json_def
      using object_length [of "[(''token'', JString token), (''public_key'', JString (FormatPublicKeyBase64RawURL pub))]"]
        valid_token_ascii(2) [OF assms(1)] public_key_text(3) [OF assms(2)]
      by (simp add: member_size_def)
    then show ?thesis by simp
  qed
  then show ?thesis
    using assms enroll_body_decodes [OF assms(1), of pub] enroll_body_nonempty [of token pub] public_key_text(2) [of pub]
    by (simp add: handleEnroll_def agent_http_def FormatPublicKeyBase64RawURL_def decode_encode)
qed

section \<open>The reply at the agent\<close>

abbreviation id_reply :: "nat \<Rightarrow> string \<Rightarrow> response" where
  "id_reply status agentID \<equiv> writeJSON status (JObject [(''agent_id'', JString agentID)])"

lemma id_reply_decodes:
  assumes "ValidString agentID"
  shows "DecodeFirst enrollResponse_fields [] (rp_body (wire_reply (id_reply status agentID))) = Some (agentID, [CHR 0x0A])"
proof -
  have "ParseJson (render (JObject [(''agent_id'', JString agentID)]) @ [CHR 0x0A]) =
      Some (JObject [(''agent_id'', JString agentID)], [CHR 0x0A])"
    using assms metadata_literals(2) by (intro ParseJson_render) simp_all
  then show ?thesis
    by (simp add: wire_reply_def writeJSON_def DecodeFirst_def enrollResponse_fields_def set_struct_def find_field_def)
qed

lemma id_reply_read:
  assumes "ValidateUUIDv7 agentID = Inr ()"
    and "cr_ParseMediaType cr ''application/json'' = Some (''application/json'', \<lambda>_. None)"
  shows "read_reply (wire_reply (id_reply status agentID)) = Inr (rp_body (wire_reply (id_reply status agentID)))"
    and "reply_agent_id cr (rp_contentType (wire_reply (id_reply status agentID)))
      (rp_body (wire_reply (id_reply status agentID))) = Inr agentID"
proof -
  have len: "length agentID = 36" using assms(1) by (auto simp: ValidateUUIDv7_def split: if_splits)
  have "length (render (JString agentID)) \<le> 218" using quote_key_length [of agentID] len by simp
  then have "length (render (JObject [(''agent_id'', JString agentID)])) \<le> 300"
    using object_length [of "[(''agent_id'', JString agentID)]"] by (simp add: member_size_def)
  then have "length (rp_body (wire_reply (id_reply status agentID))) \<le> 4096"
    by (simp add: wire_reply_def writeJSON_def)
  then show "read_reply (wire_reply (id_reply status agentID)) = Inr (rp_body (wire_reply (id_reply status agentID)))"
    by (simp add: read_reply_def MaxHTTPResponseBody_def wire_reply_def Let_def)
  have ct: "rp_contentType (wire_reply (id_reply status agentID)) = ''application/json''"
    by (simp add: wire_reply_def writeJSON_def)
  have "agentID \<noteq> []" using len by auto
  then show "reply_agent_id cr (rp_contentType (wire_reply (id_reply status agentID)))
      (rp_body (wire_reply (id_reply status agentID))) = Inr agentID"
    using assms id_reply_decodes [OF ascii_valid [OF uuid7_ascii [OF assms(1)]], of status]
    by (simp add: reply_agent_id_def ct More_def skip_ws_def json_space_def)
qed

lemma arrived_whole: "arrives resp (Inr r) \<Longrightarrow> read_reply r = Inr b \<Longrightarrow> r = wire_reply resp"
  by (erule arrives.cases) (auto simp: read_reply_def Let_def split: if_splits)

section \<open>Agreement on one exchange\<close>

text \<open>An identifier the agent reads is the one under which the database knows the key, through this token.\<close>

lemma exchange_agrees:
  assumes "enroll_net us ul (enroll_body token pub) s (Inr r) t" and "ValidateToken token = Inr ()"
    and "\<And>u. ValidString (us u)" and "read_reply r = Inr b" and "rp_status r \<in> {200, 201}"
    and "reply_agent_id cr (rp_contentType r) b = Inr agentID"
  shows "\<exists>i. enrolled (HashToken token) i pub t \<and> agentID = us i"
proof -
  from assms(1,5) obtain e be tls resp where us: "env_uuid_String e = us"
    and run: "handleEnroll e be (agent_http tls (enroll_body token pub)) s = (resp, t)"
    and arr: "arrives resp (Inr r)"
    by cases (auto simp: newRemoteHandler_def newHandler_def agent_http_def enroll_body_nonempty EnrollmentEndpointPath_def
        status_codes wire_reply_def elim: arrives.cases split: if_splits)
  have r: "r = wire_reply resp" using arrived_whole [OF arr assms(4)] .
  have dec: "DecodeOne enroll_fields enroll_zero (rq_Body (agent_http tls (enroll_body token pub))) =
      Decoded \<lparr>en_Token = token, en_PublicKey = FormatPublicKeyBase64RawURL pub\<rparr>"
    using enroll_body_decodes [OF assms(2)] by (simp add: agent_http_def)
  have "rs_Status resp \<in> {200, 201}" using assms(5) by (simp add: r wire_reply_def)
  from handleEnroll_granted [OF run this dec] obtain rec created where
    reg: "RegisterAgent (env_ctx e 0) (HashToken token) pub s = (Inr (rec, created), t)"
    and resp: "resp = id_reply (if created then StatusCreated else StatusOK) (us (ar_ID rec))"
    by (metis FormatPublicKeyBase64RawURL_def decode_encode enroll_request.select_convs option.inject us)
  have "b = rp_body (wire_reply resp)"
    using assms(4) by (auto simp: read_reply_def r Let_def split: if_splits)
  then have "agentID = us (ar_ID rec)"
    using assms(6) id_reply_decodes [OF assms(3)] resp
    by (auto simp: reply_agent_id_def split: if_splits option.splits sum.splits prod.splits)
  then show ?thesis using RegisterAgent_success [OF reg] by blast
qed

lemma enroll_net_runs:
  assumes "enroll_net us ul b s r t"
  shows "\<exists>ops. t = run_ops us ul ops s"
  using assms
proof cases
  case request_lost
  then show ?thesis by (intro exI [of _ "[]"]) simp
next
  case unknown_path
  then show ?thesis by (intro exI [of _ "[]"]) simp
qed (auto simp: runs_to_def dest!: remote_runs local_runs)

end
