(* ===== verification/Enroll_System.thy ===== *)
theory Enroll_System
  imports Enroll_Wire
begin

text \<open>
  An agent's state directory and the controller's database together: enrollments and transport checks run
  against the controller, interleaved with everything else the store does, with failing calls, lost and cut
  messages, and processes killed anywhere. The identity in the directory and the agent in the database agree.
\<close>

section \<open>The world\<close>

definition later :: "(uuid \<Rightarrow> string) \<Rightarrow> (string \<Rightarrow> string) \<Rightarrow> db \<Rightarrow> db \<Rightarrow> bool" where
  "later us ul s t \<longleftrightarrow> (\<exists>ops. t = run_ops us ul ops s)"

lemma later_refl [simp]: "later us ul s s"
  unfolding later_def by (rule exI [of _ "[]"]) simp

lemma later_trans: "later us ul s t \<Longrightarrow> later us ul t u \<Longrightarrow> later us ul s u"
  unfolding later_def by (metis run_ops_simps(3))

lemma later_exec: "later us ul s (exec us ul x s)"
  unfolding later_def by (rule exI [of _ "[x]"]) simp

lemma RegisterAgent_later: "RegisterAgent c h k s = (r, t) \<Longrightarrow> later us ul s t"
  using later_exec [of us ul s "(c, OpRegisterAgent h k)"] by simp

lemma later_enrolled: "later us ul s t \<Longrightarrow> enrolled h i k s \<Longrightarrow> enrolled h i k t"
  unfolding later_def using run_ops_enrolled by blast

lemma later_reachable: "later us ul s t \<Longrightarrow> reachable us ul s \<Longrightarrow> reachable us ul t"
  unfolding later_def using reachable_run_ops by blast

text \<open>A call of the agent: the operating system answers it, or the controller does.\<close>

fun world_call ::
  "(uuid \<Rightarrow> string) \<Rightarrow> (string \<Rightarrow> string) \<Rightarrow> call \<Rightarrow> fs \<Rightarrow> db \<Rightarrow> answer \<Rightarrow> fs \<Rightarrow> db \<Rightarrow> bool" where
  "world_call us ul (Exchange b) fs s a fs' t \<longleftrightarrow> fs' = fs \<and> (\<exists>r. a = AReply r \<and> enroll_net us ul b s r t)"
| "world_call us ul c fs s a fs' t \<longleftrightarrow> os c fs a fs' \<and> t = s"

lemma world_call_os: "world_call us ul c fs s a fs' t \<Longrightarrow> os c fs a fs' \<and> later us ul s t"
  by (cases c) (auto simp: later_def dest: enroll_net_runs intro: exI [of _ "[]"])

text \<open>
  A configuration is the files, the database and the rest of the program that runs on the agent's machine. The
  program may be replaced by a fresh one at any time: it was killed, or it was done.
\<close>

type_synonym config = "fs \<times> db \<times> string result prog"

inductive world_step ::
  "(uuid \<Rightarrow> string) \<Rightarrow> (string \<Rightarrow> string) \<Rightarrow> crypto \<Rightarrow> string \<Rightarrow> config \<Rightarrow> config \<Rightarrow> bool" for us ul cr d where
  called: "world_call us ul c fs s a fs' t \<Longrightarrow> world_step us ul cr d (fs, s, Call c k) (fs', t, k a)"
| store: "world_step us ul cr d (fs, s, p) (fs, exec us ul x s, p)"
| start_enroll: "eo_StateDir opts = d \<Longrightarrow> ValidString (eo_ControllerURL opts) \<Longrightarrow>
    world_step us ul cr d (fs, s, p) (fs, s, Enroll cr opts)"
| start_check: "world_step us ul cr d (fs, s, p) (fs, s, TransportCheck cr build d)"

section \<open>A logic for programs in the world\<close>

text \<open>\<open>I\<close> holds between any two calls, \<open>Q\<close> of the result at the end, while the store goes on in between.\<close>

primrec jsafe ::
  "(uuid \<Rightarrow> string) \<Rightarrow> (string \<Rightarrow> string) \<Rightarrow> (fs \<Rightarrow> db \<Rightarrow> bool) \<Rightarrow> 'r prog \<Rightarrow> ('r \<Rightarrow> fs \<Rightarrow> db \<Rightarrow> bool) \<Rightarrow> fs \<Rightarrow> db \<Rightarrow> bool" where
  "jsafe us ul I (Done r) Q fs s = (I fs s \<and> Q r fs s)"
| "jsafe us ul I (Call c k) Q fs s = (I fs s \<and>
     (\<forall>s1 a fs' t. later us ul s s1 \<longrightarrow> world_call us ul c fs s1 a fs' t \<longrightarrow> jsafe us ul I (k a) Q fs' t))"

lemma jsafe_now: "jsafe us ul I p Q fs s \<Longrightarrow> I fs s"
  by (cases p) auto

lemma jsafe_bind: "jsafe us ul I (bind p f) Q fs s \<longleftrightarrow> jsafe us ul I p (\<lambda>r. jsafe us ul I (f r) Q) fs s"
proof (induction p arbitrary: fs s)
  case (Done r)
  then show ?case using jsafe_now by auto
qed simp

lemma jsafe_conseq:
  "jsafe us ul I p Q fs s \<Longrightarrow> (\<And>r fs' s'. I fs' s' \<Longrightarrow> Q r fs' s' \<Longrightarrow> R r fs' s') \<Longrightarrow> jsafe us ul I p R fs s"
  by (induction p arbitrary: fs s) auto

lemma jsafe_mono: "jsafe us ul I p Q fs s \<Longrightarrow> (\<And>fs s. I fs s \<Longrightarrow> J fs s) \<Longrightarrow> jsafe us ul J p Q fs s"
  by (induction p arbitrary: fs s) auto

lemma jsafe_bind_ok:
  "jsafe us ul I (bind_ok p f) Q fs s \<longleftrightarrow>
     jsafe us ul I p (\<lambda>r. case r of Inl e \<Rightarrow> (\<lambda>fs s. I fs s \<and> Q (Inl e) fs s) | Inr x \<Rightarrow> jsafe us ul I (f x) Q) fs s"
proof -
  have "(\<lambda>r. jsafe us ul I (case r of Inl e \<Rightarrow> Done (Inl e) | Inr x \<Rightarrow> f x) Q) =
      (\<lambda>r. case r of Inl e \<Rightarrow> (\<lambda>fs s. I fs s \<and> Q (Inl e) fs s) | Inr x \<Rightarrow> jsafe us ul I (f x) Q)"
    by (intro ext) (auto split: sum.splits)
  then show ?thesis by (simp add: bind_ok_def jsafe_bind)
qed

lemma jsafe_wrap_err:
  "jsafe us ul I (wrap_err msg p) Q fs s \<longleftrightarrow>
     jsafe us ul I p (\<lambda>r. Q (case r of Inl e \<Rightarrow> Inl (ErrWrap msg e) | Inr x \<Rightarrow> Inr x)) fs s"
  by (auto simp: wrap_err_def jsafe_bind elim: jsafe_conseq)

lemmas jsafe_simps = jsafe_bind jsafe_bind_ok jsafe_wrap_err

text \<open>What holds of a program whatever the network answers holds in the world.\<close>

lemma safe_jsafe:
  "safe I p Q fs \<Longrightarrow> jsafe us ul (\<lambda>fs' s'. I fs' \<and> later us ul s0 s') p (\<lambda>r fs' s'. Q r fs') fs s" if "later us ul s0 s"
  using that
proof (induction p arbitrary: fs s)
  case (Call c k)
  show ?case
  proof (simp add: Call.prems [simplified], intro allI impI)
    fix s1 a fs' t
    assume "later us ul s s1" "world_call us ul c fs s1 a fs' t"
    moreover from this(2) have "os c fs a fs'" "later us ul s1 t" using world_call_os by auto
    ultimately show "jsafe us ul (\<lambda>fs' s'. I fs' \<and> later us ul s0 s') (k a) (\<lambda>r fs' s'. Q r fs') fs' t"
      using Call.prems by (intro Call.IH) (auto intro: later_trans)
  qed
qed simp

lemma safe_lift:
  assumes "safe I p Q fs" and "\<And>fs' s'. I fs' \<Longrightarrow> later us ul s s' \<Longrightarrow> J fs' s'"
  shows "jsafe us ul J p (\<lambda>r fs' s'. I fs' \<and> Q r fs' \<and> later us ul s s') fs s"
proof -
  have "jsafe us ul (\<lambda>fs' s'. I fs' \<and> later us ul s s') p (\<lambda>r fs' s'. I fs' \<and> Q r fs' \<and> later us ul s s') fs s"
    by (rule jsafe_conseq [OF safe_jsafe [OF later_refl assms(1)]]) auto
  then show ?thesis by (rule jsafe_mono) (use assms(2) in blast)
qed

lemma jsafe_later:
  assumes "jsafe us ul I p Q fs s" and "later us ul s t"
    and "\<And>fs s t. I fs s \<Longrightarrow> later us ul s t \<Longrightarrow> I fs t"
    and "\<And>r fs s t. Q r fs s \<Longrightarrow> later us ul s t \<Longrightarrow> Q r fs t"
  shows "jsafe us ul I p Q fs t"
  using assms by (cases p) (auto intro: later_trans)

text \<open>Two views of the same program.\<close>

lemma jsafe_conj:
  "jsafe us ul I p Q fs s \<Longrightarrow> jsafe us ul J p R fs s \<Longrightarrow>
     jsafe us ul (\<lambda>fs s. I fs s \<and> J fs s) p (\<lambda>r fs s. Q r fs s \<and> R r fs s) fs s"
  by (induction p arbitrary: fs s) auto

lemma safe_conj: "safe I p Q fs \<Longrightarrow> safe J p R fs \<Longrightarrow> safe (\<lambda>fs. I fs \<and> J fs) p (\<lambda>r fs. Q r fs \<and> R r fs) fs"
  by (induction p arbitrary: fs) auto

section \<open>Files that are left alone\<close>

lemma leaves_EnsureStateDir:
  assumes "q \<noteq> d" and "V (fs q)"
  shows "safe (\<lambda>fs. V (fs q)) (EnsureStateDir d) (\<lambda>_ _. True) fs"
proof -
  have "safe (\<lambda>fs. V (fs q)) (validateExistingStateDir d) (\<lambda>_ _. True) fs1" if "V (fs1 q)" for fs1
    by (rule safe_conseq [OF safe_read_only [OF read_only_programs(1), of "\<lambda>fs. V (fs q)" fs1]]) (use that in simp_all)
  then show ?thesis
    using assms by (auto simp: EnsureStateDir_def safe_simps split: sum.splits option.splits)
qed

lemma leaves_LoadOrGenerateKey:
  assumes "q \<noteq> d" and "q \<noteq> key_path d" and "V (fs q)"
  shows "safe (\<lambda>fs. V (fs q)) (LoadOrGenerateKey cr d) (\<lambda>_ _. True) fs" (is "safe ?I _ ?Q _")
proof -
  have key: "safe ?I (write_key (key_path d) pem x) ?Q fs1" if "V (fs1 q)" for pem fs1 and x :: "bytes \<times> bytes"
    using that assms(2) by (auto simp: write_key_def safe_simps split: sum.splits)
  have load: "safe ?I (loadExistingPrivateKey cr d) (\<lambda>r. safe ?I (case r of
        Inr priv \<Rightarrow> Done (Inr (public_of priv, priv))
      | Inl err \<Rightarrow> if \<not> errors_Is err ErrNotExist then Done (Inl err)
          else bind_ok (wrap_err ''failed to generate ed25519 key'' (Call GenerateKey (\<lambda>a. Done (as_data a)))) (\<lambda>priv.
            bind_ok (Done (EncodePrivateKeyPKCS8PEM cr priv)) (\<lambda>pem. write_key (key_path d) pem (public_of priv, priv)))) ?Q) fs1"
    if "V (fs1 q)" for fs1
    by (rule safe_conseq [OF safe_read_only [OF read_only_programs(2), of ?I fs1]]) (use that key in \<open>auto simp: safe_simps split: sum.splits\<close>)
  show ?thesis
    unfolding LoadOrGenerateKey_def Let_def safe_bind_ok safe_bind
    using leaves_EnsureStateDir [of q d V fs, OF assms(1,3)]
    by (rule safe_conseq) (auto simp: load [unfolded safe_bind_ok] split: sum.splits)
qed

lemma leaves_write_atomic:
  assumes "\<And>r. joinPath d (pre @ r @ ''.tmp'') \<noteq> q" and "\<And>r. joinPath d (pre @ r @ ''.tmp'') \<noteq> p"
    and "p = q \<Longrightarrow> V (Some (private_file b))" and "V (fs q)"
  shows "safe (\<lambda>fs. V (fs q)) (write_atomic d pre p b) (\<lambda>_ _. True) fs"
  using assms by (intro safe_conseq [OF safe_write_atomic]) (auto simp: neq_commute)

lemma leaves_ValidateAndPersistCAFile:
  assumes "state_dir_ok d" and "V (fs (json_path d))"
  shows "safe (\<lambda>fs. V (fs (json_path d))) (ValidateAndPersistCAFile cr d src) (\<lambda>_ _. True) fs"
proof -
  note paths = paths_differ [OF assms(1)]
  have "safe (\<lambda>fs. V (fs (json_path d))) (write_atomic d ''ca-'' (ca_path d) b) (\<lambda>_ _. True) fs1"
    if "V (fs1 (json_path d))" for b fs1
    using paths(2) that by (intro leaves_write_atomic paths(8,9)) auto
  then show ?thesis
    unfolding ValidateAndPersistCAFile_def safe_bind_ok Let_def
    by (intro safe_conseq [OF leaves_EnsureStateDir [of _ _ V fs, OF paths(5) [symmetric] assms(2)]])
      (auto simp: safe_simps safe_lstat safe_read_file insecure_def fail_def split: sum.splits option.splits)
qed

lemma leaves_WriteIdentityMetadata:
  assumes "state_dir_ok d" and "V (fs (json_path d))" and "V (Some (private_file (MarshalIndent (IdentityMetadata_members m))))"
  shows "safe (\<lambda>fs. V (fs (json_path d))) (WriteIdentityMetadata d m) (\<lambda>_ _. True) fs"
proof -
  note paths = paths_differ [OF assms(1)]
  show ?thesis
    unfolding WriteIdentityMetadata_def safe_bind_ok
    by (intro safe_conseq [OF leaves_EnsureStateDir [of _ _ V fs, OF paths(5) [symmetric] assms(2)]])
      (auto split: sum.splits intro!: leaves_write_atomic paths(8) assms(3))
qed

section \<open>Agreement\<close>

text \<open>The identity in the directory, when there is one, is the one the database has for its key.\<close>

definition known :: "(uuid \<Rightarrow> string) \<Rightarrow> string \<Rightarrow> bytes \<Rightarrow> db \<Rightarrow> bool" where
  "known us agentID pub s \<longleftrightarrow> (\<exists>h i. enrolled h i pub s \<and> agentID = us i)"

definition agreed :: "(uuid \<Rightarrow> string) \<Rightarrow> crypto \<Rightarrow> string \<Rightarrow> fs \<Rightarrow> db \<Rightarrow> bool" where
  "agreed us cr d fs s \<longleftrightarrow> fs (json_path d) = None \<or>
     (\<exists>m priv. complete_identity cr d m priv fs \<and> known us (im_AgentID m) (public_of priv) s)"

lemma known_later: "later us ul s t \<Longrightarrow> known us a k s \<Longrightarrow> known us a k t"
  unfolding known_def using later_enrolled by blast

lemma agreed_later: "agreed us cr d fs s \<Longrightarrow> later us ul s t \<Longrightarrow> agreed us cr d fs t"
  unfolding agreed_def using known_later by blast

lemma written_injective:
  assumes "metadata_fits m" and "metadata_fits m'"
    and "private_file (MarshalIndent (IdentityMetadata_members m')) = private_file (MarshalIndent (IdentityMetadata_members m))"
  shows "m' = m"
  using assms(3) decode_written [OF assms(1)] decode_written [OF assms(2)] by (simp add: private_file_def)

text \<open>While the metadata of a known agent are written, there is agreement.\<close>

lemma jsafe_WriteIdentityMetadata:
  assumes ok: "state_dir_ok d" and inv: "steady cr d (Some priv) fs" and none: "fs (json_path d) = None"
    and fits: "metadata_fits m" and check: "check_metadata cr m = Inr (public_of priv)"
    and known: "known us (im_AgentID m) (public_of priv) s"
  shows "jsafe us ul (agreed us cr d) (WriteIdentityMetadata d m) (\<lambda>_ _ _. True) fs s"
proof -
  let ?V = "\<lambda>x. x = None \<or> x = Some (private_file (MarshalIndent (IdentityMetadata_members m)))"
  have "safe (\<lambda>fs. steady cr d (Some priv) fs \<and> ?V (fs (json_path d))) (WriteIdentityMetadata d m)
      (\<lambda>r fs'. (r = Inr () \<longrightarrow> complete_identity cr d m priv fs') \<and> True) fs"
    using none by (intro safe_conj safe_WriteIdentityMetadata [OF ok inv fits check] leaves_WriteIdentityMetadata [OF ok]) auto
  then have "jsafe us ul (agreed us cr d) (WriteIdentityMetadata d m) (\<lambda>r fs' s'. (steady cr d (Some priv) fs' \<and> ?V (fs' (json_path d)))
      \<and> ((r = Inr () \<longrightarrow> complete_identity cr d m priv fs') \<and> True) \<and> later us ul s s') fs s"
  proof (rule safe_lift)
    fix fs' s'
    assume I: "steady cr d (Some priv) fs' \<and> ?V (fs' (json_path d))" and s': "later us ul s s'"
    show "agreed us cr d fs' s'"
    proof (cases "fs' (json_path d)")
      case (Some x)
      then obtain m' priv' where c: "complete_identity cr d m' priv' fs'" and key: "key_file cr d priv fs'"
        using I by (auto simp: steady_def)
      have "m' = m" using c I Some by (intro written_injective [OF fits]) (auto simp: complete_identity_def)
      moreover have "priv' = priv" using c key by (auto simp: complete_identity_def dest: key_file_unique)
      ultimately show ?thesis using c known_later [OF s' known] by (auto simp: agreed_def)
    qed (simp add: agreed_def)
  qed
  then show ?thesis by (rule jsafe_conseq) simp
qed

lemma jsafe_enroll_exchange:
  assumes ok: "state_dir_ok (eo_StateDir opts)" and inv: "steady cr (eo_StateDir opts) (Some priv) fs"
    and none: "fs (json_path (eo_StateDir opts)) = None"
    and url: "ValidateControllerURL cr (eo_ControllerURL opts) = Inr u" "ValidString (eo_ControllerURL opts)"
    and token: "ValidateToken token = Inr ()" and us: "\<And>u. ValidString (us u)"
  shows "jsafe us ul (agreed us cr (eo_StateDir opts))
    (enroll_exchange cr opts token (FormatPublicKeyBase64RawURL (public_of priv))) (\<lambda>_ _ _. True) fs s"
proof -
  let ?I = "agreed us cr (eo_StateDir opts)"
  have len: "length priv = PrivateKeySize" using inv by (auto simp: steady_def dest: key_file_length)
  have persist: "jsafe us ul ?I (bind_ok (wrap_err ''failed to persist agent identity metadata''
      (WriteIdentityMetadata (eo_StateDir opts) (enrolled_metadata (eo_ControllerURL opts) agentID priv)))
      (\<lambda>_. Done (Inr agentID))) (\<lambda>_ _ _. True) fs t"
    if net: "enroll_net us ul (enroll_body token (public_of priv)) s1 (Inr r) t" "read_reply r = Inr b"
      "rp_status r = 201 \<or> rp_status r = 200" and id: "reply_agent_id cr (rp_contentType r) b = Inr agentID"
    for s1 r t b agentID
  proof -
    have "known us agentID (public_of priv) t"
      using exchange_agrees [OF net(1) token us net(2) _ id] net(3) by (auto simp: known_def)
    then have "jsafe us ul ?I (WriteIdentityMetadata (eo_StateDir opts) (enrolled_metadata (eo_ControllerURL opts) agentID priv))
        (\<lambda>_ _ _. True) fs t"
      using reply_agent_id_valid [OF id] url len
      by (intro jsafe_WriteIdentityMetadata [OF ok inv none] enrolled_fits enrolled_check) (auto simp: enrolled_metadata_def)
    then show ?thesis by (auto simp: jsafe_simps elim!: jsafe_conseq split: sum.splits)
  qed
  have I: "?I fs t" for t using none by (simp add: agreed_def)
  show ?thesis
    unfolding enroll_exchange_def enrolled_metadata_def [symmetric] enroll_body_def [symmetric]
    using I persist by (auto simp: jsafe_bind_ok [of _ _ _ "Done _"] fail_def split: sum.splits)
qed

lemma jsafe_enroll_pending:
  assumes ok: "state_dir_ok d" and cr: "keys_round_trip cr" and none: "fs (json_path d) = None"
    and d: "eo_StateDir opts = d" and url: "ValidateControllerURL cr (eo_ControllerURL opts) = Inr u"
    and valid: "ValidString (eo_ControllerURL opts)"
    and token: "ValidateToken token = Inr ()" and us: "\<And>u. ValidString (us u)"
  shows "jsafe us ul (agreed us cr d) (enroll_pending cr opts token) (\<lambda>_ _ _. True) fs s"
proof -
  let ?I = "agreed us cr d" and ?J = "\<lambda>fs. steady cr d None fs \<and> fs (json_path d) = None"
  have agreed: "?I fs1 t" if "?J fs1" for fs1 t using that by (simp add: agreed_def)
  have roots: "jsafe us ul ?I (bind_ok (wrap_err ''failed to load controller trust roots'' (LoadControllerTrustRoots cr d)) (\<lambda>_.
      enroll_exchange cr opts token (FormatPublicKeyBase64RawURL (public_of priv)))) (\<lambda>_ _ _. True) fs1 s1"
    if "?J fs1" "key_file cr d priv fs1" for priv fs1 s1
  proof -
    have "steady cr d (Some priv) fs1" using that by (simp add: steady_def)
    note exchange = jsafe_enroll_exchange [of opts cr priv, unfolded d, OF ok this _ url valid token us]
    have "jsafe us ul ?I (LoadControllerTrustRoots cr d) (\<lambda>r fs' s'. ?J fs' \<and> fs' = fs1 \<and> later us ul s1 s') fs1 s1"
      using that agreed by (intro safe_lift [OF safe_read_only [OF read_only_LoadControllerTrustRoots]]) auto
    then show ?thesis
      unfolding jsafe_bind_ok jsafe_wrap_err
      by (rule jsafe_conseq) (use that exchange in \<open>auto split: sum.splits\<close>)
  qed
  have "safe ?J (LoadOrGenerateKey cr d) (\<lambda>r fs'. (case r of Inr (pub, priv) \<Rightarrow> pub = public_of priv \<and> key_file cr d priv fs'
      | Inl _ \<Rightarrow> True) \<and> True) fs"
    using none paths_differ [OF ok]
    by (intro safe_conj safe_LoadOrGenerateKey [OF ok cr] leaves_LoadOrGenerateKey) (auto simp: steady_def)
  from safe_lift [OF this agreed] show ?thesis
    unfolding enroll_pending_def d jsafe_bind_ok [of _ _ _ "wrap_err ''failed to prepare agent identity'' _"]
      jsafe_wrap_err [of _ _ _ "''failed to prepare agent identity''"]
    by (rule jsafe_conseq) (auto simp: roots split: sum.splits prod.splits)
qed

lemma read_token_valid: "ReadAndValidateTokenFromStdin x = Inr token \<Longrightarrow> ValidateToken token = Inr ()"
  by (auto simp: ReadAndValidateTokenFromStdin_def Let_def split: sum.splits if_splits)

lemma jsafe_Enroll:
  assumes ok: "state_dir_ok d" and cr: "keys_round_trip cr" and inv: "agreed us cr d fs s"
    and d: "eo_StateDir opts = d" and valid: "ValidString (eo_ControllerURL opts)" and us: "\<And>u. ValidString (us u)"
  shows "jsafe us ul (agreed us cr d) (Enroll cr opts) (\<lambda>_ _ _. True) fs s" (is "jsafe us ul ?I _ ?Q _ _")
proof (cases "fs (json_path d) = None")
  case False
  then have "safe (\<lambda>f. f = fs) (Enroll cr opts) (\<lambda>r _. \<exists>e. r = Inl e) fs" using d by (intro Enroll_frozen) simp
  from safe_lift [OF this] have "jsafe us ul ?I (Enroll cr opts) (\<lambda>r fs' s'. fs' = fs \<and> (\<exists>e. r = Inl e) \<and> later us ul s s') fs s"
    using agreed_later [OF inv] by blast
  then show ?thesis by (rule jsafe_conseq) simp
next
  case none: True
  have I: "?I f t" if "f (json_path d) = None" for f t using that by (simp add: agreed_def)
  show ?thesis
  proof (cases "ValidateControllerURL cr (eo_ControllerURL opts)")
    case (Inl e)
    then show ?thesis using inv by (simp add: Enroll_def jsafe_simps)
  next
    case (Inr u)
    let ?rest = "bind_ok (Call ReadToken (\<lambda>a. Done (ReadAndValidateTokenFromStdin (as_data a)))) (\<lambda>token. enroll_pending cr opts token)"
    have rest: "jsafe us ul ?I ?rest ?Q fs1 s1" if "fs1 (json_path d) = None" for fs1 s1
      unfolding jsafe_bind_ok [of _ _ _ "Call ReadToken _"]
      using that I jsafe_enroll_pending [where fs = fs1, OF ok cr that d Inr valid read_token_valid us]
      by (auto split: sum.splits)
    have "safe (\<lambda>fs. fs (json_path d) = None) (ValidateAndPersistCAFile cr d (eo_CAFile opts)) (\<lambda>_ _. True) fs"
      using leaves_ValidateAndPersistCAFile [OF ok, of "\<lambda>x. x = None"] none by simp
    then have ca: "jsafe us ul ?I (ValidateAndPersistCAFile cr d (eo_CAFile opts))
        (\<lambda>r fs' s'. fs' (json_path d) = None \<and> True \<and> later us ul s1 s') fs s1" for s1
      by (rule safe_lift) (rule I)
    have "jsafe us ul ?I (bind_ok (if eo_CAFile opts \<noteq> [] then
        wrap_err ''failed to process CA file'' (ValidateAndPersistCAFile cr d (eo_CAFile opts)) else Done (Inr ())) (\<lambda>_. ?rest)) ?Q fs s1" for s1
    proof (cases "eo_CAFile opts = []")
      case False
      show ?thesis
        unfolding jsafe_bind_ok [of _ _ _ _ "\<lambda>_. ?rest"]
        by (simp only: False not_False_eq_True if_True jsafe_wrap_err, rule jsafe_conseq [OF ca])
          (use I rest in \<open>auto split: sum.splits\<close>)
    qed (use I none rest in \<open>simp add: jsafe_bind_ok [of _ _ _ _ "\<lambda>_. ?rest"]\<close>)
    then show ?thesis
      unfolding Enroll_def Inr d using I none
      by (auto simp: jsafe_bind [of _ _ _ "lstat _"] fail_def jsafe_bind_ok [of _ _ _ "Done _"] split: sum.splits)
  qed
qed

section \<open>The invariant of the world\<close>

text \<open>There is agreement, the identity is complete, and a key \<open>K\<close> stays.\<close>

definition sound :: "(uuid \<Rightarrow> string) \<Rightarrow> crypto \<Rightarrow> string \<Rightarrow> bytes option \<Rightarrow> fs \<Rightarrow> db \<Rightarrow> bool" where
  "sound us cr d K fs s \<longleftrightarrow> agreed us cr d fs s \<and> steady cr d K fs"

definition world_inv ::
  "(uuid \<Rightarrow> string) \<Rightarrow> (string \<Rightarrow> string) \<Rightarrow> crypto \<Rightarrow> string \<Rightarrow> bytes option \<Rightarrow> config \<Rightarrow> bool" where
  "world_inv us ul cr d K w \<longleftrightarrow> (case w of (fs, s, p) \<Rightarrow>
     reachable us ul s \<and> jsafe us ul (sound us cr d K) p (\<lambda>_ _ _. True) fs s)"

lemma sound_later: "sound us cr d K fs s \<Longrightarrow> later us ul s t \<Longrightarrow> sound us cr d K fs t"
  unfolding sound_def using agreed_later by blast

lemma sound_programs:
  assumes "state_dir_ok d" and "keys_round_trip cr" and "\<And>u. ValidString (us u)" and "sound us cr d K fs s"
  shows "eo_StateDir opts = d \<Longrightarrow> ValidString (eo_ControllerURL opts) \<Longrightarrow>
      jsafe us ul (sound us cr d K) (Enroll cr opts) (\<lambda>_ _ _. True) fs s"
    and "jsafe us ul (sound us cr d K) (TransportCheck cr build d) (\<lambda>_ _ _. True) fs s"
proof -
  have inv: "agreed us cr d fs s" "steady cr d K fs" using assms(4) by (simp_all add: sound_def)
  {
    assume opts: "eo_StateDir opts = d" "ValidString (eo_ControllerURL opts)"
    have "jsafe us ul (\<lambda>fs s. agreed us cr d fs s \<and> steady cr d K fs) (Enroll cr opts) (\<lambda>r fs' s'. True \<and> (steady cr d K fs'
        \<and> enroll_post cr d opts r fs' \<and> later us ul s s')) fs s"
      by (intro jsafe_conj jsafe_Enroll [OF assms(1,2) inv(1) opts assms(3)] safe_lift safe_Enroll [OF assms(1,2) inv(2) opts])
    then show "jsafe us ul (sound us cr d K) (Enroll cr opts) (\<lambda>_ _ _. True) fs s"
      unfolding sound_def by (rule jsafe_conseq) simp
  }
  have "jsafe us ul (sound us cr d K) (TransportCheck cr build d) (\<lambda>r fs' s'. fs' = fs \<and> fs' = fs \<and> later us ul s s') fs s"
    using sound_later [OF assms(4)] by (intro safe_lift [OF safe_read_only [OF read_only_TransportCheck]]) auto
  then show "jsafe us ul (sound us cr d K) (TransportCheck cr build d) (\<lambda>_ _ _. True) fs s" by (rule jsafe_conseq) simp
qed

lemma world_step_inv:
  assumes "world_step us ul cr d w w'" and "world_inv us ul cr d K w"
    and "state_dir_ok d" and "keys_round_trip cr" and "\<And>u. ValidString (us u)"
  shows "world_inv us ul cr d K w'"
  using assms(1)
proof cases
  case (called c fs s a fs' t k)
  then show ?thesis
    using assms(2) world_call_os [OF called(3)] later_reachable unfolding world_inv_def
    by (simp, meson later_refl)
next
  case (store fs s p x)
  then show ?thesis
    using assms(2) by (auto simp: world_inv_def intro: reachable.step jsafe_later [OF _ later_exec] sound_later)
next
  case (start_enroll opts fs s p)
  have "sound us cr d K fs s" using assms(2) jsafe_now by (auto simp: start_enroll(1) world_inv_def)
  from sound_programs(1) [OF assms(3-5) this start_enroll(3,4)] show ?thesis
    using assms(2) by (simp add: start_enroll world_inv_def)
next
  case (start_check fs s p build)
  have "sound us cr d K fs s" using assms(2) jsafe_now by (auto simp: start_check(1) world_inv_def)
  from sound_programs(2) [OF assms(3-5) this] show ?thesis
    using assms(2) by (simp add: start_check world_inv_def)
qed

interpretation world: invariant_system
  "\<lambda>w w'. state_dir_ok d \<and> keys_round_trip cr \<and> (\<forall>u. ValidString (us u)) \<and> world_step us ul cr d w w'"
  "world_inv us ul cr d K" for us ul cr d K
  by unfold_locales (use world_step_inv in blast)

lemma world_run_inv:
  assumes "state_dir_ok d" and "keys_round_trip cr" and "\<And>u. ValidString (us u)" and "world_inv us ul cr d K w"
    and "(world_step us ul cr d)\<^sup>*\<^sup>* w w'"
  shows "world_inv us ul cr d K w'"
  using world.run_inv [of d cr us ul w w' K] assms by simp

lemma world_start: "reachable us ul s \<Longrightarrow> fs (json_path d) = None \<Longrightarrow> world_inv us ul cr d None (fs, s, Done x)"
  by (simp add: world_inv_def sound_def agreed_def steady_def)

lemma world_inv_now: "world_inv us ul cr d K (fs, s, p) \<Longrightarrow> reachable us ul s \<and> sound us cr d K fs s"
  using jsafe_now by (auto simp: world_inv_def)

section \<open>When nothing fails\<close>

text \<open>What the remote listener answers, as the agent sees it.\<close>

definition served_by :: "env \<Rightarrow> backends \<Rightarrow> certificate list \<Rightarrow> db \<Rightarrow> bytes \<Rightarrow> reply result" where
  "served_by e be certs s b =
     (case newRemoteHandler e be (agent_http (Some certs) b) s of
        None \<Rightarrow> Inl (ErrOther ''no such path'')
      | Some (resp, _) \<Rightarrow> Inr (wire_reply resp))"

text \<open>The controller's side: the media type of the program itself parses, the backends are there and the database works.\<close>

definition controller_up :: "env \<Rightarrow> backends \<Rightarrow> bool" where
  "controller_up e be \<longleftrightarrow> be_registrar be \<and> be_authenticator be
     \<and> env_ParseMediaType e ''application/json'' = Some (''application/json'', \<lambda>_. None)
     \<and> \<not> pool_nil (env_ctx e 0) \<and> (\<forall>st. \<not> stmt_fails (env_ctx e 0) st) \<and> commit_result (env_ctx e 0) = Committed"

lemma remote_enroll:
  assumes "controller_up e be" and "ValidateToken token = Inr ()" and "length pub = 32"
    and "RegisterAgent (env_ctx e 0) (HashToken token) pub s = (Inr (rec, created), t)"
  shows "newRemoteHandler e be (agent_http (Some certs) (enroll_body token pub)) s =
    Some (id_reply (if created then StatusCreated else StatusOK) (env_uuid_String e (ar_ID rec)), t)"
proof -
  have "check_media e (agent_http (Some certs) (enroll_body token pub)) = MediaOk"
    using assms(1) by (simp add: controller_up_def check_media_def Header_Get_def agent_http_def enroll_body_nonempty)
  then have "handleEnroll e be (agent_http (Some certs) (enroll_body token pub)) s =
      (id_reply (if created then StatusCreated else StatusOK) (env_uuid_String e (ar_ID rec)), t)"
    using assms by (intro handleEnroll_registers) (auto simp: controller_up_def)
  then show ?thesis
    by (simp add: newRemoteHandler_def agent_http_def enroll_body_nonempty EnrollmentEndpointPath_def)
qed

text \<open>The agent's side: the calls that enrollment makes with what is there.\<close>

definition agent_up :: "crypto \<Rightarrow> machine \<Rightarrow> EnrollOptions \<Rightarrow> fs \<Rightarrow> bool" where
  "agent_up cr mc opts fs \<longleftrightarrow>
     (\<exists>u. ValidateControllerURL cr (eo_ControllerURL opts) = Inr u \<and> u_Scheme u = ''https'')
     \<and> ValidString (eo_ControllerURL opts) \<and> state_dir_ok (eo_StateDir opts) \<and> eo_hasTokenReader opts \<and> eo_CAFile opts = []
     \<and> cr_ParseMediaType cr ''application/json'' = Some (''application/json'', \<lambda>_. None)
     \<and> fs (joinPath (eo_StateDir opts) (''identity-'' @ mc_temp mc @ ''.tmp'')) = None
     \<and> fs (ca_path (eo_StateDir opts)) = None"

lemma finish_validate: "private_dir d fs \<Longrightarrow> finish mc (validateExistingStateDir d) fs = (Inr (), fs)"
  by (auto simp: private_dir_def validateExistingStateDir_def finish_simps info_of_def)

lemma finish_ensure: "private_dir d fs \<Longrightarrow> finish mc (EnsureStateDir d) fs = (Inr (), fs)"
  using finish_validate [of d fs mc] by (auto simp: private_dir_def EnsureStateDir_def finish_simps)

lemma finish_WriteIdentityMetadata:
  assumes "state_dir_ok d" and "private_dir d fs" and temp: "fs (joinPath d (''identity-'' @ mc_temp mc @ ''.tmp'')) = None"
  shows "finish mc (WriteIdentityMetadata d m) fs =
    (Inr (), fs(json_path d \<mapsto> private_file (MarshalIndent (IdentityMetadata_members m))))"
proof -
  define t where "t = joinPath d (''identity-'' @ mc_temp mc @ ''.tmp'')"
  have "t \<noteq> json_path d" unfolding t_def by (rule paths_differ(8) [OF assms(1)])
  moreover have "fs t = None" unfolding t_def by (rule temp)
  ultimately have "(fs(t := None))(json_path d \<mapsto> x, t := None) = fs(json_path d \<mapsto> x)" for x by (auto simp: fun_upd_twist)
  then show ?thesis
    using \<open>fs t = None\<close> unfolding t_def
    by (simp add: WriteIdentityMetadata_def finish_bind_ok finish_ensure [OF assms(2)] write_atomic_def write_temp_def finish_simps
        Let_def new_file_def private_file_def)
qed

lemma finish_roots: "fs (ca_path d) = None \<Longrightarrow> finish mc (LoadControllerTrustRoots cr d) fs = (Inr None, fs)"
  by (simp add: LoadControllerTrustRoots_def finish_simps Let_def)

lemma finish_Enroll:
  assumes up: "agent_up cr mc opts fs" and none: "fs (json_path (eo_StateDir opts)) = None"
    and token: "ReadAndValidateTokenFromStdin (Inr (mc_token mc)) = Inr token"
    and key: "finish mc (LoadOrGenerateKey cr (eo_StateDir opts)) fs = (Inr (public_of priv, priv), fs1)"
    and dir: "private_dir (eo_StateDir opts) fs1" and key_file: "key_file cr (eo_StateDir opts) priv fs1"
    and same: "\<And>q. q \<noteq> eo_StateDir opts \<Longrightarrow> q \<noteq> key_path (eo_StateDir opts) \<Longrightarrow> fs1 q = fs q"
    and reply: "mc_reply mc (enroll_body token (public_of priv)) = Inr (wire_reply (id_reply status agentID))"
    and status: "status = 200 \<or> status = 201" and id: "ValidateUUIDv7 agentID = Inr ()"
  obtains fs2 where "finish mc (Enroll cr opts) fs = (Inr agentID, fs2)"
    "complete_identity cr (eo_StateDir opts) (enrolled_metadata (eo_ControllerURL opts) agentID priv) priv fs2"
    "\<And>q. q \<noteq> eo_StateDir opts \<Longrightarrow> q \<noteq> key_path (eo_StateDir opts) \<Longrightarrow> q \<noteq> json_path (eo_StateDir opts) \<Longrightarrow> fs2 q = fs q"
proof -
  let ?d = "eo_StateDir opts" and ?r = "wire_reply (id_reply status agentID)"
  let ?m = "enrolled_metadata (eo_ControllerURL opts) agentID priv"
  let ?fs2 = "fs1(json_path ?d \<mapsto> private_file (MarshalIndent (IdentityMetadata_members ?m)))"
  have ok: "state_dir_ok ?d" and media: "cr_ParseMediaType cr ''application/json'' = Some (''application/json'', \<lambda>_. None)"
    using up by (auto simp: agent_up_def)
  have free: "fs1 (ca_path ?d) = None" "fs1 (joinPath ?d (''identity-'' @ mc_temp mc @ ''.tmp'')) = None"
    using up same paths_differ(3,6) [OF ok] paths_differ(7,10) [OF ok, of "''identity-''" "mc_temp mc"]
    by (simp_all add: agent_up_def)
  have code: "rp_status ?r = status" by (simp add: wire_reply_def)
  have exchange: "finish mc (enroll_exchange cr opts token (FormatPublicKeyBase64RawURL (public_of priv))) fs1 = (Inr agentID, ?fs2)"
    unfolding enroll_exchange_def enroll_body_def [symmetric] enrolled_metadata_def [symmetric]
    using reply id_reply_read [OF id media, of status] finish_WriteIdentityMetadata [OF ok dir free(2)] status
    by (auto simp: finish_bind_ok finish_wrap_err code)
  have pending: "finish mc (enroll_pending cr opts token) fs = (Inr agentID, ?fs2)"
    by (simp add: enroll_pending_def finish_bind_ok finish_wrap_err key finish_roots free exchange)
  have "filepath_IsAbs ?d" using ok by (simp add: state_dir_ok_def)
  then have "?d \<noteq> []" by (auto simp: filepath_IsAbs_def HasPrefix_def)
  then have run: "finish mc (Enroll cr opts) fs = (Inr agentID, ?fs2)"
    using up pending none token by (auto simp: agent_up_def Enroll_def finish_bind_ok [of _ "Done _"] finish_bind [of _ "lstat _"]
        finish_bind_ok [of _ "Call ReadToken _"])
  have "complete_identity cr ?d ?m priv ?fs2"
    using up key_file_length [OF key_file]
    by (intro steady_json_update [OF ok key_file dir] enrolled_fits [OF id]) (auto simp: agent_up_def enrolled_check [OF id])
  with run show thesis using that same by auto
qed

text \<open>The key that is there is loaded; without one a new key is made.\<close>

lemma finish_existing_key:
  assumes "private_dir d fs" and "key_file cr d priv fs"
  shows "finish mc (loadExistingPrivateKey cr d) fs = (Inr priv, fs)"
    and "finish mc (LoadOrGenerateKey cr d) fs = (Inr (public_of priv, priv), fs)"
proof -
  show load: "finish mc (loadExistingPrivateKey cr d) fs = (Inr priv, fs)"
    using assms(2) by (auto simp: key_file_iff loadExistingPrivateKey_def finish_simps Let_def info_of_def)
  show "finish mc (LoadOrGenerateKey cr d) fs = (Inr (public_of priv, priv), fs)"
    by (simp add: LoadOrGenerateKey_def finish_bind_ok finish_bind finish_ensure [OF assms(1)] load)
qed

lemma finish_new_key:
  assumes "state_dir_ok d" and "fs d = None" and "fs (key_path d) = None" and "EncodePrivateKeyPKCS8PEM cr (mc_key mc) = Inr pem"
  shows "finish mc (LoadOrGenerateKey cr d) fs =
    (Inr (public_of (mc_key mc), mc_key mc), fs(d \<mapsto> new_dir 0x1C0, key_path d \<mapsto> private_file pem))"
proof -
  have "d \<noteq> key_path d" by (rule paths_differ(4) [OF assms(1)])
  then show ?thesis
    using assms(2-4)
    by (simp add: LoadOrGenerateKey_def EnsureStateDir_def validateExistingStateDir_def loadExistingPrivateKey_def write_key_def
        finish_simps Let_def info_of_def new_dir_def new_file_def private_file_def)
qed

section \<open>The transport check of an enrolled agent\<close>

lemma handleAgentSelf_known:
  assumes "controller_up e be" and "enrollment_inv (enrollment_tokens s) (agents s)" and "enrolled h i pub s"
    and "extractAuthenticatedPeerPublicKey e (agent_http (Some certs) []) = Inr pub"
  shows "served_by e be certs s [] = Inr (wire_reply (id_reply StatusOK (env_uuid_String e i)))"
proof -
  obtain a where a: "a \<in> set (agents s)" "a_id a = i" "a_public_key a = pub"
    using assms(3) by (auto simp: enrolled_def)
  have "agent_by_key pub s = Some a"
    using find_unique_key [OF enrollment_invD(4) [OF assms(2)] a(1)] a(3) by (simp add: agent_by_key_def)
  moreover have "length pub = 32"
    using assms(4) by (auto simp: extractAuthenticatedPeerPublicKey_def split: handler_splits list.splits)
  ultimately have "\<exists>rec. FindAgentByPublicKey (env_ctx e 0) pub s = Inr rec \<and> ar_ID rec = i"
    using assms(1) a by (simp add: FindAgentByPublicKey_def controller_up_def)
  then show ?thesis
    using assms(1,4)
    by (auto simp: served_by_def newRemoteHandler_def agent_http_def SelfEndpointPath_def handleAgentSelf_def controller_up_def)
qed

lemma finish_TransportCheck:
  assumes c: "complete_identity cr d m priv fs" and ca: "fs (ca_path d) = None" and d: "state_dir_ok d"
    and url: "ValidateControllerURL cr (im_ControllerURL m) = Inr u" "u_Scheme u = ''https''"
    and built: "build priv = Inr ()"
    and media: "cr_ParseMediaType cr ''application/json'' = Some (''application/json'', \<lambda>_. None)"
    and reply: "mc_reply mc [] = Inr (wire_reply (id_reply StatusOK (im_AgentID m)))"
  shows "finish mc (TransportCheck cr build d) fs = (Inr (im_AgentID m), fs)"
proof -
  have "filepath_IsAbs d" using d by (simp add: state_dir_ok_def)
  then have "d \<noteq> []" by (auto simp: filepath_IsAbs_def HasPrefix_def)
  have key: "private_dir d fs" "key_file cr d priv fs" using c by (auto simp: complete_identity_def)
  have id: "ValidateUUIDv7 (im_AgentID m) = Inr ()"
    using c by (auto simp: complete_identity_def check_metadata_def split: if_splits sum.splits)
  have status: "rp_status (wire_reply (id_reply StatusOK x)) = 200" for x by (simp add: wire_reply_def StatusOK_def)
  show ?thesis
    using \<open>d \<noteq> []\<close> url built reply
    by (simp add: TransportCheck_def finish_bind_ok finish_wrap_err load_complete [OF c] finish_roots ca
        finish_existing_key(1) [OF key] id_reply_read [OF id media] status)
qed

lemma enrolled_transport_check:
  assumes "complete_identity cr d (enrolled_metadata url (us i) priv) priv fs" and "fs (ca_path d) = None" and "state_dir_ok d"
    and "\<exists>u. ValidateControllerURL cr url = Inr u \<and> u_Scheme u = ''https''" and "build priv = Inr ()"
    and "cr_ParseMediaType cr ''application/json'' = Some (''application/json'', \<lambda>_. None)"
    and "enrollment_inv (enrollment_tokens s) (agents s)" and "enrolled h i (public_of priv) s"
    and "controller_up e be" and "env_uuid_String e = us" and "mc_reply mc = served_by e be certs s"
    and "extractAuthenticatedPeerPublicKey e (agent_http (Some certs) []) = Inr (public_of priv)"
  shows "finish mc (TransportCheck cr build d) fs = (Inr (us i), fs)"
proof -
  obtain u where "ValidateControllerURL cr (im_ControllerURL (enrolled_metadata url (us i) priv)) = Inr u" "u_Scheme u = ''https''"
    using assms(4) by (auto simp: enrolled_metadata_def)
  from finish_TransportCheck [where build = build, OF assms(1-3) this assms(5,6)] show ?thesis
    using handleAgentSelf_known [OF assms(9,7,8,12)] assms(10,11) by (simp add: enrolled_metadata_def)
qed

section \<open>The properties\<close>



section \<open>An enrolled agent\<close>

text \<open>When the controller's answers leave the database alone, a run on a machine where calls succeed is a run in the world.\<close>

lemma finish_world:
  assumes "length (mc_key mc) = PrivateKeySize" and "\<And>b. enroll_net us ul b s (mc_reply mc b) s"
  shows "(world_step us ul cr d)\<^sup>*\<^sup>* (fs, s, p) (snd (finish mc p fs), s, Done (fst (finish mc p fs)))"
proof (induction p arbitrary: fs)
  case (Call c k)
  have "world_call us ul c fs s (fst (perform mc c fs)) (snd (perform mc c fs)) s"
    using perform_os [OF assms(1), of c fs] assms(2) by (cases c) simp_all
  from converse_rtranclp_into_rtranclp [OF world_step.called [OF this] Call.IH [OF rangeI]] show ?case by simp
qed simp

definition ex_token :: string where "ex_token = mc_token ex_machine"
definition ex_public :: bytes where "ex_public = replicate 32 (CHR ''k'')"

definition ex_registered :: db where
  "ex_registered = run_ops (\<lambda>_. ex_id) id
     [(quiet_ctx 0 2, OpCreateEnrollmentToken (HashToken ex_token) 100), (quiet_ctx 1 3, OpRegisterAgent (HashToken ex_token) ex_public)] empty_db"

definition ex_controller :: env where
  "ex_controller = (ex_env 5 9)\<lparr>env_uuid_String := \<lambda>_. ex_id\<rparr>"

lemma ex_registered_ok: "reachable (\<lambda>_. ex_id) id ex_registered" "enrolled (HashToken ex_token) 3 ex_public ex_registered"
proof -
  show "reachable (\<lambda>_. ex_id) id ex_registered" unfolding ex_registered_def by (intro reachable_run_ops reachable.start)
  show "enrolled (HashToken ex_token) 3 ex_public ex_registered"
    by (simp add: ex_registered_def enrolled_def CreateEnrollmentToken_def run_auto_def RegisterAgent_def RegisterAgent_tx_def
        run_tx_def insertAgent_def empty_db_def ex_public_def HashToken_def Let_def)
qed

lemma ex_controller_ok: "controller_up ex_controller all_backends" "env_uuid_String ex_controller = (\<lambda>_. ex_id)"
  by (simp_all add: ex_controller_def controller_up_def ex_env_def ex_media_def)

lemma ex_id_valid: "ValidString ex_id"
  by (rule ascii_valid [OF uuid7_ascii [OF ex_id_ok]])

lemma ex_retry_served:
  "newRemoteHandler ex_controller all_backends (agent_http (Some []) (enroll_body ex_token ex_public)) ex_registered =
     Some (id_reply StatusOK ex_id, ex_registered)"
proof -
  have token: "ValidateToken ex_token = Inr ()" using read_token_valid [OF ex_token_ok] by (simp add: ex_token_def)
  obtain r where reg: "RegisterAgent (env_ctx ex_controller 0) (HashToken ex_token) ex_public ex_registered = (Inr (r, False), ex_registered)"
    using RegisterAgent_again [OF reachable_enrollment [OF ex_registered_ok(1)] ex_registered_ok(2), of "env_ctx ex_controller 0" ex_public]
      ex_controller_ok(1) by (auto simp: controller_up_def)
  from remote_enroll [OF ex_controller_ok(1) token _ this] show ?thesis by (simp add: ex_controller_ok(2) ex_public_def)
qed

text \<open>The agent of the example, in front of this controller.\<close>

definition ex_agent_machine :: machine where
  "ex_agent_machine = ex_machine\<lparr>mc_reply := \<lambda>b. if b = enroll_body ex_token ex_public
     then Inr (wire_reply (id_reply StatusOK ex_id)) else Inl (ErrOther ''refused'')\<rparr>"

lemma ex_agent_net: "enroll_net (\<lambda>_. ex_id) id b ex_registered (mc_reply ex_agent_machine b) ex_registered"
proof (cases "b = enroll_body ex_token ex_public")
  case True
  have "env_lower ex_controller = id" by (simp add: ex_controller_def ex_env_def)
  from enroll_net.remote [OF ex_controller_ok(2) this ex_retry_served arrives.whole] True show ?thesis
    by (simp add: ex_agent_machine_def)
qed (simp add: ex_agent_machine_def enroll_net.request_lost)

lemma ex_agent_up:
  assumes "mc_temp mc = ''1''" and "fs ''/s/identity-1.tmp'' = None" and "fs ''/s/controller-ca.pem'' = None"
  shows "agent_up ex_crypto mc ex_enroll fs"
  using assms ex_url_ok ex_options ex_dir_ok ex_paths
  by (simp add: agent_up_def ex_enroll_def joinPath_def) (simp add: ex_crypto_def)

lemma ex_agent_parts:
  "mc_temp ex_agent_machine = ''1''" "length (mc_key ex_agent_machine) = PrivateKeySize" "mc_token ex_agent_machine = ex_token"
  "public_of (mc_key ex_agent_machine) = ex_public" "EncodePrivateKeyPKCS8PEM ex_crypto (mc_key ex_agent_machine) = Inr (mc_key ex_agent_machine)"
  by (simp_all add: ex_agent_machine_def ex_machine_def ex_token_def ex_public_def public_of_def PrivateKeySize_def
      EncodePrivateKeyPKCS8PEM_def ex_crypto_def)

definition ex_key_files :: fs where
  "ex_key_files = [''/s'' \<mapsto> new_dir 0x1C0, ''/s/identity.key'' \<mapsto> private_file (mc_key ex_agent_machine)]"

lemma ex_key_files_ok:
  "private_dir ''/s'' ex_key_files" "key_file ex_crypto ''/s'' (mc_key ex_agent_machine) ex_key_files"
  "ex_key_files (json_path ''/s'') = None" "agent_up ex_crypto ex_agent_machine ex_enroll ex_key_files"
proof -
  show "private_dir ''/s'' ex_key_files" by (simp add: private_dir_def ex_key_files_def new_dir_def)
  show "key_file ex_crypto ''/s'' (mc_key ex_agent_machine) ex_key_files"
    using parse_encoded_key [OF ex_crypto_ok ex_agent_parts(5)] by (auto simp: key_file_def ex_key_files_def ex_paths)
  show "ex_key_files (json_path ''/s'') = None" by (simp add: ex_key_files_def ex_paths)
  show "agent_up ex_crypto ex_agent_machine ex_enroll ex_key_files"
    by (rule ex_agent_up) (simp_all add: ex_agent_parts(1) ex_key_files_def)
qed

lemma ex_world_run:
  "\<exists>fs. (world_step (\<lambda>_. ex_id) id ex_crypto ''/s'')\<^sup>*\<^sup>* (ex_key_files, ex_registered, Done (Inr [])) (fs, ex_registered, Done (Inr ex_id))
     \<and> fs (json_path ''/s'') \<noteq> None"
proof -
  note key = finish_existing_key(2) [OF ex_key_files_ok(1,2)]
  have dir: "eo_StateDir ex_enroll = ''/s''" by (simp add: ex_enroll_def)
  have reply: "mc_reply ex_agent_machine (enroll_body ex_token ex_public) = Inr (wire_reply (id_reply StatusOK ex_id))"
    by (simp add: ex_agent_machine_def)
  obtain fs2 where run: "finish ex_agent_machine (Enroll ex_crypto ex_enroll) ex_key_files = (Inr ex_id, fs2)"
    and c: "complete_identity ex_crypto ''/s'' (enrolled_metadata ex_url ex_id (mc_key ex_agent_machine)) (mc_key ex_agent_machine) fs2"
    by (rule finish_Enroll [of ex_crypto ex_agent_machine ex_enroll ex_key_files ex_token "mc_key ex_agent_machine" ex_key_files 200 ex_id, unfolded dir,
          OF ex_key_files_ok(4,3) _ key ex_key_files_ok(1,2) refl _ _ ex_id_ok])
      (use ex_token_ok reply in \<open>auto simp: ex_agent_parts ex_token_def [symmetric] ex_options StatusOK_def\<close>)
  have "(world_step (\<lambda>_. ex_id) id ex_crypto ''/s'')\<^sup>*\<^sup>* (ex_key_files, ex_registered, Enroll ex_crypto ex_enroll) (fs2, ex_registered, Done (Inr ex_id))"
    using finish_world [OF ex_agent_parts(2) ex_agent_net, of ex_crypto "''/s''" ex_key_files "Enroll ex_crypto ex_enroll"] run by simp
  from converse_rtranclp_into_rtranclp [OF world_step.start_enroll this] c show ?thesis
    using ex_options by (auto simp: complete_identity_def)
qed



end
