(* ===== verification/Command_Properties.thy ===== *)
theory Command_Properties
  imports Controller_Command Go_Flags Enroll_System
begin

text \<open>
  What the commands of the controller and of the agent give to each other and to the HTTP interface.
\<close>

section \<open>Redaction\<close>

lemma redact_userinfo_Nil [simp]: "redact_userinfo [] = []"
  by (simp add: redact_userinfo.simps)

lemma redact_userinfo_hd: "\<exists>t. redact_userinfo (c # s) = c # t"
  by (auto simp: redact_userinfo.simps [of "c # _"] Let_def)

lemma redact_userinfo_other: "user_char c \<Longrightarrow> redact_userinfo (c # s) = c # redact_userinfo s"
  by (simp add: redact_userinfo.simps [of "c # _"] user_char_def)

text \<open>The characters of user information a text starts with survive, and so does the one behind them.\<close>

lemma redact_userinfo_start:
  "takeWhile user_char (redact_userinfo s) = takeWhile user_char s"
  "take 1 (dropWhile user_char (redact_userinfo s)) = take 1 (dropWhile user_char s)"
proof (induction s)
  case (Cons c s)
  obtain t where t: "redact_userinfo (c # s) = c # t" using redact_userinfo_hd by blast
  {
    case 1
    show ?case
    proof (cases "user_char c")
      case True
      then show ?thesis using Cons(1) by (simp add: redact_userinfo_other)
    qed (simp add: t)
  next
    case 2
    show ?case
    proof (cases "user_char c")
      case True
      then show ?thesis using Cons(2) by (simp add: redact_userinfo_other)
    qed (simp add: t)
  }
qed simp_all

text \<open>
  In a text behind \<^const>\<open>redact_userinfo\<close>, what stands between a colon and an at sign, without a slash, colon or at
  sign in between, is the word for something redacted.
\<close>

definition hidden :: "string \<Rightarrow> bool" where
  "hidden s \<longleftrightarrow> (\<forall>pre run post. s = pre @ CHR '':'' # run @ CHR ''@'' # post \<longrightarrow> run \<noteq> [] \<longrightarrow> list_all user_char run
     \<longrightarrow> run = redacted)"

lemma hidden_Cons_other: "hidden s \<Longrightarrow> c \<noteq> CHR '':'' \<Longrightarrow> hidden (c # s)"
  by (auto simp: hidden_def Cons_eq_append_conv)

lemma hidden_Cons_colon:
  assumes "hidden s" and "takeWhile user_char s = [] \<or> takeWhile user_char s = redacted \<or> dropWhile user_char s = []
    \<or> hd (dropWhile user_char s) \<noteq> CHR ''@''"
  shows "hidden (CHR '':'' # s)"
proof -
  have "run = redacted" if "s = run @ CHR ''@'' # post" "run \<noteq> []" "list_all user_char run" for run post
  proof -
    have at: "\<not> user_char (CHR ''@'')" by (simp add: user_char_def)
    have "takeWhile user_char s = run" "dropWhile user_char s = CHR ''@'' # post"
      using that at by (auto simp: list_all_iff)
    then show ?thesis using assms(2) that(2) by auto
  qed
  note first = this
  show ?thesis
    unfolding hidden_def
  proof (intro allI impI)
    fix pre run post
    assume eq: "CHR '':'' # s = pre @ CHR '':'' # run @ CHR ''@'' # post" and run: "run \<noteq> []" "list_all user_char run"
    show "run = redacted"
    proof (cases pre)
      case Nil
      then show ?thesis using eq first run by simp
    next
      case (Cons x pre')
      then have "s = pre' @ CHR '':'' # run @ CHR ''@'' # post" using eq by simp
      then show ?thesis using assms(1) run unfolding hidden_def by blast
    qed
  qed
qed

lemma redacted_chars: "list_all user_char redacted" "redacted \<noteq> []"
  by (simp_all add: redacted_def user_char_def)

lemma hidden_append: "hidden s \<Longrightarrow> list_all user_char run \<Longrightarrow> hidden (run @ s)"
  by (induction run) (auto intro!: hidden_Cons_other simp: user_char_def)

lemma hidden_redact: "hidden (redact_userinfo s)"
proof (induction s rule: redact_userinfo.induct)
  case (1 s)
  show ?case
  proof (cases s)
    case Nil
    then show ?thesis by (simp add: redact_userinfo.simps hidden_def)
  next
    case (Cons c cs)
    let ?run = "takeWhile user_char cs" and ?rest = "dropWhile user_char cs"
    show ?thesis
    proof (cases "c = CHR '':'' \<and> ?run \<noteq> [] \<and> ?rest \<noteq> [] \<and> hd ?rest = CHR ''@''")
      case True
      have "hidden (redact_userinfo (tl ?rest))" using 1(1) [OF Cons refl refl True] .
      then have "hidden (CHR ''@'' # redact_userinfo (tl ?rest))" by (rule hidden_Cons_other) simp
      then have "hidden (redacted @ CHR ''@'' # redact_userinfo (tl ?rest))" using redacted_chars by (intro hidden_append)
      then have "hidden (CHR '':'' # redacted @ CHR ''@'' # redact_userinfo (tl ?rest))"
        using redacted_chars by (intro hidden_Cons_colon) (auto simp: list_all_iff user_char_def)
      moreover have "redact_userinfo s = CHR '':'' # redacted @ CHR ''@'' # redact_userinfo (tl ?rest)"
        using True unfolding Cons by (subst redact_userinfo.simps) (simp add: Let_def)
      ultimately show ?thesis by simp
    next
      case False
      have IH: "hidden (redact_userinfo cs)" using 1(2) [OF Cons refl refl False] .
      have eq: "redact_userinfo s = c # redact_userinfo cs" using False unfolding Cons by (subst redact_userinfo.simps) (auto simp: Let_def)
      show ?thesis
      proof (cases "c = CHR '':''")
        case True
        have "hd (dropWhile user_char (redact_userinfo cs)) = hd ?rest" if "dropWhile user_char (redact_userinfo cs) \<noteq> []"
          using redact_userinfo_start(2) [of cs] that
          by (cases "dropWhile user_char (redact_userinfo cs)"; cases ?rest) auto
        moreover have "dropWhile user_char (redact_userinfo cs) = []" if "?rest = []"
          using redact_userinfo_start(2) [of cs] that by (cases "dropWhile user_char (redact_userinfo cs)") auto
        ultimately have "hidden (CHR '':'' # redact_userinfo cs)"
          using IH False True redact_userinfo_start(1) [of cs] by (intro hidden_Cons_colon) metis+
        then show ?thesis using eq True by simp
      qed (use IH eq hidden_Cons_other in auto)
    qed
  qed
qed


text \<open>
  What \<^const>\<open>sanitizeError\<close> hides: behind it, no text between a colon and an at sign is left as it was, unless it
  holds another colon or a slash. A password with a colon in it is hidden only from its last colon on.
\<close>

lemma sanitizeError_hides: "hidden (sanitizeError msg)"
  by (simp add: sanitizeError_def hidden_redact)

lemma password_with_colon_leaks:
  "sanitizeError ''postgres://u:top:secret@h'' = ''postgres://u:top:[REDACTED]@h''"
proof -
  have "redact_password ''postgres://u:top:secret@h'' = ''postgres://u:top:secret@h''"
    by (simp add: redact_password.simps ascii_lower_def less_eq_char_def)
  then show ?thesis
    by (simp add: sanitizeError_def redact_userinfo.simps user_char_def redacted_def)
qed

section \<open>From the operator's terminal to the agent\<close>

text \<open>
  The agent on a fresh machine: no state directory yet, and the new key can be encoded.
\<close>

definition fresh_machine :: "crypto \<Rightarrow> machine \<Rightarrow> EnrollOptions \<Rightarrow> fs \<Rightarrow> bool" where
  "fresh_machine cr mc opts fs \<longleftrightarrow> agent_up cr mc opts fs \<and> fs (eo_StateDir opts) = None
     \<and> fs (key_path (eo_StateDir opts)) = None \<and> fs (json_path (eo_StateDir opts)) = None
     \<and> (\<exists>pem. EncodePrivateKeyPKCS8PEM cr (mc_key mc) = Inr pem)"

lemma enroll_db_reachable:
  assumes "reachable us ul s" and "issueTokenWithReader (CreateEnrollmentToken c) (Some b) now s = (Inr token, t)"
    and "RegisterAgent c' h k t = (r, t2)"
  shows "reachable us ul t" and "reachable us ul t2"
proof -
  show t: "reachable us ul t"
    using reachable.step [OF assms(1), of "(c, OpCreateEnrollmentToken (HashToken token) (now + TokenLifetime))"] assms(2)
    by (auto simp: issueTokenWithReader_def generatePlaintextToken_def Let_def split: prod.splits sum.splits)
  show "reachable us ul t2" using later_reachable [OF RegisterAgent_later [OF assms(3)] t] .
qed

lemma fresh_machine_enrolls:
  assumes "keys_round_trip cr" and "fresh_machine cr mc opts fs"
    and "ReadAndValidateTokenFromStdin (Inr (mc_token mc)) = Inr token"
    and "mc_reply mc (enroll_body token (public_of (mc_key mc))) = Inr (wire_reply (id_reply status agentID))"
    and "status = 200 \<or> status = 201" and "ValidateUUIDv7 agentID = Inr ()"
  obtains fs2 where "finish mc (Enroll cr opts) fs = (Inr agentID, fs2)"
    "complete_identity cr (eo_StateDir opts) (enrolled_metadata (eo_ControllerURL opts) agentID (mc_key mc)) (mc_key mc) fs2"
    "fs2 (ca_path (eo_StateDir opts)) = None"
proof -
  let ?d = "eo_StateDir opts"
  obtain pem where pem: "EncodePrivateKeyPKCS8PEM cr (mc_key mc) = Inr pem"
    and up: "agent_up cr mc opts fs" and fs: "fs ?d = None" "fs (key_path ?d) = None" "fs (json_path ?d) = None"
    using assms(2) by (auto simp: fresh_machine_def)
  have ok: "state_dir_ok ?d" and ca: "fs (ca_path ?d) = None" using up by (simp_all add: agent_up_def)
  note paths = paths_differ [OF ok]
  let ?fs1 = "fs(?d \<mapsto> new_dir 0x1C0, key_path ?d \<mapsto> private_file pem)"
  have dir: "private_dir ?d ?fs1" using paths(4) by (simp add: private_dir_def new_dir_def)
  have key: "key_file cr ?d (mc_key mc) ?fs1" using parse_encoded_key [OF assms(1) pem] by (auto simp: key_file_def)
  have "?fs1 q = fs q" if "q \<noteq> ?d" "q \<noteq> key_path ?d" for q using that by simp
  from finish_Enroll [OF up fs(3) assms(3) finish_new_key [OF ok fs(1,2) pem] dir key this assms(4-6)] paths(2,3,6) ca that
  show thesis by metis
qed


section \<open>From the operator's terminal to the login\<close>

lemma username_chars:
  assumes "ValidateUsername u = Inr ()" and "c \<in> set u"
  shows "ascii_lower c = c" and "of_char c < (128 :: nat)" and "c \<noteq> CHR 0x00"
proof -
  have "username_tail c"
    using assms by (auto simp: ValidateUsername_def canonicalUsernamePattern_def username_tail_def list_all_iff
        split: if_splits list.splits)
  then show "ascii_lower c = c" "of_char c < (128 :: nat)" "c \<noteq> CHR 0x00"
    by (auto simp: username_tail_def username_head_def ascii_lower_def less_eq_char_def)
qed

lemma normalize_valid: "ValidateUsername u = Inr () \<Longrightarrow> NormalizeUsername lower u = u"
  using username_chars by (simp add: NormalizeUsername_def strings_ToLower_def is_ascii_def list_all_iff map_idI)

lemma verify_hashed:
  assumes "\<And>p s. length (IDKey p s Argon2Iterations Argon2MemoryKiB Argon2Parallelism Argon2KeyLength) = Argon2KeyLength"
    and "length salt = Argon2SaltLength" and "HashPassword IDKey (Some salt) pw = Inr enc"
  shows "VerifyPassword IDKey enc pw = Inr ()"
proof -
  have "enc = phc_text salt (derive IDKey pw salt)"
    using assms(3) by (auto simp: HashPassword_def split: sum.splits)
  then show ?thesis
    using assms(1,2) by (simp add: VerifyPassword_def phc_text_parts decode_encode derive_def)
qed

lemma CreateOperator_ok:
  assumes "CreateOperator ul c u enc role s = (Inr rec, t)"
  shows "ValidateUsername (NormalizeUsername ul u) = Inr ()" and "Role_Valid role"
    and "\<forall>r \<in> set (operators s). o_username r \<noteq> NormalizeUsername ul u"
    and "operators t = operators s @ [rec]"
    and "o_username rec = NormalizeUsername ul u" "o_password_hash rec = enc" "o_role rec = role" "o_disabled_at rec = None"
  using assms
  by (auto simp: CreateOperator_def CreateOperator_tx_def pool_error_def add_audit_def Let_def list_ex_iff
      dest!: run_tx_ok split: if_splits sum.splits)

lemma created_operator_found:
  assumes "CreateOperator ul d u enc role s = (Inr rec, t)" and "ValidateUsername u = Inr ()"
    and "\<not> pool_nil c" and "\<not> stmt_fails c (''query'', 0)"
  shows "GetOperatorByUsername ul c u t = Inr rec"
proof -
  note ok = CreateOperator_ok [OF assms(1)]
  have name: "NormalizeUsername ul u = u" using assms(2) by (rule normalize_valid)
  have "is_ascii u" "CHR 0x00 \<notin> set u"
    using username_chars [OF assms(2)] by (auto simp: is_ascii_def list_all_iff)
  then have "pg_text u" by (simp add: pg_text_def ascii_valid)
  moreover have "List.find (\<lambda>r. o_username r = u) (operators t) = Some rec"
    using ok(3,4,5) by (auto simp: name find_Some_iff nth_append intro!: exI [of _ "length (operators s)"])
  moreover have "ParseRole (o_role rec) = Inr (o_role rec)" using ok(2,7) by (simp add: ParseRole_ok)
  ultimately show ?thesis using assms(3,4) by (simp add: GetOperatorByUsername_def name)
qed

text \<open>
  C35. An operator made by \<^verbatim>\<open>controller operator create\<close> can log in. If the command reports success, the flags and
  the password on standard input passed their checks, and the user name of the flags then finds an enabled
  operator with the role of the flags, whose stored hash accepts the password that was typed: the two checks
  of the login endpoint. Argon2 is assumed only to return as many bytes as asked for.
\<close>

theorem created_operator_can_log_in:
  assumes "\<And>p s. length (ho_IDKey h p s Argon2Iterations Argon2MemoryKiB Argon2Parallelism Argon2KeyLength) = Argon2KeyLength"
    and "ho_entropy h = Some salt" and "length salt = Argon2SaltLength"
    and "controller_run h run_server (''operator'' # ''create'' # args) s = ((Inr (), printed), t)"
    and "\<not> pool_nil c" and "\<not> stmt_fails c (''query'', 0)"
  shows "\<exists>opts pw opr. parseOperatorCreateFlags (ho_lower h) args = Inr opts
    \<and> readPasswordFromStdin (ho_stdin h) = Inr pw
    \<and> GetOperatorByUsername (ho_lower h) c (oc_username opts) t = Inr opr
    \<and> o_disabled_at opr = None \<and> o_role opr = oc_role opts
    \<and> VerifyPassword (ho_IDKey h) (o_password_hash opr) pw = Inr ()"
proof -
  obtain opts pw enc opr where o: "parseOperatorCreateFlags (ho_lower h) args = Inr opts"
      "readPasswordFromStdin (ho_stdin h) = Inr pw" "HashPassword (ho_IDKey h) (Some salt) pw = Inr enc"
      "CreateOperator (ho_lower h) (ho_ctx h) (oc_username opts) enc (oc_role opts) s = (Inr opr, t)"
    using assms(2,4) by (auto simp: controller_run_def runOperatorCreate_def after_start_def createAndPrintOperator_def
        split: sum.splits prod.splits if_splits)
  have "ValidateUsername (oc_username opts) = Inr ()"
    using o(1) by (auto simp: parseOperatorCreateFlags_def Let_def split: sum.splits if_splits)
  then have "GetOperatorByUsername (ho_lower h) c (oc_username opts) t = Inr opr"
    using created_operator_found [OF o(4) _ assms(5,6)] by simp
  then show ?thesis
    using o CreateOperator_ok [OF o(4)] verify_hashed [OF assms(1,3) o(3)] by auto
qed

section \<open>Two commands\<close>

definition ex_driver :: pg_driver where
  "ex_driver = \<lparr>pg_ParseConfig = (\<lambda>_. True), pg_NewWithConfig = True, pg_Ping = None, pg_Acquire = None, pg_NewMigrator = None,
     pg_LoadMigrations = None, pg_Migrate = None\<rparr>"

definition ex_host :: host where
  "ex_host = \<lparr>ho_LookupEnv = [''STACKPILOT_DATABASE_URL'' \<mapsto> ''postgres://c/d''], ho_lower = id,
     ho_url_Parse = (\<lambda>_. Some \<lparr>u_Scheme = ''postgres'', u_HasUser = False, u_Host = ''c'', u_Path = ''/d'', u_RawQuery = [],
       u_Fragment = []\<rparr>),
     ho_uuid_String = ex_uuid, ho_IDKey = (\<lambda>p s t m th n. take n (p @ s @ replicate n CHR ''x'')), ho_driver = ex_driver,
     ho_entropy = Some (replicate 32 CHR ''r''), ho_now = 5, ho_ctx = quiet_ctx 0 2,
     ho_stdin = Some (Inr (''correct horse'' @ [CHR 0x0A])), ho_stdout_ok = True\<rparr>"

lemma ex_host_parts:
  "ho_ctx ex_host = quiet_ctx 0 2" "ho_entropy ex_host = Some (replicate 32 CHR ''r'')" "ho_now ex_host = 5"
  "ho_stdout_ok ex_host" "ho_lower ex_host = id" "ho_driver ex_host = ex_driver"
  by (simp_all add: ex_host_def)

lemma ex_driver_ok: "database_Open ex_driver u = Inr ()" "database_Migrate ex_driver = Inr ()"
  by (simp_all add: ex_driver_def database_Open_def configurePool_def database_Migrate_def)

lemma ex_host_starts: "with_database ex_host (\<lambda>_. Inr ()) = Inr ()"
proof -
  have env: "ho_LookupEnv ex_host = [''STACKPILOT_DATABASE_URL'' \<mapsto> ''postgres://c/d'']" by (simp add: ex_host_def)
  have host: "URL_Hostname \<lparr>u_Scheme = ''postgres'', u_HasUser = False, u_Host = ''c'', u_Path = ''/d'', u_RawQuery = [],
      u_Fragment = []\<rparr> = ''c''"
    by (simp add: URL_Hostname_def url_host_port_def cut_last_def Cut_def HasPrefix_def)
  have url: "validateDatabaseURL (ho_url_Parse ex_host) ''postgres://c/d'' = Inr ()"
    unfolding validateDatabaseURL_ok by (simp add: ex_host_def host TrimPrefix_def HasPrefix_def)
  have "\<exists>cfg. LoadConfig (ho_lower ex_host) (ho_url_Parse ex_host) (ho_LookupEnv ex_host) = Inr cfg"
    unfolding LoadConfig_chain load_database_ok load_listen_ok load_level_ok load_agent_listen_ok Config_validate_ok
    using url default_listens by (simp add: env load_tls_def defaultConfig_def RemoteEnabled_def)
  then show ?thesis
    by (auto simp: with_database_def ex_host_parts ex_driver_ok)
qed

text \<open>The agent of the example, given the printed line, in front of the controller that issued it.\<close>

definition ex_fresh :: "string \<Rightarrow> db \<Rightarrow> machine" where
  "ex_fresh printed t = ex_machine\<lparr>mc_token := printed, mc_reply := served_by ex_controller all_backends [] t\<rparr>"

lemma ex_fresh_ok: "fresh_machine ex_crypto (ex_fresh printed t) ex_enroll (\<lambda>_. None)"
proof -
  have "agent_up ex_crypto (ex_fresh printed t) ex_enroll (\<lambda>_. None)"
    by (rule ex_agent_up) (simp_all add: ex_fresh_def ex_machine_def)
  then show ?thesis
    by (simp add: fresh_machine_def ex_fresh_def ex_machine_def EncodePrivateKeyPKCS8PEM_def PrivateKeySize_def ex_crypto_def)
qed

definition ex_agent_cert :: certificate where
  "ex_agent_cert = \<lparr>cert_NotBefore = 0, cert_NotAfter = 10, cert_ExtKeyUsage = [ExtKeyUsageClientAuth], cert_PublicKey = Some ex_public\<rparr>"

lemma ex_agent_cert_ok: "extractAuthenticatedPeerPublicKey ex_controller (agent_http (Some [ex_agent_cert]) []) = Inr (public_of (mc_key (ex_fresh printed t)))"
  by (simp add: extractAuthenticatedPeerPublicKey_def agent_http_def ex_agent_cert_def ex_controller_def ex_fresh_def ex_machine_def
      ex_public_def public_of_def)



definition ex_create_args :: "string list" where
  "ex_create_args = [''--username'', ex_name, ''--role=operator'', ''--password-stdin'']"

definition ex_salted :: host where
  "ex_salted = ex_host\<lparr>ho_entropy := Some (replicate 16 CHR ''s'')\<rparr>"

lemma ex_salted_starts: "with_database ex_salted (\<lambda>_. Inr ()) = Inr ()"
  using ex_host_starts by (simp add: with_database_def ex_salted_def cong: sum.case_cong)

lemma ex_flags_ok:
  "parseOperatorCreateFlags id ex_create_args = Inr \<lparr>oc_username = ex_name, oc_role = RoleOperator, oc_passwordStdin = True\<rparr>"
  by (simp add: parseOperatorCreateFlags_def ex_create_args_def HasPrefix_def TrimPrefix_def ParseRole_def permission_consts)
    (simp add: ex_name_def RoleOperator_def RoleAdmin_def RoleViewer_def)

lemma ex_password_ok: "readPasswordFromStdin (ho_stdin ex_salted) = Inr ''correct horse''"
proof -
  have "ValidatePassword ''correct horse'' = Inr ()"
    by (simp add: ValidatePassword_def MinPasswordBytes_def MaxPasswordBytes_def runes_def rune_segments_ascii ascii_valid
        is_ascii_def unicode_IsControl_def del: rune_segments.simps)
  then show ?thesis by (simp add: readPasswordFromStdin_def ex_salted_def ex_host_def HasSuffix_def Let_def)
qed

lemma phc_pg_text: "pg_text (phc_text salt key)" "is_ascii (phc_text salt key)"
proof -
  have "list_all (\<lambda>c. of_char c < (128 :: nat) \<and> c \<noteq> CHR 0x00) (alphabet False)"
    by (simp add: alphabet_def common_alphabet_def)
  moreover have "set (EncodeToString False b) \<subseteq> set (alphabet False)" for b
    using enc_sextets_range [OF byte_values_range, of b] alphabet_facts(2) [of False]
    by (auto simp: EncodeToString_def enc6_def list_all_iff)
  ultimately have enc: "list_all (\<lambda>c. of_char c < (128 :: nat) \<and> c \<noteq> CHR 0x00) (EncodeToString False b)" for b
    unfolding list_all_iff by blast
  have "list_all (\<lambda>c. of_char c < (128 :: nat) \<and> c \<noteq> CHR 0x00) (phc_text salt key)"
    using enc [of salt] enc [of key] by (simp add: phc_text_def parameters_text)
  then show "is_ascii (phc_text salt key)" unfolding is_ascii_def list_all_iff by blast
  moreover have "CHR 0x00 \<notin> set (phc_text salt key)"
    using \<open>list_all _ (phc_text salt key)\<close> unfolding list_all_iff by blast
  ultimately show "pg_text (phc_text salt key)" by (simp add: pg_text_def ascii_valid)
qed

lemma ex_created:
  "\<exists>printed t. controller_run ex_salted (\<lambda>_ s. (Inr (), s)) (''operator'' # ''create'' # ex_create_args) empty_db = ((Inr (), printed), t)"
proof -
  let ?salt = "replicate 16 CHR ''s''"
  let ?enc = "phc_text ?salt (derive (ho_IDKey ex_salted) ''correct horse'' ?salt)"
  have parts: "ho_entropy ex_salted = Some ?salt" "ho_lower ex_salted = id" "ho_ctx ex_salted = quiet_ctx 0 2"
    by (simp_all add: ex_salted_def ex_host_parts)
  have "length (derive (ho_IDKey ex_salted) ''correct horse'' ?salt) = Argon2KeyLength"
    by (simp add: derive_def ex_salted_def ex_host_def)
  then have "50 \<le> length ?enc \<and> length ?enc \<le> 256"
    using length_phc_text [of ?salt "derive (ho_IDKey ex_salted) ''correct horse'' ?salt"] by (simp add: Argon2KeyLength_def)
  then have "\<not> (\<not> pg_text ?enc \<or> char_length ?enc < 50 \<or> char_length ?enc > 256)"
    using phc_pg_text by (simp add: char_length_def ascii_rune_count)
  then have "\<exists>rec t. CreateOperator id (quiet_ctx 0 2) ex_name ?enc RoleOperator empty_db = (Inr rec, t)"
    by (simp add: CreateOperator_def CreateOperator_tx_def run_tx_def Role_Valid_def empty_db_def Let_def)
  moreover have "HashPassword (ho_IDKey ex_salted) (Some ?salt) ''correct horse'' = Inr ?enc"
    by (simp add: HashPassword_def ValidatePassword_def MinPasswordBytes_def MaxPasswordBytes_def runes_def rune_segments_ascii
        ascii_valid is_ascii_def unicode_IsControl_def del: rune_segments.simps)
  ultimately show ?thesis
    by (auto simp: controller_run_def runOperatorCreate_def after_start_def ex_salted_starts createAndPrintOperator_def
        parts ex_flags_ok ex_password_ok)
qed

theorem created_operator_can_log_in_witness:
  "\<exists>printed t opr. controller_run ex_salted (\<lambda>_ s. (Inr (), s)) (''operator'' # ''create'' # ex_create_args) empty_db
       = ((Inr (), printed), t)
     \<and> GetOperatorByUsername id (quiet_ctx 3 4) ex_name t = Inr opr \<and> o_disabled_at opr = None \<and> o_role opr = RoleOperator
     \<and> VerifyPassword (ho_IDKey ex_salted) (o_password_hash opr) ''correct horse'' = Inr ()"
proof -
  obtain printed t where run: "controller_run ex_salted (\<lambda>_ s. (Inr (), s)) (''operator'' # ''create'' # ex_create_args) empty_db
      = ((Inr (), printed), t)" using ex_created by blast
  have len: "length (ho_IDKey ex_salted p s Argon2Iterations Argon2MemoryKiB Argon2Parallelism Argon2KeyLength) = Argon2KeyLength" for p s
    by (simp add: ex_salted_def ex_host_def)
  have parts: "ho_entropy ex_salted = Some (replicate 16 CHR ''s'')" "ho_lower ex_salted = id"
    by (simp_all add: ex_salted_def ex_host_parts)
  have "\<exists>opts pw opr. parseOperatorCreateFlags (ho_lower ex_salted) ex_create_args = Inr opts
    \<and> readPasswordFromStdin (ho_stdin ex_salted) = Inr pw
    \<and> GetOperatorByUsername (ho_lower ex_salted) (quiet_ctx 3 4) (oc_username opts) t = Inr opr
    \<and> o_disabled_at opr = None \<and> o_role opr = oc_role opts
    \<and> VerifyPassword (ho_IDKey ex_salted) (o_password_hash opr) pw = Inr ()"
    by (rule created_operator_can_log_in [OF len parts(1) _ run]) (simp_all add: Argon2SaltLength_def)
  then show ?thesis using run ex_flags_ok ex_password_ok by (auto simp: parts(2))
qed


section \<open>Serving\<close>

text \<open>
  A listener is opened only for a configuration that passed its checks; the agents' listener is opened only with
  TLS 1.3 and a request for a client certificate; when it cannot be opened, the local one is closed again and
  nothing is served; and a configuration with an agents' listener is never served without it.
\<close>

lemma Run_listeners:
  assumes "controller_Run url_Parse nw cfg = (r, acts)"
  shows "acts \<noteq> [] \<Longrightarrow> Config_validate url_Parse cfg = Inr ()"
    and "OpenRemote tls \<in> set acts \<Longrightarrow> RemoteEnabled cfg \<and> tls_MinVersion tls = VersionTLS13 \<and> tls_RequestClientCert tls"
    and "ServeLocal \<in> set acts \<Longrightarrow> \<not> RemoteEnabled cfg"
    and "OpenLocal \<in> set acts \<Longrightarrow> r \<noteq> Inr () \<or> ServeLocal \<in> set acts \<or> ServeBoth \<in> set acts"
    and "CloseLocal \<in> set acts \<Longrightarrow> ServeLocal \<notin> set acts \<and> ServeBoth \<notin> set acts \<and> (\<exists>e. r = Inl e)"
  using assms
  by (auto simp: controller_Run_def buildRemoteTLSConfig_def split: sum.splits option.splits if_splits)

text \<open>A server that was asked to stop and stopped cleanly is no error.\<close>

lemma graceful_stop:
  "serve (ServeCancelled None (Some ErrServerClosed)) = Inr ()"
  "serveDual (DualCancelled None None (Some ErrServerClosed) (Some ErrServerClosed)) = Inr ()"
  "serveDual (OneStopped (Some ErrServerClosed) (Some ErrServerClosed)) = Inr ()"
  by (simp_all add: serve_def serveDual_def real_failure_def as_result_def ErrServerClosed_def)

text \<open>The helper is started with a checked configuration and 32-bit numbers, and never for root as its client.\<close>

lemma helper_command:
  "runWithRunner (defaultServerRunner serving) args = Inr () \<Longrightarrow>
     \<exists>srv. serving srv = Inr () \<and> 0 < sv_AllowedUID (srv_cfg srv) \<and> sv_AllowedUID (srv_cfg srv) < 2 ^ 32
       \<and> sv_AllowedGID (srv_cfg srv) < 2 ^ 32 \<and> 0 < sv_Timeout (srv_cfg srv)"
  using runWithRunner_config [of "defaultServerRunner serving" args]
  by (fastforce simp: defaultServerRunner_def newServerWithDeps_def DefaultTimeout_def second_def split: sum.splits if_splits)

end
