(* ===== verification/Wiring.thy ===== *)
theory Wiring
  imports Controller_Command Controller_Properties Privilege_Server
begin

text \<open>
  How the parts are put together: the interfaces the handlers of \<^verbatim>\<open>src/internal/controller/controller.go\<close> find in
  what they are given, what the configuration shows of itself in the log (\<^verbatim>\<open>config.go\<close>), the credentials of a
  peer (\<^verbatim>\<open>src/internal/privilege/cred_linux.go\<close>) and the agent's HTTP client (\<^verbatim>\<open>src/internal/agent/transport.go\<close>).
\<close>

section \<open>The backends of a handler\<close>

text \<open>
  A value behind an interface, with the other interfaces its type has; \<^const>\<open>None\<close> is \<^verbatim>\<open>nil\<close>, for which every type
  assertion fails.
\<close>

record dependency =
  dep_name :: string
  dep_operator :: bool
  dep_job :: bool

definition as_operator :: "dependency option \<Rightarrow> dependency option" where
  "as_operator v = (case v of None \<Rightarrow> None | Some b \<Rightarrow> if dep_operator b then Some b else None)"

definition as_job :: "dependency option \<Rightarrow> dependency option" where
  "as_job v = (case v of None \<Rightarrow> None | Some b \<Rightarrow> if dep_job b then Some b else None)"

definition first_of :: "'a option \<Rightarrow> 'a option \<Rightarrow> 'a option" where
  "first_of x y = (case x of None \<Rightarrow> y | Some v \<Rightarrow> Some v)"

text \<open>The loop over the optional backends of \<^verbatim>\<open>newHandler\<close>.\<close>

fun pick_backends ::
  "dependency option list \<Rightarrow> dependency option \<Rightarrow> dependency option \<Rightarrow> dependency option \<times> dependency option" where
  "pick_backends [] opBackend jbBackend = (opBackend, jbBackend)"
| "pick_backends (b # bs) opBackend jbBackend =
     pick_backends bs (if opBackend = None then as_operator b else opBackend)
       (if jbBackend = None then as_job b else jbBackend)"

definition newHandler_backends ::
  "dependency option \<Rightarrow> dependency option \<Rightarrow> dependency option list \<Rightarrow> dependency option \<times> dependency option" where
  "newHandler_backends checker registrar bs =
     (let (opBackend, jbBackend) = pick_backends bs None None;
          opBackend' = (if opBackend = None then first_of (as_operator registrar) (as_operator checker) else opBackend);
          jbBackend' = (if jbBackend = None
             then first_of (as_job opBackend') (first_of (as_job registrar) (as_job checker)) else jbBackend)
      in (opBackend', jbBackend'))"

definition newRemoteHandler_backends ::
  "dependency option \<Rightarrow> dependency option \<Rightarrow> dependency option list \<Rightarrow> dependency option" where
  "newRemoteHandler_backends registrar authenticator jbBackends =
     (case jbBackends of b # _ \<Rightarrow> b | [] \<Rightarrow> first_of (as_job authenticator) (as_job registrar))"

text \<open>What the routes of the two handlers see of it.\<close>

definition local_backends :: "dependency option \<Rightarrow> dependency option \<Rightarrow> dependency option list \<Rightarrow> backends" where
  "local_backends checker registrar bs =
     (let (opBackend, jbBackend) = newHandler_backends checker registrar bs in
      \<lparr>be_checker = (checker \<noteq> None), be_registrar = (registrar \<noteq> None), be_authenticator = False,
       be_operators = (opBackend \<noteq> None), be_jobs = (jbBackend \<noteq> None)\<rparr>)"

definition remote_backends :: "dependency option \<Rightarrow> dependency option \<Rightarrow> dependency option list \<Rightarrow> backends" where
  "remote_backends registrar authenticator jbBackends =
     \<lparr>be_checker = False, be_registrar = (registrar \<noteq> None), be_authenticator = (authenticator \<noteq> None),
      be_operators = False, be_jobs = (newRemoteHandler_backends registrar authenticator jbBackends \<noteq> None)\<rparr>"

lemma as_operator_Some: "as_operator v = Some b \<Longrightarrow> dep_operator b"
  by (auto simp: as_operator_def split: option.splits if_splits)

lemma as_job_Some: "as_job v = Some b \<Longrightarrow> dep_job b"
  by (auto simp: as_job_def split: option.splits if_splits)

lemma first_of_Some: "first_of x y = Some v \<longleftrightarrow> x = Some v \<or> x = None \<and> y = Some v"
  by (auto simp: first_of_def split: option.splits)

lemma pick_backends_typed:
  assumes "pick_backends bs p q = (opBackend, jbBackend)"
    and "\<forall>b. p = Some b \<longrightarrow> dep_operator b" and "\<forall>b. q = Some b \<longrightarrow> dep_job b"
  shows "(\<forall>b. opBackend = Some b \<longrightarrow> dep_operator b) \<and> (\<forall>b. jbBackend = Some b \<longrightarrow> dep_job b)"
  using assms
proof (induction bs p q rule: pick_backends.induct)
  case (2 b bs p q)
  from 2(2) [unfolded pick_backends.simps] show ?case
    by (rule 2(1)) (use 2(3,4) as_operator_Some as_job_Some in auto)
qed simp

text \<open>A handler never calls an interface on a value that does not have it.\<close>

lemma newHandler_backends_typed:
  assumes "newHandler_backends checker registrar bs = (opBackend, jbBackend)"
  shows "\<forall>b. opBackend = Some b \<longrightarrow> dep_operator b" and "\<forall>b. jbBackend = Some b \<longrightarrow> dep_job b"
proof -
  obtain p q where pq: "pick_backends bs None None = (p, q)" by fastforce
  then have "(\<forall>b. p = Some b \<longrightarrow> dep_operator b) \<and> (\<forall>b. q = Some b \<longrightarrow> dep_job b)"
    by (rule pick_backends_typed) simp_all
  then show "\<forall>b. opBackend = Some b \<longrightarrow> dep_operator b" "\<forall>b. jbBackend = Some b \<longrightarrow> dep_job b"
    using assms as_operator_Some as_job_Some
    by (auto simp: newHandler_backends_def pq Let_def first_of_Some split: if_splits)
qed

text \<open>With the database in every place, as \<^verbatim>\<open>serve\<close> is called, no route of either listener finds a backend missing.\<close>

lemma database_serves_all_routes:
  assumes "dep_operator db" and "dep_job db"
  shows "local_backends (Some db) (Some db) [] = \<lparr>be_checker = True, be_registrar = True, be_authenticator = False,
      be_operators = True, be_jobs = True\<rparr>"
    and "remote_backends (Some db) (Some db) [] = \<lparr>be_checker = False, be_registrar = True, be_authenticator = True,
      be_operators = False, be_jobs = True\<rparr>"
  using assms
  by (simp_all add: local_backends_def remote_backends_def newHandler_backends_def newRemoteHandler_backends_def as_operator_def
      as_job_def first_of_def Let_def)

section \<open>The configuration in the log\<close>

definition plus_int :: "int \<Rightarrow> string" where
  "plus_int i = (if i < 0 then FormatInt i else CHR ''+'' # FormatInt i)"

text \<open>\<^verbatim>\<open>slog.Level.String\<close>: a named level, or the distance from the one below.\<close>

definition Level_String :: "int \<Rightarrow> string" where
  "Level_String l =
     (let str = (\<lambda>base val. if val = 0 then base else base @ plus_int val) in
      if l < LevelInfo then str ''DEBUG'' (l - LevelDebug)
      else if l < LevelWarn then str ''INFO'' (l - LevelInfo)
      else if l < LevelError then str ''WARN'' (l - LevelWarn)
      else str ''ERROR'' (l - LevelError))"

datatype log_value = LogString string | LogBool bool

definition LogValue :: "Config \<Rightarrow> (string \<times> log_value) list" where
  "LogValue cfg =
     [(''listen_address'', LogString (cfg_ListenAddress cfg)),
      (''agent_listen_address'', LogString (cfg_AgentListenAddress cfg)),
      (''agent_tls_enabled'', LogBool (RemoteEnabled cfg)),
      (''log_level'', LogString (Level_String (cfg_LogLevel cfg))),
      (''database_url'', LogString ''[REDACTED]'')]"

text \<open>
  The log entry says nothing about the database's address, which may carry a password, nor about the TLS
  files: two configurations that differ only there look the same. For the levels a configuration can have, the level can be read off.
\<close>

lemma LogValue_hides_secrets:
  "LogValue (cfg\<lparr>cfg_DatabaseURL := x, cfg_AgentTLSCertFile := c, cfg_AgentTLSKeyFile := k\<rparr>) = LogValue cfg"
  by (simp add: LogValue_def RemoteEnabled_def)

lemma LogValue_shows_level:
  assumes "validateLogLevel (cfg_LogLevel cfg) = Inr ()" and "validateLogLevel (cfg_LogLevel cfg') = Inr ()"
    and "LogValue cfg = LogValue cfg'"
  shows "cfg_LogLevel cfg = cfg_LogLevel cfg'"
  using assms by (auto simp: LogValue_def validateLogLevel_def Level_String_def Let_def LevelDebug_def LevelInfo_def LevelWarn_def
      LevelError_def split: if_splits)

section \<open>The credentials of a peer\<close>

text \<open>
  What the kernel answers: the raw connection, running the control function, and inside it the socket option with
  its credentials, which may be missing.
\<close>

record peer_socket =
  ps_SyscallConn :: "unit result"
  ps_Control :: "unit result"
  ps_Ucred :: "nat option result"

definition DefaultPeerCredReader :: "peer_socket option \<Rightarrow> nat result" where
  "DefaultPeerCredReader conn =
     (case conn of
        None \<Rightarrow> Inl (ErrOther ''connection is nil'')
      | Some c \<Rightarrow>
        (case ps_SyscallConn c of
           Inl e \<Rightarrow> Inl (ErrWrap ''failed to obtain raw socket control'' e)
         | Inr _ \<Rightarrow>
           (case ps_Control c of
              Inl e \<Rightarrow> Inl (ErrWrap ''failed to control socket for peer credentials'' e)
            | Inr _ \<Rightarrow>
              (case ps_Ucred c of
                 Inl e \<Rightarrow> Inl (ErrWrap ''SO_PEERCRED failed'' e)
               | Inr None \<Rightarrow> Inl (ErrOther ''SO_PEERCRED returned nil credentials'')
               | Inr (Some uid) \<Rightarrow> Inr uid))))"

text \<open>
  A user id is returned only when the kernel gave it; so a connection is answered only when the kernel says the
  peer is the user the helper was configured for.
\<close>

lemma DefaultPeerCredReader_ok:
  "DefaultPeerCredReader conn = Inr uid \<longleftrightarrow>
     (\<exists>c. conn = Some c \<and> ps_SyscallConn c = Inr () \<and> ps_Control c = Inr () \<and> ps_Ucred c = Inr (Some uid))"
  by (auto simp: DefaultPeerCredReader_def split: option.splits sum.splits)

lemma answered_peer:
  assumes "cn_peer c = DefaultPeerCredReader conn" and "handleConn up us s now ctxDeadline c = Some b"
  shows "\<exists>p. conn = Some p \<and> ps_Ucred p = Inr (Some (sv_AllowedUID (srv_cfg s)))"
proof -
  have "cn_peer c = Inr (sv_AllowedUID (srv_cfg s))"
    using assms(2) by (auto simp: handleConn_def Let_def split: sum.splits if_splits)
  then have "DefaultPeerCredReader conn = Inr (sv_AllowedUID (srv_cfg s))" using assms(1) by simp
  then show ?thesis unfolding DefaultPeerCredReader_ok by blast
qed

section \<open>The agent's HTTP client\<close>

record 'cert http_client =
  hc_MinVersion :: nat
  hc_RootCAs :: "bytes list option"
  hc_Certificates :: "'cert list"
  hc_Timeout :: time
  hc_TLSHandshakeTimeout :: time
  hc_CheckRedirect :: "string \<Rightarrow> unit result"

definition HTTPClientTimeout :: time where "HTTPClientTimeout = 10 * second"

definition BuildAgentHTTPClient :: "bytes list option \<Rightarrow> 'cert option \<Rightarrow> 'cert http_client" where
  "BuildAgentHTTPClient rootCAs clientCert =
     \<lparr>hc_MinVersion = VersionTLS13, hc_RootCAs = rootCAs,
      hc_Certificates = (case clientCert of None \<Rightarrow> [] | Some c \<Rightarrow> [c]),
      hc_Timeout = HTTPClientTimeout, hc_TLSHandshakeTimeout = 10 * second,
      hc_CheckRedirect = (\<lambda>_. Inl (ErrOther ''http redirects are not permitted''))\<rparr>"

end
