(* ===== verification/Spec2Isabelle.thy ===== *)
theory Spec2Isabelle
  imports System Operator_Api Tokens Collector_Properties Privilege_Properties Agent_Privilege Command_Properties Wiring
begin

text \<open>
  A verification of StackPilot, a controller that hands jobs to agents on Linux hosts.

  \<^bold>\<open>The program.\<close> The controller (\<^verbatim>\<open>src/internal/controller\<close>, \<^verbatim>\<open>src/cmd/controller\<close>) keeps operators, sessions, enrollment
  tokens, agents, their reports, jobs and the history of each job in PostgreSQL (\<^verbatim>\<open>src/internal/database\<close>).
  Operators use a local HTTP interface; agents use a second listener over TLS, where the key of their client
  certificate says who they are. An agent (\<^verbatim>\<open>src/internal/agent\<close>, \<^verbatim>\<open>src/cmd/agent\<close>) enrolls once with a token,
  then sends heartbeats; the answer to a heartbeat may carry a job, which the agent announces (start),
  executes, and reports (complete). It also sends an inventory and telemetry. A helper that runs as root
  (\<^verbatim>\<open>src/internal/privilege\<close>, \<^verbatim>\<open>src/cmd/agent-helper\<close>) answers the agent over a Unix socket.

  \<^bold>\<open>How the code is modelled.\<close> A Go string and a byte slice are a \<^typ>\<open>string\<close>; times are integers (nanoseconds); UUIDs are
  natural numbers with their text form as a parameter; counters that may overflow are 64-bit words. An error is a
  value of \<^typ>\<open>go_error\<close> and a fallible function returns \<^typ>\<open>'a result\<close>. Structs are records, handlers and
  queries are functions that take the database and return the new one. Third-party code (the PostgreSQL driver and
  migration library, Argon2, UUID parsing, X.509, PEM) and the large tables of the standard library (Unicode case
  mapping, media types, URLs, float parsing) are arguments; what a theorem needs of them is a named hypothesis.
  Everything else of the standard library the code uses is defined: UTF-8, JSON, base64, SHA-256, paths, flags,
  host and address parsing, scanners.

  \<^bold>\<open>Theories, from the bottom.\<close>

  \<^item> Go's library: \<^verbatim>\<open>Prelude\<close>, \<^verbatim>\<open>Go_Strings\<close>, \<^verbatim>\<open>Go_Text\<close>, \<^verbatim>\<open>Base64\<close>, \<^verbatim>\<open>Sha256\<close>, \<^verbatim>\<open>Json\<close> with \<^verbatim>\<open>Json_Round_Trip\<close> and \<^verbatim>\<open>Json_Text\<close>
    (parsing inverts rendering; rendered text is UTF-8), \<^verbatim>\<open>Go_Files\<close>, \<^verbatim>\<open>Go_Net\<close>, \<^verbatim>\<open>Go_Flags\<close>.
  \<^item> Domains: \<^verbatim>\<open>Job_Domain\<close> (\<^verbatim>\<open>src/internal/job\<close>), \<^verbatim>\<open>Operator_Domain\<close> (\<^verbatim>\<open>src/internal/operator\<close>), \<^verbatim>\<open>Tokens\<close>
    (\<^verbatim>\<open>src/internal/enrollment\<close> and session tokens), \<^verbatim>\<open>Password\<close>, \<^verbatim>\<open>Wire_Protocol\<close> and \<^verbatim>\<open>Wire_Codec\<close> (\<^verbatim>\<open>src/internal/protocol\<close>).
  \<^item> The store: \<^verbatim>\<open>Db_Schema\<close> (tables, transactions that may fail or lose their commit), \<^verbatim>\<open>Jobs_Store\<close> (\<^verbatim>\<open>jobs.go\<close>),
    \<^verbatim>\<open>Agent_Store\<close> and \<^verbatim>\<open>Operator_Store\<close> (\<^verbatim>\<open>database.go\<close>), \<^verbatim>\<open>Store_Runs\<close> (all operations as one step relation).
    \<^verbatim>\<open>Job_Machine\<close> is the abstract specification of the job engine, \<^verbatim>\<open>Jobs_Refinement\<close> shows that the store
    implements it, \<^verbatim>\<open>Job_History\<close> what its runs can do to a job, \<^verbatim>\<open>Store_Invariant\<close> the invariant of the database.
  \<^item> The controller: \<^verbatim>\<open>Http\<close>, \<^verbatim>\<open>Controller_Agent\<close>, \<^verbatim>\<open>Controller_Operator\<close> (every handler and both routers of
    \<^verbatim>\<open>controller.go\<close>), \<^verbatim>\<open>Controller_Config\<close> (\<^verbatim>\<open>config.go\<close>), \<^verbatim>\<open>Controller_Command\<close> (\<^verbatim>\<open>main.go\<close>, opening the database,
    redaction of error texts, starting and stopping the listeners).
  \<^item> The agent: \<^verbatim>\<open>Agent_Presence\<close> (\<^verbatim>\<open>presence.go\<close>, the loop as an interaction program), \<^verbatim>\<open>Agent_Transport\<close> (certificates),
    \<^verbatim>\<open>Agent_Collectors\<close> and \<^verbatim>\<open>Agent_Inventory\<close> (\<^verbatim>\<open>telemetry_linux.go\<close>, \<^verbatim>\<open>inventory.go\<close>), \<^verbatim>\<open>Agent_State\<close> and \<^verbatim>\<open>Agent_Enroll\<close>
    (\<^verbatim>\<open>identity.go\<close>, \<^verbatim>\<open>enroll.go\<close>, \<^verbatim>\<open>transport.go\<close>), \<^verbatim>\<open>Agent_Files\<close> and \<^verbatim>\<open>Agent_Identity\<close> (a file system with failing
    calls, a logic for programs stopped anywhere), \<^verbatim>\<open>Agent_Privilege\<close> (\<^verbatim>\<open>privilege_linux.go\<close>).
  \<^item> The helper: \<^verbatim>\<open>Privilege_Protocol\<close>, \<^verbatim>\<open>Privilege_Server\<close> with \<^verbatim>\<open>Privilege_Server_Runs\<close>, \<^verbatim>\<open>Privilege_Client\<close>.
  \<^item> Properties: \<^verbatim>\<open>Jobs_Properties\<close>, \<^verbatim>\<open>Dispatch_Properties\<close>, \<^verbatim>\<open>Identity_Properties\<close>, \<^verbatim>\<open>Controller_Properties\<close>, \<^verbatim>\<open>Operator_Api\<close>,
    \<^verbatim>\<open>Presence_Properties\<close>, \<^verbatim>\<open>Wire_Bounds\<close>, \<^verbatim>\<open>Delivery\<close>, \<^verbatim>\<open>System\<close>, \<^verbatim>\<open>Collector_Properties\<close>, \<^verbatim>\<open>Privilege_Properties\<close>,
    \<^verbatim>\<open>Enroll_Properties\<close>, \<^verbatim>\<open>Enroll_Wire\<close> and \<^verbatim>\<open>Enroll_System\<close> (the agent's state directory and the controller's
    database together), \<^verbatim>\<open>Command_Properties\<close>; \<^verbatim>\<open>Wiring\<close> holds how the parts find each other (backends of the handlers,
    peer credentials, the agent's HTTP client, the logged configuration); \<^verbatim>\<open>Example_Run\<close> and \<^verbatim>\<open>Example_Http\<close> hold the concrete inputs of the witnesses.

  \<^bold>\<open>Interfaces.\<close> The contracts between components are locales: \<^verbatim>\<open>wire_format\<close> (a receiver decodes what a sender
  encoded; interpreted for every payload), \<^verbatim>\<open>codec\<close> and \<^verbatim>\<open>strict_codec\<close> (base64 in its variants), \<^verbatim>\<open>job_backend\<close> (what the
  controller relies on of the store), \<^verbatim>\<open>enrollment_service\<close> (issuing and registering), \<^verbatim>\<open>invariant_system\<close> (steps that
  keep an invariant; interpreted for the job machine, the store, the whole system, the agent's state directory,
  and the directory together with the database).

  \<^bold>\<open>What is shown.\<close>

  \<^item> The whole system: no job is executed twice, and every execution was granted, over all interleavings of agents,
    operators and the controller, with lost messages and crashes; results of executed jobs are not lost.
  \<^item> The store: it refines the job machine; the event log of a job replays to its row; finished jobs never change;
    jobs move only along the documented edges; one job in flight and 64 active ones per agent; claims are first in,
    first out and make progress; completions respect their deadline and can be repeated; creation is idempotent;
    tokens are single use; sessions are bounded and end when revoked; the audit log only grows.
  \<^item> The HTTP interface: requests stay within the store's steps; operator endpoints fail closed; a login's token works
    for its lifetime; messages round trip; accepted reports satisfy every constraint of the tables.
  \<^item> The agent: iterations of the loop end; certificates are accepted; counters never wrap and usage is exact; what
    the collectors report is accepted; the identity on disk is absent or complete wherever enrollment is stopped.
  \<^item> Enrollment across agent and controller: the identity on disk is always the one the database has for its key; an
    enrollment that was cut off can be finished with the same token; a printed token leads to an agent whose transport
    check succeeds.
  \<^item> The helper: it starts only on verified files, removes only its own socket, handles at most eight connections, and
    answers a ping exactly between the right processes.
  \<^item> Commands and configuration: the controller starts exactly on acceptable settings; a created operator
    can log in; the logged configuration hides the database's address.

  \<^bold>\<open>Bounds and fuel.\<close> JSON parsing takes the length of its input as fuel (\<^verbatim>\<open>ParseJson_fuel\<close>: more changes nothing); the
  rounds of the CA parser are the length of the file (\<^verbatim>\<open>ca_rounds_enough\<close>). The presence loop is modelled one
  iteration at a time, and \<^verbatim>\<open>iterations_end\<close> bounds an iteration. All other recursion is structural or has a
  termination proof.

  \<^bold>\<open>Not modelled.\<close> Log lines and their formatting; signal handling; the HTTP and TLS machinery of the standard library
  (the server's timeouts, the handshake); the SQL of the migrations, whose tables and constraints are
  the row types and checks of \<^verbatim>\<open>Db_Schema\<close>; the system calls behind \<^verbatim>\<open>SO_PEERCRED\<close> and \<^verbatim>\<open>prctl\<close>, whose answers are
  inputs; the stubs for other operating systems. Interference of other processes with the agent's state directory is
  not modelled: its mode is 0700. Resource exhaustion is not modelled except where the code reports it.
\<close>

end
